(* ===== verification/Prelude.thy ===== *)
theory Prelude
  imports Main "HOL-Library.List_Lexorder" "HOL-Library.Char_ord" "HOL-Library.Sublist"
begin

text \<open>
  The shared vocabulary of the development.

  \<^item> results: an operation that can fail returns \<open>'e + 'a\<close>, \<open>Inl\<close> the error, and
    \<open>and_then\<close> is Rust's question-mark operator;
  \<^item> tables: a database table is the list of its rows, and \<open>update_where\<close>,
    \<open>delete_where\<close> and \<open>order_by\<close> are the SQL clauses the repositories use;
  \<^item> interfaces: \<open>string_enum\<close> (an enum with its text form), \<open>total_preorder\<close> and
    \<open>collation\<close> (what \<open>ORDER BY\<close> needs of a key), \<open>constrained_store\<close> (statements that keep
    the constraints), \<open>state_part\<close> (reading and replacing a part of a state),
    \<open>transition_system\<close> (reachable states and invariants).

  Two theorem collections drive the automation: \<open>sql\<close> unfolds the table clauses and
  \<open>result_simps\<close> evaluates results.
\<close>

named_theorems sql "rewrite rules for the table clauses"
named_theorems result_simps "rewrite rules for results"

subsection \<open>Results\<close>

definition and_then :: "'e + 'a \<Rightarrow> ('a \<Rightarrow> 'e + 'b) \<Rightarrow> 'e + 'b" where
  "and_then r f = (case r of Inl e \<Rightarrow> Inl e | Inr a \<Rightarrow> f a)"

definition unwrap_or :: "'e + 'a \<Rightarrow> 'a \<Rightarrow> 'a" where
  "unwrap_or r d = (case r of Inl _ \<Rightarrow> d | Inr a \<Rightarrow> a)"

definition is_ok :: "'e + 'a \<Rightarrow> bool" where
  "is_ok r = (case r of Inl _ \<Rightarrow> False | Inr _ \<Rightarrow> True)"

definition is_ok_and :: "'e + 'a \<Rightarrow> ('a \<Rightarrow> bool) \<Rightarrow> bool" where
  "is_ok_and r p = (case r of Inl _ \<Rightarrow> False | Inr a \<Rightarrow> p a)"

lemma and_then_simps [simp, result_simps]:
  "and_then (Inl e) f = Inl e"
  "and_then (Inr a) f = f a"
  by (simp_all add: and_then_def)

lemma and_then_Inr [result_simps]:
  "and_then r f = Inr b \<longleftrightarrow> (\<exists>a. r = Inr a \<and> f a = Inr b)"
  by (cases r) simp_all

lemma and_then_InrE [elim]:
  assumes "and_then r f = Inr b"
  obtains a where "r = Inr a" "f a = Inr b"
  using assms by (cases r) auto

lemma unwrap_or_simps [simp, result_simps]:
  "unwrap_or (Inl e) d = d"
  "unwrap_or (Inr a) d = a"
  by (simp_all add: unwrap_or_def)

lemma is_ok_simps [simp, result_simps]:
  "\<not> is_ok (Inl e)"
  "is_ok (Inr a)"
  by (simp_all add: is_ok_def)

lemma is_ok_and_simps [simp, result_simps]:
  "\<not> is_ok_and (Inl e) p"
  "is_ok_and (Inr a) p = p a"
  by (simp_all add: is_ok_and_def)

lemma is_ok_iff: "is_ok r \<longleftrightarrow> (\<exists>a. r = Inr a)"
  by (cases r) simp_all

text \<open>Running a fallible step over a list, stopping at the first error.\<close>

fun try_fold :: "('a \<Rightarrow> 's \<Rightarrow> 'e + 's) \<Rightarrow> 'a list \<Rightarrow> 's \<Rightarrow> 'e + 's" where
  "try_fold f [] s = Inr s"
| "try_fold f (x # xs) s = and_then (f x s) (try_fold f xs)"

lemma try_fold_append:
  "try_fold f (xs @ ys) s = and_then (try_fold f xs s) (try_fold f ys)"
proof (induction xs arbitrary: s)
  case (Cons x xs)
  then show ?case by (cases "f x s") simp_all
qed simp

lemma try_fold_invariant:
  assumes "try_fold f xs s = Inr t" and "P s"
    and step: "\<And>x u v. x \<in> set xs \<Longrightarrow> P u \<Longrightarrow> f x u = Inr v \<Longrightarrow> P v"
  shows "P t"
  using assms
proof (induction xs arbitrary: s)
  case (Cons x xs)
  from Cons.prems(1) obtain u where u: "f x s = Inr u" "try_fold f xs u = Inr t" by auto
  then have "P u" using Cons.prems(2,3) by (meson list.set_intros(1))
  then show ?case using Cons.IH [OF u(2)] Cons.prems(3) by (meson list.set_intros(2))
qed simp

subsection \<open>Stateful operations\<close>

text \<open>
  An operation on a store returns the store and a result. Early return keeps the changes made
  so far, as a sequence of statements outside a transaction does.
\<close>

type_synonym ('s, 'e, 'a) op = "'s \<Rightarrow> 's \<times> ('e + 'a)"

definition ret :: "'a \<Rightarrow> ('s, 'e, 'a) op" where
  "ret a s = (s, Inr a)"

definition throw :: "'e \<Rightarrow> ('s, 'e, 'a) op" where
  "throw e s = (s, Inl e)"

definition bindS :: "('s, 'e, 'a) op \<Rightarrow> ('a \<Rightarrow> ('s, 'e, 'b) op) \<Rightarrow> ('s, 'e, 'b) op" where
  "bindS m f s = (case m s of (s', Inl e) \<Rightarrow> (s', Inl e) | (s', Inr a) \<Rightarrow> f a s')"

text \<open>Sequencing where a failure of the first operation is logged and ignored.\<close>

definition attempt :: "('s, 'e, 'a) op \<Rightarrow> 's \<Rightarrow> 's" where
  "attempt m s = fst (m s)"

definition preserves :: "('s \<Rightarrow> bool) \<Rightarrow> ('s, 'e, 'a) op \<Rightarrow> bool" where
  "preserves I m = (\<forall>s. I s \<longrightarrow> I (fst (m s)))"

lemma ret_simp [simp, result_simps]: "ret a s = (s, Inr a)"
  by (simp add: ret_def)

lemma throw_simp [simp, result_simps]: "throw e s = (s, Inl e)"
  by (simp add: throw_def)

lemma bindS_Inr [simp, result_simps]: "m s = (s', Inr a) \<Longrightarrow> bindS m f s = f a s'"
  by (simp add: bindS_def)

lemma bindS_Inl [simp, result_simps]: "m s = (s', Inl e) \<Longrightarrow> bindS m f s = (s', Inl e)"
  by (simp add: bindS_def)

lemma bindS_InrE:
  assumes "bindS m f s = (t, Inr b)"
  obtains u a where "m s = (u, Inr a)" "f a u = (t, Inr b)"
  using assms by (auto simp: bindS_def split: prod.splits sum.splits)

lemma preservesI [intro?]: "(\<And>s. I s \<Longrightarrow> I (fst (m s))) \<Longrightarrow> preserves I m"
  by (simp add: preserves_def)

lemma preservesD: "preserves I m \<Longrightarrow> I s \<Longrightarrow> I (fst (m s))"
  by (simp add: preserves_def)

lemma preserves_ret [simp, intro]: "preserves I (ret a)"
  by (simp add: preserves_def)

lemma preserves_throw [simp, intro]: "preserves I (throw e)"
  by (simp add: preserves_def)

lemma preserves_bindS [intro]:
  assumes "preserves I m" and "\<And>a. preserves I (f a)"
  shows "preserves I (bindS m f)"
proof
  fix s assume "I s"
  with assms(1) have "I (fst (m s))" by (rule preservesD)
  then show "I (fst (bindS m f s))"
    using assms(2) by (auto simp: bindS_def preserves_def split: prod.splits sum.splits)
qed

text \<open>A relation between the store before and the store after an operation.\<close>

definition keeps :: "('s \<Rightarrow> 's \<Rightarrow> bool) \<Rightarrow> ('s, 'e, 'a) op \<Rightarrow> bool" where
  "keeps R m = (\<forall>s. R s (fst (m s)))"

lemma keepsI [intro?]: "(\<And>s. R s (fst (m s))) \<Longrightarrow> keeps R m"
  by (simp add: keeps_def)

lemma keepsD: "keeps R m \<Longrightarrow> R s (fst (m s))"
  by (simp add: keeps_def)

lemma keeps_ret [intro]: "reflp R \<Longrightarrow> keeps R (ret a)"
  by (simp add: keeps_def reflp_def)

lemma keeps_bindS [intro]:
  assumes "transp R" and "keeps R m" and "\<And>a. keeps R (f a)"
  shows "keeps R (bindS m f)"
proof
  fix s
  obtain s' r where m: "m s = (s', r)" by fastforce
  with assms(2) have R: "R s s'" by (metis fst_conv keepsD)
  show "R s (fst (bindS m f s))"
  proof (cases r)
    case (Inl e)
    then show ?thesis using m R by simp
  next
    case (Inr a)
    then have "fst (bindS m f s) = fst (f a s')" using m by simp
    then show ?thesis using transpD [OF assms(1) R] keepsD [OF assms(3)] by metis
  qed
qed

text \<open>
  What a store's clients rely on when they issue a statement: it is accepted, with its effect, when
  the tables it computes satisfy the constraints, and is otherwise refused without any effect.
\<close>

locale constrained_store =
  fixes ok :: "'s \<Rightarrow> bool" and run :: "('s \<Rightarrow> 's) \<Rightarrow> ('s, 'e, unit) op"
  assumes accepted: "ok (f s) \<Longrightarrow> run f s = (f s, Inr ())"
    and refused: "\<not> ok (f s) \<Longrightarrow> \<exists>e. run f s = (s, Inl e)"
begin

lemma stmt_cases:
  obtains "run f s = (f s, Inr ())" "ok (f s)" | e where "run f s = (s, Inl e)" "\<not> ok (f s)"
  using accepted refused by blast

lemma stmt_Inr: "run f s = (s', Inr u) \<longleftrightarrow> s' = f s \<and> ok (f s)"
  by (cases rule: stmt_cases [of f s]) auto

lemma stmt_error_frame: "run f s = (s', Inl e) \<Longrightarrow> s' = s"
  by (cases rule: stmt_cases [of f s]) auto

lemma stmt_preserves: "preserves ok (run f)"
proof
  fix s assume "ok s"
  then show "ok (fst (run f s))" by (cases rule: stmt_cases [of f s]) auto
qed

lemma stmt_keeps: "reflp R \<Longrightarrow> (\<And>s. R s (f s)) \<Longrightarrow> keeps R (run f)"
proof
  fix s assume "reflp R" and "\<And>s. R s (f s)"
  then show "R s (fst (run f s))" by (cases rule: stmt_cases [of f s]) (auto dest: reflpD)
qed

end

subsection \<open>Parts of a state\<close>

text \<open>An operation of one part of a state, with its errors wrapped.\<close>

definition on_part :: "('s \<Rightarrow> 'p) \<Rightarrow> ('p \<Rightarrow> 's \<Rightarrow> 's) \<Rightarrow> ('e \<Rightarrow> 'f) \<Rightarrow> ('p, 'e, 'a) op \<Rightarrow> ('s, 'f, 'a) op" where
  "on_part get put wrap m st =
     (case m (get st) of (p, Inl e) \<Rightarrow> (put p st, Inl (wrap e)) | (p, Inr a) \<Rightarrow> (put p st, Inr a))"

locale state_part =
  fixes get :: "'s \<Rightarrow> 'p"
    and put :: "'p \<Rightarrow> 's \<Rightarrow> 's"
  assumes get_put [simp]: "get (put p st) = p"
    and put_get [simp]: "put (get st) st = st"
    and put_put [simp]: "put p (put q st) = put p st"
begin

lemma on_part_state: "fst (on_part get put wrap m st) = put (fst (m (get st))) st"
  by (auto simp: on_part_def split: prod.splits sum.splits)

lemma on_part_Inr:
  "on_part get put wrap m st = (st', Inr a) \<longleftrightarrow> (\<exists>p. m (get st) = (p, Inr a) \<and> st' = put p st)"
  by (auto simp: on_part_def split: prod.splits sum.splits)

lemma on_part_Inl:
  "on_part get put wrap m st = (st', Inl f) \<longleftrightarrow> (\<exists>p e. m (get st) = (p, Inl e) \<and> st' = put p st \<and> f = wrap e)"
  by (auto simp: on_part_def split: prod.splits sum.splits)

lemma on_part_preserves: "preserves P m \<Longrightarrow> preserves (\<lambda>st. P (get st)) (on_part get put wrap m)"
  by (simp add: preserves_def on_part_state)

lemma on_part_keeps: "keeps R m \<Longrightarrow> keeps (\<lambda>st st'. R (get st) (get st')) (on_part get put wrap m)"
  by (simp add: keeps_def on_part_state)

text \<open>Whatever of the state does not depend on the part stays as it was.\<close>

lemma on_part_frame:
  assumes "\<And>p st. h (put p st) = h st"
  shows "keeps (\<lambda>st st'. h st' = h st) (on_part get put wrap m)"
  using assms by (simp add: keeps_def on_part_state)

end

subsection \<open>Option helpers\<close>

definition opt_or :: "'a option \<Rightarrow> 'a \<Rightarrow> 'a" where
  "opt_or x d = (case x of None \<Rightarrow> d | Some a \<Rightarrow> a)"

lemma opt_or_simps [simp]: "opt_or None d = d" "opt_or (Some a) d = a"
  by (simp_all add: opt_or_def)

subsection \<open>Tables\<close>

definition update_where :: "('r \<Rightarrow> bool) \<Rightarrow> ('r \<Rightarrow> 'r) \<Rightarrow> 'r list \<Rightarrow> 'r list" where
  "update_where p f rs = map (\<lambda>r. if p r then f r else r) rs"

definition delete_where :: "('r \<Rightarrow> bool) \<Rightarrow> 'r list \<Rightarrow> 'r list" where
  "delete_where p rs = filter (\<lambda>r. \<not> p r) rs"

definition rows_matching :: "('r \<Rightarrow> bool) \<Rightarrow> 'r list \<Rightarrow> nat" where
  "rows_matching p rs = length (filter p rs)"

lemma update_where_Nil [simp]: "update_where p f [] = []"
  by (simp add: update_where_def)

lemma update_where_Cons [simp]:
  "update_where p f (r # rs) = (if p r then f r else r) # update_where p f rs"
  by (simp add: update_where_def)

lemma length_update_where [simp, sql]: "length (update_where p f rs) = length rs"
  by (simp add: update_where_def)

lemma set_update_where [sql]:
  "set (update_where p f rs) = (\<lambda>r. if p r then f r else r) ` set rs"
  by (simp add: update_where_def)

lemma update_where_none:
  "(\<And>r. r \<in> set rs \<Longrightarrow> \<not> p r) \<Longrightarrow> update_where p f rs = rs"
  by (induction rs) auto

text \<open>An update that leaves a column alone leaves the column's values alone.\<close>

lemma map_update_where:
  "(\<And>r. g (f r) = g r) \<Longrightarrow> map g (update_where p f rs) = map g rs"
  by (induction rs) auto

lemma filter_update_where_frame:
  assumes "\<And>r. q (f r) = q r" and "\<And>r. p r \<Longrightarrow> \<not> q r"
  shows "filter q (update_where p f rs) = filter q rs"
  using assms by (induction rs) auto

lemma filter_update_where_compat:
  assumes "\<And>r. q (f r) = q r"
  shows "filter q (update_where p f rs) = update_where p f (filter q rs)"
  using assms by (induction rs) auto

lemma set_delete_where [simp, sql]:
  "set (delete_where p rs) = {r \<in> set rs. \<not> p r}"
  by (simp add: delete_where_def)

lemma delete_where_simps [simp]:
  "delete_where p [] = []"
  "delete_where p (r # rs) = (if p r then delete_where p rs else r # delete_where p rs)"
  by (simp_all add: delete_where_def)

lemma delete_where_idem [simp]: "delete_where p (delete_where p rs) = delete_where p rs"
  by (simp add: delete_where_def)

lemma delete_where_append [simp]:
  "delete_where p (xs @ ys) = delete_where p xs @ delete_where p ys"
  by (simp add: delete_where_def)

lemma distinct_map_delete_where [intro]:
  "distinct (map g rs) \<Longrightarrow> distinct (map g (delete_where p rs))"
  by (simp add: delete_where_def distinct_map_filter)

lemma rows_matching_eq_0 [sql]: "rows_matching p rs = 0 \<longleftrightarrow> (\<forall>r \<in> set rs. \<not> p r)"
  by (auto simp: rows_matching_def filter_empty_conv)

text \<open>A row is determined by its key where the key column has no duplicates.\<close>

lemma distinct_key_unique:
  "distinct (map k rs) \<Longrightarrow> r \<in> set rs \<Longrightarrow> s \<in> set rs \<Longrightarrow> k r = k s \<Longrightarrow> r = s"
  by (auto simp: distinct_map inj_on_def)

lemma find_key_Some:
  assumes "distinct (map k rs)" and "r \<in> set rs"
  shows "List.find (\<lambda>x. k x = k r) rs = Some r"
  using assms by (induction rs) (auto simp: image_iff)

lemma find_key_eq_Some:
  assumes "distinct (map k rs)"
  shows "List.find (\<lambda>x. k x = v) rs = Some r \<longleftrightarrow> r \<in> set rs \<and> k r = v"
  using assms find_key_Some [of k rs r] by (auto simp: find_Some_iff)

lemma find_SomeD: "List.find P xs = Some x \<Longrightarrow> x \<in> set xs \<and> P x"
  by (auto simp: find_Some_iff)

lemma find_update_same:
  assumes "\<And>r. k r = v \<Longrightarrow> k (f r) = v"
  shows "List.find (\<lambda>x. k x = v) (update_where (\<lambda>x. k x = v) f rs) =
    map_option f (List.find (\<lambda>x. k x = v) rs)"
  using assms by (induction rs) auto

lemma find_update_other:
  assumes "\<And>r. p r \<Longrightarrow> k r \<noteq> w \<and> k (f r) \<noteq> w"
  shows "List.find (\<lambda>x. k x = w) (update_where p f rs) = List.find (\<lambda>x. k x = w) rs"
  using assms by (induction rs) auto

lemma find_append_other:
  "k r \<noteq> v \<Longrightarrow> List.find (\<lambda>x. k x = v) (rs @ [r]) = List.find (\<lambda>x. k x = v) rs"
  by (induction rs) auto

lemma find_append_new:
  "k r \<notin> k ` set rs \<Longrightarrow> List.find (\<lambda>x. k x = k r) (rs @ [r]) = Some r"
  by (induction rs) auto

lemma distinct_map_update_inj:
  assumes "distinct (map k rs)" and "inj_on h (k ` set rs)"
    and "\<And>r. r \<in> set rs \<Longrightarrow> k (if p r then f r else r) = h (k r)"
  shows "distinct (map k (update_where p f rs))"
proof -
  have "map k (update_where p f rs) = map h (map k rs)"
    using assms(3) by (simp add: update_where_def)
  then show ?thesis using assms(1,2) by (simp add: distinct_map comp_inj_on)
qed

subsection \<open>Ordering\<close>

text \<open>
  \<open>ORDER BY\<close> is a stable insertion sort by a comparison. SQL leaves the order of equal
  keys open; the properties below speak of the rows returned and of the order of their
  keys, which do not depend on how ties are broken.
\<close>

fun insert_by :: "('a \<Rightarrow> 'a \<Rightarrow> bool) \<Rightarrow> 'a \<Rightarrow> 'a list \<Rightarrow> 'a list" where
  "insert_by le x [] = [x]"
| "insert_by le x (y # ys) = (if le x y then x # y # ys else y # insert_by le x ys)"

fun order_by :: "('a \<Rightarrow> 'a \<Rightarrow> bool) \<Rightarrow> 'a list \<Rightarrow> 'a list" where
  "order_by le [] = []"
| "order_by le (x # xs) = insert_by le x (order_by le xs)"

lemma set_insert_by [simp]: "set (insert_by le x ys) = insert x (set ys)"
  by (induction ys) auto

lemma set_order_by [simp, sql]: "set (order_by le xs) = set xs"
  by (induction xs) simp_all

lemma length_insert_by [simp]: "length (insert_by le x ys) = Suc (length ys)"
  by (induction ys) auto

lemma length_order_by [simp, sql]: "length (order_by le xs) = length xs"
  by (induction xs) simp_all

lemma distinct_insert_by [simp]:
  "distinct (insert_by le x ys) \<longleftrightarrow> x \<notin> set ys \<and> distinct ys"
  by (induction ys) auto

lemma distinct_order_by [simp]: "distinct (order_by le xs) = distinct xs"
  by (induction xs) simp_all

lemma distinct_map_insert_by [simp]:
  "distinct (map g (insert_by le x ys)) \<longleftrightarrow> g x \<notin> g ` set ys \<and> distinct (map g ys)"
  by (induction ys) auto

lemma distinct_map_order_by [simp]: "distinct (map g (order_by le xs)) = distinct (map g xs)"
  by (induction xs) simp_all

lemma order_by_Nil_iff [simp]: "order_by le xs = [] \<longleftrightarrow> xs = []"
  by (metis length_0_conv length_order_by)

locale total_preorder =
  fixes le :: "'a \<Rightarrow> 'a \<Rightarrow> bool"
  assumes total: "le x y \<or> le y x"
    and trans: "le x y \<Longrightarrow> le y z \<Longrightarrow> le x z"
begin

lemma le_refl: "le x x"
  using total by blast

lemma sorted_insert_by: "sorted_wrt le ys \<Longrightarrow> sorted_wrt le (insert_by le x ys)"
proof (induction ys)
  case (Cons y ys)
  then show ?case
    using total trans by (auto split: if_splits)
qed simp

lemma sorted_order_by: "sorted_wrt le (order_by le xs)"
  by (induction xs) (simp_all add: sorted_insert_by)

lemma order_by_sorted: "sorted_wrt le xs \<Longrightarrow> order_by le xs = xs"
proof (induction xs)
  case (Cons x xs)
  then show ?case by (cases xs) auto
qed simp

lemma hd_order_by:
  assumes "xs \<noteq> []" and "y \<in> set xs"
  shows "le (hd (order_by le xs)) y"
proof -
  from assms obtain z zs where zs: "order_by le xs = z # zs"
    by (metis neq_Nil_conv order_by_Nil_iff)
  with sorted_order_by [of xs] have "\<forall>w \<in> set zs. le z w" by simp
  moreover from zs assms(2) have "y = z \<or> y \<in> set zs"
    by (metis set_ConsD set_order_by)
  ultimately show ?thesis using zs le_refl by auto
qed

end

text \<open>Comparing rows by a column, and by two columns in turn.\<close>

definition on_key :: "('k \<Rightarrow> 'k \<Rightarrow> bool) \<Rightarrow> ('a \<Rightarrow> 'k) \<Rightarrow> 'a \<Rightarrow> 'a \<Rightarrow> bool" where
  "on_key le k x y = le (k x) (k y)"

definition then_by :: "('a \<Rightarrow> 'a \<Rightarrow> bool) \<Rightarrow> ('a \<Rightarrow> 'a \<Rightarrow> bool) \<Rightarrow> 'a \<Rightarrow> 'a \<Rightarrow> bool" where
  "then_by le1 le2 x y = (le1 x y \<and> (le1 y x \<longrightarrow> le2 x y))"

lemma total_preorder_on_key:
  "total_preorder le \<Longrightarrow> total_preorder (on_key le k)"
  by (unfold total_preorder_def on_key_def) blast

lemma total_preorder_then_by:
  "total_preorder le1 \<Longrightarrow> total_preorder le2 \<Longrightarrow> total_preorder (then_by le1 le2)"
  by (unfold total_preorder_def then_by_def) blast

lemma total_preorder_flip:
  "total_preorder le \<Longrightarrow> total_preorder (\<lambda>x y. le y x)"
  by (unfold total_preorder_def) blast

text \<open>
  How the database compares text depends on its collation, which is outside the source. A
  collation is any total preorder on strings; the bytewise one (the \<open>C\<close> collation) is one.
\<close>

locale collation = total_preorder le
  for le :: "string \<Rightarrow> string \<Rightarrow> bool"
begin

lemma by_key: "total_preorder (on_key le k)"
  by (rule total_preorder_on_key) unfold_locales

end

definition bytewise :: "string \<Rightarrow> string \<Rightarrow> bool" where
  "bytewise x y = (x \<le> y)"

interpretation c_collation: collation bytewise
  by unfold_locales (auto simp: bytewise_def)

interpretation int_order: total_preorder "(\<le>) :: int \<Rightarrow> int \<Rightarrow> bool"
  by unfold_locales auto

subsection \<open>Enumerations with a text form\<close>

locale string_enum =
  fixes as_str :: "'a \<Rightarrow> string"
    and from_str :: "string \<Rightarrow> string + 'a"
  assumes parse_print: "from_str (as_str x) = Inr x"
begin

lemma as_str_inj: "as_str x = as_str y \<longleftrightarrow> x = y"
  by (metis Inr_inject parse_print)

lemma unwrap_parse_print: "unwrap_or (from_str (as_str x)) d = x"
  by (simp add: parse_print)

end

locale canonical_enum = string_enum +
  assumes print_parse: "from_str s = Inr x \<Longrightarrow> as_str x = s"
begin

lemma parse_iff: "from_str s = Inr x \<longleftrightarrow> s = as_str x"
  using parse_print print_parse by blast

lemma parse_ok_iff: "is_ok (from_str s) \<longleftrightarrow> s \<in> range as_str"
  by (auto simp: is_ok_iff parse_iff)

end

subsection \<open>Transition systems\<close>

inductive reachable_from :: "('s \<Rightarrow> bool) \<Rightarrow> ('s \<Rightarrow> 's \<Rightarrow> bool) \<Rightarrow> 's \<Rightarrow> bool"
  for init :: "'s \<Rightarrow> bool" and step :: "'s \<Rightarrow> 's \<Rightarrow> bool"
where
  reach_init: "init s \<Longrightarrow> reachable_from init step s"
| reach_step: "reachable_from init step s \<Longrightarrow> step s t \<Longrightarrow> reachable_from init step t"

locale transition_system =
  fixes init :: "'s \<Rightarrow> bool"
    and step :: "'s \<Rightarrow> 's \<Rightarrow> bool"
    and inv :: "'s \<Rightarrow> bool"
  assumes inv_init: "init s \<Longrightarrow> inv s"
    and inv_step: "inv s \<Longrightarrow> step s t \<Longrightarrow> inv t"
begin

lemma inv_reachable: "reachable_from init step s \<Longrightarrow> inv s"
  by (induction rule: reachable_from.induct) (auto intro: inv_init inv_step)

lemma inv_steps: "step\<^sup>*\<^sup>* s t \<Longrightarrow> inv s \<Longrightarrow> inv t"
  by (induction rule: rtranclp_induct) (auto intro: inv_step)

end

subsection \<open>Text\<close>

text \<open>\<open>str::split_once\<close> on a character: the text before and after its first occurrence.\<close>

fun split_once :: "char \<Rightarrow> string \<Rightarrow> (string \<times> string) option" where
  "split_once c [] = None"
| "split_once c (x # xs) =
     (if x = c then Some ([], xs)
      else case split_once c xs of None \<Rightarrow> None | Some (a, b) \<Rightarrow> Some (x # a, b))"

lemma split_once_Some:
  "split_once c s = Some (a, b) \<Longrightarrow> s = a @ c # b \<and> c \<notin> set a"
  by (induction s arbitrary: a) (auto split: if_splits option.splits)

lemma split_once_None [simp]: "split_once c s = None \<longleftrightarrow> c \<notin> set s"
  by (induction s) (auto split: option.splits)

lemma split_once_append: "c \<notin> set a \<Longrightarrow> split_once c (a @ c # b) = Some (a, b)"
  by (induction a) auto

text \<open>\<open>str::split\<close> with a character: a text without it is one piece.\<close>

fun split_on :: "char \<Rightarrow> string \<Rightarrow> string list" where
  "split_on c [] = [[]]"
| "split_on c (x # xs) =
     (if x = c then [] # split_on c xs
      else case split_on c xs of [] \<Rightarrow> [[x]] | p # ps \<Rightarrow> (x # p) # ps)"

lemma split_on_Nil [simp]: "split_on c s \<noteq> []"
  by (induction s) (auto split: list.splits)

text \<open>\<open>str::trim\<close>, for the whitespace of ASCII.\<close>

definition is_whitespace :: "char \<Rightarrow> bool" where
  "is_whitespace c = (let n = of_char c :: nat in (9 \<le> n \<and> n \<le> 13) \<or> n = 32)"

definition trim :: "string \<Rightarrow> string" where
  "trim s = rev (dropWhile is_whitespace (rev (dropWhile is_whitespace s)))"

text \<open>\<open>[String]::join\<close>.\<close>

fun join :: "string \<Rightarrow> string list \<Rightarrow> string" where
  "join sep [] = []"
| "join sep [x] = x"
| "join sep (x # xs) = x @ sep @ join sep xs"

text \<open>Decimal notation, as \<open>to_string\<close> prints a natural number.\<close>

definition digit :: "nat \<Rightarrow> char" where
  "digit d = ''0123456789'' ! d"

fun show_nat :: "nat \<Rightarrow> string" where
  "show_nat n = (if n < 10 then [digit n] else show_nat (n div 10) @ [digit (n mod 10)])"

declare show_nat.simps [simp del]

lemma digit_in: "d < 10 \<Longrightarrow> digit d \<in> set ''0123456789''"
  unfolding digit_def by (rule nth_mem) simp

lemma digit_inj: "d < 10 \<Longrightarrow> e < 10 \<Longrightarrow> digit d = digit e \<longleftrightarrow> d = e"
  unfolding digit_def by (rule nth_eq_iff_index_eq) simp_all

lemma show_nat_Nil [simp]: "show_nat n \<noteq> []" "[] \<noteq> show_nat n"
  by (subst show_nat.simps, simp)+

lemma show_nat_digits: "set (show_nat n) \<subseteq> set ''0123456789''"
proof (induction n rule: show_nat.induct)
  case (1 n)
  have "digit n \<in> set ''0123456789''" if "n < 10" using that by (rule digit_in)
  moreover have "digit (n mod 10) \<in> set ''0123456789''" by (rule digit_in) simp
  ultimately show ?case using 1 by (subst show_nat.simps) (auto split: if_splits)
qed

lemma show_nat_inj: "show_nat m = show_nat n \<Longrightarrow> m = n"
proof (induction m arbitrary: n rule: show_nat.induct)
  case (1 m)
  show ?case
  proof (cases "m < 10")
    case True
    have "n < 10"
    proof (rule ccontr)
      assume "\<not> n < 10"
      then have "[digit m] = show_nat (n div 10) @ [digit (n mod 10)]"
        using 1(2) True by (subst (asm) (1 2) show_nat.simps) simp
      then show False by simp
    qed
    with True 1(2) have "[digit m] = [digit n]" by (subst (asm) (1 2) show_nat.simps) simp
    then show ?thesis using True \<open>n < 10\<close> by (simp add: digit_inj)
  next
    case False
    have "\<not> n < 10"
    proof
      assume "n < 10"
      then have "show_nat (m div 10) @ [digit (m mod 10)] = [digit n]"
        using 1(2) False by (subst (asm) (1 2) show_nat.simps) simp
      then show False by simp
    qed
    with False 1(2) have eq: "show_nat (m div 10) @ [digit (m mod 10)] = show_nat (n div 10) @ [digit (n mod 10)]"
      by (subst (asm) (1 2) show_nat.simps) simp
    then have "m div 10 = n div 10" using 1(1) [OF False] by simp
    moreover have "m mod 10 = n mod 10" using eq by (simp add: digit_inj)
    ultimately show ?thesis by (metis div_mult_mod_eq)
  qed
qed

end
