(* ===== verification/Tickets_Model.thy ===== *)
theory Tickets_Model
  imports Prelude
begin

text \<open>
  The data types of \<open>crates/ticket_db/src/model.rs\<close>: the lifecycle, type and status
  enumerations with their text forms, the ticket with its creation, update and filter
  records, and the raw rows of the five tables. A \<open>String\<close> is a \<^typ>\<open>string\<close> of bytes;
  \<open>i32\<close> and \<open>i64\<close> columns that the code only stores and compares are \<^typ>\<open>int\<close>.
\<close>

subsection \<open>LifecycleStatus\<close>

datatype LifecycleStatus =
    Design | Open | Implementing | Pushing | InReview | AddressingFeedback
  | Merging | Verifying | AwaitingDispatch | Done | Cancelled

definition LifecycleStatus_default :: LifecycleStatus where
  "LifecycleStatus_default = LifecycleStatus.Open"

fun LifecycleStatus_as_str :: "LifecycleStatus \<Rightarrow> string" where
  "LifecycleStatus_as_str LifecycleStatus.Design = ''design''"
| "LifecycleStatus_as_str LifecycleStatus.Open = ''open''"
| "LifecycleStatus_as_str Implementing = ''implementing''"
| "LifecycleStatus_as_str Pushing = ''pushing''"
| "LifecycleStatus_as_str InReview = ''in_review''"
| "LifecycleStatus_as_str AddressingFeedback = ''addressing_feedback''"
| "LifecycleStatus_as_str Merging = ''merging''"
| "LifecycleStatus_as_str Verifying = ''verifying''"
| "LifecycleStatus_as_str AwaitingDispatch = ''awaiting_dispatch''"
| "LifecycleStatus_as_str Done = ''done''"
| "LifecycleStatus_as_str Cancelled = ''cancelled''"

definition is_terminal :: "LifecycleStatus \<Rightarrow> bool" where
  "is_terminal s = (case s of Done \<Rightarrow> True | Cancelled \<Rightarrow> True | _ \<Rightarrow> False)"

definition LifecycleStatus_from_str :: "string \<Rightarrow> string + LifecycleStatus" where
  "LifecycleStatus_from_str s =
     (if s = ''design'' then Inr LifecycleStatus.Design
      else if s = ''open'' then Inr LifecycleStatus.Open
      else if s = ''implementing'' then Inr Implementing
      else if s = ''pushing'' then Inr Pushing
      else if s = ''in_review'' then Inr InReview
      else if s = ''addressing_feedback'' then Inr AddressingFeedback
      else if s = ''merging'' then Inr Merging
      else if s = ''verifying'' then Inr Verifying
      else if s = ''awaiting_dispatch'' then Inr AwaitingDispatch
      else if s = ''done'' then Inr Done
      else if s = ''cancelled'' then Inr Cancelled
      else Inl (''unknown lifecycle status: '' @ s))"

interpretation lifecycle: canonical_enum LifecycleStatus_as_str LifecycleStatus_from_str
proof unfold_locales
  show "LifecycleStatus_from_str (LifecycleStatus_as_str x) = Inr x" for x
    by (cases x) (simp_all add: LifecycleStatus_from_str_def)
  show "LifecycleStatus_from_str s = Inr x \<Longrightarrow> LifecycleStatus_as_str x = s" for s x
    by (auto simp: LifecycleStatus_from_str_def split: if_splits)
qed

text \<open>How the repositories read a status column: unknown text becomes the default.\<close>

definition parse_lifecycle :: "string \<Rightarrow> LifecycleStatus" where
  "parse_lifecycle s = unwrap_or (LifecycleStatus_from_str s) LifecycleStatus_default"

lemma parse_lifecycle_as_str [simp]: "parse_lifecycle (LifecycleStatus_as_str x) = x"
  by (simp add: parse_lifecycle_def lifecycle.unwrap_parse_print)

lemma is_terminal_iff: "is_terminal s \<longleftrightarrow> s = Done \<or> s = Cancelled"
  by (cases s) (simp_all add: is_terminal_def)

lemma is_terminal_simps [simp]:
  "is_terminal Done" "is_terminal Cancelled"
  "\<not> is_terminal LifecycleStatus.Design" "\<not> is_terminal LifecycleStatus.Open"
  "\<not> is_terminal Implementing" "\<not> is_terminal Pushing" "\<not> is_terminal InReview"
  "\<not> is_terminal AddressingFeedback" "\<not> is_terminal Merging" "\<not> is_terminal Verifying"
  "\<not> is_terminal AwaitingDispatch"
  by (simp_all add: is_terminal_def)

lemma as_str_terminal:
  "LifecycleStatus_as_str s = ''done'' \<or> LifecycleStatus_as_str s = ''cancelled'' \<longleftrightarrow> is_terminal s"
  by (cases s) (simp_all add: is_terminal_def)

subsection \<open>TicketType\<close>

datatype TicketType = Code | Design | Reminder

definition TicketType_default :: TicketType where
  "TicketType_default = Code"

fun TicketType_as_str :: "TicketType \<Rightarrow> string" where
  "TicketType_as_str Code = ''code''"
| "TicketType_as_str TicketType.Design = ''design''"
| "TicketType_as_str Reminder = ''reminder''"

definition is_dispatchable :: "TicketType \<Rightarrow> bool" where
  "is_dispatchable t = (\<not> (case t of Reminder \<Rightarrow> True | _ \<Rightarrow> False))"

definition TicketType_VALID :: "string list" where
  "TicketType_VALID = [''code'', ''design'', ''reminder'', ''task'', ''epic'', ''c'', ''d'', ''r'']"

definition TicketType_normalize :: "string \<Rightarrow> string" where
  "TicketType_normalize s =
     (if s = ''task'' \<or> s = ''epic'' \<or> s = ''c'' then ''code''
      else if s = ''d'' then ''design''
      else if s = ''r'' then ''reminder''
      else s)"

definition TicketType_from_str :: "string \<Rightarrow> string + TicketType" where
  "TicketType_from_str s =
     (if s = ''code'' \<or> s = ''task'' \<or> s = ''epic'' \<or> s = ''c'' then Inr Code
      else if s = ''design'' \<or> s = ''d'' then Inr TicketType.Design
      else if s = ''reminder'' \<or> s = ''r'' then Inr Reminder
      else Inl (''invalid ticket type '' @ [CHR 0x27] @ s @ [CHR 0x27] @ '': valid types are '' @
                  join '', '' TicketType_VALID))"

interpretation ticket_type: string_enum TicketType_as_str TicketType_from_str
proof unfold_locales
  show "TicketType_from_str (TicketType_as_str x) = Inr x" for x
    by (cases x) (simp_all add: TicketType_from_str_def)
qed

subsection \<open>TicketStatus\<close>

datatype TicketStatus = Open | InProgress | Closed

definition TicketStatus_default :: TicketStatus where
  "TicketStatus_default = TicketStatus.Open"

fun TicketStatus_as_str :: "TicketStatus \<Rightarrow> string" where
  "TicketStatus_as_str TicketStatus.Open = ''open''"
| "TicketStatus_as_str InProgress = ''in_progress''"
| "TicketStatus_as_str Closed = ''closed''"

definition TicketStatus_from_str :: "string \<Rightarrow> string + TicketStatus" where
  "TicketStatus_from_str s =
     (if s = ''open'' then Inr TicketStatus.Open
      else if s = ''in_progress'' then Inr InProgress
      else if s = ''closed'' then Inr Closed
      else Inl (''unknown ticket status: '' @ s))"

interpretation ticket_status: canonical_enum TicketStatus_as_str TicketStatus_from_str
proof unfold_locales
  show "TicketStatus_from_str (TicketStatus_as_str x) = Inr x" for x
    by (cases x) (simp_all add: TicketStatus_from_str_def)
  show "TicketStatus_from_str s = Inr x \<Longrightarrow> TicketStatus_as_str x = s" for s x
    by (auto simp: TicketStatus_from_str_def split: if_splits)
qed

subsection \<open>EdgeKind\<close>

datatype EdgeKind = Blocks | RelatesTo

fun edge_kind_to_str :: "EdgeKind \<Rightarrow> string" where
  "edge_kind_to_str Blocks = ''blocks''"
| "edge_kind_to_str RelatesTo = ''relates_to''"

definition edge_kind_from_str :: "string \<Rightarrow> EdgeKind" where
  "edge_kind_from_str s = (if s = ''blocks'' then Blocks else RelatesTo)"

interpretation edge_kind: string_enum edge_kind_to_str "\<lambda>s. Inr (edge_kind_from_str s)"
proof unfold_locales
  show "Inr (edge_kind_from_str (edge_kind_to_str x)) = (Inr x :: string + EdgeKind)" for x
    by (cases x) (simp_all add: edge_kind_from_str_def)
qed

subsection \<open>Tickets\<close>

record Ticket =
  tk_id :: string
  tk_project :: string
  tk_type :: string
  tk_status :: string
  tk_lifecycle_status :: LifecycleStatus
  tk_lifecycle_managed :: bool
  tk_priority :: int
  tk_parent_id :: "string option"
  tk_title :: string
  tk_body :: string
  tk_branch :: "string option"
  tk_created_at :: string
  tk_updated_at :: string
  tk_children_completed :: int
  tk_children_total :: int

record NewTicket =
  nt_id :: "string option"
  nt_project :: string
  nt_type :: string
  nt_priority :: int
  nt_parent_id :: "string option"
  nt_title :: string
  nt_body :: string
  nt_status :: "string option"
  nt_lifecycle_status :: "LifecycleStatus option"
  nt_branch :: "string option"
  nt_created_at :: "string option"

text \<open>\<open>Some None\<close> in \<open>tu_branch\<close> and \<open>tu_parent_id\<close> clears the column.\<close>

record TicketUpdate =
  tu_status :: "string option"
  tu_lifecycle_status :: "LifecycleStatus option"
  tu_lifecycle_managed :: "bool option"
  tu_type :: "string option"
  tu_priority :: "int option"
  tu_title :: "string option"
  tu_body :: "string option"
  tu_branch :: "string option option"
  tu_parent_id :: "string option option"
  tu_project :: "string option"

definition TicketUpdate_default :: TicketUpdate where
  "TicketUpdate_default =
     \<lparr>tu_status = None, tu_lifecycle_status = None, tu_lifecycle_managed = None, tu_type = None,
      tu_priority = None, tu_title = None, tu_body = None, tu_branch = None,
      tu_parent_id = None, tu_project = None\<rparr>"

record TicketFilter =
  tf_project :: "string option"
  tf_statuses :: "string list"
  tf_type :: "string option"
  tf_parent_id :: "string option"
  tf_lifecycle_status :: "LifecycleStatus option"

record Activity =
  ac_id :: string
  ac_ticket_id :: string
  ac_timestamp :: string
  ac_author :: string
  ac_message :: string

record DispatchableTicket =
  dt_id :: string
  dt_title :: string
  dt_priority :: int
  dt_type :: string

record MetadataMatchTicket =
  mm_id :: string
  mm_title :: string
  mm_type :: string
  mm_status :: string
  mm_key :: string
  mm_value :: string

record Edge =
  ed_source_id :: string
  ed_target_id :: string
  ed_kind :: EdgeKind

record TicketComment =
  tc_comment_id :: string
  tc_ticket_id :: string
  tc_pr_number :: int
  tc_gh_repo :: string
  tc_reply_posted :: bool
  tc_created_at :: string

subsection \<open>Raw rows\<close>

text \<open>
  The export records hold exactly the columns of the tables, so they double as the rows of
  the model's tables.
\<close>

record ExportTicket =
  et_id :: string
  et_project :: string
  et_type :: string
  et_status :: string
  et_lifecycle_status :: string
  et_lifecycle_managed :: bool
  et_priority :: int
  et_parent_id :: "string option"
  et_title :: string
  et_body :: string
  et_branch :: "string option"
  et_created_at :: string
  et_updated_at :: string

record ExportEdge =
  ee_source_id :: string
  ee_target_id :: string
  ee_kind :: string

record ExportMeta =
  em_entity_id :: string
  em_entity_type :: string
  em_key :: string
  em_value :: string

record ExportActivity =
  ea_id :: string
  ea_ticket_id :: string
  ea_timestamp :: string
  ea_author :: string
  ea_message :: string

record ExportTicketComment =
  ec_comment_id :: string
  ec_ticket_id :: string
  ec_pr_number :: int
  ec_gh_repo :: string
  ec_reply_posted :: bool
  ec_created_at :: string

datatype ImportError = IdCollision "string list" | Db string

end
