(* ===== verification/Ticket_Graph.thy ===== *)
theory Ticket_Graph
  imports Tickets_Model
begin

text \<open>
  The dependency graph of \<open>crates/ticket_db/src/graph.rs\<close>. \<open>GraphManager\<close> loads the
  \<open>blocks\<close> edges and the ticket ids, builds a \<open>petgraph\<close> digraph whose nodes are the
  tickets, and answers three questions by searching it: the transitive blockers and
  dependents of a ticket, whether a new edge would close a cycle, and which tickets of a
  list are blocked.

  \<open>petgraph\<close> is not part of the source. Its depth-first search and its path test are
  parameters (\<open>dfs\<close> and \<open>has_path\<close>), and the locales \<open>petgraph_dfs\<close> and
  \<open>petgraph_path\<close> state what their documentation promises. \<open>stack_dfs\<close> is a search
  that keeps the promise.
\<close>

subsection \<open>The graph and the operations\<close>

record BuiltGraph =
  bg_nodes :: "string list"
  bg_edges :: "(nat \<times> nat) list"
  bg_node_map :: "string \<rightharpoonup> nat"

definition add_node :: "string \<Rightarrow> BuiltGraph \<Rightarrow> BuiltGraph" where
  "add_node i g = g\<lparr>bg_nodes := bg_nodes g @ [i],
                    bg_node_map := (bg_node_map g)(i \<mapsto> length (bg_nodes g))\<rparr>"

definition add_graph_edge :: "string \<times> string \<Rightarrow> BuiltGraph \<Rightarrow> BuiltGraph" where
  "add_graph_edge e g =
     (case (bg_node_map g (fst e), bg_node_map g (snd e)) of
        (Some src, Some tgt) \<Rightarrow> g\<lparr>bg_edges := bg_edges g @ [(src, tgt)]\<rparr>
      | _ \<Rightarrow> g)"

definition build_graph :: "ExportTicket list \<Rightarrow> ExportEdge list \<Rightarrow> BuiltGraph" where
  "build_graph ts es =
     (let edges = map (\<lambda>e. (ee_source_id e, ee_target_id e)) (filter (\<lambda>e. ee_kind e = ''blocks'') es);
          ticket_ids = map et_id ts;
          graph = fold add_node ticket_ids \<lparr>bg_nodes = [], bg_edges = [], bg_node_map = Map.empty\<rparr>
      in fold add_graph_edge edges graph)"

type_synonym dfs_fun = "nat \<Rightarrow> (nat \<times> nat) list \<Rightarrow> nat \<Rightarrow> nat list"
type_synonym path_fun = "nat \<Rightarrow> (nat \<times> nat) list \<Rightarrow> nat \<Rightarrow> nat \<Rightarrow> bool"

abbreviation reversed :: "(nat \<times> nat) list \<Rightarrow> (nat \<times> nat) list" where
  "reversed es \<equiv> map (\<lambda>(a, b). (b, a)) es"

text \<open>The nodes after the start node, as the loops \<open>while let Some(node) = dfs.next(...)\<close>
  see them once the first \<open>next\<close> has been skipped.\<close>

definition visited_after_start :: "dfs_fun \<Rightarrow> BuiltGraph \<Rightarrow> (nat \<times> nat) list \<Rightarrow> nat \<Rightarrow> nat list" where
  "visited_after_start dfs g es start = drop 1 (dfs (length (bg_nodes g)) es start)"

definition transitive_blockers ::
  "dfs_fun \<Rightarrow> ExportTicket list \<Rightarrow> ExportEdge list \<Rightarrow> string \<Rightarrow> string list" where
  "transitive_blockers dfs ts es i =
     (let built = build_graph ts es in
      case bg_node_map built i of
        None \<Rightarrow> []
      | Some start \<Rightarrow>
          map (\<lambda>node. bg_nodes built ! node)
            (visited_after_start dfs built (reversed (bg_edges built)) start))"

definition transitive_dependents ::
  "dfs_fun \<Rightarrow> ExportTicket list \<Rightarrow> ExportEdge list \<Rightarrow> string \<Rightarrow> string list" where
  "transitive_dependents dfs ts es i =
     (let built = build_graph ts es in
      case bg_node_map built i of
        None \<Rightarrow> []
      | Some start \<Rightarrow>
          map (\<lambda>node. bg_nodes built ! node)
            (visited_after_start dfs built (bg_edges built) start))"

definition would_create_cycle ::
  "path_fun \<Rightarrow> ExportTicket list \<Rightarrow> ExportEdge list \<Rightarrow> string \<Rightarrow> string \<Rightarrow> bool" where
  "would_create_cycle has_path ts es source target =
     (if source = target then True
      else
        let built = build_graph ts es in
        case (bg_node_map built target, bg_node_map built source) of
          (Some target_idx, Some source_idx) \<Rightarrow>
            has_path (length (bg_nodes built)) (bg_edges built) target_idx source_idx
        | _ \<Rightarrow> False)"

definition compute_blocked :: "dfs_fun \<Rightarrow> BuiltGraph \<Rightarrow> string set \<Rightarrow> string list \<Rightarrow> string set" where
  "compute_blocked dfs built opn ids =
     fold (\<lambda>i blocked.
             case bg_node_map built i of
               None \<Rightarrow> blocked
             | Some start \<Rightarrow>
                 if list_ex (\<lambda>node. bg_nodes built ! node \<in> opn)
                      (visited_after_start dfs built (reversed (bg_edges built)) start)
                 then insert i blocked else blocked)
       ids {}"

definition blocked_among ::
  "dfs_fun \<Rightarrow> ExportTicket list \<Rightarrow> ExportEdge list \<Rightarrow> string list \<Rightarrow> string set" where
  "blocked_among dfs ts es ids =
     (if ids = [] then {}
      else
        let built = build_graph ts es;
            opn = set (map et_id (filter (\<lambda>t. et_status t \<noteq> ''closed'') ts))
        in compute_blocked dfs built opn ids)"

subsection \<open>What petgraph promises\<close>

definition wf_edges :: "nat \<Rightarrow> (nat \<times> nat) list \<Rightarrow> bool" where
  "wf_edges n es = (\<forall>(a, b) \<in> set es. a < n \<and> b < n)"

locale petgraph_dfs =
  fixes dfs :: dfs_fun
  assumes dfs_starts: "s < n \<Longrightarrow> wf_edges n es \<Longrightarrow> take 1 (dfs n es s) = [s]"
    and dfs_distinct: "s < n \<Longrightarrow> wf_edges n es \<Longrightarrow> distinct (dfs n es s)"
    and dfs_reaches: "s < n \<Longrightarrow> wf_edges n es \<Longrightarrow> set (dfs n es s) = {v. (s, v) \<in> (set es)\<^sup>*}"
begin

lemma dfs_after_start:
  assumes "s < n" and "wf_edges n es"
  shows "set (drop 1 (dfs n es s)) = {v. (s, v) \<in> (set es)\<^sup>+ \<and> v \<noteq> s}"
proof -
  from dfs_starts [OF assms] obtain rest where rest: "dfs n es s = s # rest"
    by (cases "dfs n es s") auto
  with dfs_distinct [OF assms] dfs_reaches [OF assms]
  have "set rest = {v. (s, v) \<in> (set es)\<^sup>*} - {s}" by auto
  also have "\<dots> = {v. (s, v) \<in> (set es)\<^sup>+ \<and> v \<noteq> s}"
    by (auto simp: rtrancl_eq_or_trancl)
  finally show ?thesis using rest by simp
qed

lemma dfs_after_start_distinct:
  "s < n \<Longrightarrow> wf_edges n es \<Longrightarrow> distinct (drop 1 (dfs n es s))"
  by (simp add: dfs_distinct)

end

locale petgraph_path =
  fixes has_path :: path_fun
  assumes path_iff: "a < n \<Longrightarrow> b < n \<Longrightarrow> wf_edges n es \<Longrightarrow>
    has_path n es a b \<longleftrightarrow> (a, b) \<in> (set es)\<^sup>*"

subsection \<open>A search that keeps the promise\<close>

definition successors :: "(nat \<times> nat) list \<Rightarrow> nat \<Rightarrow> nat list" where
  "successors es v = map snd (filter (\<lambda>(a, b). a = v) es)"

lemma set_successors: "set (successors es v) = {w. (v, w) \<in> set es}"
  by (auto simp: successors_def image_iff)

function dfs_loop :: "(nat \<times> nat) list \<Rightarrow> nat list \<Rightarrow> nat list \<Rightarrow> nat list" where
  "dfs_loop es [] seen = []"
| "dfs_loop es (v # stack) seen =
     (if v \<in> set seen then dfs_loop es stack seen
      else v # dfs_loop es (successors es v @ stack) (v # seen))"
  by pat_completeness auto
termination
proof (relation "measures [\<lambda>(es, stack, seen). card ((snd ` set es \<union> set stack) - set seen),
                           \<lambda>(es, stack, seen). length stack]")
  fix es :: "(nat \<times> nat) list" and v stack seen
  let ?V = "(snd ` set es \<union> set (v # stack)) - set seen"
  show "((es, stack, seen), (es, v # stack, seen)) \<in>
    measures [\<lambda>(es, stack, seen). card ((snd ` set es \<union> set stack) - set seen),
              \<lambda>(es, stack, seen). length stack]"
  proof -
    have "card ((snd ` set es \<union> set stack) - set seen) \<le> card ?V"
      by (rule card_mono) auto
    then show ?thesis by auto
  qed
  assume v: "v \<notin> set seen"
  have "set (successors es v) \<subseteq> snd ` set es"
    by (auto simp: set_successors intro: rev_image_eqI)
  then have "(snd ` set es \<union> set (successors es v @ stack)) - set (v # seen) \<subset> ?V"
    using v by auto
  then show "((es, successors es v @ stack, v # seen), (es, v # stack, seen)) \<in>
    measures [\<lambda>(es, stack, seen). card ((snd ` set es \<union> set stack) - set seen),
              \<lambda>(es, stack, seen). length stack]"
    by (auto intro!: psubset_card_mono)
qed simp

definition stack_dfs :: dfs_fun where
  "stack_dfs n es s = dfs_loop es [s] []"

definition stack_path :: path_fun where
  "stack_path n es a b = (b \<in> set (dfs_loop es [a] []))"

lemma dfs_loop_fresh: "set (dfs_loop es stack seen) \<inter> set seen = {} \<and> distinct (dfs_loop es stack seen)"
  by (induction es stack seen rule: dfs_loop.induct) auto

lemma dfs_loop_sound:
  "w \<in> set (dfs_loop es stack seen) \<Longrightarrow> \<exists>s \<in> set stack. (s, w) \<in> (set es)\<^sup>*"
proof (induction es stack seen rule: dfs_loop.induct)
  case (2 es v stack seen)
  show ?case
  proof (cases "v \<in> set seen \<or> w = v")
    case True
    with 2 show ?thesis by (auto split: if_splits)
  next
    case False
    with 2 obtain s where s: "s \<in> set (successors es v @ stack)" "(s, w) \<in> (set es)\<^sup>*"
      by auto
    then show ?thesis
      by (auto simp: set_successors intro: converse_rtrancl_into_rtrancl)
  qed
qed simp

text \<open>The search keeps its frontier closed: successors of visited nodes are visited or waiting.\<close>

lemma dfs_loop_closed:
  assumes "\<forall>x \<in> set seen. \<forall>y. (x, y) \<in> set es \<longrightarrow> y \<in> set seen \<union> set stack"
  shows "set stack \<subseteq> set seen \<union> set (dfs_loop es stack seen) \<and>
    (\<forall>x \<in> set seen \<union> set (dfs_loop es stack seen). \<forall>y. (x, y) \<in> set es \<longrightarrow>
       y \<in> set seen \<union> set (dfs_loop es stack seen))"
  using assms
proof (induction es stack seen rule: dfs_loop.induct)
  case (2 es v stack seen)
  show ?case
  proof (cases "v \<in> set seen")
    case True
    with 2 show ?thesis by auto
  next
    case False
    have "\<forall>x \<in> set (v # seen). \<forall>y. (x, y) \<in> set es \<longrightarrow>
        y \<in> set (v # seen) \<union> set (successors es v @ stack)"
      using "2.prems" by (auto simp: set_successors)
    from "2.IH"(2) [OF False this] False show ?thesis by auto
  qed
qed simp

lemma dfs_loop_set: "set (dfs_loop es [s] []) = {v. (s, v) \<in> (set es)\<^sup>*}"
proof
  show "set (dfs_loop es [s] []) \<subseteq> {v. (s, v) \<in> (set es)\<^sup>*}"
    using dfs_loop_sound by fastforce
  let ?R = "set (dfs_loop es [s] [])"
  from dfs_loop_closed [of "[]" es "[s]"]
  have s: "s \<in> ?R" and closed: "\<And>x y. x \<in> ?R \<Longrightarrow> (x, y) \<in> set es \<Longrightarrow> y \<in> ?R" by auto
  have "v \<in> ?R" if "(s, v) \<in> (set es)\<^sup>*" for v
    using that
  proof (induction rule: rtrancl_induct)
    case base
    show ?case by (rule s)
  next
    case (step y z)
    then show ?case by (blast intro: closed)
  qed
  then show "{v. (s, v) \<in> (set es)\<^sup>*} \<subseteq> ?R" by blast
qed

interpretation stack_search: petgraph_dfs stack_dfs
proof unfold_locales
  show "take 1 (stack_dfs n es s) = [s]" for s n es
    by (simp add: stack_dfs_def)
  show "distinct (stack_dfs n es s)" for s n es
    unfolding stack_dfs_def using dfs_loop_fresh by blast
  show "set (stack_dfs n es s) = {v. (s, v) \<in> (set es)\<^sup>*}" for s n es
    unfolding stack_dfs_def by (rule dfs_loop_set)
qed

interpretation stack_paths: petgraph_path stack_path
  by unfold_locales (simp only: stack_path_def dfs_loop_set mem_Collect_eq)

subsection \<open>The graph that is built\<close>

text \<open>The \<open>blocks\<close> relation between existing tickets, which the graph represents.\<close>

definition blocks_rel :: "ExportTicket list \<Rightarrow> ExportEdge list \<Rightarrow> (string \<times> string) set" where
  "blocks_rel ts es =
     {(a, b). a \<in> et_id ` set ts \<and> b \<in> et_id ` set ts \<and>
        (\<exists>e \<in> set es. ee_kind e = ''blocks'' \<and> ee_source_id e = a \<and> ee_target_id e = b)}"

lemma fold_add_node_nodes:
  "bg_nodes (fold add_node ids g) = bg_nodes g @ ids \<and> bg_edges (fold add_node ids g) = bg_edges g"
  by (induction ids arbitrary: g) (simp_all add: add_node_def)

lemma fold_add_node_map:
  assumes "distinct (bg_nodes g @ ids)"
    and "\<forall>i k. bg_node_map g i = Some k \<longleftrightarrow> k < length (bg_nodes g) \<and> bg_nodes g ! k = i"
  shows "bg_node_map (fold add_node ids g) i = Some k \<longleftrightarrow>
    k < length (bg_nodes g @ ids) \<and> (bg_nodes g @ ids) ! k = i"
  using assms
proof (induction ids arbitrary: g)
  case (Cons x ids)
  have "bg_node_map (add_node x g) j = Some m \<longleftrightarrow>
      m < length (bg_nodes (add_node x g)) \<and> bg_nodes (add_node x g) ! m = j" for j m
    using Cons.prems by (auto simp: add_node_def nth_append less_Suc_eq)
  with Cons.IH [of "add_node x g"] Cons.prems(1) show ?case
    by (simp add: add_node_def)
qed simp

lemma fold_add_graph_edge:
  "bg_nodes (fold add_graph_edge ps g) = bg_nodes g \<and>
   bg_node_map (fold add_graph_edge ps g) = bg_node_map g \<and>
   set (bg_edges (fold add_graph_edge ps g)) =
     set (bg_edges g) \<union> {(i, j). \<exists>(a, b) \<in> set ps. bg_node_map g a = Some i \<and> bg_node_map g b = Some j}"
proof (induction ps arbitrary: g)
  case (Cons p ps)
  then show ?case
    by (cases p) (auto simp: add_graph_edge_def split: option.splits)
qed simp

lemma build_graph_nodes [simp]: "bg_nodes (build_graph ts es) = map et_id ts"
  by (simp add: build_graph_def fold_add_graph_edge fold_add_node_nodes)

lemma build_graph_map:
  assumes "distinct (map et_id ts)"
  shows "bg_node_map (build_graph ts es) i = Some k \<longleftrightarrow> k < length ts \<and> et_id (ts ! k) = i"
  using fold_add_node_map [of "\<lparr>bg_nodes = [], bg_edges = [], bg_node_map = Map.empty\<rparr>" "map et_id ts" i k] assms
  by (auto simp: build_graph_def fold_add_graph_edge)

lemma build_graph_map_None:
  assumes "distinct (map et_id ts)"
  shows "bg_node_map (build_graph ts es) i = None \<longleftrightarrow> i \<notin> et_id ` set ts"
proof -
  have "bg_node_map (build_graph ts es) i = None \<longleftrightarrow> \<not> (\<exists>k < length ts. et_id (ts ! k) = i)"
    using build_graph_map [OF assms, of es i] by (metis not_Some_eq)
  then show ?thesis by (auto simp: in_set_conv_nth image_iff) (metis nth_mem)
qed

lemma build_graph_edges:
  assumes "distinct (map et_id ts)"
  shows "set (bg_edges (build_graph ts es)) =
    {(i, j). i < length ts \<and> j < length ts \<and> (et_id (ts ! i), et_id (ts ! j)) \<in> blocks_rel ts es}"
proof -
  let ?g0 = "fold add_node (map et_id ts) \<lparr>bg_nodes = [], bg_edges = [], bg_node_map = Map.empty\<rparr>"
  have "bg_node_map ?g0 = bg_node_map (build_graph ts es)"
    by (simp add: build_graph_def fold_add_graph_edge)
  then have m: "bg_node_map ?g0 a = Some k \<longleftrightarrow> k < length ts \<and> et_id (ts ! k) = a" for a k
    using build_graph_map [OF assms] by simp
  show ?thesis
    by (auto simp: build_graph_def fold_add_graph_edge fold_add_node_nodes m blocks_rel_def)
qed

lemma build_graph_wf:
  "distinct (map et_id ts) \<Longrightarrow> wf_edges (length ts) (bg_edges (build_graph ts es))"
  by (auto simp: wf_edges_def build_graph_edges)

lemma wf_edges_reversed: "wf_edges n es \<Longrightarrow> wf_edges n (reversed es)"
  by (auto simp: wf_edges_def)

lemma set_reversed: "set (reversed es) = (set es)\<inverse>"
  by auto

text \<open>Paths between node indices are paths between the tickets.\<close>

lemma index_path:
  assumes inj: "inj_on f {..<n}" and E: "E = {(i, j). i < n \<and> j < n \<and> (f i, f j) \<in> R}"
    and R: "R \<subseteq> f ` {..<n} \<times> f ` {..<n}" and "i < n" "j < n"
  shows "(i, j) \<in> E\<^sup>+ \<longleftrightarrow> (f i, f j) \<in> R\<^sup>+"
proof
  assume "(i, j) \<in> E\<^sup>+"
  then show "(f i, f j) \<in> R\<^sup>+"
    by (induction rule: trancl_induct) (auto simp: E intro: trancl_into_trancl)
next
  have "\<forall>j < n. y = f j \<longrightarrow> (i, j) \<in> E\<^sup>+" if "(f i, y) \<in> R\<^sup>+" for y
    using that
  proof (induction rule: trancl_induct)
    case (base y)
    then show ?case using E assms(4) by auto
  next
    case (step y z)
    then obtain k where k: "k < n" "y = f k" using R by auto
    with step have "(i, k) \<in> E\<^sup>+" by simp
    moreover have "\<forall>j < n. z = f j \<longrightarrow> (k, j) \<in> E" using step k E by auto
    ultimately show ?case by (auto intro: trancl_into_trancl)
  qed
  then show "(f i, f j) \<in> R\<^sup>+ \<Longrightarrow> (i, j) \<in> E\<^sup>+" using assms(5) by blast
qed

lemma graph_path:
  assumes "distinct (map et_id ts)" and "i < length ts" and "j < length ts"
  shows "(i, j) \<in> (set (bg_edges (build_graph ts es)))\<^sup>+ \<longleftrightarrow>
    (et_id (ts ! i), et_id (ts ! j)) \<in> (blocks_rel ts es)\<^sup>+"
proof (rule index_path [where n = "length ts" and f = "\<lambda>k. et_id (ts ! k)"])
  show "inj_on (\<lambda>k. et_id (ts ! k)) {..<length ts}"
    using assms(1) by (auto simp: inj_on_def distinct_conv_nth)
  show "blocks_rel ts es \<subseteq> (\<lambda>k. et_id (ts ! k)) ` {..<length ts} \<times> (\<lambda>k. et_id (ts ! k)) ` {..<length ts}"
    by (force simp: blocks_rel_def in_set_conv_nth image_iff)
qed (use assms in \<open>simp_all add: build_graph_edges\<close>)

lemma graph_path_target:
  assumes "distinct (map et_id ts)" and "(i, j) \<in> (set (bg_edges (build_graph ts es)))\<^sup>+"
  shows "i < length ts \<and> j < length ts"
  using assms(2) by (induction rule: trancl_induct) (auto simp: build_graph_edges [OF assms(1)])

lemma blocks_rel_ids: "(a, b) \<in> (blocks_rel ts es)\<^sup>+ \<Longrightarrow> a \<in> et_id ` set ts \<and> b \<in> et_id ` set ts"
  by (induction rule: trancl_induct) (auto simp: blocks_rel_def)

subsection \<open>Correctness of the searches\<close>

text \<open>The nodes the loops visit, as ticket ids, in either direction.\<close>

lemma visited_downstream:
  assumes "petgraph_dfs dfs" and d: "distinct (map et_id ts)" and s: "s < length ts"
  shows "(\<lambda>node. et_id (ts ! node)) ` set (visited_after_start dfs (build_graph ts es) (bg_edges (build_graph ts es)) s) =
    {b. (et_id (ts ! s), b) \<in> (blocks_rel ts es)\<^sup>+ \<and> b \<noteq> et_id (ts ! s)}"
proof -
  let ?E = "set (bg_edges (build_graph ts es))"
  have "set (visited_after_start dfs (build_graph ts es) (bg_edges (build_graph ts es)) s) =
      {v. (s, v) \<in> ?E\<^sup>+ \<and> v \<noteq> s}"
    using petgraph_dfs.dfs_after_start [OF assms(1) s build_graph_wf [OF d]]
    by (simp add: visited_after_start_def)
  moreover have "v \<noteq> s \<longleftrightarrow> et_id (ts ! v) \<noteq> et_id (ts ! s)" if "v < length ts" for v
    using that s d by (auto simp: distinct_conv_nth)
  moreover have "\<exists>v < length ts. et_id (ts ! v) = b" if "(et_id (ts ! s), b) \<in> (blocks_rel ts es)\<^sup>+" for b
    using blocks_rel_ids [OF that] by (auto simp: in_set_conv_nth image_iff)
  ultimately show ?thesis
    using graph_path [OF d s] graph_path_target [OF d] by (auto simp: image_iff) metis+
qed

lemma visited_upstream:
  assumes "petgraph_dfs dfs" and d: "distinct (map et_id ts)" and s: "s < length ts"
  shows "(\<lambda>node. et_id (ts ! node)) ` set (visited_after_start dfs (build_graph ts es) (reversed (bg_edges (build_graph ts es))) s) =
    {b. (b, et_id (ts ! s)) \<in> (blocks_rel ts es)\<^sup>+ \<and> b \<noteq> et_id (ts ! s)}"
proof -
  let ?E = "set (bg_edges (build_graph ts es))"
  have "set (visited_after_start dfs (build_graph ts es) (reversed (bg_edges (build_graph ts es))) s) =
      {v. (v, s) \<in> ?E\<^sup>+ \<and> v \<noteq> s}"
    using petgraph_dfs.dfs_after_start [OF assms(1) s wf_edges_reversed [OF build_graph_wf [OF d]]]
    by (simp add: visited_after_start_def set_reversed trancl_converse del: set_map)
  moreover have "v \<noteq> s \<longleftrightarrow> et_id (ts ! v) \<noteq> et_id (ts ! s)" if "v < length ts" for v
    using that s d by (auto simp: distinct_conv_nth)
  moreover have "\<exists>v < length ts. et_id (ts ! v) = b" if "(b, et_id (ts ! s)) \<in> (blocks_rel ts es)\<^sup>+" for b
    using blocks_rel_ids [OF that] by (auto simp: in_set_conv_nth image_iff)
  ultimately show ?thesis
    using graph_path [OF d _ s] graph_path_target [OF d] by (auto simp: image_iff) metis+
qed

text \<open>
  C19: \<open>transitive_blockers\<close> returns, without repetition, exactly the other existing tickets
  from which a chain of \<open>blocks\<close> edges leads to the ticket.
\<close>

theorem transitive_blockers_correct:
  assumes "petgraph_dfs dfs" and "distinct (map et_id ts)" and "i \<in> et_id ` set ts"
  shows "distinct (transitive_blockers dfs ts es i) \<and>
    set (transitive_blockers dfs ts es i) = {b. (b, i) \<in> (blocks_rel ts es)\<^sup>+ \<and> b \<noteq> i}"
proof -
  obtain s where s: "bg_node_map (build_graph ts es) i = Some s" "s < length ts" "et_id (ts ! s) = i"
    using assms(2,3) build_graph_map_None build_graph_map by (metis not_Some_eq)
  let ?vs = "visited_after_start dfs (build_graph ts es) (reversed (bg_edges (build_graph ts es))) s"
  have eq: "transitive_blockers dfs ts es i = map (\<lambda>node. map et_id ts ! node) ?vs"
    by (simp add: transitive_blockers_def Let_def s)
  have wf: "wf_edges (length ts) (reversed (bg_edges (build_graph ts es)))"
    by (rule wf_edges_reversed [OF build_graph_wf [OF assms(2)]])
  have vs: "set ?vs \<subseteq> {..<length ts}"
    using petgraph_dfs.dfs_after_start [OF assms(1) s(2) wf] graph_path_target [OF assms(2)]
    by (auto simp: visited_after_start_def set_reversed trancl_converse simp del: set_map)
  have "distinct ?vs"
    using petgraph_dfs.dfs_after_start_distinct [OF assms(1) s(2) wf]
    by (simp add: visited_after_start_def)
  moreover have "inj_on ((!) (map et_id ts)) (set ?vs)"
    using vs assms(2) by (intro inj_on_nth) auto
  ultimately have "distinct (map (\<lambda>node. map et_id ts ! node) ?vs)"
    by (simp add: distinct_map)
  moreover have "set (map (\<lambda>node. map et_id ts ! node) ?vs) = (\<lambda>node. et_id (ts ! node)) ` set ?vs"
    using vs by (auto simp: image_iff subset_eq)
  ultimately show ?thesis
    using visited_upstream [OF assms(1,2) s(2)] s(3) eq by simp
qed

lemma compute_blocked_iff:
  "compute_blocked dfs g opn ids = {i \<in> set ids. \<exists>s. bg_node_map g i = Some s \<and>
    (\<exists>v \<in> set (visited_after_start dfs g (reversed (bg_edges g)) s). bg_nodes g ! v \<in> opn)}"
proof -
  let ?hit = "\<lambda>i. \<exists>s. bg_node_map g i = Some s \<and>
    (\<exists>v \<in> set (visited_after_start dfs g (reversed (bg_edges g)) s). bg_nodes g ! v \<in> opn)"
  have "fold (\<lambda>i blocked. case bg_node_map g i of None \<Rightarrow> blocked
      | Some start \<Rightarrow> if list_ex (\<lambda>node. bg_nodes g ! node \<in> opn)
            (visited_after_start dfs g (reversed (bg_edges g)) start)
          then insert i blocked else blocked) ids B = B \<union> {i \<in> set ids. ?hit i}" for B
    by (induction ids arbitrary: B) (auto simp: list_ex_iff split: option.splits)
  then show ?thesis by (simp add: compute_blocked_def)
qed

text \<open>
  C18: \<open>blocked_among\<close> returns exactly those of the given ids that have a transitive blocker
  other than themselves which is not closed; closed tickets in between do not cut the chain.
\<close>

theorem blocked_among_correct:
  assumes "petgraph_dfs dfs" and "distinct (map et_id ts)"
  shows "blocked_among dfs ts es ids =
    {i \<in> set ids. \<exists>b \<in> set ts. (et_id b, i) \<in> (blocks_rel ts es)\<^sup>+ \<and> et_id b \<noteq> i \<and> et_status b \<noteq> ''closed''}"
proof -
  let ?g = "build_graph ts es"
  let ?opn = "set (map et_id (filter (\<lambda>t. et_status t \<noteq> ''closed'') ts))"
  let ?hit = "\<lambda>i. \<exists>s. bg_node_map ?g i = Some s \<and>
    (\<exists>v \<in> set (visited_after_start dfs ?g (reversed (bg_edges ?g)) s). bg_nodes ?g ! v \<in> ?opn)"
  have hit: "?hit i \<longleftrightarrow> (\<exists>b \<in> set ts. (et_id b, i) \<in> (blocks_rel ts es)\<^sup>+ \<and> et_id b \<noteq> i \<and> et_status b \<noteq> ''closed'')"
    (is "_ = ?R i") for i
  proof (cases "bg_node_map ?g i")
    case None
    then have "i \<notin> et_id ` set ts" using build_graph_map_None [OF assms(2)] by simp
    then show ?thesis using None blocks_rel_ids by (metis option.distinct(1))
  next
    case (Some s)
    then have s: "s < length ts" "et_id (ts ! s) = i" using build_graph_map [OF assms(2)] by auto
    have wf: "wf_edges (length ts) (reversed (bg_edges ?g))"
      by (rule wf_edges_reversed [OF build_graph_wf [OF assms(2)]])
    let ?vs = "set (visited_after_start dfs ?g (reversed (bg_edges ?g)) s)"
    have vs: "v < length ts" if "v \<in> ?vs" for v
      using that petgraph_dfs.dfs_after_start [OF assms(1) s(1) wf] graph_path_target [OF assms(2)]
      by (auto simp: visited_after_start_def set_reversed trancl_converse simp del: set_map)
    have "?hit i \<longleftrightarrow> (\<exists>a \<in> (\<lambda>v. et_id (ts ! v)) ` ?vs. a \<in> ?opn)"
      using Some vs by auto
    then show ?thesis
      unfolding visited_upstream [OF assms(1,2) s(1)] s(2) by auto
  qed
  have "blocked_among dfs ts es ids = {i \<in> set ids. ?hit i}"
    by (simp add: blocked_among_def Let_def compute_blocked_iff)
  then show ?thesis by (simp only: hit)
qed

text \<open>
  C20: \<open>would_create_cycle\<close> is exact: on an acyclic graph whose two endpoints exist it answers
  true precisely when the graph with the new edge has a cycle.
\<close>

theorem would_create_cycle_correct:
  assumes "petgraph_path has_path" and "distinct (map et_id ts)"
    and "source \<in> et_id ` set ts" and "target \<in> et_id ` set ts" and "acyclic (blocks_rel ts es)"
  shows "would_create_cycle has_path ts es source target \<longleftrightarrow>
    \<not> acyclic (insert (source, target) (blocks_rel ts es))"
proof -
  obtain a where a: "bg_node_map (build_graph ts es) source = Some a" "a < length ts" "et_id (ts ! a) = source"
    using assms(2,3) build_graph_map_None build_graph_map by (metis not_Some_eq)
  obtain b where b: "bg_node_map (build_graph ts es) target = Some b" "b < length ts" "et_id (ts ! b) = target"
    using assms(2,4) build_graph_map_None build_graph_map by (metis not_Some_eq)
  have eq: "b = a \<longleftrightarrow> target = source"
    using a b assms(2) by (auto simp: distinct_conv_nth)
  have "has_path (length ts) (bg_edges (build_graph ts es)) b a \<longleftrightarrow> (target, source) \<in> (blocks_rel ts es)\<^sup>*"
    using petgraph_path.path_iff [OF assms(1) b(2) a(2) build_graph_wf [OF assms(2)]]
      graph_path [OF assms(2) b(2) a(2)] eq a(3) b(3)
    by (auto simp: rtrancl_eq_or_trancl)
  then show ?thesis
    using assms(5) a(1) b(1) by (auto simp: would_create_cycle_def acyclic_insert)
qed

end
