(* ===== verification/Ticket_Repo.thy ===== *)
theory Ticket_Repo
  imports Ticket_Graph
begin

text \<open>
  The ticket store of \<open>crates/ticket_db/src/ticket_repo.rs\<close> over the five tables of
  \<open>crates/ticket_db/migrations/001_initial.sql\<close>.

  The store is a record of tables, each the list of its rows. A statement computes the next
  tables and is accepted when they satisfy the schema: primary keys are unique and foreign
  keys refer to existing tickets. Postgres checks both kinds of constraint (none is declared
  deferrable) at the end of the statement, the unique ones first, so a statement that fails
  leaves the tables as they were; a method that issues several statements outside a
  transaction keeps the effects of those before the failing one. That a query can also fail
  because the database is unreachable is not modelled.

  The triggers of the ticket tables walk up the parents of every ticket a statement writes, with
  a recursive query that has no cycle check. A statement that would close a parent cycle
  therefore never ends; the model gives it the error \<open>Diverges\<close> and no effect. The
  \<open>ui_events\<close> rows the triggers insert are not modelled.

  Clock readings, random numbers and fresh ids are arguments. How text is ordered is the
  collation argument \<open>le\<close>. The recursive queries (\<open>WITH RECURSIVE ... UNION ALL\<close>) take
  fuel, \<open>None\<close> meaning that the query did not end.
\<close>

subsection \<open>Tables and constraints\<close>

datatype db_error =
    RowNotFound | UniqueViolation | ForeignKeyViolation | NegativeRowCount
  | IntegerOutOfRange | CheckViolation | Diverges | Decode string | Protocol string

record ticket_db =
  db_ticket :: "ExportTicket list"
  db_edge :: "ExportEdge list"
  db_meta :: "ExportMeta list"
  db_activity :: "ExportActivity list"
  db_comments :: "ExportTicketComment list"

abbreviation ticket_ids :: "ticket_db \<Rightarrow> string set" where
  "ticket_ids db \<equiv> et_id ` set (db_ticket db)"

definition edge_key :: "ExportEdge \<Rightarrow> string \<times> string \<times> string" where
  "edge_key e = (ee_source_id e, ee_target_id e, ee_kind e)"

definition meta_key :: "ExportMeta \<Rightarrow> string \<times> string \<times> string" where
  "meta_key m = (em_entity_id m, em_entity_type m, em_key m)"

definition comment_key :: "ExportTicketComment \<Rightarrow> string \<times> string" where
  "comment_key c = (ec_comment_id c, ec_ticket_id c)"

definition unique_ok :: "ticket_db \<Rightarrow> bool" where
  "unique_ok db =
     (distinct (map et_id (db_ticket db)) \<and> distinct (map edge_key (db_edge db)) \<and>
      distinct (map meta_key (db_meta db)) \<and> distinct (map ea_id (db_activity db)) \<and>
      distinct (map comment_key (db_comments db)))"

definition parent_ok :: "ticket_db \<Rightarrow> bool" where
  "parent_ok db = (\<forall>t \<in> set (db_ticket db). case et_parent_id t of None \<Rightarrow> True | Some p \<Rightarrow> p \<in> ticket_ids db)"

definition fk_ok :: "ticket_db \<Rightarrow> bool" where
  "fk_ok db =
     (parent_ok db \<and>
      (\<forall>e \<in> set (db_edge db). ee_source_id e \<in> ticket_ids db \<and> ee_target_id e \<in> ticket_ids db) \<and>
      (\<forall>a \<in> set (db_activity db). ea_ticket_id a \<in> ticket_ids db) \<and>
      (\<forall>c \<in> set (db_comments db). ec_ticket_id c \<in> ticket_ids db))"

definition parent_of :: "ExportTicket list \<Rightarrow> string \<Rightarrow> string option" where
  "parent_of ts i = (case List.find (\<lambda>t. et_id t = i) ts of None \<Rightarrow> None | Some t \<Rightarrow> et_parent_id t)"

text \<open>The walk of the triggers' \<open>ancestors\<close> query, which ends at a ticket without a parent.\<close>

fun ancestors_end :: "nat \<Rightarrow> ExportTicket list \<Rightarrow> string \<Rightarrow> bool" where
  "ancestors_end 0 ts i = False"
| "ancestors_end (Suc fuel) ts i =
     (case parent_of ts i of None \<Rightarrow> True | Some p \<Rightarrow> ancestors_end fuel ts p)"

definition parents_end :: "ExportTicket list \<Rightarrow> bool" where
  "parents_end ts = (\<forall>t \<in> set ts. ancestors_end (length ts) ts (et_id t))"

definition schema_ok :: "ticket_db \<Rightarrow> bool" where
  "schema_ok db = (unique_ok db \<and> fk_ok db \<and> parents_end (db_ticket db))"

definition run_stmt :: "(ticket_db \<Rightarrow> ticket_db) \<Rightarrow> (ticket_db, db_error, unit) op" where
  "run_stmt f db =
     (let db' = f db in
      if \<not> unique_ok db' then (db, Inl UniqueViolation)
      else if \<not> fk_ok db' then (db, Inl ForeignKeyViolation)
      else if \<not> parents_end (db_ticket db') then (db, Inl Diverges)
      else (db', Inr ()))"

definition query :: "(ticket_db \<Rightarrow> 'a) \<Rightarrow> (ticket_db, db_error, 'a) op" where
  "query f db = (db, Inr (f db))"

subsection \<open>Identifiers\<close>

definition BASE36_CHARS :: string where
  "BASE36_CHARS = ''0123456789abcdefghijklmnopqrstuvwxyz''"

text \<open>The random generator is the sequence of numbers below 36 it will produce.\<close>

definition generate_base36 :: "(nat \<Rightarrow> nat) \<Rightarrow> nat \<Rightarrow> string" where
  "generate_base36 rng len = map (\<lambda>k. BASE36_CHARS ! rng k) [0..<len]"

definition random_base36_char :: "(nat \<Rightarrow> nat) \<Rightarrow> nat \<Rightarrow> char" where
  "random_base36_char rng k = BASE36_CHARS ! rng k"

definition extract_hash :: "string \<Rightarrow> string" where
  "extract_hash i = (case split_once (CHR ''-'') i of None \<Rightarrow> i | Some (_, rest) \<Rightarrow> rest)"

definition make_id :: "string \<Rightarrow> string \<Rightarrow> string" where
  "make_id project hash = project @ ''-'' @ hash"

subsection \<open>Creating and reading tickets\<close>

definition new_row :: "string \<Rightarrow> NewTicket \<Rightarrow> string \<Rightarrow> LifecycleStatus \<Rightarrow> string \<Rightarrow> ExportTicket" where
  "new_row i ticket status ls now =
     \<lparr>et_id = i, et_project = nt_project ticket, et_type = nt_type ticket, et_status = status,
      et_lifecycle_status = LifecycleStatus_as_str ls, et_lifecycle_managed = False,
      et_priority = nt_priority ticket, et_parent_id = nt_parent_id ticket,
      et_title = nt_title ticket, et_body = nt_body ticket, et_branch = nt_branch ticket,
      et_created_at = now, et_updated_at = now\<rparr>"

definition insert_ticket ::
  "string \<Rightarrow> NewTicket \<Rightarrow> string \<Rightarrow> LifecycleStatus \<Rightarrow> string \<Rightarrow> (ticket_db, db_error, unit) op" where
  "insert_ticket i ticket status ls now =
     run_stmt (\<lambda>db. db\<lparr>db_ticket := db_ticket db @ [new_row i ticket status ls now]\<rparr>)"

text \<open>The retry loop: \<open>attempts\<close> tries are left, the hash has been built from \<open>k\<close> numbers.\<close>

fun insert_with_generated_id_loop ::
  "nat \<Rightarrow> (nat \<Rightarrow> nat) \<Rightarrow> nat \<Rightarrow> string \<Rightarrow> NewTicket \<Rightarrow> string \<Rightarrow> LifecycleStatus \<Rightarrow> string \<Rightarrow>
     (ticket_db, db_error, string) op" where
  "insert_with_generated_id_loop 0 rng k hash ticket status ls now db =
     (db, Inl (Protocol ''failed to generate unique ticket ID after maximum retries''))"
| "insert_with_generated_id_loop (Suc attempts) rng k hash ticket status ls now db =
     (let i = make_id (nt_project ticket) hash in
      case insert_ticket i ticket status ls now db of
        (db', Inr _) \<Rightarrow> (db', Inr i)
      | (db', Inl UniqueViolation) \<Rightarrow>
          insert_with_generated_id_loop attempts rng (Suc k) (hash @ [random_base36_char rng k])
            ticket status ls now db'
      | (db', Inl e) \<Rightarrow> (db', Inl e))"

definition insert_with_generated_id ::
  "(nat \<Rightarrow> nat) \<Rightarrow> NewTicket \<Rightarrow> string \<Rightarrow> LifecycleStatus \<Rightarrow> string \<Rightarrow> (ticket_db, db_error, string) op" where
  "insert_with_generated_id rng ticket status ls now =
     insert_with_generated_id_loop 6 rng 5 (generate_base36 rng 5) ticket status ls now"

definition create_ticket ::
  "string \<Rightarrow> (nat \<Rightarrow> nat) \<Rightarrow> NewTicket \<Rightarrow> (ticket_db, db_error, Ticket) op" where
  "create_ticket clock rng ticket =
     (let now = opt_or (nt_created_at ticket) clock;
          status = opt_or (nt_status ticket) ''open'';
          ls = opt_or (nt_lifecycle_status ticket) LifecycleStatus_default
      in bindS
           (case nt_id ticket of
              Some provided \<Rightarrow> bindS (insert_ticket provided ticket status ls now) (\<lambda>_. ret provided)
            | None \<Rightarrow> insert_with_generated_id rng ticket status ls now)
           (\<lambda>i. ret
             \<lparr>tk_id = i, tk_project = nt_project ticket, tk_type = nt_type ticket, tk_status = status,
              tk_lifecycle_status = ls, tk_lifecycle_managed = False, tk_priority = nt_priority ticket,
              tk_parent_id = nt_parent_id ticket, tk_title = nt_title ticket, tk_body = nt_body ticket,
              tk_branch = nt_branch ticket, tk_created_at = now, tk_updated_at = now,
              tk_children_completed = 0, tk_children_total = 0\<rparr>))"

definition children_total :: "ExportTicket list \<Rightarrow> string \<Rightarrow> int" where
  "children_total ts i = int (rows_matching (\<lambda>c. et_parent_id c = Some i) ts)"

definition children_completed :: "ExportTicket list \<Rightarrow> string \<Rightarrow> int" where
  "children_completed ts i =
     int (rows_matching (\<lambda>c. et_parent_id c = Some i \<and> et_status c = ''closed'') ts)"

definition ticket_from_row :: "ExportTicket \<Rightarrow> int \<Rightarrow> int \<Rightarrow> Ticket" where
  "ticket_from_row r cc ct =
     \<lparr>tk_id = et_id r, tk_project = et_project r, tk_type = et_type r, tk_status = et_status r,
      tk_lifecycle_status = parse_lifecycle (et_lifecycle_status r),
      tk_lifecycle_managed = et_lifecycle_managed r, tk_priority = et_priority r,
      tk_parent_id = et_parent_id r, tk_title = et_title r, tk_body = et_body r,
      tk_branch = et_branch r, tk_created_at = et_created_at r, tk_updated_at = et_updated_at r,
      tk_children_completed = cc, tk_children_total = ct\<rparr>"

definition row_with_counts :: "ExportTicket list \<Rightarrow> ExportTicket \<Rightarrow> Ticket" where
  "row_with_counts ts r =
     ticket_from_row r (children_completed ts (et_id r)) (children_total ts (et_id r))"

definition get_ticket :: "ticket_db \<Rightarrow> string \<Rightarrow> Ticket option" where
  "get_ticket db i =
     map_option (row_with_counts (db_ticket db)) (List.find (\<lambda>r. et_id r = i) (db_ticket db))"

definition get_ticket_by_id :: "ticket_db \<Rightarrow> string \<Rightarrow> Ticket option" where
  "get_ticket_by_id db i = get_ticket db i"

subsection \<open>Updating a ticket\<close>

definition set_parent_refs :: "string \<Rightarrow> string \<Rightarrow> ticket_db \<Rightarrow> ticket_db" where
  "set_parent_refs old new db = db\<lparr>db_ticket :=
     update_where (\<lambda>t. et_parent_id t = Some old) (\<lambda>t. t\<lparr>et_parent_id := Some new\<rparr>) (db_ticket db)\<rparr>"

definition set_source_refs :: "string \<Rightarrow> string \<Rightarrow> ticket_db \<Rightarrow> ticket_db" where
  "set_source_refs old new db = db\<lparr>db_edge :=
     update_where (\<lambda>e. ee_source_id e = old) (\<lambda>e. e\<lparr>ee_source_id := new\<rparr>) (db_edge db)\<rparr>"

definition set_target_refs :: "string \<Rightarrow> string \<Rightarrow> ticket_db \<Rightarrow> ticket_db" where
  "set_target_refs old new db = db\<lparr>db_edge :=
     update_where (\<lambda>e. ee_target_id e = old) (\<lambda>e. e\<lparr>ee_target_id := new\<rparr>) (db_edge db)\<rparr>"

definition set_activity_refs :: "string \<Rightarrow> string \<Rightarrow> ticket_db \<Rightarrow> ticket_db" where
  "set_activity_refs old new db = db\<lparr>db_activity :=
     update_where (\<lambda>a. ea_ticket_id a = old) (\<lambda>a. a\<lparr>ea_ticket_id := new\<rparr>) (db_activity db)\<rparr>"

definition set_meta_refs :: "string \<Rightarrow> string \<Rightarrow> ticket_db \<Rightarrow> ticket_db" where
  "set_meta_refs old new db = db\<lparr>db_meta :=
     update_where (\<lambda>m. em_entity_id m = old \<and> em_entity_type m = ''ticket'')
       (\<lambda>m. m\<lparr>em_entity_id := new\<rparr>) (db_meta db)\<rparr>"

definition set_comment_refs :: "string \<Rightarrow> string \<Rightarrow> ticket_db \<Rightarrow> ticket_db" where
  "set_comment_refs old new db = db\<lparr>db_comments :=
     update_where (\<lambda>c. ec_ticket_id c = old) (\<lambda>c. c\<lparr>ec_ticket_id := new\<rparr>) (db_comments db)\<rparr>"

definition update_ticket_references :: "string \<Rightarrow> string \<Rightarrow> (ticket_db, db_error, unit) op" where
  "update_ticket_references old new =
     bindS (run_stmt (set_parent_refs old new)) (\<lambda>_.
     bindS (run_stmt (set_source_refs old new)) (\<lambda>_.
     bindS (run_stmt (set_target_refs old new)) (\<lambda>_.
     bindS (run_stmt (set_activity_refs old new)) (\<lambda>_.
     bindS (run_stmt (set_meta_refs old new)) (\<lambda>_.
            run_stmt (set_comment_refs old new))))))"

fun rekey_loop :: "nat \<Rightarrow> (nat \<Rightarrow> nat) \<Rightarrow> nat \<Rightarrow> string \<Rightarrow> string \<Rightarrow> string \<Rightarrow> (ticket_db, db_error, string) op" where
  "rekey_loop 0 rng k old project hash db =
     (db, Inl (Protocol ''failed to generate unique ticket ID after maximum retries''))"
| "rekey_loop (Suc attempts) rng k old project hash db =
     (let new = make_id project hash in
      if new \<in> ticket_ids db
      then rekey_loop attempts rng (Suc k) old project (hash @ [random_base36_char rng k]) db
      else bindS (update_ticket_references old new) (\<lambda>_. ret new) db)"

definition rekey_ticket_id :: "(nat \<Rightarrow> nat) \<Rightarrow> string \<Rightarrow> string \<Rightarrow> string \<Rightarrow> (ticket_db, db_error, string) op" where
  "rekey_ticket_id rng old project hash = rekey_loop 6 rng 0 old project hash"

text \<open>The columns the update writes, with the existing values where the request gives none.\<close>

definition merged_row :: "Ticket \<Rightarrow> TicketUpdate \<Rightarrow> string \<Rightarrow> string \<Rightarrow> ExportTicket" where
  "merged_row existing u new_id now =
     \<lparr>et_id = new_id, et_project = opt_or (tu_project u) (tk_project existing),
      et_type = opt_or (tu_type u) (tk_type existing),
      et_status = opt_or (tu_status u) (tk_status existing),
      et_lifecycle_status =
        LifecycleStatus_as_str (opt_or (tu_lifecycle_status u) (tk_lifecycle_status existing)),
      et_lifecycle_managed = opt_or (tu_lifecycle_managed u) (tk_lifecycle_managed existing),
      et_priority = opt_or (tu_priority u) (tk_priority existing),
      et_parent_id = (case tu_parent_id u of Some p \<Rightarrow> p | None \<Rightarrow> tk_parent_id existing),
      et_title = opt_or (tu_title u) (tk_title existing),
      et_body = opt_or (tu_body u) (tk_body existing),
      et_branch = (case tu_branch u of Some b \<Rightarrow> b | None \<Rightarrow> tk_branch existing),
      et_created_at = tk_created_at existing, et_updated_at = now\<rparr>"

definition write_row :: "string \<Rightarrow> ExportTicket \<Rightarrow> ticket_db \<Rightarrow> ticket_db" where
  "write_row i row db = db\<lparr>db_ticket :=
     update_where (\<lambda>t. et_id t = i) (\<lambda>t. row\<lparr>et_created_at := et_created_at t\<rparr>) (db_ticket db)\<rparr>"

definition update_ticket ::
  "string \<Rightarrow> (nat \<Rightarrow> nat) \<Rightarrow> string \<Rightarrow> TicketUpdate \<Rightarrow> (ticket_db, db_error, Ticket) op" where
  "update_ticket now rng i u db =
     (case get_ticket db i of
        None \<Rightarrow> (db, Inl RowNotFound)
      | Some existing \<Rightarrow>
          let project = opt_or (tu_project u) (tk_project existing) in
          bindS
            (if project \<noteq> tk_project existing
             then rekey_ticket_id rng i project (extract_hash i)
             else ret i)
            (\<lambda>new_id.
               let row = merged_row existing u new_id now in
               bindS (run_stmt (write_row i row)) (\<lambda>_. ret (ticket_from_row row 0 0)))
            db)"

subsection \<open>Filtered and paginated listing\<close>

type_synonym coll = "string \<Rightarrow> string \<Rightarrow> bool"

definition matches_filter :: "TicketFilter \<Rightarrow> ExportTicket \<Rightarrow> bool" where
  "matches_filter f t =
     ((case tf_project f of None \<Rightarrow> True | Some p \<Rightarrow> et_project t = p) \<and>
      (tf_statuses f \<noteq> [] \<longrightarrow> et_status t \<in> set (tf_statuses f)) \<and>
      (case tf_type f of None \<Rightarrow> True | Some y \<Rightarrow> et_type t = y) \<and>
      (case tf_parent_id f of None \<Rightarrow> True | Some p \<Rightarrow> et_parent_id t = Some p) \<and>
      (case tf_lifecycle_status f of
         None \<Rightarrow> True | Some s \<Rightarrow> et_lifecycle_status t = LifecycleStatus_as_str s))"

definition ticket_filter_clause :: "TicketFilter \<Rightarrow> bool \<Rightarrow> ExportTicket \<Rightarrow> bool" where
  "ticket_filter_clause f include_children t =
     ((\<not> include_children \<and> tf_parent_id f = None \<longrightarrow> et_parent_id t = None) \<and> matches_filter f t)"

definition by_priority_created :: "coll \<Rightarrow> ExportTicket \<Rightarrow> ExportTicket \<Rightarrow> bool" where
  "by_priority_created le = then_by (on_key (\<le>) et_priority) (on_key le et_created_at)"

definition count_filtered_tickets :: "ticket_db \<Rightarrow> (ExportTicket \<Rightarrow> bool) \<Rightarrow> int" where
  "count_filtered_tickets db p = int (rows_matching p (db_ticket db))"

text \<open>\<open>LIMIT\<close> and \<open>OFFSET\<close>; Postgres rejects a negative value.\<close>

definition limit_offset :: "int \<Rightarrow> int \<Rightarrow> 'a list \<Rightarrow> db_error + 'a list" where
  "limit_offset l off xs =
     (if l < 0 \<or> off < 0 then Inl NegativeRowCount else Inr (take (nat l) (drop (nat off) xs)))"

definition fetch_filtered_tickets ::
  "coll \<Rightarrow> ticket_db \<Rightarrow> (ExportTicket \<Rightarrow> bool) \<Rightarrow> int option \<Rightarrow> int \<Rightarrow> db_error + Ticket list" where
  "fetch_filtered_tickets le db p page_size offset =
     (let rows = order_by (by_priority_created le) (filter p (db_ticket db)) in
      and_then (case page_size of None \<Rightarrow> Inr rows | Some l \<Rightarrow> limit_offset l offset rows)
        (\<lambda>rs. Inr (map (row_with_counts (db_ticket db)) rs)))"

definition list_tickets_paginated ::
  "coll \<Rightarrow> ticket_db \<Rightarrow> TicketFilter \<Rightarrow> int option \<Rightarrow> int \<Rightarrow> bool \<Rightarrow> db_error + (Ticket list \<times> int)" where
  "list_tickets_paginated le db f page_size offset include_children =
     (let clause = ticket_filter_clause f include_children;
          total_count = count_filtered_tickets db clause
      in and_then (fetch_filtered_tickets le db clause page_size offset)
           (\<lambda>tickets. Inr (tickets, total_count)))"

definition list_tickets :: "coll \<Rightarrow> ticket_db \<Rightarrow> TicketFilter \<Rightarrow> Ticket list" where
  "list_tickets le db f =
     map (row_with_counts (db_ticket db))
       (order_by (by_priority_created le) (filter (matches_filter f) (db_ticket db)))"

definition get_tickets_by_ids :: "coll \<Rightarrow> ticket_db \<Rightarrow> string list \<Rightarrow> Ticket list" where
  "get_tickets_by_ids le db ids =
     (if ids = [] then []
      else map (\<lambda>r. ticket_from_row r 0 0)
             (order_by (by_priority_created le) (filter (\<lambda>r. et_id r \<in> set ids) (db_ticket db))))"

definition tickets_by_lifecycle_status :: "coll \<Rightarrow> ticket_db \<Rightarrow> LifecycleStatus \<Rightarrow> Ticket list" where
  "tickets_by_lifecycle_status le db s =
     map (\<lambda>r. ticket_from_row r 0 0)
       (order_by (by_priority_created le)
          (filter (\<lambda>r. et_lifecycle_status r = LifecycleStatus_as_str s) (db_ticket db)))"

subsection \<open>Trees\<close>

text \<open>
  A recursive query keeps a working table: each round joins the tickets with the rows found in
  the last round, until a round finds nothing.
\<close>

definition join_children ::
  "(ExportTicket \<Rightarrow> bool) \<Rightarrow> ExportTicket list \<Rightarrow> (ExportTicket \<times> int) list \<Rightarrow> (ExportTicket \<times> int) list" where
  "join_children p ts w =
     concat (map (\<lambda>t. map (\<lambda>(r, d). (t, d + 1))
                        (filter (\<lambda>(r, d). et_parent_id t = Some (et_id r) \<and> p t) w)) ts)"

fun cte_rounds ::
  "nat \<Rightarrow> (ExportTicket \<Rightarrow> bool) \<Rightarrow> ExportTicket list \<Rightarrow> (ExportTicket \<times> int) list \<Rightarrow>
     (ExportTicket \<times> int) list option" where
  "cte_rounds fuel p ts [] = Some []"
| "cte_rounds 0 p ts (x # w) = None"
| "cte_rounds (Suc fuel) p ts (x # w) =
     map_option (\<lambda>rest. (x # w) @ rest) (cte_rounds fuel p ts (join_children p ts (x # w)))"

definition by_depth_priority_created :: "coll \<Rightarrow> ExportTicket \<times> int \<Rightarrow> ExportTicket \<times> int \<Rightarrow> bool" where
  "by_depth_priority_created le =
     then_by (on_key (\<le>) snd) (on_key (by_priority_created le) fst)"

definition list_ticket_tree ::
  "coll \<Rightarrow> nat \<Rightarrow> ticket_db \<Rightarrow> string \<Rightarrow> string option \<Rightarrow> (Ticket \<times> int) list option" where
  "list_ticket_tree le fuel db root status_filter =
     (let p = (case status_filter of None \<Rightarrow> (\<lambda>_. True) | Some st \<Rightarrow> (\<lambda>t. et_status t = st));
          start = map (\<lambda>t. (t, 0)) (filter (\<lambda>t. et_id t = root) (db_ticket db))
      in map_option
           (\<lambda>rows. map (\<lambda>(r, d). (ticket_from_row r 0 0, d)) (order_by (by_depth_priority_created le) rows))
           (cte_rounds fuel p (db_ticket db) start))"

subsection \<open>Metadata, edges, activities\<close>

definition upsert_meta :: "ExportMeta \<Rightarrow> ExportMeta list \<Rightarrow> ExportMeta list" where
  "upsert_meta m ms =
     (if meta_key m \<in> meta_key ` set ms
      then update_where (\<lambda>r. meta_key r = meta_key m) (\<lambda>r. r\<lparr>em_value := em_value m\<rparr>) ms
      else ms @ [m])"

definition set_meta :: "string \<Rightarrow> string \<Rightarrow> string \<Rightarrow> string \<Rightarrow> (ticket_db, db_error, unit) op" where
  "set_meta entity_id entity_type key val =
     run_stmt (\<lambda>db. db\<lparr>db_meta := upsert_meta
       \<lparr>em_entity_id = entity_id, em_entity_type = entity_type, em_key = key, em_value = val\<rparr> (db_meta db)\<rparr>)"

definition get_meta :: "ticket_db \<Rightarrow> string \<Rightarrow> string \<Rightarrow> (string \<rightharpoonup> string)" where
  "get_meta db entity_id entity_type =
     map_of (map (\<lambda>m. (em_key m, em_value m))
       (filter (\<lambda>m. em_entity_id m = entity_id \<and> em_entity_type m = entity_type) (db_meta db)))"

definition delete_meta :: "string \<Rightarrow> string \<Rightarrow> string \<Rightarrow> (ticket_db, db_error, unit) op" where
  "delete_meta entity_id entity_type key =
     run_stmt (\<lambda>db. db\<lparr>db_meta := delete_where
       (\<lambda>m. em_entity_id m = entity_id \<and> em_entity_type m = entity_type \<and> em_key m = key) (db_meta db)\<rparr>)"

definition insert_if_absent :: "('r \<Rightarrow> 'k) \<Rightarrow> 'r \<Rightarrow> 'r list \<Rightarrow> 'r list" where
  "insert_if_absent k r rs = (if k r \<in> k ` set rs then rs else rs @ [r])"

definition add_edge :: "string \<Rightarrow> string \<Rightarrow> EdgeKind \<Rightarrow> (ticket_db, db_error, unit) op" where
  "add_edge source target kind =
     run_stmt (\<lambda>db. db\<lparr>db_edge := insert_if_absent edge_key
       \<lparr>ee_source_id = source, ee_target_id = target, ee_kind = edge_kind_to_str kind\<rparr> (db_edge db)\<rparr>)"

definition remove_edge :: "string \<Rightarrow> string \<Rightarrow> EdgeKind \<Rightarrow> (ticket_db, db_error, unit) op" where
  "remove_edge source target kind =
     run_stmt (\<lambda>db. db\<lparr>db_edge := delete_where
       (\<lambda>e. ee_source_id e = source \<and> ee_target_id e = target \<and> ee_kind e = edge_kind_to_str kind) (db_edge db)\<rparr>)"

definition edges_for :: "ticket_db \<Rightarrow> string \<Rightarrow> EdgeKind option \<Rightarrow> Edge list" where
  "edges_for db i kind =
     map (\<lambda>e. \<lparr>ed_source_id = ee_source_id e, ed_target_id = ee_target_id e, ed_kind = edge_kind_from_str (ee_kind e)\<rparr>)
       (filter (\<lambda>e. (ee_source_id e = i \<or> ee_target_id e = i) \<and>
                    (case kind of None \<Rightarrow> True | Some k \<Rightarrow> ee_kind e = edge_kind_to_str k)) (db_edge db))"

definition add_activity ::
  "string \<Rightarrow> string \<Rightarrow> string \<Rightarrow> string \<Rightarrow> string \<Rightarrow> (ticket_db, db_error, Activity) op" where
  "add_activity uuid now ticket_id author message =
     bindS (run_stmt (\<lambda>db. db\<lparr>db_activity := db_activity db @
         [\<lparr>ea_id = uuid, ea_ticket_id = ticket_id, ea_timestamp = now, ea_author = author, ea_message = message\<rparr>]\<rparr>))
       (\<lambda>_. ret \<lparr>ac_id = uuid, ac_ticket_id = ticket_id, ac_timestamp = now, ac_author = author, ac_message = message\<rparr>)"

definition activity_from_row :: "ExportActivity \<Rightarrow> Activity" where
  "activity_from_row a = \<lparr>ac_id = ea_id a, ac_ticket_id = ea_ticket_id a, ac_timestamp = ea_timestamp a,
     ac_author = ea_author a, ac_message = ea_message a\<rparr>"

definition get_activities :: "coll \<Rightarrow> ticket_db \<Rightarrow> string \<Rightarrow> Activity list" where
  "get_activities le db ticket_id =
     map activity_from_row (order_by (on_key le ea_timestamp)
       (filter (\<lambda>a. ea_ticket_id a = ticket_id) (db_activity db)))"

definition get_activities_by_author :: "coll \<Rightarrow> ticket_db \<Rightarrow> string \<Rightarrow> string \<Rightarrow> Activity list" where
  "get_activities_by_author le db ticket_id author =
     map activity_from_row (order_by (on_key le ea_timestamp)
       (filter (\<lambda>a. ea_ticket_id a = ticket_id \<and> ea_author a = author) (db_activity db)))"

definition meta_join :: "ticket_db \<Rightarrow> (ExportMeta \<Rightarrow> bool) \<Rightarrow> (ExportTicket \<times> ExportMeta) list" where
  "meta_join db p =
     concat (map (\<lambda>t. map (Pair t)
       (filter (\<lambda>m. em_entity_id m = et_id t \<and> em_entity_type m = ''ticket'' \<and> p m) (db_meta db))) (db_ticket db))"

definition metadata_match :: "ExportTicket \<times> ExportMeta \<Rightarrow> MetadataMatchTicket" where
  "metadata_match tm = (case tm of (t, m) \<Rightarrow>
     \<lparr>mm_id = et_id t, mm_title = et_title t, mm_type = et_type t, mm_status = et_status t,
      mm_key = em_key m, mm_value = em_value m\<rparr>)"

definition tickets_by_metadata :: "ticket_db \<Rightarrow> string \<Rightarrow> string \<Rightarrow> MetadataMatchTicket list" where
  "tickets_by_metadata db key val =
     map metadata_match (order_by (on_key (\<le>) (et_priority \<circ> fst))
       (meta_join db (\<lambda>m. em_key m = key \<and> em_value m = val)))"

definition tickets_with_metadata_key :: "ticket_db \<Rightarrow> string \<Rightarrow> MetadataMatchTicket list" where
  "tickets_with_metadata_key db key =
     map metadata_match (order_by (on_key (\<le>) (et_priority \<circ> fst)) (meta_join db (\<lambda>m. em_key m = key)))"

subsection \<open>Dispatchable tickets and epics\<close>

definition filter_dispatchable :: "ExportTicket list \<Rightarrow> string set \<Rightarrow> DispatchableTicket list" where
  "filter_dispatchable children blocked =
     map (\<lambda>t. \<lparr>dt_id = et_id t, dt_title = et_title t, dt_priority = et_priority t, dt_type = et_type t\<rparr>)
       (filter (\<lambda>t. is_ok_and (TicketType_from_str (et_type t)) is_dispatchable)
          (filter (\<lambda>t. et_id t \<notin> blocked) children))"

definition dispatchable_tickets ::
  "dfs_fun \<Rightarrow> nat \<Rightarrow> ticket_db \<Rightarrow> string \<Rightarrow> string option \<Rightarrow> DispatchableTicket list option" where
  "dispatchable_tickets dfs fuel db epic project =
     (let ts = db_ticket db;
          start = map (\<lambda>t. (t, 0)) (filter (\<lambda>t. et_parent_id t = Some epic) ts);
          wanted = (\<lambda>t. et_status t = ''open'' \<and>
                        (case project of None \<Rightarrow> True | Some p \<Rightarrow> et_project t = p))
      in map_option
           (\<lambda>rows.
              let children = order_by (on_key (\<le>) et_priority) (filter wanted (map fst rows));
                  blocked = blocked_among dfs ts (db_edge db) (map et_id children)
              in filter_dispatchable children blocked)
           (cte_rounds fuel (\<lambda>_. True) ts start))"

definition epic_all_children_closed :: "ticket_db \<Rightarrow> string \<Rightarrow> bool" where
  "epic_all_children_closed db epic =
     (rows_matching (\<lambda>t. et_parent_id t = Some epic \<and> et_status t \<noteq> ''closed'') (db_ticket db) = 0)"

definition close_open_children :: "string \<Rightarrow> (ticket_db, db_error, nat) op" where
  "close_open_children epic db =
     bindS (run_stmt (\<lambda>db. db\<lparr>db_ticket := update_where
         (\<lambda>t. et_parent_id t = Some epic \<and> et_status t \<noteq> ''closed'') (\<lambda>t. t\<lparr>et_status := ''closed''\<rparr>) (db_ticket db)\<rparr>))
       (\<lambda>_. ret (rows_matching (\<lambda>t. et_parent_id t = Some epic \<and> et_status t \<noteq> ''closed'') (db_ticket db))) db"

definition get_ticket_children_counts :: "ticket_db \<Rightarrow> string \<Rightarrow> int \<times> int" where
  "get_ticket_children_counts db i =
     (let total = children_total (db_ticket db) i;
          closed = children_completed (db_ticket db) i
      in (total - closed, closed))"

subsection \<open>Comments\<close>

definition insert_ticket_comment ::
  "string \<Rightarrow> string \<Rightarrow> string \<Rightarrow> int \<Rightarrow> string \<Rightarrow> (ticket_db, db_error, unit) op" where
  "insert_ticket_comment now comment_id ticket_id pr_number gh_repo =
     run_stmt (\<lambda>db. db\<lparr>db_comments := db_comments db @
       [\<lparr>ec_comment_id = comment_id, ec_ticket_id = ticket_id, ec_pr_number = pr_number, ec_gh_repo = gh_repo,
         ec_reply_posted = False, ec_created_at = now\<rparr>]\<rparr>)"

definition comment_from_row :: "ExportTicketComment \<Rightarrow> TicketComment" where
  "comment_from_row c = \<lparr>tc_comment_id = ec_comment_id c, tc_ticket_id = ec_ticket_id c, tc_pr_number = ec_pr_number c,
     tc_gh_repo = ec_gh_repo c, tc_reply_posted = ec_reply_posted c, tc_created_at = ec_created_at c\<rparr>"

definition get_pending_replies :: "coll \<Rightarrow> ticket_db \<Rightarrow> TicketComment list" where
  "get_pending_replies le db =
     map comment_from_row (order_by (on_key le ec_created_at) (filter (\<lambda>c. \<not> ec_reply_posted c) (db_comments db)))"

definition mark_reply_posted :: "string \<Rightarrow> string \<Rightarrow> (ticket_db, db_error, unit) op" where
  "mark_reply_posted comment_id ticket_id =
     run_stmt (\<lambda>db. db\<lparr>db_comments := update_where
       (\<lambda>c. ec_comment_id c = comment_id \<and> ec_ticket_id c = ticket_id) (\<lambda>c. c\<lparr>ec_reply_posted := True\<rparr>) (db_comments db)\<rparr>)"

end
