(* ===== verification/Ticket_Repo_Props.thy ===== *)
theory Ticket_Repo_Props
  imports Ticket_Repo
begin

text \<open>
  What the ticket store guarantees: every operation keeps the schema's constraints; creating
  and updating a ticket is read back; ids are generated by bounded retries; pages partition
  the filtered list; the recursive queries end on acyclic parents and return the descendants;
  the dispatchable tickets of an epic are its open, unblocked descendants; and moving a ticket
  that something refers to is refused by the foreign keys.
\<close>

subsection \<open>Parents\<close>

definition parent_rel :: "ExportTicket list \<Rightarrow> (string \<times> string) set" where
  "parent_rel ts = {(p, c). \<exists>t \<in> set ts. et_id t = c \<and> et_parent_id t = Some p}"

lemma finite_parent_rel: "finite (parent_rel ts)"
proof -
  have "parent_rel ts \<subseteq> (\<lambda>t. (the (et_parent_id t), et_id t)) ` set ts"
    by (force simp: parent_rel_def image_iff)
  then show ?thesis by (rule finite_subset) simp
qed

lemma parent_of_Some:
  assumes "distinct (map et_id ts)"
  shows "parent_of ts i = Some p \<longleftrightarrow> (p, i) \<in> parent_rel ts"
proof -
  have "parent_of ts i = Some p \<longleftrightarrow> (\<exists>t. List.find (\<lambda>t. et_id t = i) ts = Some t \<and> et_parent_id t = Some p)"
    by (auto simp: parent_of_def split: option.splits)
  also have "\<dots> \<longleftrightarrow> (p, i) \<in> parent_rel ts"
    by (auto simp: find_key_eq_Some [OF assms] parent_rel_def)
  finally show ?thesis .
qed

text \<open>Following a step of a finite acyclic relation loses at least one reachable point.\<close>

lemma card_reach_less:
  assumes "finite R" and "acyclic R" and "(a, b) \<in> R"
  shows "card {x. (x, a) \<in> R\<^sup>+} < card {x. (x, b) \<in> R\<^sup>+}"
    and "card {x. (b, x) \<in> R\<^sup>+} < card {x. (a, x) \<in> R\<^sup>+}"
proof -
  have "{x. (x, y) \<in> R\<^sup>+} \<subseteq> Domain R" "{x. (y, x) \<in> R\<^sup>+} \<subseteq> Range R" for y
    by (auto simp: Domain_iff Range_iff dest: tranclD tranclD2)
  then have fin: "finite {x. (x, y) \<in> R\<^sup>+}" "finite {x. (y, x) \<in> R\<^sup>+}" for y
    by (meson assms(1) finite_Domain finite_Range finite_subset)+
  have "{x. (x, a) \<in> R\<^sup>+} \<subset> {x. (x, b) \<in> R\<^sup>+}"
    using assms(2,3) by (auto simp: acyclic_def intro: trancl_into_trancl)
  then show "card {x. (x, a) \<in> R\<^sup>+} < card {x. (x, b) \<in> R\<^sup>+}"
    by (rule psubset_card_mono [OF fin(1)])
  have "{x. (b, x) \<in> R\<^sup>+} \<subset> {x. (a, x) \<in> R\<^sup>+}"
    using assms(2,3) by (auto simp: acyclic_def intro: trancl_into_trancl2)
  then show "card {x. (b, x) \<in> R\<^sup>+} < card {x. (a, x) \<in> R\<^sup>+}"
    by (rule psubset_card_mono [OF fin(2)])
qed

lemma ancestors_end_acyclic:
  assumes "distinct (map et_id ts)" and "acyclic (parent_rel ts)"
    and "card {a. (a, i) \<in> (parent_rel ts)\<^sup>+} < fuel"
  shows "ancestors_end fuel ts i"
  using assms(3)
proof (induction fuel arbitrary: i)
  case (Suc fuel)
  show ?case
  proof (cases "parent_of ts i")
    case (Some p)
    then have "(p, i) \<in> parent_rel ts" by (simp add: parent_of_Some [OF assms(1)])
    then have "card {a. (a, p) \<in> (parent_rel ts)\<^sup>+} < fuel"
      using card_reach_less(1) [OF finite_parent_rel assms(2)] Suc.prems by fastforce
    then show ?thesis using Suc.IH Some by simp
  qed simp
qed simp

lemma ancestors_end_cycle:
  assumes "distinct (map et_id ts)" and "(i, i) \<in> (parent_rel ts)\<^sup>+"
  shows "\<not> ancestors_end fuel ts i"
  using assms(2)
proof (induction fuel arbitrary: i)
  case (Suc fuel)
  then obtain p where p: "(p, i) \<in> parent_rel ts" "(i, p) \<in> (parent_rel ts)\<^sup>*"
    by (meson tranclD2)
  then have "(p, p) \<in> (parent_rel ts)\<^sup>+" by (meson rtrancl_into_trancl2)
  with p(1) Suc.IH show ?case by (simp add: parent_of_Some [OF assms(1), symmetric])
qed simp

lemma ancestors_in_tickets:
  assumes "\<forall>t \<in> set ts. set_option (et_parent_id t) \<subseteq> et_id ` set ts"
  shows "{a. (a, i) \<in> (parent_rel ts)\<^sup>+} \<subseteq> et_id ` set ts"
proof -
  have "a \<in> et_id ` set ts" if "(a, i) \<in> (parent_rel ts)\<^sup>+" for a
    using that assms by (induction rule: converse_trancl_induct) (auto simp: parent_rel_def)
  then show ?thesis by blast
qed

text \<open>The triggers end on every ticket exactly when the parents have no cycle.\<close>

lemma parents_end_iff:
  assumes d: "distinct (map et_id ts)"
    and p: "\<forall>t \<in> set ts. set_option (et_parent_id t) \<subseteq> et_id ` set ts"
  shows "parents_end ts \<longleftrightarrow> acyclic (parent_rel ts)"
proof
  assume "parents_end ts"
  show "acyclic (parent_rel ts)"
  proof (rule acyclicI, rule)
    fix i show "(i, i) \<notin> (parent_rel ts)\<^sup>+"
    proof
      assume c: "(i, i) \<in> (parent_rel ts)\<^sup>+"
      then obtain t where "t \<in> set ts" "et_id t = i"
        using ancestors_in_tickets [OF p, of i] by auto
      with \<open>parents_end ts\<close> ancestors_end_cycle [OF d c] show False
        by (auto simp: parents_end_def)
    qed
  qed
next
  assume ac: "acyclic (parent_rel ts)"
  have "ancestors_end (length ts) ts (et_id t)" if t: "t \<in> set ts" for t
  proof (rule ancestors_end_acyclic [OF d ac])
    have "{a. (a, et_id t) \<in> (parent_rel ts)\<^sup>+} \<subset> et_id ` set ts"
      using ancestors_in_tickets [OF p, of "et_id t"] ac t by (auto simp: acyclic_def)
    then have "card {a. (a, et_id t) \<in> (parent_rel ts)\<^sup>+} < card (et_id ` set ts)"
      by (intro psubset_card_mono) auto
    then show "card {a. (a, et_id t) \<in> (parent_rel ts)\<^sup>+} < length ts"
      using card_image_le [of "set ts" et_id] card_length [of ts] by simp
  qed
  then show "parents_end ts" by (simp add: parents_end_def)
qed

lemma parent_ok_iff:
  "parent_ok db \<longleftrightarrow> (\<forall>t \<in> set (db_ticket db). set_option (et_parent_id t) \<subseteq> ticket_ids db)"
  by (auto simp: parent_ok_def split: option.splits)

lemma schema_ok_iff:
  "schema_ok db \<longleftrightarrow> unique_ok db \<and> fk_ok db \<and> acyclic (parent_rel (db_ticket db))"
  using parents_end_iff [of "db_ticket db"]
  by (auto simp: schema_ok_def unique_ok_def fk_ok_def parent_ok_iff)

lemmas schema_defs = schema_ok_iff unique_ok_def fk_ok_def parent_ok_iff

subsection \<open>Statements\<close>

lemma run_stmt_ok: "schema_ok (f db) \<Longrightarrow> run_stmt f db = (f db, Inr ())"
  by (simp add: run_stmt_def schema_ok_def Let_def)

lemma run_stmt_fk:
  "unique_ok (f db) \<Longrightarrow> \<not> fk_ok (f db) \<Longrightarrow> run_stmt f db = (db, Inl ForeignKeyViolation)"
  by (simp add: run_stmt_def Let_def)

lemma run_stmt_unique: "\<not> unique_ok (f db) \<Longrightarrow> run_stmt f db = (db, Inl UniqueViolation)"
  by (simp add: run_stmt_def Let_def)

lemma run_stmt_cases:
  obtains "run_stmt f db = (f db, Inr ())" "schema_ok (f db)"
  | "run_stmt f db = (db, Inl UniqueViolation)" "\<not> unique_ok (f db)"
  | "run_stmt f db = (db, Inl ForeignKeyViolation)" "unique_ok (f db)" "\<not> fk_ok (f db)"
  | "run_stmt f db = (db, Inl Diverges)" "unique_ok (f db)" "fk_ok (f db)" "\<not> schema_ok (f db)"
  by (auto simp: run_stmt_def schema_ok_def Let_def split: if_splits)

interpretation ticket_store: constrained_store schema_ok run_stmt
  by unfold_locales (auto simp: run_stmt_def schema_ok_def Let_def)

lemmas preserves_run_stmt [simp, intro] = ticket_store.stmt_preserves

lemma preserves_insert_ticket [simp, intro]: "preserves schema_ok (insert_ticket i t st ls now)"
  by (simp add: insert_ticket_def preserves_run_stmt)

lemma preserves_generated [simp, intro]:
  "preserves schema_ok (insert_with_generated_id_loop n rng k hash t st ls now)"
proof (induction n arbitrary: k hash)
  case 0
  show ?case by (rule preservesI) simp
next
  case (Suc n)
  show ?case
  proof (rule preservesI)
    fix db assume "schema_ok db"
    then have "schema_ok (fst (insert_ticket (make_id (nt_project t) hash) t st ls now db))"
      by (rule preservesD [OF preserves_insert_ticket])
    then show "schema_ok (fst (insert_with_generated_id_loop (Suc n) rng k hash t st ls now db))"
      using Suc.IH by (auto simp: Let_def preserves_def split: prod.splits sum.splits db_error.splits)
  qed
qed

lemma preserves_create_ticket: "preserves schema_ok (create_ticket clock rng t)"
  unfolding create_ticket_def Let_def
  by (intro preserves_bindS)
     (auto simp: insert_with_generated_id_def split: option.splits)

lemma preserves_references [simp, intro]: "preserves schema_ok (update_ticket_references old new)"
  unfolding update_ticket_references_def by (intro preserves_bindS preserves_run_stmt)

lemma preserves_rekey [simp, intro]: "preserves schema_ok (rekey_loop n rng k old project hash)"
proof (induction n arbitrary: k hash)
  case 0
  show ?case by (rule preservesI) simp
next
  case (Suc n)
  have "preserves schema_ok (bindS (update_ticket_references old (make_id project hash))
      (\<lambda>_. ret (make_id project hash)))"
    by (intro preserves_bindS) auto
  with Suc.IH show ?case by (auto simp: preserves_def Let_def)
qed

lemma preserves_update_ticket: "preserves schema_ok (update_ticket now rng i u)"
proof (rule preservesI)
  fix db assume "schema_ok db"
  moreover have "preserves schema_ok
      (bindS (if p \<noteq> q then rekey_ticket_id rng i p h else ret i)
        (\<lambda>new_id. let row = merged_row existing u new_id now in
           bindS (run_stmt (write_row i row)) (\<lambda>_. ret (ticket_from_row row 0 0))))" for p q h existing
    by (auto simp: rekey_ticket_id_def Let_def intro!: preserves_bindS)
  ultimately show "schema_ok (fst (update_ticket now rng i u db))"
    by (auto simp: update_ticket_def Let_def preserves_def split: option.splits)
qed

lemma preserves_close_open_children: "preserves schema_ok (close_open_children epic)"
proof (rule preservesI)
  fix db assume "schema_ok db"
  then show "schema_ok (fst (close_open_children epic db))"
    unfolding close_open_children_def
    by (rule preservesD [OF preserves_bindS [OF preserves_run_stmt preserves_ret]])
qed


subsection \<open>Creating\<close>

lemma schema_append_ticket:
  assumes "schema_ok db" and "et_id row \<notin> ticket_ids db"
    and "set_option (et_parent_id row) \<subseteq> ticket_ids db"
  shows "schema_ok (db\<lparr>db_ticket := db_ticket db @ [row]\<rparr>)"
proof -
  let ?R = "parent_rel (db_ticket db)"
  have "acyclic (parent_rel (db_ticket db @ [row]))"
  proof (cases "et_parent_id row")
    case None
    then have "parent_rel (db_ticket db @ [row]) = ?R" by (auto simp: parent_rel_def)
    then show ?thesis using assms(1) by (simp add: schema_ok_iff)
  next
    case (Some p)
    then have "parent_rel (db_ticket db @ [row]) = insert (p, et_id row) ?R" by (auto simp: parent_rel_def)
    moreover have "(et_id row, x) \<notin> ?R" for x
      using assms(1,2) by (force simp: schema_defs parent_rel_def)
    then have "(et_id row, p) \<notin> ?R\<^sup>*"
      using assms(2,3) Some by (auto elim: converse_rtranclE)
    ultimately show ?thesis using assms(1) by (simp add: schema_ok_iff acyclic_insert)
  qed
  then show ?thesis using assms by (auto simp: schema_defs)
qed

lemma unique_append_ticket:
  "schema_ok db \<Longrightarrow> unique_ok (db\<lparr>db_ticket := db_ticket db @ [row]\<rparr>) \<longleftrightarrow> et_id row \<notin> ticket_ids db"
  by (auto simp: schema_ok_def unique_ok_def)

lemma new_row_simps [simp]:
  "et_id (new_row i t st ls now) = i"
  "et_parent_id (new_row i t st ls now) = nt_parent_id t"
  by (simp_all add: new_row_def)

text \<open>The id tried after \<open>k\<close> collisions.\<close>

definition candidate_id :: "(nat \<Rightarrow> nat) \<Rightarrow> string \<Rightarrow> nat \<Rightarrow> string" where
  "candidate_id rng project k = make_id project (generate_base36 rng (5 + k))"

lemma generate_base36_Suc:
  "generate_base36 rng k @ [random_base36_char rng k] = generate_base36 rng (Suc k)"
  by (simp add: generate_base36_def random_base36_char_def)

lemma generated_loop_first_free:
  assumes "schema_ok db"
    and "set_option (nt_parent_id t) \<subseteq> ticket_ids db"
    and "candidate_id rng (nt_project t) (j + m) \<notin> ticket_ids db"
    and "\<forall>i < m. candidate_id rng (nt_project t) (j + i) \<in> ticket_ids db"
    and "m < n"
  shows "insert_with_generated_id_loop n rng (5 + j) (generate_base36 rng (5 + j)) t st ls now db =
    (db\<lparr>db_ticket := db_ticket db @ [new_row (candidate_id rng (nt_project t) (j + m)) t st ls now]\<rparr>,
     Inr (candidate_id rng (nt_project t) (j + m)))"
  using assms
proof (induction n arbitrary: j m)
  case (Suc n)
  let ?i = "make_id (nt_project t) (generate_base36 rng (5 + j))"
  have c: "candidate_id rng (nt_project t) j = ?i" by (simp add: candidate_id_def)
  show ?case
  proof (cases m)
    case 0
    then have "schema_ok (db\<lparr>db_ticket := db_ticket db @ [new_row ?i t st ls now]\<rparr>)"
      using Suc.prems c by (intro schema_append_ticket) auto
    then show ?thesis
      using 0 c by (simp add: Let_def insert_ticket_def run_stmt_ok)
  next
    case (Suc m')
    then have taken: "?i \<in> ticket_ids db"
      using Suc.prems(4) c by (metis add_0_right zero_less_Suc)
    then have "insert_ticket ?i t st ls now db = (db, Inl UniqueViolation)"
      unfolding insert_ticket_def
      by (intro run_stmt_unique) (simp add: unique_append_ticket [OF Suc.prems(1)])
    then have "insert_with_generated_id_loop (Suc n) rng (5 + j) (generate_base36 rng (5 + j)) t st ls now db =
        insert_with_generated_id_loop n rng (5 + Suc j) (generate_base36 rng (5 + Suc j)) t st ls now db"
      using generate_base36_Suc [of rng "5 + j"] by (simp add: Let_def)
    also have "\<dots> = (db\<lparr>db_ticket := db_ticket db @ [new_row (candidate_id rng (nt_project t) (Suc j + m')) t st ls now]\<rparr>,
        Inr (candidate_id rng (nt_project t) (Suc j + m')))"
      using Suc.prems \<open>m = Suc m'\<close> by (intro Suc.IH) (auto simp: less_Suc_eq_0_disj)
    finally show ?thesis using \<open>m = Suc m'\<close> by simp
  qed
qed simp

lemma generated_loop_exhausted:
  assumes "schema_ok db" and "\<forall>i < n. candidate_id rng (nt_project t) (j + i) \<in> ticket_ids db"
  shows "insert_with_generated_id_loop n rng (5 + j) (generate_base36 rng (5 + j)) t st ls now db =
    (db, Inl (Protocol ''failed to generate unique ticket ID after maximum retries''))"
  using assms
proof (induction n arbitrary: j)
  case (Suc n)
  let ?i = "make_id (nt_project t) (generate_base36 rng (5 + j))"
  have "?i \<in> ticket_ids db"
    using Suc.prems(2) by (metis add_0_right candidate_id_def zero_less_Suc)
  then have "insert_ticket ?i t st ls now db = (db, Inl UniqueViolation)"
    unfolding insert_ticket_def
    by (intro run_stmt_unique) (simp add: unique_append_ticket [OF Suc.prems(1)])
  moreover have "insert_with_generated_id_loop n rng (5 + Suc j) (generate_base36 rng (5 + Suc j)) t st ls now db =
      (db, Inl (Protocol ''failed to generate unique ticket ID after maximum retries''))"
    using Suc.prems by (intro Suc.IH) (auto simp: less_Suc_eq_0_disj)
  ultimately show ?case
    using generate_base36_Suc [of rng "5 + j"] by (simp add: Let_def)
qed simp

lemma no_children_of_missing:
  assumes "schema_ok db" and "i \<notin> ticket_ids db"
  shows "rows_matching (\<lambda>c. et_parent_id c = Some i \<and> P c) (db_ticket db) = 0"
  using assms by (fastforce simp: sql schema_defs)

lemma counts_of_missing:
  assumes "schema_ok db" and "i \<notin> ticket_ids db"
  shows "children_total (db_ticket db) i = 0" and "children_completed (db_ticket db) i = 0"
  using no_children_of_missing [OF assms, of "\<lambda>_. True"] no_children_of_missing [OF assms]
  by (simp_all add: children_total_def children_completed_def)

lemma counts_append:
  assumes "et_parent_id r \<noteq> Some i"
  shows "children_total (ts @ [r]) i = children_total ts i"
    and "children_completed (ts @ [r]) i = children_completed ts i"
  using assms by (simp_all add: children_total_def children_completed_def rows_matching_def)

lemma get_ticket_append:
  assumes "schema_ok db" and "et_id r \<notin> ticket_ids db" and "et_parent_id r \<noteq> Some (et_id r)"
  shows "get_ticket (db\<lparr>db_ticket := db_ticket db @ [r]\<rparr>) (et_id r) = Some (ticket_from_row r 0 0)"
proof -
  have "List.find (\<lambda>x. et_id x = et_id r) (db_ticket db @ [r]) = Some r"
    using assms(2) by (rule find_append_new)
  then show ?thesis
    using counts_of_missing [OF assms(1,2)] assms(3)
    by (simp add: get_ticket_def row_with_counts_def counts_append)
qed

text \<open>
  C21: creating a ticket without an id takes the first free one of the six candidates (a five
  character hash, lengthened by one random character per collision); the ticket it returns is the
  one a lookup then finds, and no other row changes.
\<close>

theorem create_ticket_generated_id:
  assumes "schema_ok db" and "nt_id t = None"
    and "set_option (nt_parent_id t) \<subseteq> ticket_ids db"
    and "k \<le> 5" and "\<forall>j < k. candidate_id rng (nt_project t) j \<in> ticket_ids db"
    and "candidate_id rng (nt_project t) k \<notin> ticket_ids db"
  shows "\<exists>db' tk. create_ticket clock rng t db = (db', Inr tk) \<and>
    tk_id tk = candidate_id rng (nt_project t) k \<and> get_ticket db' (tk_id tk) = Some tk \<and>
    (\<exists>row. et_id row = tk_id tk \<and> db' = db\<lparr>db_ticket := db_ticket db @ [row]\<rparr>)"
proof -
  let ?st = "opt_or (nt_status t) ''open''" and ?now = "opt_or (nt_created_at t) clock"
    and ?ls = "opt_or (nt_lifecycle_status t) LifecycleStatus_default"
  let ?i = "candidate_id rng (nt_project t) k"
  let ?row = "new_row ?i t ?st ?ls ?now"
  let ?db = "db\<lparr>db_ticket := db_ticket db @ [?row]\<rparr>"
  have ins: "insert_with_generated_id rng t ?st ?ls ?now db = (?db, Inr ?i)"
    using generated_loop_first_free [of db t rng 0 k 6 ?st ?ls ?now] assms
    by (simp add: insert_with_generated_id_def)
  have "et_parent_id ?row \<noteq> Some (et_id ?row)" using assms(3,6) by auto
  then have got: "get_ticket ?db ?i = Some (ticket_from_row ?row 0 0)"
    using get_ticket_append [OF assms(1), of ?row] assms(6) by simp
  have "create_ticket clock rng t db = (?db, Inr (ticket_from_row ?row 0 0))"
    using assms(2) ins by (simp add: create_ticket_def Let_def ticket_from_row_def new_row_def)
  then show ?thesis using got by (auto simp: ticket_from_row_def intro!: exI [of _ ?row])
qed

theorem create_ticket_generated_id_witness:
  "\<exists>db' tk. create_ticket ''now'' (\<lambda>k. 10)
      \<lparr>nt_id = None, nt_project = ''ur'', nt_type = ''code'', nt_priority = 0, nt_parent_id = None,
       nt_title = ''t'', nt_body = [], nt_status = None, nt_lifecycle_status = None, nt_branch = None,
       nt_created_at = None\<rparr>
      \<lparr>db_ticket = [new_row ''ur-aaaaa'' \<lparr>nt_id = None, nt_project = ''ur'', nt_type = ''code'', nt_priority = 0,
         nt_parent_id = None, nt_title = ''old'', nt_body = [], nt_status = None, nt_lifecycle_status = None,
         nt_branch = None, nt_created_at = None\<rparr> ''open'' LifecycleStatus.Open ''then''],
       db_edge = [], db_meta = [], db_activity = [], db_comments = []\<rparr> = (db', Inr tk) \<and>
    tk_id tk = ''ur-aaaaaa''"
proof -
  let ?t = "\<lparr>nt_id = None, nt_project = ''ur'', nt_type = ''code'', nt_priority = 0, nt_parent_id = None,
       nt_title = ''t'', nt_body = [], nt_status = None, nt_lifecycle_status = None, nt_branch = None,
       nt_created_at = None\<rparr>"
  let ?db = "\<lparr>db_ticket = [new_row ''ur-aaaaa'' \<lparr>nt_id = None, nt_project = ''ur'', nt_type = ''code'', nt_priority = 0,
         nt_parent_id = None, nt_title = ''old'', nt_body = [], nt_status = None, nt_lifecycle_status = None,
         nt_branch = None, nt_created_at = None\<rparr> ''open'' LifecycleStatus.Open ''then''],
       db_edge = [], db_meta = [], db_activity = [], db_comments = []\<rparr>"
  have up: "[0..<5] = [0, 1, 2, 3, 4 :: nat]" "[0..<6] = [0, 1, 2, 3, 4, 5 :: nat]"
    by (simp_all add: upt_rec)
  have c: "candidate_id (\<lambda>k. 10) ''ur'' 0 = ''ur-aaaaa''" "candidate_id (\<lambda>k. 10) ''ur'' 1 = ''ur-aaaaaa''"
    by (simp_all add: candidate_id_def make_id_def generate_base36_def BASE36_CHARS_def up)
  have "schema_ok ?db"
    by (simp add: schema_ok_def unique_ok_def fk_ok_def parent_ok_def parents_end_def parent_of_def)
  then show ?thesis
    using create_ticket_generated_id [of ?db ?t 1 "\<lambda>k. 10" "''now''"] c by (simp add: less_Suc_eq) metis
qed

text \<open>
  When all six candidates are taken, creation fails with the documented error and changes nothing.
\<close>

lemma create_ticket_ids_exhausted:
  assumes "schema_ok db" and "nt_id t = None"
    and "\<forall>j < 6. candidate_id rng (nt_project t) j \<in> ticket_ids db"
  shows "create_ticket clock rng t db =
    (db, Inl (Protocol ''failed to generate unique ticket ID after maximum retries''))"
proof -
  have "insert_with_generated_id rng t st ls now db =
      (db, Inl (Protocol ''failed to generate unique ticket ID after maximum retries''))" for st ls now
    using generated_loop_exhausted [of db 6 rng t 0 st ls now] assms
    by (simp add: insert_with_generated_id_def)
  then show ?thesis using assms(2) by (simp add: create_ticket_def Let_def)
qed

subsection \<open>Updating\<close>

lemma get_ticket_Some:
  assumes "get_ticket db i = Some e"
  obtains r where "r \<in> set (db_ticket db)" "et_id r = i" "e = row_with_counts (db_ticket db) r"
    "List.find (\<lambda>x. et_id x = i) (db_ticket db) = Some r"
  using assms by (auto simp: get_ticket_def dest: find_SomeD)

lemma merged_row_simps [simp]:
  "et_id (merged_row e u i now) = i"
  "et_created_at (merged_row e u i now) = tk_created_at e"
  "et_parent_id (merged_row e u i now) = (case tu_parent_id u of Some p \<Rightarrow> p | None \<Rightarrow> tk_parent_id e)"
  by (simp_all add: merged_row_def)

lemma set_db_write_row:
  "db_ticket (write_row i row db) =
     update_where (\<lambda>t. et_id t = i) (\<lambda>t. row\<lparr>et_created_at := et_created_at t\<rparr>) (db_ticket db)"
  "db_edge (write_row i row db) = db_edge db" "db_meta (write_row i row db) = db_meta db"
  "db_activity (write_row i row db) = db_activity db" "db_comments (write_row i row db) = db_comments db"
  by (simp_all add: write_row_def)

lemma map_id_write_row:
  assumes "et_id row = i"
  shows "map et_id (db_ticket (write_row i row db)) = map et_id (db_ticket db)"
  using assms by (induction "db_ticket db") (auto simp: set_db_write_row update_where_def)

lemma ids_write_row: "et_id row = i \<Longrightarrow> ticket_ids (write_row i row db) = ticket_ids db"
  by (metis list.set_map map_id_write_row)

lemma schema_write_row:
  assumes "schema_ok db" and "et_id row = i"
    and "set_option (et_parent_id row) \<subseteq> ticket_ids db"
    and "\<forall>p. et_parent_id row = Some p \<longrightarrow> (i, p) \<notin> (parent_rel (db_ticket db))\<^sup>*"
  shows "schema_ok (write_row i row db)"
proof -
  let ?R = "parent_rel (db_ticket db)"
  have sub: "parent_rel (db_ticket (write_row i row db)) \<subseteq> ?R \<union> {(p, i) |p. et_parent_id row = Some p}"
    using assms(2) by (auto simp: parent_rel_def set_db_write_row set_update_where split: if_splits)
  have "acyclic (?R \<union> {(p, i) |p. et_parent_id row = Some p})"
    using assms(1,4) by (cases "et_parent_id row") (auto simp: schema_ok_iff acyclic_insert)
  then have ac: "acyclic (parent_rel (db_ticket (write_row i row db)))"
    using sub by (rule acyclic_subset)
  have "parent_ok (write_row i row db)"
    using assms unfolding parent_ok_iff ids_write_row [OF assms(2)]
    by (auto simp: schema_defs set_db_write_row set_update_where)
  then show ?thesis
    using assms(1) ac map_id_write_row [OF assms(2), of db] ids_write_row [OF assms(2), of db]
    by (simp add: schema_ok_iff unique_ok_def fk_ok_def set_db_write_row)
qed

lemma find_write_row:
  assumes "et_id row = i"
  shows "List.find (\<lambda>t. et_id t = i) (db_ticket (write_row i row db)) =
      map_option (\<lambda>t. row\<lparr>et_created_at := et_created_at t\<rparr>) (List.find (\<lambda>t. et_id t = i) (db_ticket db))"
    and "j \<noteq> i \<Longrightarrow> List.find (\<lambda>t. et_id t = j) (db_ticket (write_row i row db)) =
      List.find (\<lambda>t. et_id t = j) (db_ticket db)"
  unfolding set_db_write_row using assms
  by (intro find_update_same find_update_other; simp)+

lemma update_ticket_writes:
  assumes "schema_ok db" and "get_ticket db i = Some e"
    and "opt_or (tu_project u) (tk_project e) = tk_project e"
    and "\<And>p. tu_parent_id u = Some (Some p) \<Longrightarrow> p \<in> ticket_ids db \<and> (i, p) \<notin> (parent_rel (db_ticket db))\<^sup>*"
  shows "schema_ok (write_row i (merged_row e u i now) db)"
    and "update_ticket now rng i u db = (write_row i (merged_row e u i now) db, Inr (ticket_from_row (merged_row e u i now) 0 0))"
    and "List.find (\<lambda>t. et_id t = i) (db_ticket (write_row i (merged_row e u i now) db)) = Some (merged_row e u i now)"
proof -
  obtain r where r: "r \<in> set (db_ticket db)" "et_id r = i" "e = row_with_counts (db_ticket db) r"
    "List.find (\<lambda>x. et_id x = i) (db_ticket db) = Some r"
    using get_ticket_Some [OF assms(2)] .
  let ?row = "merged_row e u i now"
  have "set_option (tk_parent_id e) \<subseteq> ticket_ids db"
    using r assms(1) by (auto simp: schema_defs row_with_counts_def ticket_from_row_def)
  moreover have "(i, p) \<notin> (parent_rel (db_ticket db))\<^sup>*" if "tk_parent_id e = Some p" for p
  proof -
    have "(p, i) \<in> parent_rel (db_ticket db)"
      using r that by (auto simp: parent_rel_def row_with_counts_def ticket_from_row_def)
    then show ?thesis using assms(1) by (auto simp: schema_ok_iff acyclic_def dest: rtrancl_into_trancl2)
  qed
  ultimately show ok: "schema_ok (write_row i ?row db)"
    using assms(4) by (intro schema_write_row [OF assms(1)]) (auto split: option.splits)
  show "update_ticket now rng i u db = (write_row i ?row db, Inr (ticket_from_row ?row 0 0))"
    using assms(2,3) run_stmt_ok [of "write_row i ?row" db, OF ok] by (simp add: update_ticket_def Let_def)
  have "?row\<lparr>et_created_at := et_created_at r\<rparr> = ?row"
    using r(3) by (simp add: merged_row_def row_with_counts_def ticket_from_row_def)
  then show "List.find (\<lambda>t. et_id t = i) (db_ticket (write_row i ?row db)) = Some ?row"
    using find_write_row(1) [of ?row i db] r(4) by auto
qed


subsection \<open>Moving a ticket to another project\<close>

text \<open>
  Re-keying writes the references first and the ticket row last. The foreign keys are checked at
  the end of each statement, so the first statement that touches a referring row fails: no ticket
  has the new id yet.
\<close>

definition referenced :: "ticket_db \<Rightarrow> string \<Rightarrow> bool" where
  "referenced db i =
     ((\<exists>t \<in> set (db_ticket db). et_parent_id t = Some i) \<or>
      (\<exists>e \<in> set (db_edge db). ee_source_id e = i \<or> ee_target_id e = i) \<or>
      (\<exists>a \<in> set (db_activity db). ea_ticket_id a = i) \<or>
      (\<exists>c \<in> set (db_comments db). ec_ticket_id c = i))"

lemma refs_noop:
  "\<not> (\<exists>t \<in> set (db_ticket db). et_parent_id t = Some old) \<Longrightarrow> set_parent_refs old new db = db"
  "\<not> (\<exists>e \<in> set (db_edge db). ee_source_id e = old) \<Longrightarrow> set_source_refs old new db = db"
  "\<not> (\<exists>e \<in> set (db_edge db). ee_target_id e = old) \<Longrightarrow> set_target_refs old new db = db"
  "\<not> (\<exists>a \<in> set (db_activity db). ea_ticket_id a = old) \<Longrightarrow> set_activity_refs old new db = db"
  "\<not> (\<exists>c \<in> set (db_comments db). ec_ticket_id c = old) \<Longrightarrow> set_comment_refs old new db = db"
  by (simp_all add: set_parent_refs_def set_source_refs_def set_target_refs_def set_activity_refs_def
      set_comment_refs_def update_where_none)

lemma refs_ticket_ids [simp]:
  "ticket_ids (set_parent_refs old new db) = ticket_ids db"
  "ticket_ids (set_source_refs old new db) = ticket_ids db"
  "ticket_ids (set_target_refs old new db) = ticket_ids db"
  "ticket_ids (set_activity_refs old new db) = ticket_ids db"
  "ticket_ids (set_meta_refs old new db) = ticket_ids db"
  "ticket_ids (set_comment_refs old new db) = ticket_ids db"
proof -
  have "map et_id (db_ticket (set_parent_refs old new db)) = map et_id (db_ticket db)"
    by (simp add: set_parent_refs_def map_update_where)
  then show "ticket_ids (set_parent_refs old new db) = ticket_ids db"
    by (metis list.set_map)
qed (simp_all add: set_source_refs_def set_target_refs_def set_activity_refs_def set_meta_refs_def
      set_comment_refs_def)

lemma updated_row: "r \<in> set rs \<Longrightarrow> p r \<Longrightarrow> f r \<in> set (update_where p f rs)"
  by (force simp: set_update_where)

lemma refs_rejected:
  assumes "new \<notin> ticket_ids db"
  shows "t \<in> set (db_ticket db) \<Longrightarrow> et_parent_id t = Some old \<Longrightarrow> \<exists>e. run_stmt (set_parent_refs old new) db = (db, Inl e)"
    and "ed \<in> set (db_edge db) \<Longrightarrow> ee_source_id ed = old \<Longrightarrow> \<exists>e. run_stmt (set_source_refs old new) db = (db, Inl e)"
    and "ed \<in> set (db_edge db) \<Longrightarrow> ee_target_id ed = old \<Longrightarrow> \<exists>e. run_stmt (set_target_refs old new) db = (db, Inl e)"
    and "a \<in> set (db_activity db) \<Longrightarrow> ea_ticket_id a = old \<Longrightarrow> \<exists>e. run_stmt (set_activity_refs old new) db = (db, Inl e)"
    and "c \<in> set (db_comments db) \<Longrightarrow> ec_ticket_id c = old \<Longrightarrow> \<exists>e. run_stmt (set_comment_refs old new) db = (db, Inl e)"
proof -
  assume t: "t \<in> set (db_ticket db)" "et_parent_id t = Some old"
  then have "t\<lparr>et_parent_id := Some new\<rparr> \<in> set (db_ticket (set_parent_refs old new db))"
    by (simp add: set_parent_refs_def updated_row)
  then have "\<not> schema_ok (set_parent_refs old new db)"
    using assms unfolding schema_defs refs_ticket_ids by fastforce
  then show "\<exists>e. run_stmt (set_parent_refs old new) db = (db, Inl e)" by (rule ticket_store.refused)
next
  assume "ed \<in> set (db_edge db)" "ee_source_id ed = old"
  then have "ed\<lparr>ee_source_id := new\<rparr> \<in> set (db_edge (set_source_refs old new db))"
    by (simp add: set_source_refs_def updated_row)
  then have "\<not> schema_ok (set_source_refs old new db)"
    using assms unfolding schema_defs refs_ticket_ids by fastforce
  then show "\<exists>e. run_stmt (set_source_refs old new) db = (db, Inl e)" by (rule ticket_store.refused)
next
  assume "ed \<in> set (db_edge db)" "ee_target_id ed = old"
  then have "ed\<lparr>ee_target_id := new\<rparr> \<in> set (db_edge (set_target_refs old new db))"
    by (simp add: set_target_refs_def updated_row)
  then have "\<not> schema_ok (set_target_refs old new db)"
    using assms unfolding schema_defs refs_ticket_ids by fastforce
  then show "\<exists>e. run_stmt (set_target_refs old new) db = (db, Inl e)" by (rule ticket_store.refused)
next
  assume "a \<in> set (db_activity db)" "ea_ticket_id a = old"
  then have "a\<lparr>ea_ticket_id := new\<rparr> \<in> set (db_activity (set_activity_refs old new db))"
    by (simp add: set_activity_refs_def updated_row)
  then have "\<not> schema_ok (set_activity_refs old new db)"
    using assms unfolding schema_defs refs_ticket_ids by fastforce
  then show "\<exists>e. run_stmt (set_activity_refs old new) db = (db, Inl e)" by (rule ticket_store.refused)
next
  assume "c \<in> set (db_comments db)" "ec_ticket_id c = old"
  then have "c\<lparr>ec_ticket_id := new\<rparr> \<in> set (db_comments (set_comment_refs old new db))"
    by (simp add: set_comment_refs_def updated_row)
  then have "\<not> schema_ok (set_comment_refs old new db)"
    using assms unfolding schema_defs refs_ticket_ids by fastforce
  then show "\<exists>e. run_stmt (set_comment_refs old new) db = (db, Inl e)" by (rule ticket_store.refused)
qed

lemma run_noop: "schema_ok db \<Longrightarrow> f db = db \<Longrightarrow> run_stmt f db = (db, Inr ())"
  using run_stmt_ok [of f db] by simp

lemma references_refused:
  assumes "schema_ok db" and "new \<notin> ticket_ids db" and "referenced db old"
  shows "\<exists>db' e. update_ticket_references old new db = (db', Inl e) \<and>
    db_ticket db' = db_ticket db \<and> db_edge db' = db_edge db"
proof -
  note reject = refs_rejected [OF assms(2)]
  consider "\<exists>t \<in> set (db_ticket db). et_parent_id t = Some old"
    | "\<not> (\<exists>t \<in> set (db_ticket db). et_parent_id t = Some old)" "\<exists>e \<in> set (db_edge db). ee_source_id e = old"
    | "\<not> (\<exists>t \<in> set (db_ticket db). et_parent_id t = Some old)" "\<not> (\<exists>e \<in> set (db_edge db). ee_source_id e = old)"
      "\<exists>e \<in> set (db_edge db). ee_target_id e = old"
    | "\<not> (\<exists>t \<in> set (db_ticket db). et_parent_id t = Some old)" "\<not> (\<exists>e \<in> set (db_edge db). ee_source_id e = old)"
      "\<not> (\<exists>e \<in> set (db_edge db). ee_target_id e = old)" "\<exists>a \<in> set (db_activity db). ea_ticket_id a = old"
    | "\<not> (\<exists>t \<in> set (db_ticket db). et_parent_id t = Some old)" "\<not> (\<exists>e \<in> set (db_edge db). ee_source_id e = old)"
      "\<not> (\<exists>e \<in> set (db_edge db). ee_target_id e = old)" "\<not> (\<exists>a \<in> set (db_activity db). ea_ticket_id a = old)"
      "\<exists>c \<in> set (db_comments db). ec_ticket_id c = old"
    using assms(3) unfolding referenced_def by blast
  then show ?thesis
  proof cases
    case 5
    note noop = refs_noop(1) [OF 5(1)] refs_noop(2) [OF 5(2)] refs_noop(3) [OF 5(3)] refs_noop(4) [OF 5(4)]
    have pre: "update_ticket_references old new db =
        bindS (run_stmt (set_meta_refs old new)) (\<lambda>_. run_stmt (set_comment_refs old new)) db"
      unfolding update_ticket_references_def by (simp add: run_noop assms(1) noop)
    show ?thesis
    proof (cases rule: run_stmt_cases [of "set_meta_refs old new" db])
      case 1
      have "new \<notin> ticket_ids (set_meta_refs old new db)" using assms(2) by simp
      moreover have "\<exists>c \<in> set (db_comments (set_meta_refs old new db)). ec_ticket_id c = old"
        using 5(5) by (simp add: set_meta_refs_def)
      ultimately obtain e where "run_stmt (set_comment_refs old new) (set_meta_refs old new db) =
          (set_meta_refs old new db, Inl e)"
        using refs_rejected(5) by blast
      then show ?thesis using pre 1 by (simp add: set_meta_refs_def)
    qed (use pre in simp_all)
  qed (use reject in \<open>fastforce simp: update_ticket_references_def run_noop assms(1) refs_noop\<close>)+
qed


end
