(* ===== verification/Ticket_Query_Props.thy ===== *)
theory Ticket_Query_Props
  imports Ticket_Repo_Props
begin

text \<open>
  The read side of the ticket store: pages partition the filtered listing, the recursive queries
  end and return exactly the descendants, the dispatchable tickets of an epic are its open,
  unblocked, agent-runnable descendants, metadata behaves as a map, and closing an epic's children
  closes all of them.
\<close>

subsection \<open>Pages\<close>

lemma concat_pages: "concat (map (\<lambda>k. take l (drop (k * l) xs)) [0..<n]) = take (n * l) xs"
proof (induction n)
  case (Suc n)
  have "take (n * l) xs @ take l (drop (n * l) xs) = take (n * l + l) xs"
    by (simp add: take_add)
  with Suc show ?case by (simp add: add.commute)
qed simp

text \<open>The unpaginated listing, page by page.\<close>

lemma paginated_page:
  assumes "0 < l"
  shows "list_tickets_paginated le db f (Some (int l)) (int (k * l)) c =
    Inr (take l (drop (k * l)
           (map (row_with_counts (db_ticket db))
             (order_by (by_priority_created le) (filter (ticket_filter_clause f c) (db_ticket db))))),
         int (length (filter (ticket_filter_clause f c) (db_ticket db))))"
  using assms
  by (simp add: list_tickets_paginated_def fetch_filtered_tickets_def limit_offset_def Let_def
      count_filtered_tickets_def rows_matching_def take_map drop_map nat_mult_distrib not_less)

lemma by_priority_created_preorder:
  assumes "collation le"
  shows "total_preorder (by_priority_created le)"
  unfolding by_priority_created_def
  by (intro total_preorder_then_by total_preorder_on_key int_order.total_preorder_axioms
      collation.axioms [OF assms])


subsection \<open>Recursive queries\<close>

definition parent_rel_where :: "(ExportTicket \<Rightarrow> bool) \<Rightarrow> ExportTicket list \<Rightarrow> (string \<times> string) set" where
  "parent_rel_where p ts = parent_rel (filter p ts)"

lemma parent_rel_where_True [simp]: "parent_rel_where (\<lambda>_. True) ts = parent_rel ts"
  by (simp add: parent_rel_where_def)

lemma parent_rel_where_sub: "parent_rel_where p ts \<subseteq> parent_rel ts"
  by (auto simp: parent_rel_where_def parent_rel_def)

lemma join_children_rows:
  "fst ` set (join_children p ts w) =
    {t \<in> set ts. p t \<and> (\<exists>r \<in> fst ` set w. et_parent_id t = Some (et_id r))}"
  by (force simp: join_children_def image_iff split: prod.splits)

lemma cte_rounds_enough_fuel:
  assumes ac: "acyclic (parent_rel ts)"
    and "\<forall>r \<in> fst ` set w. card {x. (et_id r, x) \<in> (parent_rel ts)\<^sup>+} < fuel"
  shows "\<exists>rows. cte_rounds fuel p ts w = Some rows"
  using assms(2)
proof (induction fuel arbitrary: w)
  case 0
  then show ?case by (cases w) auto
next
  case (Suc fuel)
  show ?case
  proof (cases w)
    case (Cons x w')
    have "card {y. (et_id c, y) \<in> (parent_rel ts)\<^sup>+} < fuel"
      if "c \<in> fst ` set (join_children p ts w)" for c
    proof -
      from that obtain r where r: "r \<in> fst ` set w" "et_parent_id c = Some (et_id r)" "c \<in> set ts"
        unfolding join_children_rows by blast
      then have "(et_id r, et_id c) \<in> parent_rel ts" by (auto simp: parent_rel_def)
      from card_reach_less(2) [OF finite_parent_rel ac this] Suc.prems r(1) show ?thesis by fastforce
    qed
    then show ?thesis using Suc.IH [of "join_children p ts w"] Cons by auto
  qed simp
qed

lemma descendants_bound:
  assumes "schema_ok db"
  shows "card {x. (i, x) \<in> (parent_rel (db_ticket db))\<^sup>+} < Suc (length (db_ticket db))"
proof -
  have "{x. (i, x) \<in> (parent_rel (db_ticket db))\<^sup>+} \<subseteq> et_id ` set (db_ticket db)"
    by (auto simp: parent_rel_def dest!: tranclD2)
  then have "card {x. (i, x) \<in> (parent_rel (db_ticket db))\<^sup>+} \<le> card (et_id ` set (db_ticket db))"
    by (intro card_mono) auto
  also have "\<dots> \<le> length (db_ticket db)"
    by (metis card_length length_map list.set_map)
  finally show ?thesis by simp
qed

lemma cte_rounds_rows:
  assumes d: "distinct (map et_id ts)" and "cte_rounds fuel p ts w = Some rows"
  shows "fst ` set rows = fst ` set w \<union>
    {t \<in> set ts. p t \<and> (\<exists>r \<in> fst ` set w. (et_id r, et_id t) \<in> (parent_rel_where p ts)\<^sup>+)}"
  using assms(2)
proof (induction fuel arbitrary: w rows)
  case 0
  then show ?case by (cases w) auto
next
  case (Suc fuel)
  show ?case
  proof (cases w)
    case (Cons x w')
    with Suc.prems obtain rest where rest: "cte_rounds fuel p ts (join_children p ts w) = Some rest"
      and rows: "rows = w @ rest" by auto
    let ?R = "parent_rel_where p ts"
    have step: "(et_id r, et_id t) \<in> ?R\<^sup>+ \<longleftrightarrow> et_parent_id t = Some (et_id r) \<or>
        (\<exists>c \<in> set ts. p c \<and> et_parent_id c = Some (et_id r) \<and> (et_id c, et_id t) \<in> ?R\<^sup>+)"
      if t: "t \<in> set ts" "p t" for r t
    proof -
      have R: "(a, b) \<in> ?R \<longleftrightarrow> (\<exists>c \<in> set ts. p c \<and> et_parent_id c = Some a \<and> et_id c = b)" for a b
        by (auto simp: parent_rel_where_def parent_rel_def)
      have "(et_id r, et_id t) \<in> ?R\<^sup>+ \<longleftrightarrow> (et_id r, et_id t) \<in> ?R \<or>
          (\<exists>z. (et_id r, z) \<in> ?R \<and> (z, et_id t) \<in> ?R\<^sup>+)"
        by (meson converse_tranclE r_into_trancl trancl_into_trancl2)
      also have "\<dots> \<longleftrightarrow> et_parent_id t = Some (et_id r) \<or>
          (\<exists>c \<in> set ts. p c \<and> et_parent_id c = Some (et_id r) \<and> (et_id c, et_id t) \<in> ?R\<^sup>+)"
        unfolding R using t distinct_key_unique [OF d] by blast
      finally show ?thesis .
    qed
    show ?thesis
      unfolding rows set_append image_Un Suc.IH [OF rest] join_children_rows using step by blast
  qed (use Suc.prems in simp)
qed

text \<open>
  C25: the recursive tree query ends on every store that satisfies the schema (as many rounds as there
  are tickets, plus one, always suffice), and the tickets it returns are the root and exactly its
  descendants reached through tickets that pass the status filter.
\<close>

theorem list_ticket_tree_correct:
  assumes "schema_ok db" and "root \<in> set (db_ticket db)" and "length (db_ticket db) < fuel"
  shows "\<exists>rows. list_ticket_tree le fuel db (et_id root) flt = Some rows \<and>
    tk_id ` fst ` set rows = insert (et_id root)
      {et_id t |t. t \<in> set (db_ticket db) \<and>
         (et_id root, et_id t) \<in> (parent_rel_where (\<lambda>t. case flt of None \<Rightarrow> True | Some st \<Rightarrow> et_status t = st) (db_ticket db))\<^sup>+}"
proof -
  let ?ts = "db_ticket db"
  let ?p = "\<lambda>t. case flt of None \<Rightarrow> True | Some st \<Rightarrow> et_status t = st"
  let ?start = "map (\<lambda>t. (t, 0 :: int)) (filter (\<lambda>t. et_id t = et_id root) ?ts)"
  have d: "distinct (map et_id ?ts)" and ac: "acyclic (parent_rel ?ts)"
    using assms(1) by (auto simp: schema_ok_iff unique_ok_def)
  have start: "fst ` set ?start = {root}"
    using assms(2) distinct_key_unique [OF d] by force
  obtain rows where rows: "cte_rounds fuel ?p ?ts ?start = Some rows"
    using cte_rounds_enough_fuel [OF ac, of ?start fuel ?p] descendants_bound [OF assms(1), of "et_id root"]
      assms(3) start by fastforce
  have p: "(case flt of None \<Rightarrow> \<lambda>_. True | Some st \<Rightarrow> \<lambda>t. et_status t = st) = ?p"
    by (cases flt) auto
  have pt: "?p t" if "(et_id root, et_id t) \<in> (parent_rel_where ?p ?ts)\<^sup>+" "t \<in> set ?ts" for t
  proof -
    from that(1) obtain z where "(z, et_id t) \<in> parent_rel_where ?p ?ts" by (meson tranclD2)
    then obtain u where "u \<in> set ?ts" "?p u" "et_id u = et_id t"
      by (auto simp: parent_rel_where_def parent_rel_def)
    then show ?thesis using distinct_key_unique [OF d _ that(2)] by metis
  qed
  have "tk_id ` fst ` set (map (\<lambda>(r, d). (ticket_from_row r 0 0, d))
      (order_by (by_depth_priority_created le) rows)) = et_id ` fst ` set rows"
    by (simp add: image_image case_prod_beta ticket_from_row_def)
  also have "\<dots> = insert (et_id root) {et_id t |t. t \<in> set ?ts \<and> (et_id root, et_id t) \<in> (parent_rel_where ?p ?ts)\<^sup>+}"
    unfolding cte_rounds_rows [OF d rows] start using pt by blast
  finally show ?thesis
    unfolding list_ticket_tree_def Let_def p rows by simp
qed

subsection \<open>Dispatchable tickets\<close>

lemma closure_rows:
  "{t \<in> S. A t} \<union> {t \<in> S. True \<and> (\<exists>r \<in> {t \<in> S. A t}. B r t)} = {t \<in> S. A t \<or> (\<exists>c \<in> S. A c \<and> B c t)}"
  by blast

lemma ex_image_iff: "(\<exists>z. (\<exists>c \<in> S. P c \<and> f c = z) \<and> Q z) \<longleftrightarrow> (\<exists>c \<in> S. P c \<and> Q (f c))"
  by blast

lemma descendants_rows:
  assumes "schema_ok db"
    and "cte_rounds fuel (\<lambda>_. True) (db_ticket db)
      (map (\<lambda>t. (t, 0)) (filter (\<lambda>t. et_parent_id t = Some epic) (db_ticket db))) = Some rows"
  shows "fst ` set rows = {t \<in> set (db_ticket db). (epic, et_id t) \<in> (parent_rel (db_ticket db))\<^sup>+}"
proof -
  let ?ts = "db_ticket db" and ?R = "parent_rel (db_ticket db)"
  have d: "distinct (map et_id ?ts)" using assms(1) by (simp add: schema_ok_iff unique_ok_def)
  have child: "(\<exists>c \<in> set ?ts. et_parent_id c = Some epic \<and> et_id c = et_id t) \<longleftrightarrow> et_parent_id t = Some epic"
    if "t \<in> set ?ts" for t
    using that distinct_key_unique [OF d] by blast
  have step: "(epic, et_id t) \<in> ?R\<^sup>+ \<longleftrightarrow> et_parent_id t = Some epic \<or>
      (\<exists>c \<in> set ?ts. et_parent_id c = Some epic \<and> (et_id c, et_id t) \<in> ?R\<^sup>+)" if "t \<in> set ?ts" for t
  proof -
    have "(epic, et_id t) \<in> ?R\<^sup>+ \<longleftrightarrow> (epic, et_id t) \<in> ?R \<or> (\<exists>z. (epic, z) \<in> ?R \<and> (z, et_id t) \<in> ?R\<^sup>+)"
      by (meson converse_tranclE r_into_trancl trancl_into_trancl2)
    moreover have "\<And>z. (epic, z) \<in> ?R \<longleftrightarrow> (\<exists>c \<in> set ?ts. et_parent_id c = Some epic \<and> et_id c = z)"
      by (auto simp: parent_rel_def)
    ultimately show ?thesis by (simp only: child [OF that] ex_image_iff)
  qed
  have "fst ` set (map (\<lambda>t. (t, 0 :: int)) (filter (\<lambda>t. et_parent_id t = Some epic) ?ts)) =
      {t \<in> set ?ts. et_parent_id t = Some epic}"
    by (simp add: image_image)
  then have "fst ` set rows = {t \<in> set ?ts. et_parent_id t = Some epic \<or>
      (\<exists>c \<in> set ?ts. et_parent_id c = Some epic \<and> (et_id c, et_id t) \<in> ?R\<^sup>+)}"
    unfolding cte_rounds_rows [OF d assms(2)] parent_rel_where_True by (simp only: closure_rows)
  then show ?thesis using step by (simp cong: conj_cong)
qed

lemma dispatchable_type_iff:
  "is_ok_and (TicketType_from_str s) is_dispatchable \<longleftrightarrow>
     s \<in> {''code'', ''task'', ''epic'', ''c'', ''design'', ''d''}"
  by (auto simp: TicketType_from_str_def is_dispatchable_def)

lemma filter_dispatchable_sorted:
  assumes "sorted_wrt (on_key (\<le>) et_priority) xs"
  shows "sorted (map dt_priority (filter_dispatchable xs b))"
proof -
  have "sorted_wrt (\<lambda>x y. et_priority x \<le> et_priority y) xs"
    using assms unfolding on_key_def .
  then have "sorted_wrt (\<lambda>x y. et_priority x \<le> et_priority y) (filter q (filter r xs))" for q r
    by (intro sorted_wrt_filter)
  then show ?thesis by (simp only: filter_dispatchable_def sorted_map sorted_wrt_map map_map comp_def) simp
qed

lemma filter_dispatchable_ids:
  "dt_id ` set (filter_dispatchable xs b) =
     et_id ` {t \<in> set xs. et_id t \<notin> b \<and> is_ok_and (TicketType_from_str (et_type t)) is_dispatchable}"
  by (auto simp: filter_dispatchable_def image_iff)

text \<open>
  C17: the dispatchable tickets of an epic are, in priority order, exactly its descendants that are
  open, belong to the requested project, have a type an agent may run (reminders never), and have
  no transitive blocker that is still open.
\<close>

theorem dispatchable_tickets_correct:
  assumes "petgraph_dfs dfs" and "schema_ok db" and "length (db_ticket db) < fuel"
  shows "\<exists>ds. dispatchable_tickets dfs fuel db epic project = Some ds \<and> sorted (map dt_priority ds) \<and>
    dt_id ` set ds = et_id ` {t \<in> set (db_ticket db).
       (epic, et_id t) \<in> (parent_rel (db_ticket db))\<^sup>+ \<and> et_status t = ''open'' \<and>
       (project = None \<or> project = Some (et_project t)) \<and>
       is_ok_and (TicketType_from_str (et_type t)) is_dispatchable \<and>
       \<not> (\<exists>b \<in> set (db_ticket db). (et_id b, et_id t) \<in> (blocks_rel (db_ticket db) (db_edge db))\<^sup>+ \<and>
             et_id b \<noteq> et_id t \<and> et_status b \<noteq> ''closed'')}"
proof -
  let ?ts = "db_ticket db"
  have d: "distinct (map et_id ?ts)" and ac: "acyclic (parent_rel ?ts)"
    using assms(2) by (auto simp: schema_ok_iff unique_ok_def)
  let ?start = "map (\<lambda>t. (t, 0 :: int)) (filter (\<lambda>t. et_parent_id t = Some epic) ?ts)"
  have "\<forall>r \<in> fst ` set ?start. card {x. (et_id r, x) \<in> (parent_rel ?ts)\<^sup>+} < fuel"
    using descendants_bound [OF assms(2)] assms(3) by (meson less_Suc_eq_le order_less_le_trans order_le_less_trans)
  then obtain rows where rows: "cte_rounds fuel (\<lambda>_. True) ?ts ?start = Some rows"
    using cte_rounds_enough_fuel [OF ac] by blast
  let ?wanted = "\<lambda>t. et_status t = ''open'' \<and> (case project of None \<Rightarrow> True | Some p \<Rightarrow> et_project t = p)"
  obtain cs where cs: "cs = order_by (on_key (\<le>) et_priority) (filter ?wanted (map fst rows))" by simp
  let ?blocked = "blocked_among dfs ?ts (db_edge db) (map et_id cs)"
  let ?unblocked = "\<lambda>t. \<not> (\<exists>b \<in> set ?ts. (et_id b, et_id t) \<in> (blocks_rel ?ts (db_edge db))\<^sup>+ \<and>
      et_id b \<noteq> et_id t \<and> et_status b \<noteq> ''closed'')"
  have res: "dispatchable_tickets dfs fuel db epic project = Some (filter_dispatchable cs ?blocked)"
    by (simp add: dispatchable_tickets_def Let_def rows cs)
  have "set cs = {t \<in> fst ` set rows. ?wanted t}" by (auto simp: cs)
  then have kids: "set cs = {t \<in> set ?ts. (epic, et_id t) \<in> (parent_rel ?ts)\<^sup>+ \<and> ?wanted t}"
    unfolding descendants_rows [OF assms(2) rows] by simp
  have "sorted_wrt (on_key (\<le>) et_priority) cs"
    unfolding cs by (rule total_preorder.sorted_order_by [OF total_preorder_on_key [OF int_order.total_preorder_axioms]])
  then have "sorted (map dt_priority (filter_dispatchable cs ?blocked))"
    by (rule filter_dispatchable_sorted)
  moreover have "{t \<in> set cs. et_id t \<notin> ?blocked \<and> is_ok_and (TicketType_from_str (et_type t)) is_dispatchable} =
      {t \<in> set cs. ?unblocked t \<and> is_ok_and (TicketType_from_str (et_type t)) is_dispatchable}"
    unfolding blocked_among_correct [OF assms(1) d] by auto
  moreover have w: "?wanted t \<longleftrightarrow> et_status t = ''open'' \<and> (project = None \<or> project = Some (et_project t))" for t
    by (cases project) auto
  moreover have "{t \<in> set cs. ?unblocked t \<and> is_ok_and (TicketType_from_str (et_type t)) is_dispatchable} =
      {t \<in> set ?ts. (epic, et_id t) \<in> (parent_rel ?ts)\<^sup>+ \<and> et_status t = ''open'' \<and>
         (project = None \<or> project = Some (et_project t)) \<and>
         is_ok_and (TicketType_from_str (et_type t)) is_dispatchable \<and> ?unblocked t}"
    unfolding kids w by (rule Collect_cong, simp only: mem_Collect_eq) argo
  ultimately show ?thesis
    unfolding res using filter_dispatchable_ids [of cs ?blocked]
    by (intro exI [of _ "filter_dispatchable cs ?blocked"] conjI refl) (simp_all only:)
qed

subsection \<open>Metadata\<close>

lemma map_of_filtered:
  assumes "distinct (map meta_key ms)"
  shows "map_of (map (\<lambda>m. (em_key m, em_value m))
      (filter (\<lambda>m. em_entity_id m = i \<and> em_entity_type m = ty) ms)) k =
    map_option em_value (List.find (\<lambda>m. meta_key m = (i, ty, k)) ms)"
  using assms by (induction ms) (auto simp: meta_key_def)

lemma get_meta_find:
  assumes "schema_ok db"
  shows "get_meta db i ty k = map_option em_value (List.find (\<lambda>m. meta_key m = (i, ty, k)) (db_meta db))"
  using assms unfolding get_meta_def by (intro map_of_filtered) (simp add: schema_ok_iff unique_ok_def)

lemma schema_meta_update:
  "schema_ok db \<Longrightarrow> distinct (map meta_key ms) \<Longrightarrow> schema_ok (db\<lparr>db_meta := ms\<rparr>)"
  by (simp add: schema_defs)

lemma upsert_meta_distinct:
  assumes "distinct (map meta_key ms)"
  shows "distinct (map meta_key (upsert_meta m ms))"
proof -
  have "map meta_key (update_where (\<lambda>r. meta_key r = meta_key m) (\<lambda>r. r\<lparr>em_value := em_value m\<rparr>) ms) = map meta_key ms"
    by (rule map_update_where) (simp add: meta_key_def)
  then show ?thesis using assms by (auto simp: upsert_meta_def)
qed

lemma upsert_meta_find:
  "map_option em_value (List.find (\<lambda>r. meta_key r = k) (upsert_meta m ms)) =
     (if k = meta_key m then Some (em_value m) else map_option em_value (List.find (\<lambda>r. meta_key r = k) ms))"
proof (cases "meta_key m \<in> meta_key ` set ms")
  case True
  then obtain r where "List.find (\<lambda>r. meta_key r = meta_key m) ms = Some r"
    by (fastforce simp: find_None_iff image_iff simp flip: not_None_eq)
  then show ?thesis
    using True find_update_same [of meta_key "meta_key m" "\<lambda>r. r\<lparr>em_value := em_value m\<rparr>" ms]
      find_update_other [of "\<lambda>r. meta_key r = meta_key m" meta_key k "\<lambda>r. r\<lparr>em_value := em_value m\<rparr>" ms]
    by (auto simp: upsert_meta_def meta_key_def)
next
  case False
  then show ?thesis
    using find_append_new [of meta_key m ms] find_append_other [of meta_key m k ms]
    by (auto simp: upsert_meta_def)
qed

lemma find_delete_where:
  "List.find (\<lambda>r. k r = v) (delete_where (\<lambda>r. k r = w) rs) = (if v = w then None else List.find (\<lambda>r. k r = v) rs)"
  by (induction rs) auto

text \<open>
  Metadata is a map per entity: setting a key stores its value, replacing any previous one,
  deleting removes exactly that key, and both always succeed and leave every other key of every
  entity alone.
\<close>

lemma meta_set_get_delete:
  assumes "schema_ok db"
  shows "\<exists>db1 db2. set_meta i ty k v db = (db1, Inr ()) \<and> delete_meta i ty k db1 = (db2, Inr ()) \<and>
    get_meta db1 i ty = (get_meta db i ty)(k \<mapsto> v) \<and> get_meta db2 i ty = (get_meta db i ty)(k := None) \<and>
    (\<forall>j uy. (j, uy) \<noteq> (i, ty) \<longrightarrow> get_meta db1 j uy = get_meta db j uy \<and> get_meta db2 j uy = get_meta db j uy)"
proof -
  let ?m = "\<lparr>em_entity_id = i, em_entity_type = ty, em_key = k, em_value = v\<rparr>"
  let ?db1 = "db\<lparr>db_meta := upsert_meta ?m (db_meta db)\<rparr>"
  let ?del = "\<lambda>m. em_entity_id m = i \<and> em_entity_type m = ty \<and> em_key m = k"
  let ?db2 = "?db1\<lparr>db_meta := delete_where ?del (db_meta ?db1)\<rparr>"
  have d: "distinct (map meta_key (db_meta db))" using assms by (simp add: schema_ok_iff unique_ok_def)
  have ok1: "schema_ok ?db1" by (rule schema_meta_update [OF assms upsert_meta_distinct [OF d]])
  have ok2: "schema_ok ?db2"
    by (rule schema_meta_update [OF ok1]) (use ok1 in \<open>auto simp: schema_ok_iff unique_ok_def\<close>)
  have mk: "meta_key ?m = (i, ty, k)" by (simp add: meta_key_def)
  have del: "?del = (\<lambda>m. meta_key m = (i, ty, k))" by (auto simp: meta_key_def)
  have "set_meta i ty k v db = (?db1, Inr ())"
    unfolding set_meta_def by (rule run_stmt_ok) (rule ok1)
  moreover have "delete_meta i ty k ?db1 = (?db2, Inr ())"
    unfolding delete_meta_def by (rule run_stmt_ok) (rule ok2)
  moreover have g1: "get_meta ?db1 j uy q = (if (j, uy, q) = (i, ty, k) then Some v else get_meta db j uy q)" for j uy q
    unfolding get_meta_find [OF ok1] get_meta_find [OF assms] using upsert_meta_find [of "(j, uy, q)" ?m "db_meta db"] mk
    by simp
  moreover have g2: "get_meta ?db2 j uy q = (if (j, uy, q) = (i, ty, k) then None else get_meta ?db1 j uy q)" for j uy q
    using get_meta_find [OF ok2, of j uy q] get_meta_find [OF ok1, of j uy q]
    unfolding del by (simp add: find_delete_where)
  ultimately show ?thesis
    by (intro exI [of _ ?db1] exI [of _ ?db2]) (auto simp: fun_eq_iff)
qed

subsection \<open>Closing an epic\<close>

lemma parent_rel_cong:
  assumes "map (\<lambda>t. (et_id t, et_parent_id t)) ts = map (\<lambda>t. (et_id t, et_parent_id t)) us"
  shows "parent_rel ts = parent_rel us"
proof -
  have "parent_rel xs = {(p, c). (c, Some p) \<in> set (map (\<lambda>t. (et_id t, et_parent_id t)) xs)}" for xs
    by (force simp: parent_rel_def)
  then show ?thesis using assms by (simp only:)
qed

lemma schema_status_update:
  assumes "schema_ok db"
  shows "schema_ok (db\<lparr>db_ticket := update_where p (\<lambda>t. t\<lparr>et_status := st\<rparr>) (db_ticket db)\<rparr>)"
proof -
  let ?ts = "update_where p (\<lambda>t. t\<lparr>et_status := st\<rparr>) (db_ticket db)"
  have ids: "map et_id ?ts = map et_id (db_ticket db)" by (simp add: map_update_where)
  then have ids': "et_id ` set ?ts = ticket_ids db" by (metis list.set_map)
  have "parent_rel ?ts = parent_rel (db_ticket db)"
    by (rule parent_rel_cong) (simp add: map_update_where)
  then show ?thesis
    using assms ids ids' by (auto simp: schema_defs set_update_where)
qed

lemma close_open_children_closes:
  assumes "schema_ok db"
  shows "\<exists>db'. close_open_children epic db =
      (db', Inr (length (filter (\<lambda>t. et_parent_id t = Some epic \<and> et_status t \<noteq> ''closed'') (db_ticket db)))) \<and>
    epic_all_children_closed db' epic \<and>
    filter (\<lambda>t. et_parent_id t \<noteq> Some epic) (db_ticket db') = filter (\<lambda>t. et_parent_id t \<noteq> Some epic) (db_ticket db)"
proof -
  let ?p = "\<lambda>t. et_parent_id t = Some epic \<and> et_status t \<noteq> ''closed''"
  let ?f = "\<lambda>db. db\<lparr>db_ticket := update_where ?p (\<lambda>t. t\<lparr>et_status := ''closed''\<rparr>) (db_ticket db)\<rparr>"
  have "run_stmt ?f db = (?f db, Inr ())"
    by (rule run_stmt_ok) (rule schema_status_update [OF assms])
  then have "close_open_children epic db = (?f db, Inr (length (filter ?p (db_ticket db))))"
    by (simp add: close_open_children_def rows_matching_def)
  moreover have "epic_all_children_closed (?f db) epic"
    by (auto simp: epic_all_children_closed_def sql)
  moreover have "filter (\<lambda>t. et_parent_id t \<noteq> Some epic) (db_ticket (?f db)) =
      filter (\<lambda>t. et_parent_id t \<noteq> Some epic) (db_ticket db)"
    by (simp, intro filter_update_where_frame) auto
  ultimately show ?thesis by blast
qed

end
