(* ===== verification/Ticket_Examples.thy ===== *)
theory Ticket_Examples
  imports Ticket_Query_Props
begin

text \<open>
  A small ticket store (an epic with three children, one of which another blocks) on which the
  hypotheses of the ticket theorems are checked by evaluation, each theorem being applied to it.
\<close>

definition sample_ticket :: "string \<Rightarrow> string \<Rightarrow> string option \<Rightarrow> int \<Rightarrow> ExportTicket" where
  "sample_ticket i type parent prio =
     \<lparr>et_id = i, et_project = ''ur'', et_type = type, et_status = ''open'', et_lifecycle_status = ''open'',
      et_lifecycle_managed = False, et_priority = prio, et_parent_id = parent, et_title = [], et_body = [],
      et_branch = None, et_created_at = ''2026'', et_updated_at = ''2026''\<rparr>"

definition sample_db :: ticket_db where
  "sample_db =
     \<lparr>db_ticket = [sample_ticket ''ur-e'' ''code'' None 0, sample_ticket ''ur-a'' ''code'' (Some ''ur-e'') 1,
                   sample_ticket ''ur-b'' ''code'' (Some ''ur-e'') 2, sample_ticket ''ur-r'' ''reminder'' (Some ''ur-e'') 3],
      db_edge = [\<lparr>ee_source_id = ''ur-a'', ee_target_id = ''ur-b'', ee_kind = ''blocks''\<rparr>],
      db_meta = [], db_activity = [], db_comments = []\<rparr>"

lemmas sample_simps = sample_db_def sample_ticket_def

lemma sample_schema: "schema_ok sample_db"
  by (simp add: sample_simps schema_ok_def unique_ok_def fk_ok_def parent_ok_def parents_end_def
      parent_of_def edge_key_def)

lemma sample_distinct: "distinct (map et_id (db_ticket sample_db))"
  using sample_schema by (simp add: schema_ok_iff unique_ok_def)

lemma sample_blocks: "blocks_rel (db_ticket sample_db) (db_edge sample_db) = {(''ur-a'', ''ur-b'')}"
  by (auto simp: blocks_rel_def sample_simps)

lemma sample_ids: "ticket_ids sample_db = {''ur-e'', ''ur-a'', ''ur-b'', ''ur-r''}"
  by (auto simp: sample_simps)

lemma trancl_single: "a \<noteq> b \<Longrightarrow> {(a, b)}\<^sup>+ = {(a, b)}"
  by (rule trancl_id) (simp add: trans_def)

lemma sample_chain: "(blocks_rel (db_ticket sample_db) (db_edge sample_db))\<^sup>+ = {(''ur-a'', ''ur-b'')}"
  by (simp add: sample_blocks trancl_single)

theorem transitive_blockers_witness:
  "set (transitive_blockers stack_dfs (db_ticket sample_db) (db_edge sample_db) ''ur-b'') = {''ur-a''}"
proof -
  have "''ur-b'' \<in> ticket_ids sample_db" by (simp add: sample_ids)
  from transitive_blockers_correct [OF stack_search.petgraph_dfs_axioms sample_distinct this, of "db_edge sample_db"]
  have "set (transitive_blockers stack_dfs (db_ticket sample_db) (db_edge sample_db) ''ur-b'') =
      {b. (b, ''ur-b'') \<in> {(''ur-a'', ''ur-b'')} \<and> b \<noteq> ''ur-b''}"
    unfolding sample_chain by simp
  also have "\<dots> = {''ur-a''}" by auto
  finally show ?thesis .
qed

theorem blocked_among_witness:
  "blocked_among stack_dfs (db_ticket sample_db) (db_edge sample_db) [''ur-a'', ''ur-b''] = {''ur-b''}"
proof -
  have "\<exists>b \<in> set (db_ticket sample_db). et_id b = ''ur-a'' \<and> et_status b \<noteq> ''closed''"
    by (simp add: sample_simps)
  then have "{i \<in> set [''ur-a'', ''ur-b'']. \<exists>b \<in> set (db_ticket sample_db).
      (et_id b, i) \<in> {(''ur-a'', ''ur-b'')} \<and> et_id b \<noteq> i \<and> et_status b \<noteq> ''closed''} = {''ur-b''}"
    by auto
  then show ?thesis
    using blocked_among_correct [OF stack_search.petgraph_dfs_axioms sample_distinct, of "db_edge sample_db" "[''ur-a'', ''ur-b'']"]
    unfolding sample_chain by simp
qed

theorem would_create_cycle_witness:
  "would_create_cycle stack_path (db_ticket sample_db) (db_edge sample_db) ''ur-b'' ''ur-a''"
proof -
  have "acyclic (blocks_rel (db_ticket sample_db) (db_edge sample_db))"
    by (simp add: acyclic_def sample_chain)
  moreover have "\<not> acyclic {(''ur-b'', ''ur-a''), (''ur-a'', ''ur-b'')}"
  proof -
    have "(''ur-a'', ''ur-a'') \<in> {(''ur-b'', ''ur-a''), (''ur-a'', ''ur-b'')}\<^sup>+"
      by (rule trancl_into_trancl [of _ "''ur-b''"]) auto
    then show ?thesis by (auto simp: acyclic_def)
  qed
  moreover have "''ur-b'' \<in> ticket_ids sample_db" "''ur-a'' \<in> ticket_ids sample_db"
    by (simp_all add: sample_simps)
  ultimately show ?thesis
    using would_create_cycle_correct [OF stack_paths.petgraph_path_axioms sample_distinct, of "''ur-b''" "''ur-a''" "db_edge sample_db"]
    by (simp add: sample_blocks)
qed




theorem list_ticket_tree_correct_witness:
  "\<exists>rows. list_ticket_tree bytewise 5 sample_db ''ur-e'' None = Some rows \<and> ''ur-b'' \<in> tk_id ` fst ` set rows"
proof -
  let ?r = "sample_ticket ''ur-e'' ''code'' None 0" and ?b = "sample_ticket ''ur-b'' ''code'' (Some ''ur-e'') 2"
  have r: "?r \<in> set (db_ticket sample_db)" "?b \<in> set (db_ticket sample_db)" "length (db_ticket sample_db) < 5"
    by (simp_all add: sample_db_def)
  have b: "(et_id ?r, et_id ?b) \<in> (parent_rel_where (\<lambda>_. True) (db_ticket sample_db))\<^sup>+"
    by (rule r_into_trancl) (simp add: parent_rel_def sample_simps)
  have i: "et_id ?r = ''ur-e''" "et_id ?b = ''ur-b''" by (simp_all add: sample_ticket_def)
  obtain rows where rows: "list_ticket_tree bytewise 5 sample_db (et_id ?r) None = Some rows"
    and ids: "tk_id ` fst ` set rows = insert (et_id ?r) {et_id t |t. t \<in> set (db_ticket sample_db) \<and>
      (et_id ?r, et_id t) \<in> (parent_rel_where (\<lambda>_. True) (db_ticket sample_db))\<^sup>+}"
    using list_ticket_tree_correct [OF sample_schema r(1,3), of bytewise None] by (auto simp del: parent_rel_where_True)
  have "et_id ?b \<in> tk_id ` fst ` set rows" unfolding ids using r(2) b by blast
  with rows show ?thesis unfolding i by blast
qed

lemma sample_children:
  "(''ur-e'', c) \<in> (parent_rel (db_ticket sample_db))\<^sup>+ \<longleftrightarrow> c \<in> {''ur-a'', ''ur-b'', ''ur-r''}"
proof -
  have eq: "parent_rel (db_ticket sample_db) = {(''ur-e'', ''ur-a''), (''ur-e'', ''ur-b''), (''ur-e'', ''ur-r'')}"
    by (auto simp: parent_rel_def sample_simps)
  then have "(parent_rel (db_ticket sample_db))\<^sup>+ = parent_rel (db_ticket sample_db)"
    by (intro trancl_id) (auto simp: trans_def)
  then show ?thesis by (simp add: eq)
qed

theorem dispatchable_tickets_correct_witness:
  "\<exists>ds. dispatchable_tickets stack_dfs 5 sample_db ''ur-e'' None = Some ds \<and> dt_id ` set ds = {''ur-a''}"
proof -
  have "length (db_ticket sample_db) < 5" by (simp add: sample_db_def)
  from dispatchable_tickets_correct [OF stack_search.petgraph_dfs_axioms sample_schema this, of "''ur-e''" None]
  obtain ds where ds: "dispatchable_tickets stack_dfs 5 sample_db ''ur-e'' None = Some ds"
    and ids: "dt_id ` set ds = et_id ` {t \<in> set (db_ticket sample_db).
       et_id t \<in> {''ur-a'', ''ur-b'', ''ur-r''} \<and> et_status t = ''open'' \<and>
       is_ok_and (TicketType_from_str (et_type t)) is_dispatchable \<and>
       \<not> (\<exists>b \<in> set (db_ticket sample_db). (et_id b, et_id t) \<in> {(''ur-a'', ''ur-b'')} \<and>
             et_id b \<noteq> et_id t \<and> et_status b \<noteq> ''closed'')}"
    unfolding sample_chain sample_children by auto
  have "dt_id ` set ds = {''ur-a''}"
    unfolding ids set_filter [symmetric] by (simp add: sample_simps dispatchable_type_iff)
  with ds show ?thesis by blast
qed

end
