(* ===== verification/Ticket_Transfer.thy ===== *)
theory Ticket_Transfer
  imports Ticket_Repo_Props
begin

text \<open>
  Export and import of the ticket tables: the queries and the transaction of
  \<open>crates/ticket_db/src/ticket_repo.rs\<close>, and the streams of \<open>ticket_export/mod.rs\<close> and
  \<open>ticket_import/mod.rs\<close> in the server.

  A row travels as a kind and a JSON text. How \<open>serde_json\<close> writes and reads a row is the
  parameter \<open>serde\<close>; \<open>serde_ok\<close> says that it reads back what it wrote.
\<close>

subsection \<open>Export queries\<close>

definition export_tickets :: "coll \<Rightarrow> ticket_db \<Rightarrow> ExportTicket list" where
  "export_tickets le db = order_by (on_key le et_id) (db_ticket db)"

definition export_edges :: "coll \<Rightarrow> ticket_db \<Rightarrow> ExportEdge list" where
  "export_edges le db =
     order_by (then_by (on_key le ee_source_id) (then_by (on_key le ee_target_id) (on_key le ee_kind))) (db_edge db)"

definition export_meta :: "coll \<Rightarrow> ticket_db \<Rightarrow> ExportMeta list" where
  "export_meta le db =
     order_by (then_by (on_key le em_entity_type) (then_by (on_key le em_entity_id) (on_key le em_key))) (db_meta db)"

definition export_activities :: "coll \<Rightarrow> ticket_db \<Rightarrow> ExportActivity list" where
  "export_activities le db =
     order_by (then_by (on_key le ea_ticket_id) (then_by (on_key le ea_timestamp) (on_key le ea_id))) (db_activity db)"

definition export_ticket_comments :: "coll \<Rightarrow> ticket_db \<Rightarrow> ExportTicketComment list" where
  "export_ticket_comments le db =
     order_by (then_by (on_key le ec_ticket_id) (on_key le ec_comment_id)) (db_comments db)"

subsection \<open>Inserting the rows of an import\<close>

text \<open>A loop with a statement per row, which stops at the first error.\<close>

fun each_row :: "('r \<Rightarrow> ('s, 'e, unit) op) \<Rightarrow> 'r list \<Rightarrow> ('s, 'e, unit) op" where
  "each_row f [] = ret ()"
| "each_row f (r # rs) = bindS (f r) (\<lambda>_. each_row f rs)"

definition insert_tickets :: "ExportTicket list \<Rightarrow> (ticket_db, db_error, int) op" where
  "insert_tickets tickets =
     bindS (each_row (\<lambda>t. run_stmt (\<lambda>db. db\<lparr>db_ticket := db_ticket db @ [t]\<rparr>)) tickets)
       (\<lambda>_. ret (int (length tickets)))"

definition insert_edges :: "ExportEdge list \<Rightarrow> (ticket_db, db_error, int) op" where
  "insert_edges edges =
     bindS (each_row (\<lambda>e. run_stmt (\<lambda>db. db\<lparr>db_edge := insert_if_absent edge_key e (db_edge db)\<rparr>)) edges)
       (\<lambda>_. ret (int (length edges)))"

definition insert_meta :: "ExportMeta list \<Rightarrow> (ticket_db, db_error, int) op" where
  "insert_meta meta =
     bindS (each_row (\<lambda>m. run_stmt (\<lambda>db. db\<lparr>db_meta := insert_if_absent meta_key m (db_meta db)\<rparr>)) meta)
       (\<lambda>_. ret (int (length meta)))"

definition insert_activities :: "ExportActivity list \<Rightarrow> (ticket_db, db_error, int) op" where
  "insert_activities activities =
     bindS (each_row (\<lambda>a. run_stmt (\<lambda>db. db\<lparr>db_activity := insert_if_absent ea_id a (db_activity db)\<rparr>)) activities)
       (\<lambda>_. ret (int (length activities)))"

definition insert_ticket_comments :: "ExportTicketComment list \<Rightarrow> (ticket_db, db_error, int) op" where
  "insert_ticket_comments comments =
     bindS (each_row (\<lambda>c. run_stmt (\<lambda>db. db\<lparr>db_comments := insert_if_absent comment_key c (db_comments db)\<rparr>)) comments)
       (\<lambda>_. ret (int (length comments)))"

record import_batch =
  ib_tickets :: "ExportTicket list"
  ib_edges :: "ExportEdge list"
  ib_meta :: "ExportMeta list"
  ib_activities :: "ExportActivity list"
  ib_comments :: "ExportTicketComment list"

definition insert_import_rows :: "import_batch \<Rightarrow> (ticket_db, db_error, int) op" where
  "insert_import_rows b =
     bindS (insert_tickets (ib_tickets b)) (\<lambda>n1.
     bindS (insert_edges (ib_edges b)) (\<lambda>n2.
     bindS (insert_meta (ib_meta b)) (\<lambda>n3.
     bindS (insert_activities (ib_activities b)) (\<lambda>n4.
     bindS (insert_ticket_comments (ib_comments b)) (\<lambda>n5.
     ret (n1 + n2 + n3 + n4 + n5))))))"

definition check_ticket_id_collisions :: "ticket_db \<Rightarrow> ExportTicket list \<Rightarrow> ImportError + unit" where
  "check_ticket_id_collisions db tickets =
     (if tickets = [] then Inr ()
      else
        let existing = filter (\<lambda>i. i \<in> et_id ` set tickets) (map et_id (db_ticket db)) in
        if existing = [] then Inr () else Inl (IdCollision existing))"

text \<open>The transaction: an error inside it undoes every statement.\<close>

definition import_records :: "(db_error \<Rightarrow> string) \<Rightarrow> import_batch \<Rightarrow> (ticket_db, ImportError, int) op" where
  "import_records show_db b db =
     (case check_ticket_id_collisions db (ib_tickets b) of
        Inl e \<Rightarrow> (db, Inl e)
      | Inr _ \<Rightarrow>
          (case insert_import_rows b db of
             (db', Inr n) \<Rightarrow> (db', Inr n)
           | (_, Inl e) \<Rightarrow> (db, Inl (Db (show_db e)))))"

subsection \<open>The streams\<close>

record TicketExportRecord =
  xr_kind :: string
  xr_json :: string

datatype stream_status = InvalidArgument string | AlreadyExists string | Internal string

record serde =
  sj_ticket :: "ExportTicket \<Rightarrow> string + string"
  sj_edge :: "ExportEdge \<Rightarrow> string + string"
  sj_meta :: "ExportMeta \<Rightarrow> string + string"
  sj_activity :: "ExportActivity \<Rightarrow> string + string"
  sj_comment :: "ExportTicketComment \<Rightarrow> string + string"
  sj_ticket_of :: "string \<Rightarrow> string + ExportTicket"
  sj_edge_of :: "string \<Rightarrow> string + ExportEdge"
  sj_meta_of :: "string \<Rightarrow> string + ExportMeta"
  sj_activity_of :: "string \<Rightarrow> string + ExportActivity"
  sj_comment_of :: "string \<Rightarrow> string + ExportTicketComment"

text \<open>The channel to the client: what was sent, and whether the client still takes a record.\<close>

record export_channel =
  xc_sent :: "TicketExportRecord list"
  xc_open :: "nat \<Rightarrow> bool"

definition send_record :: "TicketExportRecord \<Rightarrow> (export_channel, stream_status, unit) op" where
  "send_record rec ch =
     (if xc_open ch (length (xc_sent ch)) then (ch\<lparr>xc_sent := xc_sent ch @ [rec]\<rparr>, Inr ())
      else (ch, Inl (Internal ''export stream closed'')))"

definition export_record :: "string \<Rightarrow> string + string \<Rightarrow> stream_status + TicketExportRecord" where
  "export_record kind text =
     (case text of
        Inl e \<Rightarrow> Inl (Internal (''serialization failed: '' @ e))
      | Inr json \<Rightarrow> Inr \<lparr>xr_kind = kind, xr_json = json\<rparr>)"

definition stream_row :: "string \<Rightarrow> ('r \<Rightarrow> string + string) \<Rightarrow> 'r \<Rightarrow> (export_channel, stream_status, unit) op" where
  "stream_row kind to_json row =
     (case export_record kind (to_json row) of Inl e \<Rightarrow> throw e | Inr rec \<Rightarrow> send_record rec)"

definition stream_tickets :: "coll \<Rightarrow> serde \<Rightarrow> ticket_db \<Rightarrow> (export_channel, stream_status, unit) op" where
  "stream_tickets le sj db = each_row (stream_row ''ticket'' (sj_ticket sj)) (export_tickets le db)"

definition stream_edges :: "coll \<Rightarrow> serde \<Rightarrow> ticket_db \<Rightarrow> (export_channel, stream_status, unit) op" where
  "stream_edges le sj db = each_row (stream_row ''edge'' (sj_edge sj)) (export_edges le db)"

definition stream_meta :: "coll \<Rightarrow> serde \<Rightarrow> ticket_db \<Rightarrow> (export_channel, stream_status, unit) op" where
  "stream_meta le sj db = each_row (stream_row ''meta'' (sj_meta sj)) (export_meta le db)"

definition stream_activities :: "coll \<Rightarrow> serde \<Rightarrow> ticket_db \<Rightarrow> (export_channel, stream_status, unit) op" where
  "stream_activities le sj db = each_row (stream_row ''activity'' (sj_activity sj)) (export_activities le db)"

definition stream_ticket_comments :: "coll \<Rightarrow> serde \<Rightarrow> ticket_db \<Rightarrow> (export_channel, stream_status, unit) op" where
  "stream_ticket_comments le sj db =
     each_row (stream_row ''ticket_comment'' (sj_comment sj)) (export_ticket_comments le db)"

definition stream_export :: "coll \<Rightarrow> serde \<Rightarrow> ticket_db \<Rightarrow> (export_channel, stream_status, unit) op" where
  "stream_export le sj db =
     bindS (stream_tickets le sj db) (\<lambda>_.
     bindS (stream_edges le sj db) (\<lambda>_.
     bindS (stream_meta le sj db) (\<lambda>_.
     bindS (stream_activities le sj db) (\<lambda>_.
     stream_ticket_comments le sj db))))"

text \<open>The records the client gets, and the error that ends the stream if the client is still there.\<close>

definition ticket_export :: "coll \<Rightarrow> serde \<Rightarrow> (nat \<Rightarrow> bool) \<Rightarrow> ticket_db \<Rightarrow> TicketExportRecord list \<times> stream_status option" where
  "ticket_export le sj listening db =
     (case stream_export le sj db \<lparr>xc_sent = [], xc_open = listening\<rparr> of
        (ch, Inr _) \<Rightarrow> (xc_sent ch, None)
      | (ch, Inl e) \<Rightarrow> (xc_sent ch, if listening (length (xc_sent ch)) then Some e else None))"

definition parsed :: "string \<Rightarrow> string + 'r \<Rightarrow> stream_status + 'r" where
  "parsed what r = (case r of Inl e \<Rightarrow> Inl (InvalidArgument (''invalid '' @ what @ '' json: '' @ e)) | Inr a \<Rightarrow> Inr a)"

definition bucket_record :: "serde \<Rightarrow> TicketExportRecord \<Rightarrow> import_batch \<Rightarrow> stream_status + import_batch" where
  "bucket_record sj rec b =
     (if xr_kind rec = ''ticket''
      then and_then (parsed ''ticket'' (sj_ticket_of sj (xr_json rec))) (\<lambda>t. Inr (b\<lparr>ib_tickets := ib_tickets b @ [t]\<rparr>))
      else if xr_kind rec = ''edge''
      then and_then (parsed ''edge'' (sj_edge_of sj (xr_json rec))) (\<lambda>e. Inr (b\<lparr>ib_edges := ib_edges b @ [e]\<rparr>))
      else if xr_kind rec = ''meta''
      then and_then (parsed ''meta'' (sj_meta_of sj (xr_json rec))) (\<lambda>m. Inr (b\<lparr>ib_meta := ib_meta b @ [m]\<rparr>))
      else if xr_kind rec = ''activity''
      then and_then (parsed ''activity'' (sj_activity_of sj (xr_json rec))) (\<lambda>a. Inr (b\<lparr>ib_activities := ib_activities b @ [a]\<rparr>))
      else if xr_kind rec = ''ticket_comment''
      then and_then (parsed ''ticket_comment'' (sj_comment_of sj (xr_json rec))) (\<lambda>c. Inr (b\<lparr>ib_comments := ib_comments b @ [c]\<rparr>))
      else Inr b)"

definition empty_batch :: import_batch where
  "empty_batch = \<lparr>ib_tickets = [], ib_edges = [], ib_meta = [], ib_activities = [], ib_comments = []\<rparr>"

definition run_import :: "(db_error \<Rightarrow> string) \<Rightarrow> serde \<Rightarrow> TicketExportRecord list \<Rightarrow> (ticket_db, stream_status, int) op" where
  "run_import show_db sj records db =
     (case try_fold (bucket_record sj) records empty_batch of
        Inl e \<Rightarrow> (db, Inl e)
      | Inr b \<Rightarrow>
          (case import_records show_db b db of
             (db', Inr n) \<Rightarrow> (db', Inr n)
           | (db', Inl (IdCollision ids)) \<Rightarrow>
               (db', Inl (AlreadyExists (''import aborted: ticket id collision(s): '' @ join '', '' ids)))
           | (db', Inl (Db msg)) \<Rightarrow> (db', Inl (Internal (''import database error: '' @ msg)))))"

text \<open>The call buffers the whole stream first; an error of the transport ends it before anything is read.\<close>

definition ticket_import ::
  "(db_error \<Rightarrow> string) \<Rightarrow> serde \<Rightarrow> stream_status + TicketExportRecord list \<Rightarrow> (ticket_db, stream_status, int) op" where
  "ticket_import show_db sj stream =
     (case stream of Inl e \<Rightarrow> throw e | Inr records \<Rightarrow> run_import show_db sj records)"

end
