(* ===== verification/Transfer_Props.thy ===== *)
theory Transfer_Props
  imports Ticket_Transfer
begin

text \<open>
  What an export and an import of its records give: a copy of the tables, when the ids of the
  tickets are ordered so that every parent comes before its children, and a refused import otherwise.
\<close>

subsection \<open>Inserting rows that are not there yet\<close>

locale keyed_table = state_part get put
  for get :: "ticket_db \<Rightarrow> 'r list" and put :: "'r list \<Rightarrow> ticket_db \<Rightarrow> ticket_db" +
  fixes key :: "'r \<Rightarrow> 'k"
begin

lemma each_absent:
  assumes "distinct (map key (pre @ rows))"
    and "\<And>xs. set xs \<subseteq> set (pre @ rows) \<Longrightarrow> distinct (map key xs) \<Longrightarrow> schema_ok (put xs db)"
  shows "each_row (\<lambda>r. run_stmt (\<lambda>d. put (insert_if_absent key r (get d)) d)) rows (put pre db) = (put (pre @ rows) db, Inr ())"
  using assms
proof (induction rows arbitrary: pre)
  case (Cons r rows)
  have "insert_if_absent key r pre = pre @ [r]"
    using Cons.prems(1) by (auto simp: insert_if_absent_def)
  moreover have "schema_ok (put (pre @ [r]) db)"
    by (rule Cons.prems(2)) (use Cons.prems(1) in auto)
  ultimately have "run_stmt (\<lambda>d. put (insert_if_absent key r (get d)) d) (put pre db) = (put (pre @ [r]) db, Inr ())"
    by (simp add: run_stmt_ok)
  then show ?case
    using Cons.IH [of "pre @ [r]"] Cons.prems by simp
qed simp

end

interpretation edge_table: keyed_table db_edge "\<lambda>rs. db_edge_update (\<lambda>_. rs)" edge_key
  by unfold_locales simp_all

interpretation meta_table: keyed_table db_meta "\<lambda>rs. db_meta_update (\<lambda>_. rs)" meta_key
  by unfold_locales simp_all

interpretation activity_table: keyed_table db_activity "\<lambda>rs. db_activity_update (\<lambda>_. rs)" ea_id
  by unfold_locales simp_all

interpretation comment_table: keyed_table db_comments "\<lambda>rs. db_comments_update (\<lambda>_. rs)" comment_key
  by unfold_locales simp_all

subsection \<open>Copies of tables\<close>

definition empty_db :: ticket_db where
  "empty_db = \<lparr>db_ticket = [], db_edge = [], db_meta = [], db_activity = [], db_comments = []\<rparr>"

definition batch_of :: "ticket_db \<Rightarrow> import_batch" where
  "batch_of db = \<lparr>ib_tickets = db_ticket db, ib_edges = db_edge db, ib_meta = db_meta db, ib_activities = db_activity db,
     ib_comments = db_comments db\<rparr>"

definition exported :: "coll \<Rightarrow> ticket_db \<Rightarrow> ticket_db" where
  "exported le db = \<lparr>db_ticket = export_tickets le db, db_edge = export_edges le db, db_meta = export_meta le db,
     db_activity = export_activities le db, db_comments = export_ticket_comments le db\<rparr>"

definition row_count :: "ticket_db \<Rightarrow> int" where
  "row_count db = int (length (db_ticket db) + length (db_edge db) + length (db_meta db) + length (db_activity db) + length (db_comments db))"

definition same_rows :: "ticket_db \<Rightarrow> ticket_db \<Rightarrow> bool" where
  "same_rows db db' =
     (set (db_ticket db') = set (db_ticket db) \<and> set (db_edge db') = set (db_edge db) \<and> set (db_meta db') = set (db_meta db) \<and>
      set (db_activity db') = set (db_activity db) \<and> set (db_comments db') = set (db_comments db))"

text \<open>In a list of tickets every parent comes before its children.\<close>

fun parents_first :: "string set \<Rightarrow> ExportTicket list \<Rightarrow> bool" where
  "parents_first seen_ids [] = True"
| "parents_first seen_ids (t # ts) = (set_option (et_parent_id t) \<subseteq> seen_ids \<and> parents_first (insert (et_id t) seen_ids) ts)"

lemmas export_defs = export_tickets_def export_edges_def export_meta_def export_activities_def export_ticket_comments_def

lemma exported_rows: "same_rows db (exported le db)"
  by (simp add: same_rows_def exported_def export_defs)

lemma exported_tickets: "db_ticket (exported le db) = export_tickets le db"
  by (simp add: exported_def)

lemma exported_count: "row_count (exported le db) = row_count db"
  by (simp add: row_count_def exported_def export_defs)

lemma exported_schema: "schema_ok db \<Longrightarrow> schema_ok (exported le db)"
  by (simp add: schema_defs exported_def export_defs parent_rel_def)

lemma schema_ok_fewer:
  assumes "schema_ok db" and "db_ticket d = db_ticket db"
    and "set (db_edge d) \<subseteq> set (db_edge db)" "set (db_activity d) \<subseteq> set (db_activity db)"
    and "set (db_comments d) \<subseteq> set (db_comments db)" and "unique_ok d"
  shows "schema_ok d"
  using assms by (auto simp: schema_defs subset_iff)

lemma no_self_parent: "schema_ok db \<Longrightarrow> t \<in> set (db_ticket db) \<Longrightarrow> et_parent_id t \<noteq> Some (et_id t)"
  by (auto simp: schema_ok_iff parent_rel_def acyclic_def)

subsection \<open>Inserting a batch into an empty database\<close>

abbreviation with_tickets :: "ExportTicket list \<Rightarrow> ticket_db" where
  "with_tickets ts \<equiv> empty_db\<lparr>db_ticket := ts\<rparr>"

abbreviation add_ticket :: "ExportTicket \<Rightarrow> (ticket_db, db_error, unit) op" where
  "add_ticket t \<equiv> run_stmt (\<lambda>db. db\<lparr>db_ticket := db_ticket db @ [t]\<rparr>)"

lemma add_ticket_with:
  assumes "schema_ok (with_tickets ts)" and "et_id t \<notin> et_id ` set ts"
  shows "set_option (et_parent_id t) \<subseteq> et_id ` set ts \<Longrightarrow> add_ticket t (with_tickets ts) = (with_tickets (ts @ [t]), Inr ())"
    and "\<not> set_option (et_parent_id t) \<subseteq> insert (et_id t) (et_id ` set ts) \<Longrightarrow>
      add_ticket t (with_tickets ts) = (with_tickets ts, Inl ForeignKeyViolation)"
proof -
  show "add_ticket t (with_tickets ts) = (with_tickets (ts @ [t]), Inr ())" if "set_option (et_parent_id t) \<subseteq> et_id ` set ts"
    using schema_append_ticket [of "with_tickets ts" t] assms that by (simp add: run_stmt_ok)
  show "add_ticket t (with_tickets ts) = (with_tickets ts, Inl ForeignKeyViolation)"
    if "\<not> set_option (et_parent_id t) \<subseteq> insert (et_id t) (et_id ` set ts)"
  proof (rule run_stmt_fk)
    show "unique_ok ((with_tickets ts)\<lparr>db_ticket := db_ticket (with_tickets ts) @ [t]\<rparr>)"
      using unique_append_ticket [OF assms(1), of t] assms(2) by simp
    show "\<not> fk_ok ((with_tickets ts)\<lparr>db_ticket := db_ticket (with_tickets ts) @ [t]\<rparr>)"
      using that by (auto simp: fk_ok_def parent_ok_iff)
  qed
qed

lemma each_ticket:
  assumes "distinct (map et_id (pre @ ts))" and "\<forall>t \<in> set ts. et_parent_id t \<noteq> Some (et_id t)"
    and "schema_ok (with_tickets pre)"
  shows "if parents_first (et_id ` set pre) ts then each_row add_ticket ts (with_tickets pre) = (with_tickets (pre @ ts), Inr ())
    else snd (each_row add_ticket ts (with_tickets pre)) = Inl ForeignKeyViolation"
  using assms
proof (induction ts arbitrary: pre)
  case (Cons t ts)
  let ?seen = "et_id ` set pre"
  have new: "et_id t \<notin> ?seen"
    using Cons.prems(1) by auto
  show ?case
  proof (cases "set_option (et_parent_id t) \<subseteq> ?seen")
    case True
    have "schema_ok (with_tickets (pre @ [t]))"
      using schema_append_ticket [of "with_tickets pre" t] Cons.prems(3) new True by simp
    then show ?thesis
      using Cons.IH [of "pre @ [t]"] add_ticket_with(1) [OF Cons.prems(3) new True] Cons.prems(1,2) True by simp
  next
    case False
    then have "\<not> set_option (et_parent_id t) \<subseteq> insert (et_id t) ?seen"
      using Cons.prems(2) by (cases "et_parent_id t") auto
    then show ?thesis
      using add_ticket_with(2) [OF Cons.prems(3) new] False by simp
  qed
qed simp

text \<open>The other tables, filled one after the other on top of the tickets.\<close>

lemma unique_empty [simp]: "unique_ok empty_db" "schema_ok empty_db"
  by (simp_all add: schema_defs empty_db_def parent_rel_def acyclic_def)

lemma fill_tables:
  assumes ok: "schema_ok F"
  defines "D1 \<equiv> with_tickets (db_ticket F)"
  defines "D2 \<equiv> D1\<lparr>db_edge := db_edge F\<rparr>"
  defines "D3 \<equiv> D2\<lparr>db_meta := db_meta F\<rparr>"
  defines "D4 \<equiv> D3\<lparr>db_activity := db_activity F\<rparr>"
  shows "insert_edges (db_edge F) D1 = (D2, Inr (int (length (db_edge F))))"
    and "insert_meta (db_meta F) D2 = (D3, Inr (int (length (db_meta F))))"
    and "insert_activities (db_activity F) D3 = (D4, Inr (int (length (db_activity F))))"
    and "insert_ticket_comments (db_comments F) D4 = (F, Inr (int (length (db_comments F))))"
proof -
  note D = D1_def D2_def D3_def D4_def empty_db_def
  have u: "unique_ok F" using ok by (simp add: schema_ok_def)
  have start: "D1 = D1\<lparr>db_edge := []\<rparr>" "D2 = D2\<lparr>db_meta := []\<rparr>" "D3 = D3\<lparr>db_activity := []\<rparr>" "D4 = D4\<lparr>db_comments := []\<rparr>"
    by (simp_all add: D)
  have last: "F = D4\<lparr>db_comments := db_comments F\<rparr>"
    by (simp add: D)
  have "each_row (\<lambda>e. run_stmt (\<lambda>d. d\<lparr>db_edge := insert_if_absent edge_key e (db_edge d)\<rparr>)) (db_edge F) (D1\<lparr>db_edge := []\<rparr>) =
      (D1\<lparr>db_edge := [] @ db_edge F\<rparr>, Inr ())"
    by (rule edge_table.each_absent)
      (use u in \<open>auto simp: unique_ok_def D intro!: schema_ok_fewer [OF ok]\<close>)
  then show "insert_edges (db_edge F) D1 = (D2, Inr (int (length (db_edge F))))"
    using start by (simp add: insert_edges_def D2_def)
  have "each_row (\<lambda>m. run_stmt (\<lambda>d. d\<lparr>db_meta := insert_if_absent meta_key m (db_meta d)\<rparr>)) (db_meta F) (D2\<lparr>db_meta := []\<rparr>) =
      (D2\<lparr>db_meta := [] @ db_meta F\<rparr>, Inr ())"
    by (rule meta_table.each_absent)
      (use u in \<open>auto simp: unique_ok_def D intro!: schema_ok_fewer [OF ok]\<close>)
  then show "insert_meta (db_meta F) D2 = (D3, Inr (int (length (db_meta F))))"
    using start by (simp add: insert_meta_def D3_def)
  have "each_row (\<lambda>a. run_stmt (\<lambda>d. d\<lparr>db_activity := insert_if_absent ea_id a (db_activity d)\<rparr>)) (db_activity F) (D3\<lparr>db_activity := []\<rparr>) =
      (D3\<lparr>db_activity := [] @ db_activity F\<rparr>, Inr ())"
    by (rule activity_table.each_absent)
      (use u in \<open>auto simp: unique_ok_def D intro!: schema_ok_fewer [OF ok]\<close>)
  then show "insert_activities (db_activity F) D3 = (D4, Inr (int (length (db_activity F))))"
    using start by (simp add: insert_activities_def D4_def)
  have "each_row (\<lambda>c. run_stmt (\<lambda>d. d\<lparr>db_comments := insert_if_absent comment_key c (db_comments d)\<rparr>)) (db_comments F) (D4\<lparr>db_comments := []\<rparr>) =
      (D4\<lparr>db_comments := [] @ db_comments F\<rparr>, Inr ())"
    by (rule comment_table.each_absent)
      (use u in \<open>auto simp: unique_ok_def D intro!: schema_ok_fewer [OF ok]\<close>)
  then show "insert_ticket_comments (db_comments F) D4 = (F, Inr (int (length (db_comments F))))"
    using start last by (simp add: insert_ticket_comments_def)
qed

lemma import_batch:
  assumes "schema_ok F"
  shows "if parents_first {} (db_ticket F) then insert_import_rows (batch_of F) empty_db = (F, Inr (row_count F))
    else snd (insert_import_rows (batch_of F) empty_db) = Inl ForeignKeyViolation"
proof -
  have "distinct (map et_id ([] @ db_ticket F))" "\<forall>t \<in> set (db_ticket F). et_parent_id t \<noteq> Some (et_id t)" "schema_ok (with_tickets [])"
    using assms no_self_parent [OF assms] unique_empty by (auto simp: schema_ok_def unique_ok_def empty_db_def)
  note tickets = each_ticket [OF this]
  have none: "with_tickets [] = empty_db" by (simp add: empty_db_def)
  show ?thesis
  proof (cases "parents_first {} (db_ticket F)")
    case True
    then have "each_row add_ticket (db_ticket F) empty_db = (with_tickets (db_ticket F), Inr ())"
      using tickets none by simp
    then show ?thesis
      using True fill_tables [OF assms] by (simp add: insert_import_rows_def batch_of_def insert_tickets_def row_count_def)
  next
    case False
    then have "snd (each_row add_ticket (db_ticket F) empty_db) = Inl ForeignKeyViolation"
      using tickets none by simp
    then show ?thesis
      using False by (auto simp: insert_import_rows_def batch_of_def insert_tickets_def bindS_def split: prod.splits sum.splits)
  qed
qed

subsection \<open>Streaming\<close>

text \<open>What the code relies on of \<open>serde_json\<close>: a row is written, and read back as it was.\<close>

definition reads_back :: "('r \<Rightarrow> string + string) \<Rightarrow> (string \<Rightarrow> string + 'r) \<Rightarrow> bool" where
  "reads_back to_json of_json = (\<forall>r. \<exists>j. to_json r = Inr j \<and> of_json j = Inr r)"

definition serde_ok :: "serde \<Rightarrow> bool" where
  "serde_ok sj =
     (reads_back (sj_ticket sj) (sj_ticket_of sj) \<and> reads_back (sj_edge sj) (sj_edge_of sj) \<and>
      reads_back (sj_meta sj) (sj_meta_of sj) \<and> reads_back (sj_activity sj) (sj_activity_of sj) \<and>
      reads_back (sj_comment sj) (sj_comment_of sj))"

definition record_of :: "string \<Rightarrow> ('r \<Rightarrow> string + string) \<Rightarrow> 'r \<Rightarrow> TicketExportRecord" where
  "record_of kind to_json r = \<lparr>xr_kind = kind, xr_json = projr (to_json r)\<rparr>"

definition records_of :: "serde \<Rightarrow> ticket_db \<Rightarrow> TicketExportRecord list" where
  "records_of sj db =
     map (record_of ''ticket'' (sj_ticket sj)) (db_ticket db) @ map (record_of ''edge'' (sj_edge sj)) (db_edge db) @
     map (record_of ''meta'' (sj_meta sj)) (db_meta db) @ map (record_of ''activity'' (sj_activity sj)) (db_activity db) @
     map (record_of ''ticket_comment'' (sj_comment sj)) (db_comments db)"

lemma reads_back_projr: "reads_back to_json of_json \<Longrightarrow> of_json (projr (to_json r)) = Inr r"
  unfolding reads_back_def by (metis sum.sel(2))

lemma reads_back_Inr: "reads_back to_json of_json \<Longrightarrow> to_json r = Inr (projr (to_json r))"
  unfolding reads_back_def by (metis sum.sel(2))

lemma stream_rows:
  assumes "reads_back to_json of_json" and "\<And>n. xc_open ch n"
  shows "each_row (stream_row kind to_json) rows ch = (ch\<lparr>xc_sent := xc_sent ch @ map (record_of kind to_json) rows\<rparr>, Inr ())"
  using assms(2)
proof (induction rows arbitrary: ch)
  case (Cons r rows)
  have "stream_row kind to_json r ch = (ch\<lparr>xc_sent := xc_sent ch @ [record_of kind to_json r]\<rparr>, Inr ())"
    using reads_back_Inr [OF assms(1), of r] Cons.prems
    by (auto simp: stream_row_def export_record_def send_record_def record_of_def split: sum.splits)
  then show ?case
    using Cons by simp
qed simp

lemma stream_all:
  assumes "serde_ok sj"
  shows "ticket_export le sj (\<lambda>_. True) db = (records_of sj (exported le db), None)"
proof -
  let ?ch = "\<lambda>rs. \<lparr>xc_sent = rs, xc_open = \<lambda>_. True\<rparr>"
  have "reads_back (sj_ticket sj) (sj_ticket_of sj)" "reads_back (sj_edge sj) (sj_edge_of sj)"
    "reads_back (sj_meta sj) (sj_meta_of sj)" "reads_back (sj_activity sj) (sj_activity_of sj)"
    "reads_back (sj_comment sj) (sj_comment_of sj)"
    using assms by (simp_all add: serde_ok_def)
  note runs = this [THEN stream_rows]
  have "stream_export le sj db (?ch []) = (?ch (records_of sj (exported le db)), Inr ())"
    by (simp add: stream_export_def stream_tickets_def stream_edges_def stream_meta_def stream_activities_def
        stream_ticket_comments_def runs records_of_def exported_def)
  then show ?thesis
    by (simp add: ticket_export_def)
qed

text \<open>Reading records of one kind appends their rows to one list of the batch.\<close>

locale batch_list = state_part get put
  for get :: "import_batch \<Rightarrow> 'r list" and put :: "'r list \<Rightarrow> import_batch \<Rightarrow> import_batch" +
  fixes kind :: string and to_json :: "serde \<Rightarrow> 'r \<Rightarrow> string + string" and of_json :: "serde \<Rightarrow> string \<Rightarrow> string + 'r"
  assumes bucket: "bucket_record sj \<lparr>xr_kind = kind, xr_json = j\<rparr> b =
      and_then (parsed kind (of_json sj j)) (\<lambda>r. Inr (put (get b @ [r]) b))"
begin

lemma bucket_rows:
  assumes "reads_back (to_json sj) (of_json sj)"
  shows "try_fold (bucket_record sj) (map (record_of kind (to_json sj)) rows) b = Inr (put (get b @ rows) b)"
  by (induction rows arbitrary: b) (simp_all add: record_of_def bucket reads_back_projr [OF assms] parsed_def)

end

interpretation tickets_list: batch_list ib_tickets "\<lambda>rs. ib_tickets_update (\<lambda>_. rs)" "''ticket''" sj_ticket sj_ticket_of
  by unfold_locales (simp_all add: bucket_record_def)

interpretation edges_list: batch_list ib_edges "\<lambda>rs. ib_edges_update (\<lambda>_. rs)" "''edge''" sj_edge sj_edge_of
  by unfold_locales (simp_all add: bucket_record_def)

interpretation meta_list: batch_list ib_meta "\<lambda>rs. ib_meta_update (\<lambda>_. rs)" "''meta''" sj_meta sj_meta_of
  by unfold_locales (simp_all add: bucket_record_def)

interpretation activities_list: batch_list ib_activities "\<lambda>rs. ib_activities_update (\<lambda>_. rs)" "''activity''" sj_activity sj_activity_of
  by unfold_locales (simp_all add: bucket_record_def)

interpretation comments_list: batch_list ib_comments "\<lambda>rs. ib_comments_update (\<lambda>_. rs)" "''ticket_comment''" sj_comment sj_comment_of
  by unfold_locales (simp_all add: bucket_record_def)

lemma bucket_all:
  assumes "serde_ok sj"
  shows "try_fold (bucket_record sj) (records_of sj db) empty_batch = Inr (batch_of db)"
  using assms
  by (simp add: serde_ok_def records_of_def try_fold_append batch_of_def empty_batch_def tickets_list.bucket_rows
      edges_list.bucket_rows meta_list.bucket_rows activities_list.bucket_rows comments_list.bucket_rows)

subsection \<open>Round trip\<close>

lemma exported_again:
  assumes "collation le"
  shows "exported le (exported le db) = exported le db"
proof -
  have base: "total_preorder (on_key le k)" for k :: "'r \<Rightarrow> string"
    using assms by (simp add: collation_def total_preorder_on_key)
  have sorted: "order_by R (order_by R rs) = order_by R rs" if "total_preorder R" for R :: "'r \<Rightarrow> 'r \<Rightarrow> bool" and rs
    using total_preorder.order_by_sorted [OF that] total_preorder.sorted_order_by [OF that] by blast
  show ?thesis
    unfolding exported_def export_defs by (simp add: sorted base total_preorder_then_by)
qed

lemma import_of_export:
  assumes "schema_ok db" and "serde_ok sj"
  shows "ticket_import show_db sj (Inr (records_of sj (exported le db))) empty_db =
    (if parents_first {} (export_tickets le db) then (exported le db, Inr (row_count db))
     else (empty_db, Inl (Internal (''import database error: '' @ show_db ForeignKeyViolation))))"
proof -
  have free: "check_ticket_id_collisions empty_db ts = Inr ()" for ts
    by (simp add: check_ticket_id_collisions_def empty_db_def)
  have "if parents_first {} (export_tickets le db)
      then insert_import_rows (batch_of (exported le db)) empty_db = (exported le db, Inr (row_count db))
      else snd (insert_import_rows (batch_of (exported le db)) empty_db) = Inl ForeignKeyViolation"
    using import_batch [OF exported_schema [OF assms(1)], of le] by (simp add: exported_count exported_tickets split: if_splits)
  then show ?thesis
    by (auto simp: ticket_import_def run_import_def bucket_all [OF assms(2)] import_records_def free split: if_splits prod.splits)
qed

text \<open>
  C12: exporting a database and importing the records into an empty one copies it exactly when the
  order of the ids puts every parent before its children: the copy has the same rows in every
  table, keeps the constraints, the count returned is the number of rows, and exporting the copy
  gives the same records. Otherwise the import is refused with a foreign key error and the
  database stays empty.
\<close>

theorem export_import_roundtrip:
  assumes "collation le" and "schema_ok db" and "serde_ok sj"
  shows "\<exists>records. ticket_export le sj (\<lambda>_. True) db = (records, None) \<and>
    (if parents_first {} (export_tickets le db)
     then \<exists>db'. ticket_import show_db sj (Inr records) empty_db = (db', Inr (row_count db)) \<and> same_rows db db' \<and> schema_ok db' \<and>
                ticket_export le sj (\<lambda>_. True) db' = (records, None)
     else ticket_import show_db sj (Inr records) empty_db =
            (empty_db, Inl (Internal (''import database error: '' @ show_db ForeignKeyViolation))))"
  using import_of_export [OF assms(2,3), of show_db le] stream_all [OF assms(3)]
  by (simp add: exported_rows exported_schema [OF assms(2)] exported_again [OF assms(1)])

end
