(* ===== verification/Transfer_Examples.thy ===== *)
theory Transfer_Examples
  imports Transfer_Props
begin

text \<open>
  A text form of the rows that reads back what it wrote, and two exports: one whose import gives a
  copy, and one whose import is refused because a child's id comes before its parent's.
\<close>

subsection \<open>A text form of rows\<close>

fun enc_text :: "string \<Rightarrow> string" where
  "enc_text [] = ''.''"
| "enc_text (c # cs) = CHR ''c'' # c # enc_text cs"

fun dec_text :: "string \<Rightarrow> (string \<times> string) option" where
  "dec_text (x # c # s) =
     (if x = CHR ''.'' then Some ([], c # s) else case dec_text s of Some (t, r) \<Rightarrow> Some (c # t, r) | None \<Rightarrow> None)"
| "dec_text [x] = (if x = CHR ''.'' then Some ([], []) else None)"
| "dec_text [] = None"

fun dec_fields :: "nat \<Rightarrow> string \<Rightarrow> string list" where
  "dec_fields 0 s = []"
| "dec_fields (Suc n) s = (case dec_text s of None \<Rightarrow> [] | Some (t, r) \<Rightarrow> t # dec_fields n r)"

definition enc_fields :: "string list \<Rightarrow> string" where
  "enc_fields fs = concat (map enc_text fs)"

lemma dec_enc_text: "dec_text (enc_text t @ r) = Some (t, r)"
proof (induction t)
  case Nil
  then show ?case by (cases r) simp_all
qed simp

lemma dec_enc_fields: "dec_fields (length fs) (enc_fields fs) = fs"
proof (induction fs)
  case (Cons f fs)
  then show ?case using dec_enc_text [of f "enc_fields fs"] by (simp add: enc_fields_def)
qed simp

definition opt_text :: "string option \<Rightarrow> string" where
  "opt_text x = (case x of None \<Rightarrow> [] | Some s \<Rightarrow> CHR ''s'' # s)"

definition text_opt :: "string \<Rightarrow> string option" where
  "text_opt s = (case s of [] \<Rightarrow> None | _ # r \<Rightarrow> Some r)"

definition bool_text :: "bool \<Rightarrow> string" where
  "bool_text b = (if b then ''t'' else [])"

definition int_text :: "int \<Rightarrow> string" where
  "int_text n = (if n < 0 then CHR ''-'' # replicate (nat (- n)) CHR ''1'' else replicate (nat n) CHR ''1'')"

definition text_int :: "string \<Rightarrow> int" where
  "text_int s = (case s of c # r \<Rightarrow> if c = CHR ''-'' then - int (length r) else int (length s) | [] \<Rightarrow> 0)"

lemma text_opt_text: "text_opt (opt_text x) = x"
  by (simp add: text_opt_def opt_text_def split: option.splits)

lemma text_int_text: "text_int (int_text n) = n"
proof (cases "nat n")
  case (Suc k)
  then have "n = 1 + int k" by simp
  then show ?thesis using Suc by (simp add: text_int_def int_text_def)
qed (auto simp: text_int_def int_text_def)

lemma bool_text_iff: "(bool_text b = ''t'') = b"
  by (simp add: bool_text_def)

definition ex_serde :: serde where
  "ex_serde =
     \<lparr>sj_ticket = (\<lambda>t. Inr (enc_fields [et_id t, et_project t, et_type t, et_status t, et_lifecycle_status t,
         bool_text (et_lifecycle_managed t), int_text (et_priority t), opt_text (et_parent_id t), et_title t, et_body t,
         opt_text (et_branch t), et_created_at t, et_updated_at t])),
      sj_edge = (\<lambda>e. Inr (enc_fields [ee_source_id e, ee_target_id e, ee_kind e])),
      sj_meta = (\<lambda>m. Inr (enc_fields [em_entity_id m, em_entity_type m, em_key m, em_value m])),
      sj_activity = (\<lambda>a. Inr (enc_fields [ea_id a, ea_ticket_id a, ea_timestamp a, ea_author a, ea_message a])),
      sj_comment = (\<lambda>c. Inr (enc_fields [ec_comment_id c, ec_ticket_id c, int_text (ec_pr_number c), ec_gh_repo c,
         bool_text (ec_reply_posted c), ec_created_at c])),
      sj_ticket_of = (\<lambda>s. let f = dec_fields 13 s in if length f \<noteq> 13 then Inl ''missing field'' else
         Inr \<lparr>et_id = f ! 0, et_project = f ! 1, et_type = f ! 2, et_status = f ! 3, et_lifecycle_status = f ! 4,
           et_lifecycle_managed = (f ! 5 = ''t''), et_priority = text_int (f ! 6), et_parent_id = text_opt (f ! 7),
           et_title = f ! 8, et_body = f ! 9, et_branch = text_opt (f ! 10), et_created_at = f ! 11, et_updated_at = f ! 12\<rparr>),
      sj_edge_of = (\<lambda>s. let f = dec_fields 3 s in if length f \<noteq> 3 then Inl ''missing field'' else
         Inr \<lparr>ee_source_id = f ! 0, ee_target_id = f ! 1, ee_kind = f ! 2\<rparr>),
      sj_meta_of = (\<lambda>s. let f = dec_fields 4 s in if length f \<noteq> 4 then Inl ''missing field'' else
         Inr \<lparr>em_entity_id = f ! 0, em_entity_type = f ! 1, em_key = f ! 2, em_value = f ! 3\<rparr>),
      sj_activity_of = (\<lambda>s. let f = dec_fields 5 s in if length f \<noteq> 5 then Inl ''missing field'' else
         Inr \<lparr>ea_id = f ! 0, ea_ticket_id = f ! 1, ea_timestamp = f ! 2, ea_author = f ! 3, ea_message = f ! 4\<rparr>),
      sj_comment_of = (\<lambda>s. let f = dec_fields 6 s in if length f \<noteq> 6 then Inl ''missing field'' else
         Inr \<lparr>ec_comment_id = f ! 0, ec_ticket_id = f ! 1, ec_pr_number = text_int (f ! 2), ec_gh_repo = f ! 3,
           ec_reply_posted = (f ! 4 = ''t''), ec_created_at = f ! 5\<rparr>)\<rparr>"

lemma fields_back: "length fs = n \<Longrightarrow> dec_fields n (enc_fields fs) = fs"
  using dec_enc_fields by blast

lemma ex_serde_ok: "serde_ok ex_serde"
  by (simp add: serde_ok_def reads_back_def ex_serde_def fields_back text_opt_text text_int_text bool_text_iff)

subsection \<open>Two exports\<close>

definition ex_row :: "string \<Rightarrow> string option \<Rightarrow> ExportTicket" where
  "ex_row i p = \<lparr>et_id = i, et_project = ''ur'', et_type = ''code'', et_status = ''open'', et_lifecycle_status = ''open'',
     et_lifecycle_managed = True, et_priority = 1, et_parent_id = p, et_title = ''title'', et_body = [],
     et_branch = None, et_created_at = ''2026'', et_updated_at = ''2026''\<rparr>"

definition ex_family :: "string \<Rightarrow> string \<Rightarrow> ticket_db" where
  "ex_family parent child = \<lparr>db_ticket = [ex_row child (Some parent), ex_row parent None],
     db_edge = [\<lparr>ee_source_id = child, ee_target_id = parent, ee_kind = ''relates_to''\<rparr>],
     db_meta = [\<lparr>em_entity_id = child, em_entity_type = ''ticket'', em_key = ''ref'', em_value = ''R-1''\<rparr>],
     db_activity = [], db_comments = []\<rparr>"

lemma ex_family_ok: "schema_ok (ex_family ''ur-a'' ''ur-b'')" "schema_ok (ex_family ''ur-b'' ''ur-a'')"
  by code_simp+

lemma ex_family_order:
  "parents_first {} (export_tickets bytewise (ex_family ''ur-a'' ''ur-b''))"
  "\<not> parents_first {} (export_tickets bytewise (ex_family ''ur-b'' ''ur-a''))"
  "row_count (ex_family ''ur-a'' ''ur-b'') = 4"
  by code_simp+

theorem export_import_roundtrip_witness:
  "(\<exists>db'. ticket_import (\<lambda>_. ''fk'') ex_serde (Inr (fst (ticket_export bytewise ex_serde (\<lambda>_. True) (ex_family ''ur-a'' ''ur-b'')))) empty_db =
       (db', Inr 4) \<and> same_rows (ex_family ''ur-a'' ''ur-b'') db') \<and>
   ticket_import (\<lambda>_. ''fk'') ex_serde (Inr (fst (ticket_export bytewise ex_serde (\<lambda>_. True) (ex_family ''ur-b'' ''ur-a'')))) empty_db =
     (empty_db, Inl (Internal ''import database error: fk''))"
  using export_import_roundtrip [OF c_collation.collation_axioms ex_family_ok(1) ex_serde_ok, of "\<lambda>_. ''fk''"]
    export_import_roundtrip [OF c_collation.collation_axioms ex_family_ok(2) ex_serde_ok, of "\<lambda>_. ''fk''"] ex_family_order
  by auto

end
