(* ===== verification/Workflow_Repo.thy ===== *)
theory Workflow_Repo
  imports Ticket_Repo
begin

text \<open>
  The workflow store of \<open>crates/workflow_db/src/workflow_repo.rs\<close> over the workflow tables of
  \<open>crates/workflow_db/migrations/001_initial.sql\<close>, with the event and condition names of
  \<open>crates/ur_rpc/src/workflow_event.rs\<close> and \<open>workflow_condition.rs\<close>.

  Tables are lists of rows and statements are checked as in the ticket store. A counter
  (\<open>INTEGER\<close>, four bytes) that would leave its range makes the statement fail. Rows that a query
  leaves unordered, or that tie in its order, come in the order they were inserted.
\<close>

subsection \<open>Names\<close>

datatype WorkflowEventKind =
    WAwaitingDispatch | WImplementing | WVerifying | WPushing | WInReview | WAddressingFeedback
  | WMerging | WDone | WCancelled
  | WPrCreated | WCiSucceeded | WCiFailed | WReviewApproved | WReviewChangesRequested
  | WMergeConflictDetected | WStalled

fun WorkflowEvent_as_str :: "WorkflowEventKind \<Rightarrow> string" where
  "WorkflowEvent_as_str WAwaitingDispatch = ''awaiting_dispatch''"
| "WorkflowEvent_as_str WImplementing = ''implementing''"
| "WorkflowEvent_as_str WVerifying = ''verifying''"
| "WorkflowEvent_as_str WPushing = ''pushing''"
| "WorkflowEvent_as_str WInReview = ''in_review''"
| "WorkflowEvent_as_str WAddressingFeedback = ''addressing_feedback''"
| "WorkflowEvent_as_str WMerging = ''merging''"
| "WorkflowEvent_as_str WDone = ''done''"
| "WorkflowEvent_as_str WCancelled = ''cancelled''"
| "WorkflowEvent_as_str WPrCreated = ''pr_created''"
| "WorkflowEvent_as_str WCiSucceeded = ''ci_succeeded''"
| "WorkflowEvent_as_str WCiFailed = ''ci_failed''"
| "WorkflowEvent_as_str WReviewApproved = ''review_approved''"
| "WorkflowEvent_as_str WReviewChangesRequested = ''review_changes_requested''"
| "WorkflowEvent_as_str WMergeConflictDetected = ''merge_conflict_detected''"
| "WorkflowEvent_as_str WStalled = ''stalled''"

datatype WorkflowCondition = CiStatus | Mergeable | ReviewStatus

definition ci_PENDING :: string where "ci_PENDING = ''pending''"
definition ci_SUCCEEDED :: string where "ci_SUCCEEDED = ''succeeded''"
definition ci_FAILED :: string where "ci_FAILED = ''failed''"
definition mergeable_UNKNOWN :: string where "mergeable_UNKNOWN = ''unknown''"
definition mergeable_MERGEABLE :: string where "mergeable_MERGEABLE = ''mergeable''"
definition mergeable_CONFLICT :: string where "mergeable_CONFLICT = ''conflict''"
definition review_PENDING :: string where "review_PENDING = ''pending''"
definition review_APPROVED :: string where "review_APPROVED = ''approved''"
definition review_CHANGES_REQUESTED :: string where "review_CHANGES_REQUESTED = ''changes_requested''"

definition feedback_NOW :: string where "feedback_NOW = ''now''"
definition feedback_LATER :: string where "feedback_LATER = ''later''"

subsection \<open>Rows and tables\<close>

record WorkflowEvent =
  we_id :: string
  we_ticket_id :: string
  we_old_lifecycle_status :: LifecycleStatus
  we_new_lifecycle_status :: LifecycleStatus
  we_attempts :: int
  we_created_at :: string

record WorkflowEventRow =
  er_event :: string
  er_created_at :: string

record Workflow =
  wf_id :: string
  wf_ticket_id :: string
  wf_status :: LifecycleStatus
  wf_stalled :: bool
  wf_stall_reason :: string
  wf_implement_cycles :: int
  wf_worker_id :: string
  wf_noverify :: bool
  wf_feedback_mode :: string
  wf_ci_status :: string
  wf_mergeable :: string
  wf_review_status :: string
  wf_created_at :: string

record WorkflowIntent =
  wi_id :: string
  wi_ticket_id :: string
  wi_target_status :: LifecycleStatus
  wi_created_at :: string

record PaginatedWorkflow =
  pw_workflow :: Workflow
  pw_ticket_children_open :: int
  pw_ticket_children_closed :: int

text \<open>The rows as stored, with lifecycle statuses in their textual form.\<close>

record event_queue_row =
  qr_id :: string
  qr_ticket_id :: string
  qr_old :: string
  qr_new :: string
  qr_attempts :: int
  qr_created_at :: string

record workflow_row =
  wr_id :: string
  wr_ticket_id :: string
  wr_status :: string
  wr_stalled :: bool
  wr_stall_reason :: string
  wr_implement_cycles :: int
  wr_worker_id :: string
  wr_noverify :: bool
  wr_feedback_mode :: string
  wr_ci_status :: string
  wr_mergeable :: string
  wr_review_status :: string
  wr_created_at :: string

record intent_row =
  ir_id :: string
  ir_ticket_id :: string
  ir_target_status :: string
  ir_created_at :: string

record comment_row =
  cr_ticket_id :: string
  cr_comment_id :: string
  cr_feedback_created :: bool
  cr_created_at :: string

record event_row =
  ev_id :: string
  ev_workflow_id :: string
  ev_event :: string
  ev_created_at :: string

record workflow_db =
  w_workflow :: "workflow_row list"
  w_queue :: "event_queue_row list"
  w_intent :: "intent_row list"
  w_comments :: "comment_row list"
  w_events :: "event_row list"

definition int4 :: "int \<Rightarrow> bool" where
  "int4 n = (- (2 ^ 31) \<le> n \<and> n < 2 ^ 31)"

definition wf_unique_ok :: "workflow_db \<Rightarrow> bool" where
  "wf_unique_ok db =
     (distinct (map wr_id (w_workflow db)) \<and> distinct (map qr_id (w_queue db)) \<and>
      distinct (map ir_id (w_intent db)) \<and>
      distinct (map (\<lambda>c. (cr_ticket_id c, cr_comment_id c)) (w_comments db)) \<and>
      distinct (map ev_id (w_events db)))"

definition wf_fk_ok :: "workflow_db \<Rightarrow> bool" where
  "wf_fk_ok db = (\<forall>e \<in> set (w_events db). ev_workflow_id e \<in> wr_id ` set (w_workflow db))"

definition wf_int_ok :: "workflow_db \<Rightarrow> bool" where
  "wf_int_ok db = ((\<forall>w \<in> set (w_workflow db). int4 (wr_implement_cycles w)) \<and> (\<forall>q \<in> set (w_queue db). int4 (qr_attempts q)))"

definition wf_schema_ok :: "workflow_db \<Rightarrow> bool" where
  "wf_schema_ok db = (wf_int_ok db \<and> wf_unique_ok db \<and> wf_fk_ok db)"

definition run_wf :: "(workflow_db \<Rightarrow> workflow_db) \<Rightarrow> (workflow_db, db_error, unit) op" where
  "run_wf f db =
     (let db' = f db in
      if \<not> wf_int_ok db' then (db, Inl IntegerOutOfRange)
      else if \<not> wf_unique_ok db' then (db, Inl UniqueViolation)
      else if \<not> wf_fk_ok db' then (db, Inl ForeignKeyViolation)
      else (db', Inr ()))"

subsection \<open>The queue of lifecycle events\<close>

definition event_from_row :: "event_queue_row \<Rightarrow> WorkflowEvent" where
  "event_from_row r =
     \<lparr>we_id = qr_id r, we_ticket_id = qr_ticket_id r, we_old_lifecycle_status = parse_lifecycle (qr_old r),
      we_new_lifecycle_status = parse_lifecycle (qr_new r), we_attempts = qr_attempts r, we_created_at = qr_created_at r\<rparr>"

definition first_row :: "'a list \<Rightarrow> 'a option" where
  "first_row rows = (case rows of [] \<Rightarrow> None | r # _ \<Rightarrow> Some r)"

definition poll_workflow_event :: "coll \<Rightarrow> workflow_db \<Rightarrow> WorkflowEvent option" where
  "poll_workflow_event le db = map_option event_from_row (first_row (order_by (on_key le qr_id) (w_queue db)))"

definition create_lifecycle_event ::
  "string \<Rightarrow> string \<Rightarrow> string \<Rightarrow> LifecycleStatus \<Rightarrow> LifecycleStatus \<Rightarrow> (workflow_db, db_error, unit) op" where
  "create_lifecycle_event uuid now ticket_id old_status new_status =
     run_wf (\<lambda>db. db\<lparr>w_queue := w_queue db @
       [\<lparr>qr_id = uuid, qr_ticket_id = ticket_id, qr_old = LifecycleStatus_as_str old_status,
         qr_new = LifecycleStatus_as_str new_status, qr_attempts = 0, qr_created_at = now\<rparr>]\<rparr>)"

definition delete_workflow_event :: "string \<Rightarrow> (workflow_db, db_error, unit) op" where
  "delete_workflow_event i = run_wf (\<lambda>db. db\<lparr>w_queue := delete_where (\<lambda>q. qr_id q = i) (w_queue db)\<rparr>)"

definition delete_workflow_events_for_ticket :: "string \<Rightarrow> (workflow_db, db_error, unit) op" where
  "delete_workflow_events_for_ticket ticket_id =
     run_wf (\<lambda>db. db\<lparr>w_queue := delete_where (\<lambda>q. qr_ticket_id q = ticket_id) (w_queue db)\<rparr>)"

definition increment_workflow_event_attempts :: "string \<Rightarrow> (workflow_db, db_error, unit) op" where
  "increment_workflow_event_attempts i =
     run_wf (\<lambda>db. db\<lparr>w_queue := update_where (\<lambda>q. qr_id q = i) (\<lambda>q. q\<lparr>qr_attempts := qr_attempts q + 1\<rparr>) (w_queue db)\<rparr>)"

subsection \<open>Workflows\<close>

definition active_row :: "workflow_row \<Rightarrow> bool" where
  "active_row w = (wr_status w \<notin> {''done'', ''cancelled''})"

definition row_to_workflow :: "workflow_row \<Rightarrow> Workflow" where
  "row_to_workflow r =
     \<lparr>wf_id = wr_id r, wf_ticket_id = wr_ticket_id r, wf_status = parse_lifecycle (wr_status r), wf_stalled = wr_stalled r,
      wf_stall_reason = wr_stall_reason r, wf_implement_cycles = wr_implement_cycles r, wf_worker_id = wr_worker_id r,
      wf_noverify = wr_noverify r, wf_feedback_mode = wr_feedback_mode r, wf_ci_status = wr_ci_status r,
      wf_mergeable = wr_mergeable r, wf_review_status = wr_review_status r, wf_created_at = wr_created_at r\<rparr>"

definition new_workflow_row :: "string \<Rightarrow> string \<Rightarrow> string \<Rightarrow> LifecycleStatus \<Rightarrow> workflow_row" where
  "new_workflow_row uuid now ticket_id status =
     \<lparr>wr_id = uuid, wr_ticket_id = ticket_id, wr_status = LifecycleStatus_as_str status, wr_stalled = False,
      wr_stall_reason = [], wr_implement_cycles = 0, wr_worker_id = [], wr_noverify = False, wr_feedback_mode = [],
      wr_ci_status = ''pending'', wr_mergeable = ''unknown'', wr_review_status = ''pending'', wr_created_at = now\<rparr>"

definition create_workflow ::
  "string \<Rightarrow> string \<Rightarrow> string \<Rightarrow> LifecycleStatus \<Rightarrow> (workflow_db, db_error, Workflow) op" where
  "create_workflow uuid now ticket_id status =
     bindS (run_wf (\<lambda>db. db\<lparr>w_workflow := w_workflow db @ [new_workflow_row uuid now ticket_id status]\<rparr>))
       (\<lambda>_. ret \<lparr>wf_id = uuid, wf_ticket_id = ticket_id, wf_status = status, wf_stalled = False, wf_stall_reason = [],
                 wf_implement_cycles = 0, wf_worker_id = [], wf_noverify = False, wf_feedback_mode = [],
                 wf_ci_status = ci_PENDING, wf_mergeable = mergeable_UNKNOWN, wf_review_status = review_PENDING,
                 wf_created_at = now\<rparr>)"

definition get_workflow_by_ticket_inner :: "coll \<Rightarrow> workflow_db \<Rightarrow> string \<Rightarrow> bool \<Rightarrow> Workflow option" where
  "get_workflow_by_ticket_inner le db ticket_id active_only =
     (let rows = filter (\<lambda>w. wr_ticket_id w = ticket_id) (w_workflow db) in
      map_option row_to_workflow
        (first_row (if active_only then filter active_row rows
                    else order_by (on_key (\<lambda>a b. le b a) wr_created_at) rows)))"

definition get_workflow_by_ticket :: "coll \<Rightarrow> workflow_db \<Rightarrow> string \<Rightarrow> Workflow option" where
  "get_workflow_by_ticket le db ticket_id = get_workflow_by_ticket_inner le db ticket_id True"

definition get_latest_workflow_by_ticket :: "coll \<Rightarrow> workflow_db \<Rightarrow> string \<Rightarrow> Workflow option" where
  "get_latest_workflow_by_ticket le db ticket_id = get_workflow_by_ticket_inner le db ticket_id False"

definition status_clause :: "LifecycleStatus option \<Rightarrow> workflow_row \<Rightarrow> bool" where
  "status_clause status w = (case status of Some s \<Rightarrow> wr_status w = LifecycleStatus_as_str s | None \<Rightarrow> active_row w)"

definition list_workflows :: "coll \<Rightarrow> workflow_db \<Rightarrow> LifecycleStatus option \<Rightarrow> Workflow list" where
  "list_workflows le db status =
     map row_to_workflow (order_by (on_key le wr_created_at) (filter (status_clause status) (w_workflow db)))"

definition pg_row_to_paginated :: "workflow_row \<Rightarrow> PaginatedWorkflow" where
  "pg_row_to_paginated r = \<lparr>pw_workflow = row_to_workflow r, pw_ticket_children_open = 0, pw_ticket_children_closed = 0\<rparr>"

text \<open>The rows of \<open>build_paginated_sql\<close>: each with the window count of all matching rows.\<close>

definition paginated_rows ::
  "coll \<Rightarrow> workflow_db \<Rightarrow> int option \<Rightarrow> int \<Rightarrow> LifecycleStatus option \<Rightarrow> db_error + (workflow_row \<times> int) list" where
  "paginated_rows le db page_size offset status =
     (let rows = order_by (on_key le wr_created_at) (filter (status_clause status) (w_workflow db));
          counted = map (\<lambda>r. (r, int (length rows))) rows in
      case page_size of Some ps \<Rightarrow> limit_offset ps offset counted | None \<Rightarrow> Inr counted)"

definition list_workflows_paginated ::
  "coll \<Rightarrow> workflow_db \<Rightarrow> int option \<Rightarrow> int \<Rightarrow> LifecycleStatus option \<Rightarrow> db_error + (PaginatedWorkflow list \<times> int)" where
  "list_workflows_paginated le db page_size offset status =
     and_then (paginated_rows le db page_size offset status) (\<lambda>rows.
       let total_count = (case rows of [] \<Rightarrow> 0 | r # _ \<Rightarrow> snd r) in
       Inr (map (pg_row_to_paginated \<circ> fst) rows, total_count))"

text \<open>Every update is restricted to the ticket's workflows that are neither done nor cancelled.\<close>

definition update_active :: "string \<Rightarrow> (workflow_row \<Rightarrow> workflow_row) \<Rightarrow> (workflow_db, db_error, unit) op" where
  "update_active ticket_id f =
     run_wf (\<lambda>db. db\<lparr>w_workflow := update_where (\<lambda>w. wr_ticket_id w = ticket_id \<and> active_row w) f (w_workflow db)\<rparr>)"

definition update_workflow_status :: "string \<Rightarrow> LifecycleStatus \<Rightarrow> (workflow_db, db_error, unit) op" where
  "update_workflow_status ticket_id status = update_active ticket_id (\<lambda>w. w\<lparr>wr_status := LifecycleStatus_as_str status\<rparr>)"

definition set_workflow_stalled :: "string \<Rightarrow> string \<Rightarrow> (workflow_db, db_error, unit) op" where
  "set_workflow_stalled ticket_id reason = update_active ticket_id (\<lambda>w. w\<lparr>wr_stalled := True, wr_stall_reason := reason\<rparr>)"

definition clear_workflow_stall :: "string \<Rightarrow> (workflow_db, db_error, unit) op" where
  "clear_workflow_stall ticket_id = update_active ticket_id (\<lambda>w. w\<lparr>wr_stalled := False, wr_stall_reason := []\<rparr>)"

definition increment_implement_cycles :: "string \<Rightarrow> (workflow_db, db_error, unit) op" where
  "increment_implement_cycles ticket_id = update_active ticket_id (\<lambda>w. w\<lparr>wr_implement_cycles := wr_implement_cycles w + 1\<rparr>)"

definition reset_implement_cycles :: "string \<Rightarrow> (workflow_db, db_error, unit) op" where
  "reset_implement_cycles ticket_id = update_active ticket_id (\<lambda>w. w\<lparr>wr_implement_cycles := 0\<rparr>)"

definition set_workflow_worker_id :: "string \<Rightarrow> string \<Rightarrow> (workflow_db, db_error, unit) op" where
  "set_workflow_worker_id ticket_id worker_id = update_active ticket_id (\<lambda>w. w\<lparr>wr_worker_id := worker_id\<rparr>)"

definition set_workflow_noverify :: "string \<Rightarrow> bool \<Rightarrow> (workflow_db, db_error, unit) op" where
  "set_workflow_noverify ticket_id noverify = update_active ticket_id (\<lambda>w. w\<lparr>wr_noverify := noverify\<rparr>)"

definition set_workflow_feedback_mode :: "string \<Rightarrow> string \<Rightarrow> (workflow_db, db_error, unit) op" where
  "set_workflow_feedback_mode ticket_id feedback_mode = update_active ticket_id (\<lambda>w. w\<lparr>wr_feedback_mode := feedback_mode\<rparr>)"

definition update_workflow_condition :: "string \<Rightarrow> WorkflowCondition \<Rightarrow> string \<Rightarrow> (workflow_db, db_error, unit) op" where
  "update_workflow_condition ticket_id condition val =
     update_active ticket_id
       (case condition of
          CiStatus \<Rightarrow> (\<lambda>w. w\<lparr>wr_ci_status := val\<rparr>)
        | Mergeable \<Rightarrow> (\<lambda>w. w\<lparr>wr_mergeable := val\<rparr>)
        | ReviewStatus \<Rightarrow> (\<lambda>w. w\<lparr>wr_review_status := val\<rparr>))"

definition initialize_workflow_conditions :: "string \<Rightarrow> (workflow_db, db_error, unit) op" where
  "initialize_workflow_conditions ticket_id =
     update_active ticket_id
       (\<lambda>w. w\<lparr>wr_ci_status := ci_PENDING, wr_mergeable := mergeable_UNKNOWN, wr_review_status := review_PENDING\<rparr>)"

definition insert_workflow_event_at ::
  "string \<Rightarrow> string \<Rightarrow> WorkflowEventKind \<Rightarrow> string \<Rightarrow> (workflow_db, db_error, unit) op" where
  "insert_workflow_event_at uuid workflow_id event created_at =
     run_wf (\<lambda>db. db\<lparr>w_events := w_events db @
       [\<lparr>ev_id = uuid, ev_workflow_id = workflow_id, ev_event = WorkflowEvent_as_str event, ev_created_at = created_at\<rparr>]\<rparr>)"

definition insert_workflow_event ::
  "string \<Rightarrow> string \<Rightarrow> string \<Rightarrow> WorkflowEventKind \<Rightarrow> (workflow_db, db_error, unit) op" where
  "insert_workflow_event uuid now workflow_id event =
     run_wf (\<lambda>db. db\<lparr>w_events := w_events db @
       [\<lparr>ev_id = uuid, ev_workflow_id = workflow_id, ev_event = WorkflowEvent_as_str event, ev_created_at = now\<rparr>]\<rparr>)"

definition get_workflow_events :: "coll \<Rightarrow> workflow_db \<Rightarrow> string \<Rightarrow> WorkflowEventRow list" where
  "get_workflow_events le db workflow_id =
     map (\<lambda>e. \<lparr>er_event = ev_event e, er_created_at = ev_created_at e\<rparr>)
       (order_by (on_key le ev_created_at) (filter (\<lambda>e. ev_workflow_id e = workflow_id) (w_events db)))"

subsection \<open>Intents\<close>

definition intent_from_row :: "intent_row \<Rightarrow> WorkflowIntent" where
  "intent_from_row r =
     \<lparr>wi_id = ir_id r, wi_ticket_id = ir_ticket_id r, wi_target_status = parse_lifecycle (ir_target_status r),
      wi_created_at = ir_created_at r\<rparr>"

definition create_intent ::
  "string \<Rightarrow> string \<Rightarrow> string \<Rightarrow> LifecycleStatus \<Rightarrow> (workflow_db, db_error, WorkflowIntent) op" where
  "create_intent uuid now ticket_id target_status =
     bindS (run_wf (\<lambda>db. db\<lparr>w_intent := w_intent db @
              [\<lparr>ir_id = uuid, ir_ticket_id = ticket_id, ir_target_status = LifecycleStatus_as_str target_status,
                ir_created_at = now\<rparr>]\<rparr>))
       (\<lambda>_. ret \<lparr>wi_id = uuid, wi_ticket_id = ticket_id, wi_target_status = target_status, wi_created_at = now\<rparr>)"

definition list_intents :: "coll \<Rightarrow> workflow_db \<Rightarrow> WorkflowIntent list" where
  "list_intents le db = map intent_from_row (order_by (on_key le ir_created_at) (w_intent db))"

definition poll_intent :: "coll \<Rightarrow> workflow_db \<Rightarrow> WorkflowIntent option" where
  "poll_intent le db = map_option intent_from_row (first_row (order_by (on_key le ir_created_at) (w_intent db)))"

definition delete_intent :: "string \<Rightarrow> (workflow_db, db_error, unit) op" where
  "delete_intent i = run_wf (\<lambda>db. db\<lparr>w_intent := delete_where (\<lambda>r. ir_id r = i) (w_intent db)\<rparr>)"

definition delete_intents_for_ticket :: "string \<Rightarrow> (workflow_db, db_error, unit) op" where
  "delete_intents_for_ticket ticket_id =
     run_wf (\<lambda>db. db\<lparr>w_intent := delete_where (\<lambda>r. ir_ticket_id r = ticket_id) (w_intent db)\<rparr>)"

subsection \<open>Lookups by ticket, status and worker\<close>

text \<open>Collecting into a hash map keeps the last row of a ticket.\<close>

definition get_active_workflows_by_ticket_ids :: "workflow_db \<Rightarrow> string list \<Rightarrow> (string \<rightharpoonup> string)" where
  "get_active_workflows_by_ticket_ids db ids =
     (if ids = [] then Map.empty
      else map_of (rev (filter (\<lambda>(tid, _). tid \<in> set ids)
             (map (\<lambda>w. (wr_ticket_id w, wr_status w)) (filter active_row (w_workflow db))))))"

definition ticket_ids_by_workflow_status :: "coll \<Rightarrow> workflow_db \<Rightarrow> LifecycleStatus \<Rightarrow> string list" where
  "ticket_ids_by_workflow_status le db status =
     map wr_ticket_id (order_by (on_key le wr_created_at)
       (filter (\<lambda>w. wr_status w = LifecycleStatus_as_str status) (w_workflow db)))"

definition ticket_id_by_worker_id :: "workflow_db \<Rightarrow> string \<Rightarrow> string option" where
  "ticket_id_by_worker_id db worker_id =
     map_option wr_ticket_id (first_row (filter (\<lambda>w. wr_worker_id w = worker_id \<and> active_row w) (w_workflow db)))"

subsection \<open>Seen review comments\<close>

definition insert_comment_row :: "string \<Rightarrow> string \<Rightarrow> string \<Rightarrow> (workflow_db, db_error, unit) op" where
  "insert_comment_row now ticket_id comment_id =
     run_wf (\<lambda>db. db\<lparr>w_comments := insert_if_absent (\<lambda>c. (cr_ticket_id c, cr_comment_id c))
       \<lparr>cr_ticket_id = ticket_id, cr_comment_id = comment_id, cr_feedback_created = False, cr_created_at = now\<rparr> (w_comments db)\<rparr>)"

fun insert_workflow_comments :: "string \<Rightarrow> string \<Rightarrow> string list \<Rightarrow> (workflow_db, db_error, unit) op" where
  "insert_workflow_comments now ticket_id [] = ret ()"
| "insert_workflow_comments now ticket_id (c # cs) =
     bindS (insert_comment_row now ticket_id c) (\<lambda>_. insert_workflow_comments now ticket_id cs)"

definition get_pending_feedback_comments :: "coll \<Rightarrow> workflow_db \<Rightarrow> string \<Rightarrow> string list" where
  "get_pending_feedback_comments le db ticket_id =
     map cr_comment_id (order_by (on_key le cr_created_at)
       (filter (\<lambda>c. cr_ticket_id c = ticket_id \<and> \<not> cr_feedback_created c) (w_comments db)))"

fun mark_feedback_created :: "string \<Rightarrow> string list \<Rightarrow> (workflow_db, db_error, unit) op" where
  "mark_feedback_created ticket_id [] = ret ()"
| "mark_feedback_created ticket_id (c # cs) =
     bindS (run_wf (\<lambda>db. db\<lparr>w_comments := update_where (\<lambda>r. cr_ticket_id r = ticket_id \<and> cr_comment_id r = c)
              (\<lambda>r. r\<lparr>cr_feedback_created := True\<rparr>) (w_comments db)\<rparr>))
       (\<lambda>_. mark_feedback_created ticket_id cs)"

definition get_seen_comment_ids :: "coll \<Rightarrow> workflow_db \<Rightarrow> string \<Rightarrow> string list" where
  "get_seen_comment_ids le db ticket_id =
     map cr_comment_id (order_by (on_key le cr_created_at) (filter (\<lambda>c. cr_ticket_id c = ticket_id) (w_comments db)))"

end
