(* ===== verification/Workflow_Repo_Props.thy ===== *)
theory Workflow_Repo_Props
  imports Workflow_Repo Ticket_Query_Props
begin

text \<open>
  Properties of the workflow store: finished workflows never change, the effect of the updates and
  the range of the cycle counter, pagination, and the book-keeping of review comments.
\<close>

subsection \<open>Statements\<close>

interpretation workflow_store: constrained_store wf_schema_ok run_wf
  by unfold_locales (auto simp: run_wf_def wf_schema_ok_def Let_def)

lemmas wf_schema_defs = wf_schema_ok_def wf_int_ok_def wf_unique_ok_def wf_fk_ok_def

lemmas workflow_stmts =
  create_lifecycle_event_def delete_workflow_event_def delete_workflow_events_for_ticket_def
  increment_workflow_event_attempts_def update_workflow_status_def set_workflow_stalled_def
  clear_workflow_stall_def increment_implement_cycles_def reset_implement_cycles_def
  set_workflow_worker_id_def set_workflow_noverify_def set_workflow_feedback_mode_def
  update_workflow_condition_def initialize_workflow_conditions_def insert_workflow_event_at_def
  insert_workflow_event_def delete_intent_def delete_intents_for_ticket_def insert_comment_row_def

subsection \<open>Finished workflows\<close>

definition terminal_rows :: "workflow_db \<Rightarrow> workflow_row set" where
  "terminal_rows db = {w \<in> set (w_workflow db). \<not> active_row w}"

definition finished_kept :: "workflow_db \<Rightarrow> workflow_db \<Rightarrow> bool" where
  "finished_kept db db' = (terminal_rows db \<subseteq> terminal_rows db')"

lemma finished_kept_refl [simp]: "reflp finished_kept"
  by (simp add: finished_kept_def reflp_def)

lemma finished_kept_trans [simp]: "transp finished_kept"
  by (auto simp: finished_kept_def transp_def)

lemma keeps_run_wf:
  "(\<And>db. finished_kept db (f db)) \<Longrightarrow> keeps finished_kept (run_wf f)"
  by (rule workflow_store.stmt_keeps) simp_all

lemma keeps_update_active [simp, intro]: "keeps finished_kept (update_active t f)"
  unfolding update_active_def
  by (rule keeps_run_wf) (auto simp: finished_kept_def terminal_rows_def sql)

lemma keeps_other_tables [simp, intro]:
  "(\<And>db. w_workflow (f db) = w_workflow db) \<Longrightarrow> keeps finished_kept (run_wf f)"
  by (rule keeps_run_wf) (simp add: finished_kept_def terminal_rows_def)

lemma keeps_create_workflow: "keeps finished_kept (create_workflow uuid now t st)"
  unfolding create_workflow_def
  by (intro keeps_bindS keeps_ret keeps_run_wf) (auto simp: finished_kept_def terminal_rows_def)

lemma keeps_create_intent: "keeps finished_kept (create_intent uuid now t st)"
  unfolding create_intent_def by (intro keeps_bindS keeps_ret keeps_other_tables) simp_all

lemma keeps_insert_workflow_comments: "keeps finished_kept (insert_workflow_comments now t cs)"
  by (induction cs) (auto simp: insert_comment_row_def keeps_def [of _ "\<lambda>a. (a, _)"] reflpD)

lemma keeps_mark_feedback_created: "keeps finished_kept (mark_feedback_created t cs)"
  by (induction cs) (auto simp: keeps_def [of _ "\<lambda>a. (a, _)"] reflpD)

text \<open>
  C26: a workflow that is done or cancelled is final: no operation of the workflow store changes or
  removes its row, whatever ticket it is called for and whether it succeeds or fails.
\<close>

theorem finished_workflows_immutable:
  "keeps finished_kept (create_lifecycle_event uuid now t old_st new_st) \<and>
   keeps finished_kept (delete_workflow_event i) \<and>
   keeps finished_kept (delete_workflow_events_for_ticket t) \<and>
   keeps finished_kept (increment_workflow_event_attempts i) \<and>
   keeps finished_kept (create_workflow uuid now t st) \<and>
   keeps finished_kept (update_workflow_status t st) \<and>
   keeps finished_kept (set_workflow_stalled t reason) \<and>
   keeps finished_kept (clear_workflow_stall t) \<and>
   keeps finished_kept (increment_implement_cycles t) \<and>
   keeps finished_kept (reset_implement_cycles t) \<and>
   keeps finished_kept (set_workflow_worker_id t w) \<and>
   keeps finished_kept (set_workflow_noverify t b) \<and>
   keeps finished_kept (set_workflow_feedback_mode t mode) \<and>
   keeps finished_kept (update_workflow_condition t cond val) \<and>
   keeps finished_kept (initialize_workflow_conditions t) \<and>
   keeps finished_kept (insert_workflow_event_at uuid i ev now) \<and>
   keeps finished_kept (insert_workflow_event uuid now i ev) \<and>
   keeps finished_kept (create_intent uuid now t st) \<and>
   keeps finished_kept (delete_intent i) \<and>
   keeps finished_kept (delete_intents_for_ticket t) \<and>
   keeps finished_kept (insert_workflow_comments now t cs) \<and>
   keeps finished_kept (mark_feedback_created t cs)"
  unfolding workflow_stmts
  by (intro conjI keeps_create_workflow keeps_create_intent keeps_insert_workflow_comments
      keeps_mark_feedback_created keeps_update_active keeps_other_tables) simp_all

subsection \<open>Updates of the active workflow\<close>

lemma update_active_ok:
  assumes "wf_schema_ok db" and "\<And>w. wr_id (f w) = wr_id w"
    and "\<And>w. w \<in> set (w_workflow db) \<Longrightarrow> wr_ticket_id w = t \<Longrightarrow> active_row w \<Longrightarrow> int4 (wr_implement_cycles (f w))"
  shows "update_active t f db =
    (db\<lparr>w_workflow := update_where (\<lambda>w. wr_ticket_id w = t \<and> active_row w) f (w_workflow db)\<rparr>, Inr ())"
proof -
  let ?rows = "update_where (\<lambda>w. wr_ticket_id w = t \<and> active_row w) f (w_workflow db)"
  have ids: "map wr_id ?rows = map wr_id (w_workflow db)" by (rule map_update_where) (rule assms(2))
  then have "wr_id ` set ?rows = wr_id ` set (w_workflow db)" by (metis list.set_map)
  then have "wf_schema_ok (db\<lparr>w_workflow := ?rows\<rparr>)"
    using assms(1,3) ids by (auto simp: wf_schema_defs sql)
  then show ?thesis unfolding update_active_def by (rule workflow_store.accepted)
qed

text \<open>
  Changing the status of a ticket's workflow always succeeds: the active workflows of that
  ticket get the new status and keep every other column, and no other row of any table changes.
\<close>

lemma update_workflow_status_effect:
  assumes "wf_schema_ok db"
  shows "\<exists>db'. update_workflow_status t st db = (db', Inr ()) \<and>
    db' = db\<lparr>w_workflow := w_workflow db'\<rparr> \<and>
    w_workflow db' = map (\<lambda>w. if wr_ticket_id w = t \<and> wr_status w \<noteq> ''done'' \<and> wr_status w \<noteq> ''cancelled''
                              then w\<lparr>wr_status := LifecycleStatus_as_str st\<rparr> else w) (w_workflow db)"
  using update_active_ok [of db "\<lambda>w. w\<lparr>wr_status := LifecycleStatus_as_str st\<rparr>" t] assms
  by (auto simp: update_workflow_status_def update_where_def active_row_def wf_schema_ok_def wf_int_ok_def)

text \<open>
  The counter of implementation cycles is kept in four bytes: incrementing adds one to the
  active workflows of the ticket, except that with a counter at its maximum the statement is
  refused and no counter changes.
\<close>

lemma increment_implement_cycles_range:
  assumes "wf_schema_ok db"
  shows "increment_implement_cycles t db =
    (if \<exists>w \<in> set (w_workflow db). wr_ticket_id w = t \<and> active_row w \<and> wr_implement_cycles w = 2147483647
     then (db, Inl IntegerOutOfRange)
     else (db\<lparr>w_workflow := update_where (\<lambda>w. wr_ticket_id w = t \<and> active_row w)
             (\<lambda>w. w\<lparr>wr_implement_cycles := wr_implement_cycles w + 1\<rparr>) (w_workflow db)\<rparr>, Inr ()))"
proof (cases "\<exists>w \<in> set (w_workflow db). wr_ticket_id w = t \<and> active_row w \<and> wr_implement_cycles w = 2147483647")
  case True
  then obtain w where w: "w \<in> set (w_workflow db)" "wr_ticket_id w = t" "active_row w" "wr_implement_cycles w = 2147483647"
    by blast
  then have "w\<lparr>wr_implement_cycles := wr_implement_cycles w + 1\<rparr> \<in> set (update_where (\<lambda>w. wr_ticket_id w = t \<and> active_row w)
             (\<lambda>w. w\<lparr>wr_implement_cycles := wr_implement_cycles w + 1\<rparr>) (w_workflow db))"
    unfolding set_update_where by (intro image_eqI [of _ _ w]) simp_all
  moreover have "\<not> int4 (wr_implement_cycles (w\<lparr>wr_implement_cycles := wr_implement_cycles w + 1\<rparr>))"
    using w(4) by (simp add: int4_def)
  ultimately have "\<not> (\<forall>w \<in> set (update_where (\<lambda>w. wr_ticket_id w = t \<and> active_row w)
             (\<lambda>w. w\<lparr>wr_implement_cycles := wr_implement_cycles w + 1\<rparr>) (w_workflow db)). int4 (wr_implement_cycles w))"
    by blast
  then have "\<not> wf_int_ok (db\<lparr>w_workflow := update_where (\<lambda>w. wr_ticket_id w = t \<and> active_row w)
             (\<lambda>w. w\<lparr>wr_implement_cycles := wr_implement_cycles w + 1\<rparr>) (w_workflow db)\<rparr>)"
    by (simp add: wf_int_ok_def)
  with True show ?thesis by (simp add: increment_implement_cycles_def update_active_def run_wf_def Let_def)
next
  case False
  have "int4 (wr_implement_cycles w + 1)" if "w \<in> set (w_workflow db)" "wr_ticket_id w = t" "active_row w" for w
    using assms False that by (fastforce simp: wf_schema_ok_def wf_int_ok_def int4_def)
  then show ?thesis
    using update_active_ok [of db "\<lambda>w. w\<lparr>wr_implement_cycles := wr_implement_cycles w + 1\<rparr>" t] assms False
    by (simp add: increment_implement_cycles_def)
qed

subsection \<open>Pagination\<close>

text \<open>
  A page of the workflow list is the corresponding slice of the full list; it reports the full
  count when it is not empty, but a page past the end reports a count of zero.
\<close>

lemma workflow_page:
  assumes "0 \<le> ps" and "0 \<le> offset"
    and "list_workflows_paginated le db None 0 status = Inr (everything, cnt)"
  shows "list_workflows_paginated le db (Some ps) offset status =
      Inr (take (nat ps) (drop (nat offset) everything),
           if 0 < ps \<and> offset < int (length everything) then int (length everything) else 0) \<and>
    cnt = int (length everything) \<and>
    map pw_workflow everything = list_workflows le db status"
proof -
  let ?rows = "order_by (on_key le wr_created_at) (filter (status_clause status) (w_workflow db))"
  let ?all = "map pg_row_to_paginated ?rows"
  have all: "everything = ?all" and cnt: "cnt = int (length ?rows)"
    using assms(3) by (auto simp: list_workflows_paginated_def paginated_rows_def Let_def comp_def split: list.splits)
  have slice: "list_workflows_paginated le db (Some ps) offset status =
      Inr (take (nat ps) (drop (nat offset) ?all),
           case take (nat ps) (drop (nat offset) (map (\<lambda>r. (r, int (length ?rows))) ?rows)) of [] \<Rightarrow> 0 | r # _ \<Rightarrow> snd r)"
    using assms(1,2) by (simp add: list_workflows_paginated_def paginated_rows_def Let_def limit_offset_def take_map drop_map comp_def)
  have "(case take (nat ps) (drop (nat offset) (map (\<lambda>r. (r, int (length ?rows))) ?rows)) of [] \<Rightarrow> 0 | r # _ \<Rightarrow> snd r) =
      (if 0 < ps \<and> offset < int (length ?all) then int (length ?all) else 0)"
    using assms(1,2) by (auto split: list.splits simp: take_map drop_map map_eq_Cons_conv take_eq_Nil)
  with slice all cnt show ?thesis
    by (simp add: list_workflows_def pg_row_to_paginated_def comp_def)
qed

subsection \<open>Review comments\<close>

text \<open>The comments of a ticket that have been seen, and those of them still without feedback.\<close>

definition seen_in :: "comment_row list \<Rightarrow> string \<Rightarrow> string set" where
  "seen_in cs t = cr_comment_id ` set (filter (\<lambda>c. cr_ticket_id c = t) cs)"

definition pending_in :: "comment_row list \<Rightarrow> string \<Rightarrow> string set" where
  "pending_in cs t = cr_comment_id ` set (filter (\<lambda>c. cr_ticket_id c = t \<and> \<not> cr_feedback_created c) cs)"

abbreviation seen :: "workflow_db \<Rightarrow> string \<Rightarrow> string set" where
  "seen db \<equiv> seen_in (w_comments db)"

abbreviation pending :: "workflow_db \<Rightarrow> string \<Rightarrow> string set" where
  "pending db \<equiv> pending_in (w_comments db)"

lemma set_get_seen [simp]: "set (get_seen_comment_ids le db t) = seen db t"
  by (simp add: get_seen_comment_ids_def seen_in_def)

lemma set_get_pending [simp]: "set (get_pending_feedback_comments le db t) = pending db t"
  by (simp add: get_pending_feedback_comments_def pending_in_def)

lemma seen_in_simps [simp]:
  "seen_in [] t = {}"
  "seen_in (c # cs) t = (if cr_ticket_id c = t then insert (cr_comment_id c) (seen_in cs t) else seen_in cs t)"
  by (simp_all add: seen_in_def del: set_filter)

lemma pending_in_simps [simp]:
  "pending_in [] t = {}"
  "pending_in (c # cs) t =
     (if cr_ticket_id c = t \<and> \<not> cr_feedback_created c then insert (cr_comment_id c) (pending_in cs t) else pending_in cs t)"
  by (simp_all add: pending_in_def del: set_filter)

lemma seen_in_append [simp]: "seen_in (cs @ ds) t = seen_in cs t \<union> seen_in ds t"
  by (induction cs) auto

lemma pending_in_append [simp]: "pending_in (cs @ ds) t = pending_in cs t \<union> pending_in ds t"
  by (induction cs) auto

lemma seen_in_mark [simp]:
  "seen_in (update_where p (\<lambda>r. r\<lparr>cr_feedback_created := True\<rparr>) cs) t = seen_in cs t"
  by (induction cs) auto

lemma pending_in_mark [simp]:
  "pending_in (update_where (\<lambda>r. cr_ticket_id r = t \<and> cr_comment_id r = c) (\<lambda>r. r\<lparr>cr_feedback_created := True\<rparr>) cs) u =
    (if u = t then pending_in cs u - {c} else pending_in cs u)"
  by (cases "u = t"; induction cs) (auto simp: insert_Diff_if)

lemma seen_in_key: "(t, c) \<in> (\<lambda>c. (cr_ticket_id c, cr_comment_id c)) ` set cs \<longleftrightarrow> c \<in> seen_in cs t"
  by (auto simp: seen_in_def)

lemma wf_schema_comments:
  assumes "wf_schema_ok db" and "distinct (map (\<lambda>c. (cr_ticket_id c, cr_comment_id c)) cs)"
  shows "wf_schema_ok (db\<lparr>w_comments := cs\<rparr>)"
  using assms by (auto simp: wf_schema_defs)

lemma insert_comment_row_effect:
  assumes "wf_schema_ok db"
  obtains db' where "insert_comment_row now t c db = (db', Inr ())" "wf_schema_ok db'"
    "\<And>u. seen db' u = (if u = t then insert c (seen db u) else seen db u)"
    "\<And>u. pending db' u = (if u = t \<and> c \<notin> seen db u then insert c (pending db u) else pending db u)"
proof -
  let ?k = "\<lambda>c. (cr_ticket_id c, cr_comment_id c)"
  let ?r = "\<lparr>cr_ticket_id = t, cr_comment_id = c, cr_feedback_created = False, cr_created_at = now\<rparr>"
  let ?db = "db\<lparr>w_comments := insert_if_absent ?k ?r (w_comments db)\<rparr>"
  have d: "distinct (map ?k (w_comments db))" using assms by (simp add: wf_schema_defs)
  then have ok: "wf_schema_ok ?db"
    by (intro wf_schema_comments [OF assms]) (auto simp: insert_if_absent_def image_iff)
  have "insert_comment_row now t c db = (?db, Inr ())"
    unfolding insert_comment_row_def by (rule workflow_store.accepted) (rule ok)
  then show ?thesis
    by (rule that) (rule ok, auto simp: insert_if_absent_def seen_in_key)
qed

lemma insert_workflow_comments_effect:
  assumes "wf_schema_ok db"
  shows "\<exists>db'. insert_workflow_comments now t cs db = (db', Inr ()) \<and> wf_schema_ok db' \<and>
    seen db' t = seen db t \<union> set cs \<and> pending db' t = pending db t \<union> (set cs - seen db t) \<and>
    (\<forall>u. u \<noteq> t \<longrightarrow> seen db' u = seen db u \<and> pending db' u = pending db u)"
  using assms
proof (induction cs arbitrary: db)
  case (Cons c cs)
  obtain db1 where 1: "insert_comment_row now t c db = (db1, Inr ())" "wf_schema_ok db1"
    "\<And>u. seen db1 u = (if u = t then insert c (seen db u) else seen db u)"
    "\<And>u. pending db1 u = (if u = t \<and> c \<notin> seen db u then insert c (pending db u) else pending db u)"
    using insert_comment_row_effect [OF Cons.prems] by blast
  with Cons.IH [OF 1(2)] show ?case by auto
qed simp

lemma mark_feedback_created_effect:
  assumes "wf_schema_ok db"
  shows "\<exists>db'. mark_feedback_created t cs db = (db', Inr ()) \<and> wf_schema_ok db' \<and>
    seen db' t = seen db t \<and> pending db' t = pending db t - set cs \<and>
    (\<forall>u. u \<noteq> t \<longrightarrow> seen db' u = seen db u \<and> pending db' u = pending db u)"
  using assms
proof (induction cs arbitrary: db)
  case (Cons c cs)
  let ?k = "\<lambda>c. (cr_ticket_id c, cr_comment_id c)"
  let ?db = "db\<lparr>w_comments := update_where (\<lambda>r. cr_ticket_id r = t \<and> cr_comment_id r = c)
              (\<lambda>r. r\<lparr>cr_feedback_created := True\<rparr>) (w_comments db)\<rparr>"
  have ok: "wf_schema_ok ?db"
    using Cons.prems by (intro wf_schema_comments) (simp_all add: map_update_where wf_schema_defs)
  have "run_wf (\<lambda>db. db\<lparr>w_comments := update_where (\<lambda>r. cr_ticket_id r = t \<and> cr_comment_id r = c)
              (\<lambda>r. r\<lparr>cr_feedback_created := True\<rparr>) (w_comments db)\<rparr>) db = (?db, Inr ())"
    by (rule workflow_store.accepted) (rule ok)
  with Cons.IH [OF ok] show ?case by auto
qed simp


end
