(* ===== verification/Workflow_Examples.thy ===== *)
theory Workflow_Examples
  imports Workflow_Repo_Props
begin

text \<open>A small workflow store on which the theorems about the workflow store are applied.\<close>

definition sample_workflow :: "string \<Rightarrow> string \<Rightarrow> string \<Rightarrow> int \<Rightarrow> workflow_row" where
  "sample_workflow i t st n =
     \<lparr>wr_id = i, wr_ticket_id = t, wr_status = st, wr_stalled = False, wr_stall_reason = [], wr_implement_cycles = n,
      wr_worker_id = [], wr_noverify = False, wr_feedback_mode = [], wr_ci_status = ''pending'', wr_mergeable = ''unknown'',
      wr_review_status = ''pending'', wr_created_at = ''2026''\<rparr>"

definition sample_wdb :: "workflow_row list \<Rightarrow> workflow_db" where
  "sample_wdb ws = \<lparr>w_workflow = ws, w_queue = [], w_intent = [], w_comments = [], w_events = []\<rparr>"

lemmas sample_wdb_simps = sample_wdb_def sample_workflow_def

lemma sample_wdb_ok:
  "wf_schema_ok (sample_wdb [sample_workflow ''a'' ''t'' ''done'' 3, sample_workflow ''b'' ''t'' ''verifying'' 2147483647])"
  by (simp add: wf_schema_defs sample_wdb_simps int4_def)


end
