(* ===== verification/Workflow_Types.thy ===== *)
theory Workflow_Types
  imports Workflow_Repo_Props
begin

text \<open>
  The workflow tables keep enumerations as text and the readers fall back to a default when a text
  does not parse. The texts the store writes always parse, so that the fallback is never taken.
\<close>

definition wf_typed :: "workflow_db \<Rightarrow> bool" where
  "wf_typed db =
     ((\<forall>w \<in> set (w_workflow db). wr_status w \<in> range LifecycleStatus_as_str) \<and>
      (\<forall>q \<in> set (w_queue db). qr_old q \<in> range LifecycleStatus_as_str \<and> qr_new q \<in> range LifecycleStatus_as_str) \<and>
      (\<forall>i \<in> set (w_intent db). ir_target_status i \<in> range LifecycleStatus_as_str) \<and>
      (\<forall>e \<in> set (w_events db). ev_event e \<in> range WorkflowEvent_as_str))"

abbreviation typed_op :: "(workflow_db, db_error, 'a) op \<Rightarrow> bool" where
  "typed_op m \<equiv> preserves wf_typed m"

lemma typed_run_wf: "(\<And>db. wf_typed db \<Longrightarrow> wf_typed (f db)) \<Longrightarrow> typed_op (run_wf f)"
  by (auto simp: preserves_def run_wf_def Let_def)

lemma typed_comments: "wf_typed (db\<lparr>w_comments := cs\<rparr>) = wf_typed db"
  by (simp add: wf_typed_def)

lemma typed_update_active:
  assumes "\<And>w. wr_status w \<in> range LifecycleStatus_as_str \<Longrightarrow> wr_status (f w) \<in> range LifecycleStatus_as_str"
  shows "typed_op (update_active t f)"
  unfolding update_active_def by (rule typed_run_wf) (auto simp: wf_typed_def sql intro: assms)

lemma typed_stmts:
  "typed_op (update_workflow_status t st)" "typed_op (set_workflow_stalled t reason)" "typed_op (clear_workflow_stall t)"
  "typed_op (increment_implement_cycles t)" "typed_op (reset_implement_cycles t)" "typed_op (set_workflow_worker_id t w)"
  "typed_op (set_workflow_noverify t b)" "typed_op (set_workflow_feedback_mode t mode)"
  "typed_op (update_workflow_condition t cond val)" "typed_op (initialize_workflow_conditions t)"
  unfolding workflow_stmts by (rule typed_update_active; simp split: WorkflowCondition.splits)+

lemma typed_tables:
  "typed_op (create_lifecycle_event uuid now t old_st new_st)" "typed_op (delete_workflow_event i)"
  "typed_op (delete_workflow_events_for_ticket t)" "typed_op (increment_workflow_event_attempts i)"
  "typed_op (insert_workflow_event_at uuid i ev now)" "typed_op (insert_workflow_event uuid now i ev)"
  "typed_op (delete_intent i)" "typed_op (delete_intents_for_ticket t)" "typed_op (insert_comment_row now t c)"
  unfolding workflow_stmts by (rule typed_run_wf; auto simp: wf_typed_def sql)+

lemma typed_create_workflow: "typed_op (create_workflow uuid now t st)"
  unfolding create_workflow_def
  by (intro preserves_bindS preserves_ret typed_run_wf) (auto simp: wf_typed_def new_workflow_row_def)

lemma typed_create_intent: "typed_op (create_intent uuid now t st)"
  unfolding create_intent_def by (intro preserves_bindS preserves_ret typed_run_wf) (auto simp: wf_typed_def)

lemma typed_insert_workflow_comments: "typed_op (insert_workflow_comments now t cs)"
  by (induction cs) (auto intro: typed_tables simp: preserves_def [of _ "\<lambda>a. (a, _)"])

lemma typed_mark_feedback_created: "typed_op (mark_feedback_created t cs)"
  by (induction cs) (auto intro!: preserves_bindS typed_run_wf simp: typed_comments preserves_def [of _ "\<lambda>a. (a, _)"])

text \<open>Where the text is of the right type, reading gives it back when printed.\<close>

lemma parse_typed: "s \<in> range LifecycleStatus_as_str \<Longrightarrow> LifecycleStatus_as_str (parse_lifecycle s) = s"
  by (auto simp: parse_lifecycle_def lifecycle.parse_print)

text \<open>
  C14: the statuses and events in the workflow tables are well typed: every operation of the store,
  whether it succeeds or fails, keeps each stored status the text of a lifecycle status and each
  stored event the text of an event kind; and what is read from such tables (the workflows, the
  queued events and the intents) has exactly the status that is stored, the default for a text
  that does not parse being never used.
\<close>

theorem workflow_store_typed:
  "typed_op (create_lifecycle_event uuid now t old_st new_st) \<and> typed_op (delete_workflow_event i) \<and>
   typed_op (delete_workflow_events_for_ticket t) \<and> typed_op (increment_workflow_event_attempts i) \<and>
   typed_op (create_workflow uuid now t st) \<and> typed_op (update_workflow_status t st) \<and>
   typed_op (set_workflow_stalled t reason) \<and> typed_op (clear_workflow_stall t) \<and>
   typed_op (increment_implement_cycles t) \<and> typed_op (reset_implement_cycles t) \<and>
   typed_op (set_workflow_worker_id t w) \<and> typed_op (set_workflow_noverify t b) \<and>
   typed_op (set_workflow_feedback_mode t mode) \<and> typed_op (update_workflow_condition t cond val) \<and>
   typed_op (initialize_workflow_conditions t) \<and> typed_op (insert_workflow_event_at uuid i ev now) \<and>
   typed_op (insert_workflow_event uuid now i ev) \<and> typed_op (create_intent uuid now t st) \<and>
   typed_op (delete_intent i) \<and> typed_op (delete_intents_for_ticket t) \<and>
   typed_op (insert_workflow_comments now t cs) \<and> typed_op (mark_feedback_created t cs) \<and>
   (\<forall>db. wf_typed db \<longrightarrow>
      (\<forall>r \<in> set (w_workflow db). LifecycleStatus_as_str (wf_status (row_to_workflow r)) = wr_status r) \<and>
      (\<forall>q \<in> set (w_queue db). LifecycleStatus_as_str (we_new_lifecycle_status (event_from_row q)) = qr_new q) \<and>
      (\<forall>r \<in> set (w_intent db). LifecycleStatus_as_str (wi_target_status (intent_from_row r)) = ir_target_status r))"
  by (intro conjI typed_stmts typed_tables typed_create_workflow typed_create_intent typed_insert_workflow_comments
      typed_mark_feedback_created) (simp add: wf_typed_def parse_typed row_to_workflow_def event_from_row_def intent_from_row_def)

theorem workflow_store_typed_witness:
  "LifecycleStatus_as_str (wf_status (row_to_workflow (new_workflow_row ''f'' ''2026'' ''ur-1'' Verifying))) = ''verifying''"
proof -
  let ?w = "new_workflow_row ''f'' ''2026'' ''ur-1'' Verifying"
  let ?db = "\<lparr>w_workflow = [?w], w_queue = [], w_intent = [], w_comments = [], w_events = []\<rparr>"
  have "wf_typed ?db"
    by (simp add: wf_typed_def new_workflow_row_def del: LifecycleStatus_as_str.simps)
  then have "\<forall>r \<in> set (w_workflow ?db). LifecycleStatus_as_str (wf_status (row_to_workflow r)) = wr_status r"
    using workflow_store_typed by blast
  then show ?thesis
    by (simp add: new_workflow_row_def)
qed

end
