(* ===== verification/Worker_Repo.thy ===== *)
theory Worker_Repo
  imports Workflow_Repo
begin

text \<open>
  The worker store of \<open>crates/workflow_db/src/worker_repo.rs\<close>: workers, repository slots and the
  links between them, with the start-up reconciliation against directories and containers.

  The directory listings and the answers of the container runtime are arguments. Rust iterates
  over hash maps and directory listings in no particular order; the model takes the order of the
  lists it is given. The identifier drawn for a slot that reconciliation inserts is a function
  of the project and the slot's name.
\<close>

subsection \<open>Runtimes and agent states\<close>

datatype WorkerRuntime = Container | Local

definition WorkerRuntime_ALL :: "WorkerRuntime list" where
  "WorkerRuntime_ALL = [Container, Local]"

fun WorkerRuntime_as_str :: "WorkerRuntime \<Rightarrow> string" where
  "WorkerRuntime_as_str Container = ''container''"
| "WorkerRuntime_as_str Local = ''local''"

definition WorkerRuntime_from_str :: "string \<Rightarrow> string + WorkerRuntime" where
  "WorkerRuntime_from_str s =
     (case List.find (\<lambda>r. WorkerRuntime_as_str r = s) WorkerRuntime_ALL of
        Some r \<Rightarrow> Inr r
      | None \<Rightarrow> Inl (''unknown worker runtime '' @ [CHR 0x27] @ s @ [CHR 0x27] @ ''. Valid runtimes: [\"container\", \"local\"]''))"

text \<open>The runtime of a worker: the launch request's, else the mode's, else the project's, else the default.\<close>

definition resolve_worker_runtime ::
  "WorkerRuntime option \<Rightarrow> WorkerRuntime option \<Rightarrow> WorkerRuntime option \<Rightarrow> WorkerRuntime \<Rightarrow> WorkerRuntime" where
  "resolve_worker_runtime requested mode project top_level =
     (case requested of Some r \<Rightarrow> r
      | None \<Rightarrow> (case mode of Some r \<Rightarrow> r | None \<Rightarrow> (case project of Some r \<Rightarrow> r | None \<Rightarrow> top_level)))"

datatype AgentStatus = Starting | Idle | Working | Stalled

definition AgentStatus_default :: AgentStatus where
  "AgentStatus_default = Starting"

fun AgentStatus_as_str :: "AgentStatus \<Rightarrow> string" where
  "AgentStatus_as_str Starting = ''starting''"
| "AgentStatus_as_str Idle = ''idle''"
| "AgentStatus_as_str Working = ''working''"
| "AgentStatus_as_str Stalled = ''stalled''"

definition AgentStatus_from_str :: "string \<Rightarrow> string + AgentStatus" where
  "AgentStatus_from_str s =
     (if s = ''starting'' then Inr Starting
      else if s = ''idle'' then Inr Idle
      else if s = ''working'' then Inr Working
      else if s = ''stalled'' then Inr Stalled
      else Inl (''unknown agent status: '' @ s))"

interpretation worker_runtime: canonical_enum WorkerRuntime_as_str WorkerRuntime_from_str
proof unfold_locales
  show "WorkerRuntime_from_str (WorkerRuntime_as_str x) = Inr x" for x
    by (cases x) (simp_all add: WorkerRuntime_from_str_def WorkerRuntime_ALL_def)
  show "WorkerRuntime_from_str s = Inr x \<Longrightarrow> WorkerRuntime_as_str x = s" for s x
    by (auto simp: WorkerRuntime_from_str_def WorkerRuntime_ALL_def split: if_splits)
qed

interpretation agent_status: canonical_enum AgentStatus_as_str AgentStatus_from_str
proof unfold_locales
  show "AgentStatus_from_str (AgentStatus_as_str x) = Inr x" for x
    by (cases x) (simp_all add: AgentStatus_from_str_def)
  show "AgentStatus_from_str s = Inr x \<Longrightarrow> AgentStatus_as_str x = s" for s x
    by (auto simp: AgentStatus_from_str_def split: if_splits)
qed

subsection \<open>Rows and tables\<close>

record Slot =
  sl_id :: string
  sl_project_key :: string
  sl_slot_name :: string
  sl_host_path :: string
  sl_created_at :: string
  sl_updated_at :: string

record Worker =
  wk_worker_id :: string
  wk_process_id :: string
  wk_project_key :: string
  wk_container_id :: string
  wk_worker_secret :: string
  wk_strategy :: string
  wk_agent_type :: string
  wk_container_status :: string
  wk_agent_status :: string
  wk_workspace_path :: "string option"
  wk_created_at :: string
  wk_updated_at :: string
  wk_idle_redispatch_count :: int
  wk_brain_path :: "string option"
  wk_runtime :: WorkerRuntime

record WorkerSlot =
  ws_worker_id :: string
  ws_slot_id :: string
  ws_created_at :: string

text \<open>A worker as stored, with its runtime in textual form.\<close>

record worker_row =
  ww_worker_id :: string
  ww_process_id :: string
  ww_project_key :: string
  ww_container_id :: string
  ww_worker_secret :: string
  ww_strategy :: string
  ww_agent_type :: string
  ww_container_status :: string
  ww_agent_status :: string
  ww_workspace_path :: "string option"
  ww_created_at :: string
  ww_updated_at :: string
  ww_idle_redispatch_count :: int
  ww_brain_path :: "string option"
  ww_runtime :: string

record worker_db =
  k_slot :: "Slot list"
  k_worker :: "worker_row list"
  k_link :: "WorkerSlot list"

definition worker_unique_ok :: "worker_db \<Rightarrow> bool" where
  "worker_unique_ok db =
     (distinct (map sl_id (k_slot db)) \<and> distinct (map (\<lambda>s. (sl_project_key s, sl_slot_name s)) (k_slot db)) \<and>
      distinct (map ww_worker_id (k_worker db)) \<and> distinct (map (\<lambda>l. (ws_worker_id l, ws_slot_id l)) (k_link db)))"

definition worker_fk_ok :: "worker_db \<Rightarrow> bool" where
  "worker_fk_ok db =
     (\<forall>l \<in> set (k_link db). ws_worker_id l \<in> ww_worker_id ` set (k_worker db) \<and> ws_slot_id l \<in> sl_id ` set (k_slot db))"

definition worker_check_ok :: "worker_db \<Rightarrow> bool" where
  "worker_check_ok db = (\<forall>w \<in> set (k_worker db). ww_runtime w \<in> {''container'', ''local''})"

definition worker_int_ok :: "worker_db \<Rightarrow> bool" where
  "worker_int_ok db = (\<forall>w \<in> set (k_worker db). int4 (ww_idle_redispatch_count w))"

definition worker_schema_ok :: "worker_db \<Rightarrow> bool" where
  "worker_schema_ok db = (worker_int_ok db \<and> worker_check_ok db \<and> worker_unique_ok db \<and> worker_fk_ok db)"

definition run_wk :: "(worker_db \<Rightarrow> worker_db) \<Rightarrow> (worker_db, db_error, unit) op" where
  "run_wk f db =
     (let db' = f db in
      if \<not> worker_int_ok db' then (db, Inl IntegerOutOfRange)
      else if \<not> worker_check_ok db' then (db, Inl CheckViolation)
      else if \<not> worker_unique_ok db' then (db, Inl UniqueViolation)
      else if \<not> worker_fk_ok db' then (db, Inl ForeignKeyViolation)
      else (db', Inr ()))"

text \<open>Deleting a worker or a slot deletes its links (\<open>ON DELETE CASCADE\<close>).\<close>

definition cascade_workers :: "(worker_row \<Rightarrow> bool) \<Rightarrow> worker_db \<Rightarrow> worker_db" where
  "cascade_workers p db =
     db\<lparr>k_worker := delete_where p (k_worker db),
        k_link := delete_where (\<lambda>l. \<exists>w \<in> set (k_worker db). p w \<and> ww_worker_id w = ws_worker_id l) (k_link db)\<rparr>"

definition cascade_slots :: "(Slot \<Rightarrow> bool) \<Rightarrow> worker_db \<Rightarrow> worker_db" where
  "cascade_slots p db =
     db\<lparr>k_slot := delete_where p (k_slot db),
        k_link := delete_where (\<lambda>l. \<exists>s \<in> set (k_slot db). p s \<and> sl_id s = ws_slot_id l) (k_link db)\<rparr>"

subsection \<open>Workers\<close>

definition worker_from_row :: "worker_row \<Rightarrow> db_error + Worker" where
  "worker_from_row r =
     (case WorkerRuntime_from_str (ww_runtime r) of
        Inl e \<Rightarrow> Inl (Decode e)
      | Inr rt \<Rightarrow> Inr
         \<lparr>wk_worker_id = ww_worker_id r, wk_process_id = ww_process_id r, wk_project_key = ww_project_key r,
          wk_container_id = ww_container_id r, wk_worker_secret = ww_worker_secret r, wk_strategy = ww_strategy r,
          wk_agent_type = ww_agent_type r, wk_container_status = ww_container_status r,
          wk_agent_status = ww_agent_status r, wk_workspace_path = ww_workspace_path r, wk_created_at = ww_created_at r,
          wk_updated_at = ww_updated_at r, wk_idle_redispatch_count = ww_idle_redispatch_count r,
          wk_brain_path = ww_brain_path r, wk_runtime = rt\<rparr>)"

text \<open>\<open>collect\<close> into a result stops at the first error.\<close>

fun collect_results :: "('e + 'a) list \<Rightarrow> 'e + 'a list" where
  "collect_results [] = Inr []"
| "collect_results (r # rs) = and_then r (\<lambda>a. and_then (collect_results rs) (\<lambda>as. Inr (a # as)))"

definition transpose_row :: "worker_row option \<Rightarrow> db_error + Worker option" where
  "transpose_row r = (case r of None \<Rightarrow> Inr None | Some w \<Rightarrow> and_then (worker_from_row w) (\<lambda>x. Inr (Some x)))"

text \<open>The insert leaves the redispatch count to its column default.\<close>

definition insert_worker :: "Worker \<Rightarrow> (worker_db, db_error, unit) op" where
  "insert_worker w =
     run_wk (\<lambda>db. db\<lparr>k_worker := k_worker db @
       [\<lparr>ww_worker_id = wk_worker_id w, ww_process_id = wk_process_id w, ww_project_key = wk_project_key w,
         ww_container_id = wk_container_id w, ww_worker_secret = wk_worker_secret w, ww_strategy = wk_strategy w,
         ww_agent_type = wk_agent_type w, ww_container_status = wk_container_status w,
         ww_agent_status = wk_agent_status w, ww_workspace_path = wk_workspace_path w, ww_created_at = wk_created_at w,
         ww_updated_at = wk_updated_at w, ww_idle_redispatch_count = 0, ww_brain_path = wk_brain_path w,
         ww_runtime = WorkerRuntime_as_str (wk_runtime w)\<rparr>]\<rparr>)"

definition get_worker :: "worker_db \<Rightarrow> string \<Rightarrow> db_error + Worker option" where
  "get_worker db worker_id = transpose_row (List.find (\<lambda>w. ww_worker_id w = worker_id) (k_worker db))"

definition get_worker_by_container_id :: "coll \<Rightarrow> worker_db \<Rightarrow> string \<Rightarrow> db_error + Worker option" where
  "get_worker_by_container_id le db container_id =
     transpose_row (first_row (order_by (on_key (\<lambda>a b. le b a) ww_created_at)
       (filter (\<lambda>w. ww_container_id w = container_id) (k_worker db))))"

definition update_worker :: "string \<Rightarrow> (worker_row \<Rightarrow> worker_row) \<Rightarrow> (worker_db, db_error, unit) op" where
  "update_worker worker_id f =
     run_wk (\<lambda>db. db\<lparr>k_worker := update_where (\<lambda>w. ww_worker_id w = worker_id) f (k_worker db)\<rparr>)"

definition update_worker_container_status :: "string \<Rightarrow> string \<Rightarrow> string \<Rightarrow> (worker_db, db_error, unit) op" where
  "update_worker_container_status now worker_id container_status =
     update_worker worker_id (\<lambda>w. w\<lparr>ww_container_status := container_status, ww_updated_at := now\<rparr>)"

definition finalize_worker_launch :: "string \<Rightarrow> string \<Rightarrow> string \<Rightarrow> (worker_db, db_error, unit) op" where
  "finalize_worker_launch now worker_id container_id db =
     bindS (update_worker worker_id
             (\<lambda>w. w\<lparr>ww_container_id := container_id, ww_container_status := ''running'', ww_updated_at := now\<rparr>))
       (\<lambda>_. if rows_matching (\<lambda>w. ww_worker_id w = worker_id) (k_worker db) = 0 then throw RowNotFound else ret ()) db"

definition delete_worker :: "string \<Rightarrow> (worker_db, db_error, nat) op" where
  "delete_worker worker_id db =
     bindS (run_wk (cascade_workers (\<lambda>w. ww_worker_id w = worker_id)))
       (\<lambda>_. ret (rows_matching (\<lambda>w. ww_worker_id w = worker_id) (k_worker db))) db"

definition update_worker_agent_status :: "string \<Rightarrow> string \<Rightarrow> AgentStatus \<Rightarrow> (worker_db, db_error, unit) op" where
  "update_worker_agent_status now worker_id agent_status =
     update_worker worker_id (\<lambda>w. w\<lparr>ww_agent_status := AgentStatus_as_str agent_status, ww_updated_at := now\<rparr>)"

definition increment_idle_redispatch_count :: "string \<Rightarrow> string \<Rightarrow> (worker_db, db_error, int) op" where
  "increment_idle_redispatch_count now worker_id =
     bindS (update_worker worker_id
             (\<lambda>w. w\<lparr>ww_idle_redispatch_count := ww_idle_redispatch_count w + 1, ww_updated_at := now\<rparr>))
       (\<lambda>_ db. case List.find (\<lambda>w. ww_worker_id w = worker_id) (k_worker db) of
           Some w \<Rightarrow> (db, Inr (ww_idle_redispatch_count w)) | None \<Rightarrow> (db, Inl RowNotFound))"

definition list_workers :: "coll \<Rightarrow> (worker_row \<Rightarrow> bool) \<Rightarrow> worker_db \<Rightarrow> db_error + Worker list" where
  "list_workers le p db = collect_results (map worker_from_row (order_by (on_key le ww_created_at) (filter p (k_worker db))))"

definition list_workers_by_container_status :: "coll \<Rightarrow> worker_db \<Rightarrow> string \<Rightarrow> db_error + Worker list" where
  "list_workers_by_container_status le db container_status = list_workers le (\<lambda>w. ww_container_status w = container_status) db"

definition verify_worker :: "worker_db \<Rightarrow> string \<Rightarrow> string \<Rightarrow> bool" where
  "verify_worker db worker_id secret =
     (0 < rows_matching (\<lambda>w. ww_worker_id w = worker_id \<and> ww_worker_secret w = secret) (k_worker db))"

definition get_worker_context :: "worker_db \<Rightarrow> string \<Rightarrow> string \<Rightarrow> db_error + Worker option" where
  "get_worker_context db project_key workspace_path =
     transpose_row (List.find (\<lambda>w. ww_project_key w = project_key \<and> ww_workspace_path w = Some workspace_path) (k_worker db))"

subsection \<open>Slots\<close>

definition insert_slot :: "Slot \<Rightarrow> (worker_db, db_error, unit) op" where
  "insert_slot slot = run_wk (\<lambda>db. db\<lparr>k_slot := k_slot db @ [slot]\<rparr>)"

definition get_slot :: "worker_db \<Rightarrow> string \<Rightarrow> Slot option" where
  "get_slot db i = List.find (\<lambda>s. sl_id s = i) (k_slot db)"

definition get_slot_by_host_path :: "worker_db \<Rightarrow> string \<Rightarrow> Slot option" where
  "get_slot_by_host_path db host_path = List.find (\<lambda>s. sl_host_path s = host_path) (k_slot db)"

definition list_slots_by_project :: "coll \<Rightarrow> worker_db \<Rightarrow> string \<Rightarrow> Slot list" where
  "list_slots_by_project le db project_key =
     order_by (on_key le sl_created_at) (filter (\<lambda>s. sl_project_key s = project_key) (k_slot db))"

definition active_status :: "string \<Rightarrow> bool" where
  "active_status s = (s \<in> {''provisioning'', ''running'', ''stopping''})"

text \<open>The pattern \<open>^[0-9]+$\<close>.\<close>

definition numeric_name :: "string \<Rightarrow> bool" where
  "numeric_name s = (s \<noteq> [] \<and> (\<forall>c \<in> set s. c \<in> set ''0123456789''))"

text \<open>The inner join of links with their active workers.\<close>

definition active_links :: "worker_db \<Rightarrow> (WorkerSlot \<times> worker_row) list" where
  "active_links db =
     [(l, w). l \<leftarrow> k_link db, w \<leftarrow> k_worker db, ww_worker_id w = ws_worker_id l \<and> active_status (ww_container_status w)]"

definition find_available_slots :: "coll \<Rightarrow> worker_db \<Rightarrow> string \<Rightarrow> Slot list" where
  "find_available_slots le db project_key =
     order_by (on_key le sl_created_at)
       (filter (\<lambda>s. sl_project_key s = project_key \<and> numeric_name (sl_slot_name s) \<and>
                    sl_id s \<notin> set (map (ws_slot_id \<circ> fst) (active_links db))) (k_slot db))"

definition slots_in_use :: "worker_db \<Rightarrow> string \<Rightarrow> nat" where
  "slots_in_use db project_key =
     length [(s, l). s \<leftarrow> k_slot db, (l, w) \<leftarrow> active_links db, sl_project_key s = project_key \<and> ws_slot_id l = sl_id s]"

definition delete_slot :: "string \<Rightarrow> (worker_db, db_error, unit) op" where
  "delete_slot i = run_wk (cascade_slots (\<lambda>s. sl_id s = i))"

definition link_worker_slot :: "string \<Rightarrow> string \<Rightarrow> string \<Rightarrow> (worker_db, db_error, unit) op" where
  "link_worker_slot now worker_id slot_id =
     run_wk (\<lambda>db. db\<lparr>k_link := k_link db @ [\<lparr>ws_worker_id = worker_id, ws_slot_id = slot_id, ws_created_at = now\<rparr>]\<rparr>)"

definition unlink_worker_slot :: "string \<Rightarrow> (worker_db, db_error, unit) op" where
  "unlink_worker_slot worker_id = run_wk (\<lambda>db. db\<lparr>k_link := delete_where (\<lambda>l. ws_worker_id l = worker_id) (k_link db)\<rparr>)"

definition get_worker_slot :: "worker_db \<Rightarrow> string \<Rightarrow> WorkerSlot option" where
  "get_worker_slot db worker_id = List.find (\<lambda>l. ws_worker_id l = worker_id) (k_link db)"

subsection \<open>Reconciliation\<close>

definition list_all_slots :: "coll \<Rightarrow> worker_db \<Rightarrow> Slot list" where
  "list_all_slots le db = order_by (on_key le sl_created_at) (k_slot db)"

definition list_all_workers :: "coll \<Rightarrow> worker_db \<Rightarrow> db_error + Worker list" where
  "list_all_workers le db = list_workers le (\<lambda>_. True) db"

definition list_active_workers :: "coll \<Rightarrow> worker_db \<Rightarrow> db_error + Worker list" where
  "list_active_workers le db = list_workers le (\<lambda>w. active_status (ww_container_status w)) db"

definition delete_workers_by_slot_id :: "string \<Rightarrow> (worker_db, db_error, nat) op" where
  "delete_workers_by_slot_id slot_id db =
     (let p = (\<lambda>w. \<exists>l \<in> set (k_link db). ws_slot_id l = slot_id \<and> ws_worker_id l = ww_worker_id w) in
      bindS (run_wk (cascade_workers p)) (\<lambda>_. ret (rows_matching p (k_worker db))) db)"

record SlotReconcileResult =
  deleted_stale :: "string list"
  inserted_orphaned :: "string list"

record WorkerReconcileResult =
  reclaimed :: "string list"
  marked_stopped :: "string list"
  indeterminate :: "string list"

text \<open>
  A directory listing: \<open>None\<close> when the directory cannot be read, otherwise its entries with
  whether they are directories.
\<close>

type_synonym listing = "(string \<times> bool) list option"

definition scan_disk_slots :: "listing \<Rightarrow> string list" where
  "scan_disk_slots dir =
     (case dir of None \<Rightarrow> [] | Some entries \<Rightarrow> map fst (filter (\<lambda>(name, is_dir). is_dir \<and> name \<noteq> ''shared'') entries))"

fun delete_stale_slots ::
  "Slot list \<Rightarrow> string list \<Rightarrow> SlotReconcileResult \<Rightarrow> (worker_db, db_error, SlotReconcileResult) op" where
  "delete_stale_slots [] disk result = ret result"
| "delete_stale_slots (slot # slots) disk result =
     (if sl_slot_name slot \<in> set disk then delete_stale_slots slots disk result
      else bindS (delete_workers_by_slot_id (sl_id slot)) (\<lambda>_.
           bindS (delete_slot (sl_id slot)) (\<lambda>_.
           delete_stale_slots slots disk (result\<lparr>deleted_stale := deleted_stale result @ [sl_id slot]\<rparr>))))"

definition path_join :: "string \<Rightarrow> string \<Rightarrow> string" where
  "path_join base p =
     (if p \<noteq> [] \<and> hd p = CHR ''/'' then p
      else if base = [] \<or> last base = CHR ''/'' then base @ p else base @ ''/'' @ p)"

fun insert_orphaned_slots ::
  "(string \<Rightarrow> string \<Rightarrow> string) \<Rightarrow> string \<Rightarrow> string \<Rightarrow> string \<Rightarrow> Slot list \<Rightarrow> string list \<Rightarrow> SlotReconcileResult
   \<Rightarrow> (worker_db, db_error, SlotReconcileResult) op" where
  "insert_orphaned_slots uuid now project_key pool_dir db_slots [] result = ret result"
| "insert_orphaned_slots uuid now project_key pool_dir db_slots (name # names) result =
     (if name \<in> sl_slot_name ` set db_slots then insert_orphaned_slots uuid now project_key pool_dir db_slots names result
      else bindS (insert_slot \<lparr>sl_id = uuid project_key name, sl_project_key = project_key, sl_slot_name = name,
                               sl_host_path = path_join pool_dir name, sl_created_at = now, sl_updated_at = now\<rparr>)
             (\<lambda>_. insert_orphaned_slots uuid now project_key pool_dir db_slots names
                    (result\<lparr>inserted_orphaned := inserted_orphaned result @ [uuid project_key name]\<rparr>)))"

fun reconcile_projects ::
  "(string \<Rightarrow> string \<Rightarrow> string) \<Rightarrow> string \<Rightarrow> (string \<Rightarrow> listing) \<Rightarrow> string \<Rightarrow> string \<Rightarrow> Slot list \<Rightarrow> string list \<Rightarrow> SlotReconcileResult
   \<Rightarrow> (worker_db, db_error, SlotReconcileResult) op" where
  "reconcile_projects uuid now fs local_root host_root all_slots [] result = ret result"
| "reconcile_projects uuid now fs local_root host_root all_slots (project_key # ps) result =
     (let disk = scan_disk_slots (fs (path_join local_root project_key));
          db_slots = filter (\<lambda>s. sl_project_key s = project_key) all_slots in
      bindS (delete_stale_slots db_slots disk result) (\<lambda>result.
      bindS (insert_orphaned_slots uuid now project_key (path_join host_root project_key) db_slots disk result) (\<lambda>result.
      reconcile_projects uuid now fs local_root host_root all_slots ps result)))"

definition reconcile_slots ::
  "coll \<Rightarrow> (string \<Rightarrow> string \<Rightarrow> string) \<Rightarrow> string \<Rightarrow> (string \<Rightarrow> listing) \<Rightarrow> string list \<Rightarrow> string \<Rightarrow> string
   \<Rightarrow> (worker_db, db_error, SlotReconcileResult) op" where
  "reconcile_slots le uuid now fs projects local_workspace host_workspace db =
     (let all_slots = list_all_slots le db in
      bindS (reconcile_projects uuid now fs (path_join local_workspace ''pool'') (path_join host_workspace ''pool'')
               all_slots projects \<lparr>deleted_stale = [], inserted_orphaned = []\<rparr>)
        (\<lambda>result. delete_stale_slots (filter (\<lambda>s. sl_project_key s \<notin> set projects) all_slots) [] result) db)"

definition reconcile_single_worker ::
  "string \<Rightarrow> Worker \<Rightarrow> bool \<Rightarrow> WorkerReconcileResult \<Rightarrow> (worker_db, db_error, WorkerReconcileResult) op" where
  "reconcile_single_worker now worker alive result =
     (let is_stopped = (wk_container_status worker = ''stopped'') in
      if is_stopped \<and> \<not> alive then ret result
      else if alive then
        bindS (update_worker_container_status now (wk_worker_id worker) ''running'')
          (\<lambda>_. ret (result\<lparr>reclaimed := reclaimed result @ [wk_worker_id worker]\<rparr>))
      else
        bindS (update_worker_container_status now (wk_worker_id worker) ''stopped'') (\<lambda>_.
        bindS (unlink_worker_slot (wk_worker_id worker))
          (\<lambda>_. ret (result\<lparr>marked_stopped := marked_stopped result @ [wk_worker_id worker]\<rparr>))))"

text \<open>The probe of a container: \<open>None\<close> when its liveness cannot be determined.\<close>

fun reconcile_worker_list ::
  "string \<Rightarrow> (string \<Rightarrow> bool option) \<Rightarrow> Worker list \<Rightarrow> WorkerReconcileResult \<Rightarrow> (worker_db, db_error, WorkerReconcileResult) op" where
  "reconcile_worker_list now is_container_alive [] result = ret result"
| "reconcile_worker_list now is_container_alive (worker # ws) result =
     (case is_container_alive (wk_container_id worker) of
        Some alive \<Rightarrow> bindS (reconcile_single_worker now worker alive result)
                         (\<lambda>result. reconcile_worker_list now is_container_alive ws result)
      | None \<Rightarrow> reconcile_worker_list now is_container_alive ws
                  (result\<lparr>indeterminate := indeterminate result @ [wk_worker_id worker]\<rparr>))"

definition reconcile_workers ::
  "coll \<Rightarrow> string \<Rightarrow> (string \<Rightarrow> bool option) \<Rightarrow> (worker_db, db_error, WorkerReconcileResult) op" where
  "reconcile_workers le now is_container_alive db =
     (case list_all_workers le db of
        Inl e \<Rightarrow> (db, Inl e)
      | Inr all_workers \<Rightarrow>
          reconcile_worker_list now is_container_alive all_workers \<lparr>reclaimed = [], marked_stopped = [], indeterminate = []\<rparr> db)"

text \<open>\<open>expired\<close> tells whether a row's time of last update lies before the cut-off.\<close>

definition cleanup_stale_workers :: "(string \<Rightarrow> bool) \<Rightarrow> (worker_db, db_error, string list) op" where
  "cleanup_stale_workers expired db =
     (let p = (\<lambda>w. ww_container_status w = ''stopped'' \<and> expired (ww_updated_at w)) in
      bindS (run_wk (cascade_workers p)) (\<lambda>_. ret (map ww_worker_id (filter p (k_worker db)))) db)"

end
