(* ===== verification/Worker_Repo_Props.thy ===== *)
theory Worker_Repo_Props
  imports Worker_Repo
begin

text \<open>
  Properties of the worker store: the launch of a worker, its credentials, and what the start-up
  reconciliation leaves behind.
\<close>

interpretation worker_store: constrained_store worker_schema_ok run_wk
  by unfold_locales (auto simp: run_wk_def worker_schema_ok_def Let_def)

lemmas worker_schema_defs =
  worker_schema_ok_def worker_int_ok_def worker_check_ok_def worker_unique_ok_def worker_fk_ok_def

subsection \<open>Effects of the statements\<close>

lemma update_worker_ok:
  assumes "worker_schema_ok db"
    and "\<And>w. ww_worker_id (f w) = ww_worker_id w \<and> ww_runtime (f w) = ww_runtime w"
    and "\<And>w. w \<in> set (k_worker db) \<Longrightarrow> ww_worker_id w = i \<Longrightarrow> int4 (ww_idle_redispatch_count (f w))"
  shows "update_worker i f db = (db\<lparr>k_worker := update_where (\<lambda>w. ww_worker_id w = i) f (k_worker db)\<rparr>, Inr ())"
    and "worker_schema_ok (db\<lparr>k_worker := update_where (\<lambda>w. ww_worker_id w = i) f (k_worker db)\<rparr>)"
proof -
  let ?rows = "update_where (\<lambda>w. ww_worker_id w = i) f (k_worker db)"
  have ids: "map ww_worker_id ?rows = map ww_worker_id (k_worker db)"
    by (rule map_update_where) (simp add: assms(2))
  then have "ww_worker_id ` set ?rows = ww_worker_id ` set (k_worker db)" by (metis list.set_map)
  moreover have "ww_runtime w \<in> {''container'', ''local''}" "int4 (ww_idle_redispatch_count w)" if "w \<in> set ?rows" for w
    using that assms by (auto simp: set_update_where worker_schema_defs split: if_splits)
  ultimately show ok: "worker_schema_ok (db\<lparr>k_worker := ?rows\<rparr>)"
    using assms(1) ids by (auto simp: worker_schema_defs)
  show "update_worker i f db = (db\<lparr>k_worker := ?rows\<rparr>, Inr ())"
    unfolding update_worker_def by (rule worker_store.accepted) (rule ok)
qed

lemma set_container_status_ok:
  assumes "worker_schema_ok db"
  shows "update_worker_container_status now i st db =
      (db\<lparr>k_worker := update_where (\<lambda>w. ww_worker_id w = i)
             (\<lambda>w. w\<lparr>ww_container_status := st, ww_updated_at := now\<rparr>) (k_worker db)\<rparr>, Inr ())"
    and "worker_schema_ok (db\<lparr>k_worker := update_where (\<lambda>w. ww_worker_id w = i)
             (\<lambda>w. w\<lparr>ww_container_status := st, ww_updated_at := now\<rparr>) (k_worker db)\<rparr>)"
  unfolding update_worker_container_status_def
  using assms by (intro update_worker_ok; simp add: worker_schema_ok_def worker_int_ok_def)+

lemma unlink_ok:
  assumes "worker_schema_ok db"
  shows "unlink_worker_slot i db = (db\<lparr>k_link := delete_where (\<lambda>l. ws_worker_id l = i) (k_link db)\<rparr>, Inr ())"
    and "worker_schema_ok (db\<lparr>k_link := delete_where (\<lambda>l. ws_worker_id l = i) (k_link db)\<rparr>)"
proof -
  show ok: "worker_schema_ok (db\<lparr>k_link := delete_where (\<lambda>l. ws_worker_id l = i) (k_link db)\<rparr>)"
    using assms by (auto simp: worker_schema_defs)
  show "unlink_worker_slot i db = (db\<lparr>k_link := delete_where (\<lambda>l. ws_worker_id l = i) (k_link db)\<rparr>, Inr ())"
    unfolding unlink_worker_slot_def by (rule worker_store.accepted) (rule ok)
qed

subsection \<open>Reconciling workers\<close>

text \<open>What one pass leaves of a worker's row, and when it takes the worker's slot away.\<close>

definition reconciled_row :: "string \<Rightarrow> (string \<Rightarrow> bool option) \<Rightarrow> worker_row \<Rightarrow> worker_row" where
  "reconciled_row now alive w =
     (case alive (ww_container_id w) of
        None \<Rightarrow> w
      | Some True \<Rightarrow> w\<lparr>ww_container_status := ''running'', ww_updated_at := now\<rparr>
      | Some False \<Rightarrow> if ww_container_status w = ''stopped'' then w
                        else w\<lparr>ww_container_status := ''stopped'', ww_updated_at := now\<rparr>)"

definition found_dead :: "(string \<Rightarrow> bool option) \<Rightarrow> worker_row \<Rightarrow> bool" where
  "found_dead alive w = (alive (ww_container_id w) = Some False \<and> ww_container_status w \<noteq> ''stopped'')"

definition row_worker :: "worker_row \<Rightarrow> Worker" where
  "row_worker r = (case worker_from_row r of Inr w \<Rightarrow> w)"

lemma worker_from_row_ok:
  "ww_runtime r \<in> {''container'', ''local''} \<Longrightarrow> worker_from_row r = Inr (row_worker r)"
  by (auto simp: row_worker_def worker_from_row_def WorkerRuntime_from_str_def WorkerRuntime_ALL_def)

lemma row_worker_simps:
  "ww_runtime r \<in> {''container'', ''local''} \<Longrightarrow>
     wk_worker_id (row_worker r) = ww_worker_id r \<and> wk_container_id (row_worker r) = ww_container_id r \<and>
     wk_container_status (row_worker r) = ww_container_status r"
  by (auto simp: row_worker_def worker_from_row_def WorkerRuntime_from_str_def WorkerRuntime_ALL_def)

lemma collect_rows:
  "(\<And>r. r \<in> set rs \<Longrightarrow> ww_runtime r \<in> {''container'', ''local''}) \<Longrightarrow>
   collect_results (map worker_from_row rs) = Inr (map row_worker rs)"
  by (induction rs) (simp_all add: worker_from_row_ok)

definition after_single :: "string \<Rightarrow> (string \<Rightarrow> bool option) \<Rightarrow> worker_row \<Rightarrow> worker_db \<Rightarrow> worker_db" where
  "after_single now alive r db =
     db\<lparr>k_worker := update_where (\<lambda>w. ww_worker_id w = ww_worker_id r) (reconciled_row now alive) (k_worker db),
        k_link := delete_where (\<lambda>l. ws_worker_id l = ww_worker_id r \<and> found_dead alive r) (k_link db)\<rparr>"

lemma update_where_cong:
  "(\<And>r. r \<in> set rs \<Longrightarrow> p r \<Longrightarrow> f r = g r) \<Longrightarrow> update_where p f rs = update_where p g rs"
  by (simp add: update_where_def)

lemma delete_where_False [simp]: "delete_where (\<lambda>_. False) rs = rs"
  by (simp add: delete_where_def)

lemma update_where_id:
  "(\<And>r. r \<in> set rs \<Longrightarrow> p r \<Longrightarrow> f r = r) \<Longrightarrow> update_where p f rs = rs"
  unfolding update_where_def by (rule map_idI) simp

abbreviation set_status :: "string \<Rightarrow> string \<Rightarrow> worker_row \<Rightarrow> worker_db \<Rightarrow> worker_db" where
  "set_status now st r db \<equiv> db\<lparr>k_worker := update_where (\<lambda>w. ww_worker_id w = ww_worker_id r)
     (\<lambda>w. w\<lparr>ww_container_status := st, ww_updated_at := now\<rparr>) (k_worker db)\<rparr>"

text \<open>The three outcomes for a worker: left alone, reclaimed, or stopped.\<close>

lemma reconcile_single_cases:
  assumes ok: "worker_schema_ok db" and r: "r \<in> set (k_worker db)" and al: "alive (ww_container_id r) = Some b"
  shows "(reconcile_single_worker now (row_worker r) b res db = (db, Inr res) \<and> \<not> b \<and> \<not> found_dead alive r \<and> after_single now alive r db = db) \<or>
     (reconcile_single_worker now (row_worker r) b res db =
        (set_status now ''running'' r db, Inr (res\<lparr>reclaimed := reclaimed res @ [ww_worker_id r]\<rparr>)) \<and> b \<and>
      \<not> found_dead alive r \<and> after_single now alive r db = set_status now ''running'' r db) \<or>
     (reconcile_single_worker now (row_worker r) b res db =
        ((set_status now ''stopped'' r db)\<lparr>k_link := delete_where (\<lambda>l. ws_worker_id l = ww_worker_id r) (k_link db)\<rparr>,
         Inr (res\<lparr>marked_stopped := marked_stopped res @ [ww_worker_id r]\<rparr>)) \<and> \<not> b \<and> found_dead alive r \<and>
      after_single now alive r db =
        (set_status now ''stopped'' r db)\<lparr>k_link := delete_where (\<lambda>l. ws_worker_id l = ww_worker_id r) (k_link db)\<rparr>)"
proof -
  have rt: "ww_runtime r \<in> {''container'', ''local''}" and d: "distinct (map ww_worker_id (k_worker db))"
    using ok r by (auto simp: worker_schema_defs)
  note rw = row_worker_simps [OF rt]
  have same: "w = r" if "w \<in> set (k_worker db)" "ww_worker_id w = ww_worker_id r" for w
    using distinct_key_unique [OF d that(1) r] that(2) by simp
  let ?set = "\<lambda>st. update_where (\<lambda>w. ww_worker_id w = ww_worker_id r)
             (\<lambda>w. w\<lparr>ww_container_status := st, ww_updated_at := now\<rparr>) (k_worker db)"
  show ?thesis
  proof (cases b)
    case True
    have "update_where (\<lambda>w. ww_worker_id w = ww_worker_id r) (reconciled_row now alive) (k_worker db) = ?set ''running''"
      by (rule update_where_cong) (auto dest: same simp: reconciled_row_def al True)
    moreover have "\<not> found_dead alive r" by (simp add: found_dead_def al True)
    ultimately show ?thesis
      using True rw set_container_status_ok [OF ok] by (simp add: reconcile_single_worker_def after_single_def)
  next
    case False
    show ?thesis
    proof (cases "ww_container_status r = ''stopped''")
      case True
      have "update_where (\<lambda>w. ww_worker_id w = ww_worker_id r) (reconciled_row now alive) (k_worker db) = k_worker db"
        by (rule update_where_id) (auto dest: same simp: reconciled_row_def al False True)
      moreover have "\<not> found_dead alive r" by (simp add: found_dead_def True)
      ultimately show ?thesis using True False rw by (simp add: reconcile_single_worker_def after_single_def)
    next
      case st: False
      have "update_where (\<lambda>w. ww_worker_id w = ww_worker_id r) (reconciled_row now alive) (k_worker db) = ?set ''stopped''"
        by (rule update_where_cong) (auto dest: same simp: reconciled_row_def al False st)
      moreover have "found_dead alive r" by (simp add: found_dead_def al False st)
      moreover have "unlink_worker_slot (ww_worker_id r) (db\<lparr>k_worker := ?set ''stopped''\<rparr>) =
          (db\<lparr>k_worker := ?set ''stopped'', k_link := delete_where (\<lambda>l. ws_worker_id l = ww_worker_id r) (k_link db)\<rparr>, Inr ())"
        using unlink_ok(1) [OF set_container_status_ok(2) [OF ok]] by simp
      ultimately show ?thesis
        using False st rw set_container_status_ok(1) [OF ok] by (simp add: reconcile_single_worker_def after_single_def)
    qed
  qed
qed

lemma reconcile_single:
  assumes ok: "worker_schema_ok db" and r: "r \<in> set (k_worker db)" and al: "alive (ww_container_id r) = Some b"
  shows "\<exists>res'. reconcile_single_worker now (row_worker r) b res db = (after_single now alive r db, Inr res') \<and>
      set (reclaimed res') = set (reclaimed res) \<union> (if b then {ww_worker_id r} else {}) \<and>
      set (marked_stopped res') = set (marked_stopped res) \<union> (if found_dead alive r then {ww_worker_id r} else {}) \<and>
      indeterminate res' = indeterminate res"
    and "worker_schema_ok (after_single now alive r db)"
proof -
  note cases = reconcile_single_cases [of db r alive b, OF assms, of now res]
  then show "\<exists>res'. reconcile_single_worker now (row_worker r) b res db = (after_single now alive r db, Inr res') \<and>
      set (reclaimed res') = set (reclaimed res) \<union> (if b then {ww_worker_id r} else {}) \<and>
      set (marked_stopped res') = set (marked_stopped res) \<union> (if found_dead alive r then {ww_worker_id r} else {}) \<and>
      indeterminate res' = indeterminate res"
    by auto
  have "worker_schema_ok ((set_status now ''stopped'' r db)\<lparr>k_link := delete_where (\<lambda>l. ws_worker_id l = ww_worker_id r) (k_link db)\<rparr>)"
    using unlink_ok(2) [OF set_container_status_ok(2) [OF ok]] by simp
  then show "worker_schema_ok (after_single now alive r db)"
    using cases ok set_container_status_ok(2) [OF ok] by auto
qed

lemma reconciled_row_id [simp]: "ww_worker_id (reconciled_row now alive w) = ww_worker_id w"
  by (simp add: reconciled_row_def split: option.splits bool.splits)

lemma update_where_twice:
  assumes "\<And>r. k (f r) = k r"
  shows "update_where (\<lambda>r. k r \<in> B - A) f (update_where (\<lambda>r. k r \<in> A) f rs) = update_where (\<lambda>r. k r \<in> A \<union> B) f rs"
  using assms by (induction rs) auto

lemma update_indeterminate:
  assumes "worker_schema_ok db" "r \<in> set (k_worker db)" "alive (ww_container_id r) = None"
  shows "update_where (\<lambda>w. ww_worker_id w \<in> ww_worker_id ` set (r # rs)) (reconciled_row now alive) (k_worker db) =
    update_where (\<lambda>w. ww_worker_id w \<in> ww_worker_id ` set rs) (reconciled_row now alive) (k_worker db)"
proof -
  have "reconciled_row now alive w = w" if "w \<in> set (k_worker db)" "ww_worker_id w = ww_worker_id r" for w
    using distinct_key_unique [of ww_worker_id "k_worker db" w r] that assms
    by (auto simp: worker_schema_defs reconciled_row_def)
  then show ?thesis by (auto simp: update_where_def)
qed

lemma after_single_others:
  assumes "distinct (map ww_worker_id (r # rs))" "set (r # rs) \<subseteq> set (k_worker db)"
  shows "set rs \<subseteq> set (k_worker (after_single now alive r db))"
proof
  fix x assume x: "x \<in> set rs"
  then have "ww_worker_id x \<noteq> ww_worker_id r" using assms(1) by (metis distinct.simps(2) image_eqI list.map(2) list.set_map)
  moreover have "x \<in> set (k_worker db)" using x assms(2) by auto
  ultimately show "x \<in> set (k_worker (after_single now alive r db))"
    by (auto simp: after_single_def set_update_where intro: image_eqI [of _ _ x])
qed

lemma after_single_update:
  assumes "distinct (map ww_worker_id (r # rs))"
  shows "update_where (\<lambda>w. ww_worker_id w \<in> ww_worker_id ` set rs) (reconciled_row now alive) (k_worker (after_single now alive r db)) =
    update_where (\<lambda>w. ww_worker_id w \<in> ww_worker_id ` set (r # rs)) (reconciled_row now alive) (k_worker db)"
proof -
  have "ww_worker_id ` set rs - {ww_worker_id r} = ww_worker_id ` set rs" using assms by auto
  then show ?thesis
    using update_where_twice [of ww_worker_id "reconciled_row now alive" "ww_worker_id ` set rs" "{ww_worker_id r}" "k_worker db"]
    by (simp add: after_single_def)
qed

lemma reconcile_list:
  assumes "worker_schema_ok db" and "distinct (map ww_worker_id rs)" and "set rs \<subseteq> set (k_worker db)"
  shows "\<exists>db' res'. reconcile_worker_list now alive (map row_worker rs) res db = (db', Inr res') \<and>
    k_slot db' = k_slot db \<and>
    k_worker db' = update_where (\<lambda>w. ww_worker_id w \<in> ww_worker_id ` set rs) (reconciled_row now alive) (k_worker db) \<and>
    k_link db' = delete_where (\<lambda>l. \<exists>r \<in> set rs. ws_worker_id l = ww_worker_id r \<and> found_dead alive r) (k_link db) \<and>
    set (reclaimed res') = set (reclaimed res) \<union> ww_worker_id ` {r \<in> set rs. alive (ww_container_id r) = Some True} \<and>
    set (marked_stopped res') = set (marked_stopped res) \<union> ww_worker_id ` {r \<in> set rs. found_dead alive r} \<and>
    set (indeterminate res') = set (indeterminate res) \<union> ww_worker_id ` {r \<in> set rs. alive (ww_container_id r) = None}"
  using assms
proof (induction rs arbitrary: db res)
  case Nil
  then show ?case by (simp add: update_where_id)
next
  case (Cons r rs)
  have rt: "ww_runtime r \<in> {''container'', ''local''}" and r: "r \<in> set (k_worker db)"
    using Cons.prems by (auto simp: worker_schema_defs)
  note rw = row_worker_simps [OF rt]
  have img: "ww_worker_id ` {x \<in> set (r # rs). P x} = (if P r then {ww_worker_id r} else {}) \<union> ww_worker_id ` {x \<in> set rs. P x}" for P
    by auto
  show ?case
  proof (cases "alive (ww_container_id r)")
    case None
    have nd: "\<not> found_dead alive r" by (simp add: found_dead_def None)
    note u = update_indeterminate [of db r alive, OF Cons.prems(1) r None]
    from Cons.IH [of db "res\<lparr>indeterminate := indeterminate res @ [ww_worker_id r]\<rparr>"] Cons.prems None rw
    show ?thesis unfolding u img by (simp add: nd) 
  next
    case (Some b)
    let ?db = "after_single now alive r db"
    obtain res1 where 1: "reconcile_single_worker now (row_worker r) b res db = (?db, Inr res1)"
      "set (reclaimed res1) = set (reclaimed res) \<union> (if b then {ww_worker_id r} else {})"
      "set (marked_stopped res1) = set (marked_stopped res) \<union> (if found_dead alive r then {ww_worker_id r} else {})"
      "indeterminate res1 = indeterminate res"
      using reconcile_single(1) [of db r alive b, OF Cons.prems(1) r Some] by blast
    have ok: "worker_schema_ok ?db" by (rule reconcile_single(2) [of db r alive b, OF Cons.prems(1) r Some])
    have sub: "set rs \<subseteq> set (k_worker ?db)" by (rule after_single_others [OF Cons.prems(2,3)])
    have d: "distinct (map ww_worker_id rs)" using Cons.prems(2) by simp
    note kw = after_single_update [OF Cons.prems(2)]
    have kl: "delete_where (\<lambda>l. \<exists>r \<in> set rs. ws_worker_id l = ww_worker_id r \<and> found_dead alive r) (k_link ?db) =
        delete_where (\<lambda>l. \<exists>r \<in> set (r # rs). ws_worker_id l = ww_worker_id r \<and> found_dead alive r) (k_link db)"
      by (simp add: after_single_def delete_where_def conj_commute)
    have ks: "k_slot ?db = k_slot db" by (simp add: after_single_def)
    have step: "reconcile_worker_list now alive (map row_worker (r # rs)) res db =
        reconcile_worker_list now alive (map row_worker rs) res1 ?db"
      using 1(1) rw Some by simp
    show ?thesis
      using Cons.IH [OF ok d sub, of res1] unfolding step kw kl ks img 1 Some by auto
  qed
qed

text \<open>
  C31: start-up reconciliation of workers always succeeds on a consistent store. A worker whose
  container is alive becomes running, a worker found dead becomes stopped and loses its slot
  (unless it was stopped already), and a worker whose container could not be probed keeps its row
  and its slot. Slots and the other links are untouched, and the report lists exactly the workers
  of each kind.
\<close>

theorem reconcile_workers_correct:
  assumes "worker_schema_ok db"
  shows "\<exists>db' res. reconcile_workers le now alive db = (db', Inr res) \<and> k_slot db' = k_slot db \<and>
    k_worker db' = map (reconciled_row now alive) (k_worker db) \<and>
    k_link db' = filter (\<lambda>l. \<not> (\<exists>r \<in> set (k_worker db). ww_worker_id r = ws_worker_id l \<and> found_dead alive r)) (k_link db) \<and>
    set (reclaimed res) = ww_worker_id ` {r \<in> set (k_worker db). alive (ww_container_id r) = Some True} \<and>
    set (marked_stopped res) = ww_worker_id ` {r \<in> set (k_worker db). found_dead alive r} \<and>
    set (indeterminate res) = ww_worker_id ` {r \<in> set (k_worker db). alive (ww_container_id r) = None}"
proof -
  let ?rs = "order_by (on_key le ww_created_at) (k_worker db)"
  have list: "list_all_workers le db = Inr (map row_worker ?rs)"
    unfolding list_all_workers_def list_workers_def
    using assms by (simp, intro collect_rows) (simp add: worker_schema_ok_def worker_check_ok_def)
  have d: "distinct (map ww_worker_id ?rs)" using assms by (simp add: worker_schema_defs)
  have up: "update_where (\<lambda>w. ww_worker_id w \<in> ww_worker_id ` set ?rs) (reconciled_row now alive) (k_worker db) =
      map (reconciled_row now alive) (k_worker db)"
    by (simp add: update_where_def)
  have del: "delete_where (\<lambda>l. \<exists>r \<in> set ?rs. ws_worker_id l = ww_worker_id r \<and> found_dead alive r) (k_link db) =
      filter (\<lambda>l. \<not> (\<exists>r \<in> set (k_worker db). ww_worker_id r = ws_worker_id l \<and> found_dead alive r)) (k_link db)"
    by (simp add: delete_where_def eq_commute)
  show ?thesis
    using reconcile_list [OF assms d, of now alive "\<lparr>reclaimed = [], marked_stopped = [], indeterminate = []\<rparr>"]
    unfolding reconcile_workers_def list up del by simp
qed

subsection \<open>Reconciling slots\<close>

text \<open>The combined effect of deleting slots together with the workers linked to them, and of adding slots.\<close>

definition linked :: "worker_db \<Rightarrow> string set \<Rightarrow> string \<Rightarrow> bool" where
  "linked db S i = (\<exists>l \<in> set (k_link db). ws_slot_id l \<in> S \<and> ws_worker_id l = i)"

definition drop_slots :: "string set \<Rightarrow> worker_db \<Rightarrow> worker_db" where
  "drop_slots S db =
     db\<lparr>k_slot := delete_where (\<lambda>s. sl_id s \<in> S) (k_slot db),
        k_worker := delete_where (\<lambda>w. linked db S (ww_worker_id w)) (k_worker db),
        k_link := delete_where (\<lambda>l. linked db S (ws_worker_id l)) (k_link db)\<rparr>"

definition add_slots :: "Slot list \<Rightarrow> worker_db \<Rightarrow> worker_db" where
  "add_slots xs db = db\<lparr>k_slot := k_slot db @ xs\<rparr>"

lemma drop_slots_empty [simp]: "drop_slots {} db = db"
  by (simp add: drop_slots_def linked_def)

lemma add_slots_simps [simp]:
  "add_slots [] db = db" "add_slots ys (add_slots xs db) = add_slots (xs @ ys) db"
  by (simp_all add: add_slots_def)

lemma linked_drop: "linked (drop_slots A db) B i \<longleftrightarrow> linked db B i \<and> \<not> linked db A i"
  by (auto simp: linked_def drop_slots_def)

lemma drop_slots_twice: "drop_slots B (drop_slots A db) = drop_slots (A \<union> B) db"
proof -
  have "linked db (A \<union> B) i \<longleftrightarrow> linked db A i \<or> linked db B i" for i by (auto simp: linked_def)
  moreover have "\<not> a \<and> (b \<longrightarrow> a) \<longleftrightarrow> \<not> a \<and> \<not> b" for a b by auto
  ultimately show ?thesis
    by (simp add: drop_slots_def [of B] linked_drop) (simp add: drop_slots_def delete_where_def)
qed

lemma drop_add_slots:
  assumes "sl_id ` set xs \<inter> S = {}"
  shows "drop_slots S (add_slots xs db) = add_slots xs (drop_slots S db)"
proof -
  have "delete_where (\<lambda>s. sl_id s \<in> S) xs = xs" using assms by (auto simp: delete_where_def intro!: filter_True)
  then show ?thesis by (simp add: drop_slots_def add_slots_def linked_def)
qed

lemma schema_drop_slots:
  assumes "worker_schema_ok db"
  shows "worker_schema_ok (drop_slots S db)"
proof -
  have "ws_worker_id l \<in> ww_worker_id ` set (k_worker (drop_slots S db)) \<and> ws_slot_id l \<in> sl_id ` set (k_slot (drop_slots S db))"
    if "l \<in> set (k_link (drop_slots S db))" for l
  proof -
    have l: "l \<in> set (k_link db)" "\<not> linked db S (ws_worker_id l)" using that by (simp_all add: drop_slots_def)
    with assms obtain w s where w: "w \<in> set (k_worker db)" "ww_worker_id w = ws_worker_id l"
      and s: "s \<in> set (k_slot db)" "sl_id s = ws_slot_id l"
      by (fastforce simp: worker_schema_defs)
    have "sl_id s \<notin> S" using l s(2) by (auto simp: linked_def)
    with w s l(2) show ?thesis by (force simp: drop_slots_def image_iff)
  qed
  moreover have "set (k_worker (drop_slots S db)) \<subseteq> set (k_worker db)" by (auto simp: drop_slots_def)
  moreover have "worker_unique_ok (drop_slots S db)"
    using assms by (auto simp: worker_schema_ok_def worker_unique_ok_def drop_slots_def)
  ultimately show ?thesis
    using assms by (auto simp: worker_schema_ok_def worker_fk_ok_def worker_int_ok_def worker_check_ok_def)
qed

lemma drop_one_slot:
  assumes ok: "worker_schema_ok db"
  shows "bindS (delete_workers_by_slot_id i) (\<lambda>_. bindS (delete_slot i) f) db = f () (drop_slots {i} db)"
proof -
  let ?p = "\<lambda>w. \<exists>l \<in> set (k_link db). ws_slot_id l = i \<and> ws_worker_id l = ww_worker_id w"
  let ?db1 = "cascade_workers ?p db"
  have fk: "l \<in> set (k_link db) \<Longrightarrow> ws_worker_id l \<in> ww_worker_id ` set (k_worker db)" for l
    using ok by (simp add: worker_schema_defs)
  have del: "(\<exists>w \<in> set (k_worker db). ?p w \<and> ww_worker_id w = ws_worker_id l) \<longleftrightarrow> linked db {i} (ws_worker_id l)" for l
    using fk by (fastforce simp: linked_def)
  have db1: "?db1 = db\<lparr>k_worker := delete_where (\<lambda>w. linked db {i} (ww_worker_id w)) (k_worker db),
      k_link := delete_where (\<lambda>l. linked db {i} (ws_worker_id l)) (k_link db)\<rparr>"
    unfolding cascade_workers_def del by (simp add: linked_def)
  have ok1: "worker_schema_ok ?db1"
    using schema_drop_slots [OF ok, of "{i}"] ok unfolding db1
    by (auto simp: worker_schema_defs drop_slots_def)
  have 1: "delete_workers_by_slot_id i db = (?db1, Inr (rows_matching ?p (k_worker db)))"
    unfolding delete_workers_by_slot_id_def Let_def by (subst bindS_Inr, rule worker_store.accepted, rule ok1) simp
  have "delete_where (\<lambda>l. \<exists>s \<in> set (k_slot db). sl_id s = i \<and> sl_id s = ws_slot_id l)
      (delete_where (\<lambda>l. linked db {i} (ws_worker_id l)) (k_link db)) =
      delete_where (\<lambda>l. linked db {i} (ws_worker_id l)) (k_link db)"
    unfolding delete_where_def filter_filter by (rule filter_cong) (auto simp: linked_def)
  then have db2: "cascade_slots (\<lambda>s. sl_id s = i) ?db1 = drop_slots {i} db"
    unfolding cascade_slots_def db1 by (simp add: drop_slots_def)
  have 2: "delete_slot i ?db1 = (drop_slots {i} db, Inr ())"
    unfolding delete_slot_def using worker_store.accepted [of "cascade_slots (\<lambda>s. sl_id s = i)" ?db1] schema_drop_slots [OF ok]
    by (simp add: db2)
  show ?thesis using 1 2 by simp
qed

lemma delete_stale_slots_effect:
  assumes "worker_schema_ok db"
  shows "\<exists>res'. delete_stale_slots slots disk res db =
      (drop_slots (sl_id ` {s \<in> set slots. sl_slot_name s \<notin> set disk}) db, Inr res') \<and>
    set (deleted_stale res') = set (deleted_stale res) \<union> sl_id ` {s \<in> set slots. sl_slot_name s \<notin> set disk} \<and>
    inserted_orphaned res' = inserted_orphaned res"
  using assms
proof (induction slots arbitrary: db res)
  case (Cons s slots)
  let ?S = "sl_id ` {s \<in> set slots. sl_slot_name s \<notin> set disk}"
  show ?case
  proof (cases "sl_slot_name s \<in> set disk")
    case True
    then have "{x \<in> set (s # slots). sl_slot_name x \<notin> set disk} = {x \<in> set slots. sl_slot_name x \<notin> set disk}" by auto
    with Cons True show ?thesis by simp
  next
    case False
    then have eq: "sl_id ` {x \<in> set (s # slots). sl_slot_name x \<notin> set disk} = {sl_id s} \<union> ?S" by auto
    obtain res' where "delete_stale_slots slots disk (res\<lparr>deleted_stale := deleted_stale res @ [sl_id s]\<rparr>) (drop_slots {sl_id s} db) =
        (drop_slots ?S (drop_slots {sl_id s} db), Inr res')"
      "set (deleted_stale res') = insert (sl_id s) (set (deleted_stale res)) \<union> ?S"
      "inserted_orphaned res' = inserted_orphaned res"
      using Cons.IH [OF schema_drop_slots [OF Cons.prems], of "res\<lparr>deleted_stale := deleted_stale res @ [sl_id s]\<rparr>"] by auto
    then show ?thesis
      unfolding eq using False by (simp add: drop_one_slot [OF Cons.prems] drop_slots_twice)
  qed
qed simp

definition slot_key :: "Slot \<Rightarrow> string \<times> string" where
  "slot_key s = (sl_project_key s, sl_slot_name s)"

definition orphan_slot :: "(string \<Rightarrow> string \<Rightarrow> string) \<Rightarrow> string \<Rightarrow> string \<Rightarrow> string \<Rightarrow> string \<Rightarrow> Slot" where
  "orphan_slot uuid now project_key pool_dir name =
     \<lparr>sl_id = uuid project_key name, sl_project_key = project_key, sl_slot_name = name,
      sl_host_path = path_join pool_dir name, sl_created_at = now, sl_updated_at = now\<rparr>"

lemma orphan_slot_simps [simp]:
  "sl_id (orphan_slot uuid now p d n) = uuid p n" "slot_key (orphan_slot uuid now p d n) = (p, n)"
  by (simp_all add: orphan_slot_def slot_key_def)

lemma schema_add_slot:
  assumes "worker_schema_ok db" and "sl_id s \<notin> sl_id ` set (k_slot db)" and "slot_key s \<notin> slot_key ` set (k_slot db)"
  shows "worker_schema_ok (add_slots [s] db)"
  using assms by (auto simp: worker_schema_defs add_slots_def slot_key_def)

lemma insert_orphaned_slots_effect:
  assumes "worker_schema_ok db" and "distinct names" and "inj (\<lambda>(p, n). uuid p n)"
    and "\<forall>n \<in> set names. n \<notin> sl_slot_name ` set known \<longrightarrow>
      uuid p n \<notin> sl_id ` set (k_slot db) \<and> (p, n) \<notin> slot_key ` set (k_slot db)"
  shows "insert_orphaned_slots uuid now p d known names res db =
      (add_slots (map (orphan_slot uuid now p d) (filter (\<lambda>n. n \<notin> sl_slot_name ` set known) names)) db,
       Inr (res\<lparr>inserted_orphaned := inserted_orphaned res @ map (uuid p) (filter (\<lambda>n. n \<notin> sl_slot_name ` set known) names)\<rparr>)) \<and>
    worker_schema_ok (add_slots (map (orphan_slot uuid now p d) (filter (\<lambda>n. n \<notin> sl_slot_name ` set known) names)) db)"
  using assms
proof (induction names arbitrary: db res)
  case (Cons n names)
  show ?case
  proof (cases "n \<in> sl_slot_name ` set known")
    case True
    have IH: "insert_orphaned_slots uuid now p d known names res db =
      (add_slots (map (orphan_slot uuid now p d) (filter (\<lambda>n. n \<notin> sl_slot_name ` set known) names)) db,
       Inr (res\<lparr>inserted_orphaned := inserted_orphaned res @ map (uuid p) (filter (\<lambda>n. n \<notin> sl_slot_name ` set known) names)\<rparr>)) \<and>
      worker_schema_ok (add_slots (map (orphan_slot uuid now p d) (filter (\<lambda>n. n \<notin> sl_slot_name ` set known) names)) db)"
      by (rule Cons.IH [OF Cons.prems(1) _ Cons.prems(3)]) (use Cons.prems(2,4) in simp_all)
    have "insert_orphaned_slots uuid now p d known (n # names) res db = insert_orphaned_slots uuid now p d known names res db"
      using True by simp
    moreover have "filter (\<lambda>n. n \<notin> sl_slot_name ` set known) (n # names) = filter (\<lambda>n. n \<notin> sl_slot_name ` set known) names"
      using True by simp
    ultimately show ?thesis using IH by metis
  next
    case False
    let ?s = "orphan_slot uuid now p d n"
    have ok: "worker_schema_ok (add_slots [?s] db)"
      using Cons.prems(1,4) False by (intro schema_add_slot) auto
    have run: "insert_slot ?s db = (add_slots [?s] db, Inr ())"
      unfolding insert_slot_def add_slots_def by (rule worker_store.accepted) (use ok in \<open>simp add: add_slots_def\<close>)
    have new: "uuid p m \<notin> sl_id ` set (k_slot (add_slots [?s] db)) \<and> (p, m) \<notin> slot_key ` set (k_slot (add_slots [?s] db))"
      if "m \<in> set names" "m \<notin> sl_slot_name ` set known" for m
    proof -
      have "m \<noteq> n" using that(1) Cons.prems(2) by auto
      then have "uuid p m \<noteq> uuid p n" using injD [OF Cons.prems(3), of "(p, m)" "(p, n)"] by auto
      with \<open>m \<noteq> n\<close> that Cons.prems(4) show ?thesis by (simp add: add_slots_def)
    qed
    have IH: "insert_orphaned_slots uuid now p d known names (res\<lparr>inserted_orphaned := inserted_orphaned res @ [uuid p n]\<rparr>) (add_slots [?s] db) =
      (add_slots (map (orphan_slot uuid now p d) (filter (\<lambda>n. n \<notin> sl_slot_name ` set known) names)) (add_slots [?s] db),
       Inr (res\<lparr>inserted_orphaned := (inserted_orphaned res @ [uuid p n]) @ map (uuid p) (filter (\<lambda>n. n \<notin> sl_slot_name ` set known) names)\<rparr>)) \<and>
      worker_schema_ok (add_slots (map (orphan_slot uuid now p d) (filter (\<lambda>n. n \<notin> sl_slot_name ` set known) names)) (add_slots [?s] db))"
      using Cons.IH [OF ok _ Cons.prems(3), of "res\<lparr>inserted_orphaned := inserted_orphaned res @ [uuid p n]\<rparr>"] Cons.prems(2) new by simp
    have "insert_orphaned_slots uuid now p d known (n # names) res db =
        insert_orphaned_slots uuid now p d known names (res\<lparr>inserted_orphaned := inserted_orphaned res @ [uuid p n]\<rparr>) (add_slots [?s] db)"
      using False run unfolding orphan_slot_def by simp
    with IH False show ?thesis by simp
  qed
qed simp

text \<open>The directories found for a project, the slots without one, and the slots to be added.\<close>

definition disk_names :: "(string \<Rightarrow> listing) \<Rightarrow> string \<Rightarrow> string \<Rightarrow> string list" where
  "disk_names fs local_root p = scan_disk_slots (fs (path_join local_root p))"

definition stale_ids :: "(string \<Rightarrow> string list) \<Rightarrow> string set \<Rightarrow> Slot set \<Rightarrow> string set" where
  "stale_ids disk P S = sl_id ` {s \<in> S. sl_project_key s \<in> P \<and> sl_slot_name s \<notin> set (disk (sl_project_key s))}"

definition orphans ::
  "(string \<Rightarrow> string \<Rightarrow> string) \<Rightarrow> string \<Rightarrow> string \<Rightarrow> (string \<Rightarrow> string list) \<Rightarrow> Slot list \<Rightarrow> string \<Rightarrow> Slot list" where
  "orphans uuid now host_root disk slots p =
     map (orphan_slot uuid now p (path_join host_root p)) (filter (\<lambda>n. (p, n) \<notin> slot_key ` set slots) (disk p))"

lemma set_drop_slots: "set (k_slot (drop_slots S db)) = {s \<in> set (k_slot db). sl_id s \<notin> S}"
  by (simp add: drop_slots_def)

lemma reconcile_one_project:
  fixes fs lr p slots defines "disk \<equiv> disk_names fs lr"
  defines "S \<equiv> stale_ids disk {p} (set slots)"
  assumes "worker_schema_ok db" "distinct (disk p)" "inj (\<lambda>(p, n). uuid p n)" "\<forall>n. uuid p n \<notin> sl_id ` set (k_slot db)"
    and "{s \<in> set slots. sl_project_key s = p} = {s \<in> set (k_slot db). sl_project_key s = p}"
  shows "\<exists>res'. (\<forall>ps. reconcile_projects uuid now fs lr hr slots (p # ps) res db =
        reconcile_projects uuid now fs lr hr slots ps res' (add_slots (orphans uuid now hr disk slots p) (drop_slots S db))) \<and>
    worker_schema_ok (add_slots (orphans uuid now hr disk slots p) (drop_slots S db)) \<and>
    set (deleted_stale res') = set (deleted_stale res) \<union> S \<and>
    inserted_orphaned res' = inserted_orphaned res @ map sl_id (orphans uuid now hr disk slots p)"
proof -
  let ?known = "filter (\<lambda>s. sl_project_key s = p) slots" and ?xs = "orphans uuid now hr disk slots p"
  have S: "sl_id ` {s \<in> set ?known. sl_slot_name s \<notin> set (disk p)} = S"
    by (auto simp: S_def stale_ids_def)
  have xs: "?xs = map (orphan_slot uuid now p (path_join hr p)) (filter (\<lambda>n. n \<notin> sl_slot_name ` set ?known) (disk p))"
    unfolding orphans_def by (intro arg_cong [where f = "map _"] filter_cong) (auto simp: slot_key_def)
  obtain res1 where 1: "delete_stale_slots ?known (disk p) res db = (drop_slots S db, Inr res1)"
    "set (deleted_stale res1) = set (deleted_stale res) \<union> S" "inserted_orphaned res1 = inserted_orphaned res"
    using delete_stale_slots_effect [OF assms(3), of ?known "disk p" res] unfolding S by blast
  have "(p, n) \<notin> slot_key ` set (k_slot (drop_slots S db))" if "n \<notin> sl_slot_name ` set ?known" for n
  proof
    assume "(p, n) \<in> slot_key ` set (k_slot (drop_slots S db))"
    then obtain s where "s \<in> set (k_slot db)" "sl_project_key s = p" "sl_slot_name s = n"
      by (auto simp: set_drop_slots slot_key_def)
    with assms(7) have "s \<in> set ?known" by auto
    with that \<open>sl_slot_name s = n\<close> show False by blast
  qed
  then have fresh: "\<forall>n \<in> set (disk p). n \<notin> sl_slot_name ` set ?known \<longrightarrow>
      uuid p n \<notin> sl_id ` set (k_slot (drop_slots S db)) \<and> (p, n) \<notin> slot_key ` set (k_slot (drop_slots S db))"
    using assms(6) by (auto simp: set_drop_slots)
  have ids: "map (uuid p) (filter (\<lambda>n. n \<notin> sl_slot_name ` set ?known) (disk p)) = map sl_id ?xs"
    unfolding xs by simp
  let ?db = "add_slots ?xs (drop_slots S db)" and ?res2 = "res1\<lparr>inserted_orphaned := inserted_orphaned res1 @ map sl_id ?xs\<rparr>"
  have 2: "insert_orphaned_slots uuid now p (path_join hr p) ?known (disk p) res1 (drop_slots S db) = (?db, Inr ?res2)"
    "worker_schema_ok ?db"
    using insert_orphaned_slots_effect [OF schema_drop_slots [OF assms(3)] _ assms(5) fresh, of now "path_join hr p" res1] assms(4)
    unfolding xs [symmetric] ids by auto
  then have "reconcile_projects uuid now fs lr hr slots (p # ps) res db = reconcile_projects uuid now fs lr hr slots ps ?res2 ?db" for ps
    using 1(1) by (simp add: disk_def disk_names_def Let_def)
  with 1(2,3) 2(2) show ?thesis by (intro exI [of _ ?res2]) simp
qed

text \<open>The reconciliation of a project leaves the slots of the others alone.\<close>

lemma other_project_kept:
  assumes "worker_schema_ok db" "q \<noteq> p"
    and "{s \<in> set slots. sl_project_key s = p} = {s \<in> set (k_slot db). sl_project_key s = p}"
  shows "{s \<in> set (k_slot (add_slots (orphans uuid now hr disk slots p) (drop_slots (stale_ids disk {p} (set slots)) db))). sl_project_key s = q} =
    {s \<in> set (k_slot db). sl_project_key s = q}"
proof -
  have "sl_id s \<notin> stale_ids disk {p} (set slots)" if s: "s \<in> set (k_slot db)" "sl_project_key s = q" for s
  proof
    assume "sl_id s \<in> stale_ids disk {p} (set slots)"
    then obtain t where t: "t \<in> set slots" "sl_project_key t = p" "sl_id t = sl_id s" by (auto simp: stale_ids_def)
    then have "t \<in> set (k_slot db)" using assms(3) by auto
    with s t(3) have "t = s" using assms(1) distinct_key_unique [of sl_id "k_slot db" t s] by (simp add: worker_schema_defs)
    with s t(2) assms(2) show False by simp
  qed
  moreover have "sl_project_key s = p" if "s \<in> set (orphans uuid now hr disk slots p)" for s
    using that by (auto simp: orphans_def orphan_slot_def)
  ultimately show ?thesis using assms(2) by (auto simp: add_slots_def set_drop_slots)
qed

lemma other_uuid_fresh:
  assumes "inj (\<lambda>(p, n). uuid p n)" "q \<noteq> p" "uuid q n \<notin> sl_id ` set (k_slot db)"
  shows "uuid q n \<notin> sl_id ` set (k_slot (add_slots (orphans uuid now hr disk slots p) (drop_slots S db)))"
proof -
  have "uuid q n \<noteq> uuid p m" for m using injD [OF assms(1), of "(q, n)" "(p, m)"] assms(2) by auto
  then have "uuid q n \<notin> sl_id ` set (orphans uuid now hr disk slots p)" unfolding orphans_def by (force simp del: image_iff)
  with assms(3) show ?thesis by (auto simp: add_slots_def set_drop_slots)
qed

lemma reconcile_projects_effect:
  fixes fs lr defines "disk \<equiv> disk_names fs lr"
  assumes "worker_schema_ok db" and "distinct ps" and "\<forall>p \<in> set ps. distinct (disk p)"
    and "inj (\<lambda>(p, n). uuid p n)"
    and "\<forall>p \<in> set ps. \<forall>n. uuid p n \<notin> sl_id ` set slots \<and> uuid p n \<notin> sl_id ` set (k_slot db)"
    and "\<forall>p \<in> set ps. {s \<in> set slots. sl_project_key s = p} = {s \<in> set (k_slot db). sl_project_key s = p}"
  shows "\<exists>res'. reconcile_projects uuid now fs lr hr slots ps res db =
      (add_slots (concat (map (orphans uuid now hr disk slots) ps)) (drop_slots (stale_ids disk (set ps) (set slots)) db), Inr res') \<and>
    worker_schema_ok (add_slots (concat (map (orphans uuid now hr disk slots) ps)) (drop_slots (stale_ids disk (set ps) (set slots)) db)) \<and>
    set (deleted_stale res') = set (deleted_stale res) \<union> stale_ids disk (set ps) (set slots) \<and>
    inserted_orphaned res' = inserted_orphaned res @ map sl_id (concat (map (orphans uuid now hr disk slots) ps))"
  using assms(2-)
proof (induction ps arbitrary: db res)
  case Nil
  then show ?case by (simp add: stale_ids_def)
next
  case (Cons p ps)
  let ?S = "stale_ids disk {p} (set slots)" and ?xs = "orphans uuid now hr disk slots p"
  let ?T = "stale_ids disk (set ps) (set slots)" and ?ys = "concat (map (orphans uuid now hr disk slots) ps)"
  let ?db = "add_slots ?xs (drop_slots ?S db)"
  obtain res1 where 1: "\<And>ps. reconcile_projects uuid now fs lr hr slots (p # ps) res db = reconcile_projects uuid now fs lr hr slots ps res1 ?db"
    "worker_schema_ok ?db" "set (deleted_stale res1) = set (deleted_stale res) \<union> ?S"
    "inserted_orphaned res1 = inserted_orphaned res @ map sl_id ?xs"
    using reconcile_one_project [of db fs lr p uuid slots now hr res] Cons.prems unfolding disk_def by auto
  have T: "stale_ids disk (set (p # ps)) (set slots) = ?S \<union> ?T" by (auto simp: stale_ids_def)
  have "sl_id ` set ?xs \<inter> ?T = {}"
    using Cons.prems(5) by (auto simp: orphans_def stale_ids_def) (metis imageI)
  then have final: "add_slots ?ys (drop_slots ?T ?db) =
      add_slots (concat (map (orphans uuid now hr disk slots) (p # ps))) (drop_slots (stale_ids disk (set (p # ps)) (set slots)) db)"
    unfolding T by (simp add: drop_add_slots drop_slots_twice)
  have other: "q \<noteq> p" if "q \<in> set ps" for q using that Cons.prems(2) by auto
  have "\<forall>q \<in> set ps. \<forall>n. uuid q n \<notin> sl_id ` set slots \<and> uuid q n \<notin> sl_id ` set (k_slot ?db)"
    using Cons.prems(5) other_uuid_fresh [OF Cons.prems(4)] other by (metis list.set_intros(2))
  moreover have "\<forall>q \<in> set ps. {s \<in> set slots. sl_project_key s = q} = {s \<in> set (k_slot ?db). sl_project_key s = q}"
    using Cons.prems(6) other_project_kept [OF Cons.prems(1), of _ p slots uuid now hr disk] other by simp
  ultimately show ?case
    using Cons.IH [OF 1(2) _ _ Cons.prems(4), of res1] Cons.prems(2,3) unfolding 1(1) final T
    by (auto simp: 1(3,4))
qed

text \<open>
  C32: after the start-up reconciliation of slots the store has exactly one slot for every
  directory of every configured project (the shared directory excepted) and no other. Slots whose
  directory exists keep their row, a worker survives exactly when it was not linked to a removed
  slot, and the report names the removed slots.
\<close>

theorem reconcile_slots_correct:
  assumes "worker_schema_ok db" and "distinct projects"
    and "\<forall>p \<in> set projects. distinct (disk_names fs (path_join lw ''pool'') p)"
    and "inj (\<lambda>(p, n). uuid p n)" and "\<forall>p n. uuid p n \<notin> sl_id ` set (k_slot db)"
  shows "\<exists>db' res. reconcile_slots le uuid now fs projects lw hw db = (db', Inr res) \<and>
    bij_betw slot_key (set (k_slot db')) {(p, n). p \<in> set projects \<and> n \<in> set (disk_names fs (path_join lw ''pool'') p)} \<and>
    {s \<in> set (k_slot db). sl_project_key s \<in> set projects \<and>
       sl_slot_name s \<in> set (disk_names fs (path_join lw ''pool'') (sl_project_key s))} \<subseteq> set (k_slot db') \<and>
    set (k_worker db') = {w \<in> set (k_worker db). \<not> linked db (set (deleted_stale res)) (ww_worker_id w)} \<and>
    set (deleted_stale res) = sl_id ` {s \<in> set (k_slot db). sl_project_key s \<notin> set projects \<or>
       sl_slot_name s \<notin> set (disk_names fs (path_join lw ''pool'') (sl_project_key s))}"
proof -
  let ?disk = "disk_names fs (path_join lw ''pool'')" and ?hr = "path_join hw ''pool''"
  let ?all = "list_all_slots le db" and ?P = "set projects"
  let ?ys = "concat (map (orphans uuid now ?hr ?disk ?all) projects)"
  let ?T = "stale_ids ?disk ?P (set ?all)" and ?U = "sl_id ` {s \<in> set (k_slot db). sl_project_key s \<notin> ?P}"
  let ?gone = "\<lambda>s. sl_project_key s \<notin> ?P \<or> sl_slot_name s \<notin> set (?disk (sl_project_key s))"
  have all: "set ?all = set (k_slot db)" by (simp add: list_all_slots_def)
  obtain res1 where 1: "reconcile_projects uuid now fs (path_join lw ''pool'') ?hr ?all projects
      \<lparr>deleted_stale = [], inserted_orphaned = []\<rparr> db = (add_slots ?ys (drop_slots ?T db), Inr res1)"
    "worker_schema_ok (add_slots ?ys (drop_slots ?T db))" "set (deleted_stale res1) = ?T"
    using reconcile_projects_effect [of db projects fs "path_join lw ''pool''" uuid ?all now ?hr "\<lparr>deleted_stale = [], inserted_orphaned = []\<rparr>"]
      assms all by auto
  have U: "sl_id ` {s \<in> set (filter (\<lambda>s. sl_project_key s \<notin> ?P) ?all). sl_slot_name s \<notin> set []} = ?U"
    by (simp add: all)
  obtain res where 2: "delete_stale_slots (filter (\<lambda>s. sl_project_key s \<notin> ?P) ?all) [] res1 (add_slots ?ys (drop_slots ?T db)) =
      (drop_slots ?U (add_slots ?ys (drop_slots ?T db)), Inr res)" "set (deleted_stale res) = ?T \<union> ?U"
    using delete_stale_slots_effect [OF 1(2), of "filter (\<lambda>s. sl_project_key s \<notin> ?P) ?all" "[]" res1] 1(3) unfolding U by blast
  let ?db = "add_slots ?ys (drop_slots (?T \<union> ?U) db)"
  have new: "sl_id ` set ?ys \<inter> ?U = {}" using assms(5) by (auto simp: orphans_def) (metis imageI)
  then have run: "reconcile_slots le uuid now fs projects lw hw db = (?db, Inr res)"
    using 1(1) 2(1) by (simp add: reconcile_slots_def Let_def drop_add_slots drop_slots_twice)
  have TU: "?T \<union> ?U = sl_id ` {s \<in> set (k_slot db). ?gone s}" by (auto simp: stale_ids_def all)
  have ok: "worker_schema_ok ?db"
    using schema_drop_slots [OF 1(2), of ?U] new by (simp add: drop_add_slots drop_slots_twice)
  have d: "distinct (map sl_id (k_slot db))" using assms(1) by (simp add: worker_schema_defs)
  have kept: "set (k_slot (drop_slots (?T \<union> ?U) db)) = {s \<in> set (k_slot db). \<not> ?gone s}"
    unfolding set_drop_slots TU using distinct_key_unique [OF d] by auto
  have keys: "slot_key ` set (k_slot ?db) = {(p, n). p \<in> ?P \<and> n \<in> set (?disk p)}" (is "?L = ?R")
  proof -
    have "set (k_slot ?db) = {s \<in> set (k_slot db). \<not> ?gone s} \<union> set ?ys" using kept by (simp add: add_slots_def)
    moreover have "slot_key ` set ?ys = {(p, n). p \<in> ?P \<and> n \<in> set (?disk p) \<and> (p, n) \<notin> slot_key ` set (k_slot db)}"
      by (force simp: orphans_def all image_iff)
    moreover have "slot_key ` {s \<in> set (k_slot db). \<not> ?gone s} = {(p, n). p \<in> ?P \<and> n \<in> set (?disk p) \<and> (p, n) \<in> slot_key ` set (k_slot db)}"
      by (auto simp: slot_key_def)
    ultimately show ?thesis unfolding image_Un by blast
  qed
  have inj: "inj_on slot_key (set (k_slot ?db))"
    using ok by (simp add: worker_schema_defs distinct_map slot_key_def inj_on_def)
  show ?thesis
    by (intro exI [of _ ?db] exI [of _ res] conjI)
       (use run kept keys inj 2(2) TU in \<open>auto simp: bij_betw_def add_slots_def drop_slots_def\<close>)
qed

end
