(* ===== verification/Slot_Pool.thy ===== *)
theory Slot_Pool
  imports Worker_Repo_Props
begin

text \<open>
  The pool of repository slots of \<open>crates/server/src/pool.rs\<close>: how a launch acquires a slot for
  its exclusive use, and how slots are released.

  The calls to builderd (\<open>BuilderPoolClient\<close>, a remote service that runs git) are arguments: what
  each call answers. A \<open>SlotClaim\<close> is the id of the claimed slot, present in the shared set
  \<open>claiming\<close> until the guard is dropped; an error path drops the guard it holds.
\<close>

subsection \<open>State and configuration\<close>

record ProjectConfig =
  pc_repo :: "string option"
  pc_pool_limit :: nat

record pool_state =
  p_db :: worker_db
  p_claiming :: "string set"

datatype pool_error =
    UnknownProject string | LocalProject string
  | RecycleFailed string string | ScanFailed string string
  | PoolLimitReached string nat nat | PrepareFailed string string string
  | InsertFailed db_error | AlreadyClaimed string string | UnlinkFailed db_error
  | SlotNotFound string | CheckoutFailed string string

record builder_pool =
  bp_scan_slots :: "string \<Rightarrow> string + nat list"
  bp_prepare_new_slot :: "string \<Rightarrow> string \<Rightarrow> string \<Rightarrow> string + string"
  bp_recycle_slot :: "string \<Rightarrow> string \<Rightarrow> string \<Rightarrow> string + string"
  bp_prepare_shared_slot :: "string \<Rightarrow> string \<Rightarrow> string + string"
  bp_checkout_branch :: "string \<Rightarrow> string \<Rightarrow> string \<Rightarrow> string \<Rightarrow> string + unit"
  bp_clean_slot :: "string \<Rightarrow> string \<Rightarrow> string + unit"

subsection \<open>Operations\<close>

definition resolve_pool_project ::
  "(string \<rightharpoonup> ProjectConfig) \<Rightarrow> string \<Rightarrow> pool_error + (ProjectConfig \<times> string)" where
  "resolve_pool_project registry project_key =
     (case registry project_key of
        None \<Rightarrow> Inl (UnknownProject project_key)
      | Some project \<Rightarrow>
          (case pc_repo project of None \<Rightarrow> Inl (LocalProject project_key) | Some repo \<Rightarrow> Inr (project, repo)))"

definition claim_slot :: "string \<Rightarrow> string set \<Rightarrow> string set option" where
  "claim_slot slot_id claiming = (if slot_id \<in> claiming then None else Some (insert slot_id claiming))"

definition drop_claim :: "string \<Rightarrow> string set \<Rightarrow> string set" where
  "drop_claim slot_id claiming = claiming - {slot_id}"

text \<open>The \<open>find_map\<close> over the candidates: the first one nobody is acquiring.\<close>

fun claim_first :: "Slot list \<Rightarrow> string set \<Rightarrow> (Slot \<times> string set) option" where
  "claim_first [] claiming = None"
| "claim_first (slot # slots) claiming =
     (case claim_slot (sl_id slot) claiming of Some claiming' \<Rightarrow> Some (slot, claiming') | None \<Rightarrow> claim_first slots claiming)"

text \<open>The loop over the sorted indices, from position \<open>i\<close> on.\<close>

fun next_index_from :: "nat \<Rightarrow> nat list \<Rightarrow> nat" where
  "next_index_from i [] = i"
| "next_index_from i (idx # rest) = (if idx \<noteq> i then i else next_index_from (Suc i) rest)"

definition next_slot_index :: "nat list \<Rightarrow> nat" where
  "next_slot_index existing = next_index_from 0 existing"

definition acquire_slot ::
  "coll \<Rightarrow> builder_pool \<Rightarrow> string \<Rightarrow> string \<Rightarrow> (string \<rightharpoonup> ProjectConfig) \<Rightarrow> string \<Rightarrow> (pool_state, pool_error, string \<times> string) op" where
  "acquire_slot le builder uuid now registry project_key st =
     (case resolve_pool_project registry project_key of
        Inl e \<Rightarrow> (st, Inl e)
      | Inr (project, repo) \<Rightarrow>
          let candidates = find_available_slots le (p_db st) project_key in
          case claim_first candidates (p_claiming st) of
            Some (slot, claiming) \<Rightarrow>
              (case bp_recycle_slot builder project_key (sl_slot_name slot) repo of
                 Inl e \<Rightarrow> (st\<lparr>p_claiming := drop_claim (sl_id slot) claiming\<rparr>, Inl (RecycleFailed (sl_slot_name slot) e))
               | Inr host_path \<Rightarrow> (st\<lparr>p_claiming := claiming\<rparr>, Inr (host_path, sl_id slot)))
          | None \<Rightarrow>
              (case bp_scan_slots builder project_key of
                 Inl e \<Rightarrow> (st, Inl (ScanFailed project_key e))
               | Inr existing_slots \<Rightarrow>
                   let total_slots = length existing_slots in
                   if pc_pool_limit project \<le> total_slots
                   then (st, Inl (PoolLimitReached project_key total_slots (pc_pool_limit project)))
                   else
                     let slot_name = show_nat (next_slot_index (sort existing_slots)) in
                     case bp_prepare_new_slot builder project_key slot_name repo of
                       Inl e \<Rightarrow> (st, Inl (PrepareFailed project_key slot_name e))
                     | Inr host_path \<Rightarrow>
                         let new_slot = \<lparr>sl_id = uuid, sl_project_key = project_key, sl_slot_name = slot_name,
                                         sl_host_path = host_path, sl_created_at = now, sl_updated_at = now\<rparr> in
                         case insert_slot new_slot (p_db st) of
                           (db', Inl e) \<Rightarrow> (st\<lparr>p_db := db'\<rparr>, Inl (InsertFailed e))
                         | (db', Inr _) \<Rightarrow>
                             (case claim_slot uuid (p_claiming st) of
                                None \<Rightarrow> (st\<lparr>p_db := db'\<rparr>, Inl (AlreadyClaimed slot_name project_key))
                              | Some claiming \<Rightarrow> (st\<lparr>p_db := db', p_claiming := claiming\<rparr>, Inr (host_path, uuid)))))"

text \<open>A failed clean-up is logged; the worker is unlinked all the same.\<close>

definition release_slot :: "string \<Rightarrow> (pool_state, pool_error, unit) op" where
  "release_slot worker_id st =
     (case unlink_worker_slot worker_id (p_db st) of
        (db', Inl e) \<Rightarrow> (st\<lparr>p_db := db'\<rparr>, Inl (UnlinkFailed e))
      | (db', Inr _) \<Rightarrow> (st\<lparr>p_db := db'\<rparr>, Inr ()))"

definition acquire_shared_slot :: "builder_pool \<Rightarrow> (string \<rightharpoonup> ProjectConfig) \<Rightarrow> string \<Rightarrow> pool_error + string" where
  "acquire_shared_slot builder registry project_key =
     and_then (resolve_pool_project registry project_key) (\<lambda>(_, repo).
       case bp_prepare_shared_slot builder project_key repo of
         Inl e \<Rightarrow> Inl (PrepareFailed project_key ''shared'' e) | Inr host_path \<Rightarrow> Inr host_path)"

definition checkout_branch :: "builder_pool \<Rightarrow> string \<Rightarrow> worker_db \<Rightarrow> string \<Rightarrow> string \<Rightarrow> pool_error + unit" where
  "checkout_branch builder git_branch_prefix db host_slot_path branch_name =
     (case get_slot_by_host_path db host_slot_path of
        None \<Rightarrow> Inl (SlotNotFound host_slot_path)
      | Some slot \<Rightarrow>
          (case bp_checkout_branch builder (sl_project_key slot) (sl_slot_name slot) git_branch_prefix branch_name of
             Inl e \<Rightarrow> Inl (CheckoutFailed host_slot_path e) | Inr _ \<Rightarrow> Inr ()))"

subsection \<open>One acquisition\<close>

lemma next_index_from_spec:
  "sorted xs \<Longrightarrow> distinct xs \<Longrightarrow> \<forall>x \<in> set xs. i \<le> x \<Longrightarrow>
   i \<le> next_index_from i xs \<and> next_index_from i xs \<notin> set xs \<and> {i..<next_index_from i xs} \<subseteq> set xs"
proof (induction xs arbitrary: i)
  case (Cons x xs)
  show ?case
  proof (cases "x = i")
    case True
    have "\<forall>y \<in> set xs. Suc i \<le> y" using Cons.prems True by (auto simp: Suc_le_eq le_less)
    with Cons.IH [of "Suc i"] Cons.prems True show ?thesis
      by (auto simp: subset_iff) (metis Suc_leI atLeastLessThan_iff le_neq_implies_less)
  next
    case False
    with Cons.prems have "i < x" by auto
    moreover have "\<forall>y \<in> set xs. x \<le> y" using Cons.prems by simp
    ultimately show ?thesis using False by auto
  qed
qed simp

text \<open>
  The index chosen for a new slot is the smallest number that no existing slot has, whatever the
  order in which builderd lists the slots.
\<close>

lemma next_slot_index_least:
  assumes "distinct existing"
  shows "next_slot_index (sort existing) = (LEAST i. i \<notin> set existing)"
proof -
  let ?i = "next_slot_index (sort existing)"
  have "?i \<notin> set existing \<and> {0..<?i} \<subseteq> set existing"
    using next_index_from_spec [of "sort existing" 0] assms by (simp add: next_slot_index_def)
  then show ?thesis by (intro Least_equality [symmetric]) (auto simp: subset_iff intro: leI)
qed

lemma claim_first_Some:
  "claim_first slots cl = Some (s, cl') \<Longrightarrow> s \<in> set slots \<and> sl_id s \<notin> cl \<and> cl' = insert (sl_id s) cl"
  by (induction slots) (auto simp: claim_slot_def split: if_splits)

lemma claim_first_None: "claim_first slots cl = None \<longleftrightarrow> sl_id ` set slots \<subseteq> cl"
  by (induction slots) (auto simp: claim_slot_def split: if_splits)

definition in_use :: "worker_db \<Rightarrow> string \<Rightarrow> bool" where
  "in_use db s = (\<exists>l \<in> set (k_link db). \<exists>w \<in> set (k_worker db).
     ws_slot_id l = s \<and> ww_worker_id w = ws_worker_id l \<and> active_status (ww_container_status w))"

lemma in_use_slots [simp]: "in_use (db\<lparr>k_slot := ss\<rparr>) s = in_use db s"
  by (simp add: in_use_def)

lemma set_find_available:
  "set (find_available_slots le db p) =
    {s \<in> set (k_slot db). sl_project_key s = p \<and> numeric_name (sl_slot_name s) \<and> \<not> in_use db (sl_id s)}"
proof -
  have "x \<in> set (map (ws_slot_id \<circ> fst) (active_links db)) \<longleftrightarrow> in_use db x" for x
    by (force simp: active_links_def in_use_def)
  then show ?thesis by (auto simp: find_available_slots_def)
qed

lemma numeric_show_nat [simp]: "numeric_name (show_nat n)"
  unfolding numeric_name_def by (intro conjI ballI show_nat_Nil subsetD [OF show_nat_digits])

text \<open>A new slot is in no link, and the ways in which an acquisition ends.\<close>

lemma added_slot_unused:
  assumes "worker_schema_ok db" "worker_schema_ok (db\<lparr>k_slot := k_slot db @ [s]\<rparr>)"
  shows "\<not> in_use db (sl_id s)"
proof -
  have "sl_id s \<notin> sl_id ` set (k_slot db)" using assms(2) by (auto simp: worker_schema_defs)
  then have "ws_slot_id l \<noteq> sl_id s" if "l \<in> set (k_link db)" for l
    using assms(1) that by (metis worker_schema_ok_def worker_fk_ok_def)
  then show ?thesis by (auto simp: in_use_def)
qed

lemma acquire_slot_failed:
  "acquire_slot le builder uuid now registry project_key st = (st', Inl e) \<Longrightarrow> p_claiming st' = p_claiming st"
  unfolding acquire_slot_def Let_def
  by (auto simp: drop_claim_def dest!: claim_first_Some split: sum.splits prod.splits option.splits if_splits)

lemma acquire_slot_reused:
  assumes "acquire_slot le builder uuid now registry project_key st = (st', Inr (host_path, slot_id))"
    and "claim_first (find_available_slots le (p_db st) project_key) (p_claiming st) = Some (s, cl)"
  shows "slot_id = sl_id s \<and> s \<in> set (find_available_slots le (p_db st) project_key) \<and> sl_id s \<notin> p_claiming st \<and>
    st' = st\<lparr>p_claiming := insert (sl_id s) (p_claiming st)\<rparr>"
  using assms claim_first_Some [OF assms(2)] unfolding acquire_slot_def Let_def
  by (auto split: sum.splits prod.splits)

lemma acquire_slot_added:
  assumes "acquire_slot le builder uuid now registry project_key st = (st', Inr (host_path, slot_id))"
    and "claim_first (find_available_slots le (p_db st) project_key) (p_claiming st) = None"
  shows "\<exists>pc slots. let s = \<lparr>sl_id = uuid, sl_project_key = project_key, sl_slot_name = show_nat (next_slot_index (sort slots)),
        sl_host_path = host_path, sl_created_at = now, sl_updated_at = now\<rparr>
    in slot_id = uuid \<and> uuid \<notin> p_claiming st \<and> worker_schema_ok ((p_db st)\<lparr>k_slot := k_slot (p_db st) @ [s]\<rparr>) \<and>
      st' = st\<lparr>p_db := (p_db st)\<lparr>k_slot := k_slot (p_db st) @ [s]\<rparr>, p_claiming := insert uuid (p_claiming st)\<rparr> \<and>
      registry project_key = Some pc \<and> bp_scan_slots builder project_key = Inr slots \<and> length slots < pc_pool_limit pc"
  using assms unfolding acquire_slot_def Let_def resolve_pool_project_def insert_slot_def claim_slot_def
  by (auto simp: worker_store.stmt_Inr split: sum.splits prod.splits option.splits if_splits)


end
