(* ===== verification/Worker_Launch.thy ===== *)
theory Worker_Launch
  imports Slot_Pool
begin

text \<open>
  Launching and stopping workers: \<open>WorkerId\<close>, the launch phases and \<open>stop\<close> of
  \<open>crates/server/src/worker.rs\<close>, \<open>WorkerStrategy\<close> of \<open>crates/server/src/strategy.rs\<close> and the part
  of \<open>crates/server/src/grpc.rs\<close> (\<open>launch\<close>) that holds a slot claim from its acquisition until the
  slot is linked. Random numbers and the answers of the container runtime are arguments.

  Several launches run at the same time. The last section gives their interleavings as a step
  relation whose steps are the code between two suspension points (one database statement each).
\<close>

subsection \<open>Worker identifiers\<close>

definition suffix_char :: "nat \<Rightarrow> char" where
  "suffix_char idx = (if idx < 10 then char_of (48 + idx) else char_of (97 + idx - 10))"

definition WorkerId_generate :: "(nat \<Rightarrow> nat) \<Rightarrow> string \<Rightarrow> string" where
  "WorkerId_generate rng process_id = process_id @ ''-'' @ map (\<lambda>k. suffix_char (rng k)) [0..<4]"

text \<open>The parts before and after the last dash.\<close>

definition rsplit_dash :: "string \<Rightarrow> (string \<times> string) option" where
  "rsplit_dash s = (case split_once (CHR ''-'') (rev s) of None \<Rightarrow> None | Some (a, b) \<Rightarrow> Some (rev b, rev a))"

definition suffix_ok :: "char \<Rightarrow> bool" where
  "suffix_ok c = (of_char c \<in> {97..122::nat} \<or> of_char c \<in> {48..57::nat})"

definition WorkerId_parse :: "string \<Rightarrow> string + string" where
  "WorkerId_parse s =
     (case rsplit_dash s of
        None \<Rightarrow> Inl (''invalid worker ID (no dash): '' @ s)
      | Some (process_id, sfx) \<Rightarrow>
          if process_id = [] then Inl (''invalid worker ID (empty process_id): '' @ s)
          else if length sfx \<noteq> 4 \<or> \<not> list_all suffix_ok sfx
          then Inl (''invalid worker ID suffix (expected 4 [a-z0-9] chars): '' @ s)
          else Inr s)"

subsection \<open>Strategies\<close>

datatype WorkerStrategy = StrategyCode | StrategyDesign | StrategyManual

definition WorkerStrategy_from_name :: "string \<Rightarrow> string + WorkerStrategy" where
  "WorkerStrategy_from_name name =
     (if name = ''code'' then Inr StrategyCode
      else if name = ''design'' then Inr StrategyDesign
      else if name = ''manual'' then Inr StrategyManual
      else Inl (''unknown worker strategy: '' @ name))"

fun WorkerStrategy_name :: "WorkerStrategy \<Rightarrow> string" where
  "WorkerStrategy_name StrategyCode = ''code''"
| "WorkerStrategy_name StrategyDesign = ''design''"
| "WorkerStrategy_name StrategyManual = ''manual''"

interpretation strategy: canonical_enum WorkerStrategy_name WorkerStrategy_from_name
proof unfold_locales
  show "WorkerStrategy_from_name (WorkerStrategy_name x) = Inr x" for x
    by (cases x) (simp_all add: WorkerStrategy_from_name_def)
  show "WorkerStrategy_from_name s = Inr x \<Longrightarrow> WorkerStrategy_name x = s" for s x
    by (auto simp: WorkerStrategy_from_name_def split: if_splits)
qed

definition strategy_acquire_slot ::
  "WorkerStrategy \<Rightarrow> coll \<Rightarrow> builder_pool \<Rightarrow> string \<Rightarrow> string \<Rightarrow> (string \<rightharpoonup> ProjectConfig) \<Rightarrow> string
   \<Rightarrow> (pool_state, pool_error, string \<times> string option) op" where
  "strategy_acquire_slot strat le builder uuid now registry project_key =
     (case strat of
        StrategyDesign \<Rightarrow> (\<lambda>st. (st, and_then (acquire_shared_slot builder registry project_key) (\<lambda>path. Inr (path, None))))
      | _ \<Rightarrow> bindS (acquire_slot le builder uuid now registry project_key) (\<lambda>(path, claim). ret (path, Some claim)))"

definition strategy_release_slot :: "WorkerStrategy \<Rightarrow> string \<Rightarrow> (pool_state, pool_error, unit) op" where
  "strategy_release_slot strat worker_id = (case strat of StrategyDesign \<Rightarrow> ret () | _ \<Rightarrow> release_slot worker_id)"

definition common_skills :: "string list" where
  "common_skills = [''green'', ''cli-design'', ''reclaude'', ''writing-skills'', ''rag-docs'', ''address-feedback'',
     ''code-review'', ''brain'', ''brain:init'']"

definition strategy_skills :: "WorkerStrategy \<Rightarrow> string list" where
  "strategy_skills strat = common_skills @
     (case strat of
        StrategyCode \<Rightarrow> [''implement'', ''ship'', ''bacon'', ''systematic-debugging'', ''test-driven-development'']
      | StrategyDesign \<Rightarrow> [''design'', ''dispatch'']
      | StrategyManual \<Rightarrow> [''implement'', ''implement-agents'', ''ship'', ''bacon'', ''systematic-debugging'',
          ''test-driven-development'', ''design'', ''dispatch'', ''brain:dream'', ''brain:dream-init''])"

subsection \<open>Skills of a launch\<close>

record GlobalSkill =
  gs_name :: string
  gs_host_path :: string

record GlobalSkillsConfig =
  gc_common :: "GlobalSkill list"
  gc_code :: "GlobalSkill list"
  gc_design :: "GlobalSkill list"

definition for_strategy :: "GlobalSkillsConfig \<Rightarrow> string \<Rightarrow> GlobalSkill list" where
  "for_strategy g strat = gc_common g @
     (if strat = ''code'' then gc_code g
      else if strat = ''design'' then gc_design g
      else if strat = ''manual'' then gc_code g @ gc_design g
      else [])"

text \<open>The two loops of \<open>merge_skills\<close>; the set of names seen so far is the set of merged names.\<close>

fun add_project_skills :: "string list \<Rightarrow> string list \<Rightarrow> string list" where
  "add_project_skills merged [] = merged"
| "add_project_skills merged (skill # skills) =
     add_project_skills (if skill \<in> set merged then merged else merged @ [skill]) skills"

fun add_global_skills ::
  "string list \<Rightarrow> (string \<times> string) list \<Rightarrow> GlobalSkill list \<Rightarrow> string list \<times> (string \<times> string) list" where
  "add_global_skills merged mounts [] = (merged, mounts)"
| "add_global_skills merged mounts (g # gs) =
     (if gs_name g \<in> set merged then add_global_skills merged mounts gs
      else add_global_skills (merged @ [gs_name g]) (mounts @ [(gs_name g, gs_host_path g)]) gs)"

definition merge_skills ::
  "GlobalSkillsConfig \<Rightarrow> WorkerStrategy \<Rightarrow> string list \<Rightarrow> string list \<Rightarrow> string list \<times> (string \<times> string) list" where
  "merge_skills global_skills strat mode_skills project_skills =
     add_global_skills (add_project_skills mode_skills project_skills) []
       (for_strategy global_skills (WorkerStrategy_name strat))"

definition merge_global_skills ::
  "GlobalSkillsConfig \<Rightarrow> WorkerStrategy \<Rightarrow> string list \<Rightarrow> string list \<times> (string \<times> string) list" where
  "merge_global_skills global_skills strat mode_skills = merge_skills global_skills strat mode_skills []"

subsection \<open>Launching and stopping\<close>

datatype stop_answer = StopOk | StopNotFound | StopError string

datatype launch_error =
    LaunchDb db_error | UnknownWorker string | ProcessRunning string | StopFailed string
  | InvalidStrategy string | PoolFailed pool_error | LaunchRpc string | BadWorkerId string

definition tolerate_missing :: "stop_answer \<Rightarrow> launch_error + unit" where
  "tolerate_missing r = (case r of StopOk \<Rightarrow> Inr () | StopNotFound \<Rightarrow> Inr () | StopError e \<Rightarrow> Inl (StopFailed e))"

text \<open>A database operation of the worker store, its error wrapped for the caller.\<close>

definition on_db :: "(worker_db, db_error, 'a) op \<Rightarrow> (pool_state, launch_error, 'a) op" where
  "on_db m st = (case m (p_db st) of
     (db', Inl e) \<Rightarrow> (st\<lparr>p_db := db'\<rparr>, Inl (LaunchDb e)) | (db', Inr a) \<Rightarrow> (st\<lparr>p_db := db'\<rparr>, Inr a))"

definition resolve_process_id :: "worker_db \<Rightarrow> string \<Rightarrow> launch_error + string" where
  "resolve_process_id db worker_id =
     (case get_worker db worker_id of
        Inl e \<Rightarrow> Inl (LaunchDb e) | Inr None \<Rightarrow> Inl (UnknownWorker worker_id) | Inr (Some w) \<Rightarrow> Inr (wk_process_id w))"

definition manager_verify_worker :: "worker_db \<Rightarrow> string \<Rightarrow> string \<Rightarrow> bool" where
  "manager_verify_worker db worker_id secret =
     (case WorkerId_parse worker_id of Inl _ \<Rightarrow> False | Inr _ \<Rightarrow> verify_worker db worker_id secret)"

text \<open>The check of \<open>prepare\<close> for a process that is already running; what follows it is file-system work.\<close>

definition prepare_check :: "coll \<Rightarrow> worker_db \<Rightarrow> string \<Rightarrow> launch_error + unit" where
  "prepare_check le db process_id =
     (case list_workers_by_container_status le db ''running'' of
        Inl e \<Rightarrow> Inl (LaunchDb e)
      | Inr running \<Rightarrow>
          (case list_workers_by_container_status le db ''provisioning'' of
             Inl e \<Rightarrow> Inl (LaunchDb e)
           | Inr provisioning \<Rightarrow>
               if \<exists>w \<in> set (running @ provisioning). wk_process_id w = process_id
               then Inl (ProcessRunning process_id) else Inr ()))"

record WorkerConfig =
  cf_worker_id :: string
  cf_process_id :: string
  cf_project_key :: string
  cf_slot_id :: "string option"
  cf_workspace_dir :: "string option"
  cf_strategy :: WorkerStrategy
  cf_agent_type :: string
  cf_brain_path :: "string option"
  cf_runtime :: WorkerRuntime

definition record_provisioning_worker :: "string \<Rightarrow> WorkerConfig \<Rightarrow> string \<Rightarrow> string \<Rightarrow> (pool_state, launch_error, unit) op" where
  "record_provisioning_worker now cf container_name worker_secret =
     on_db (insert_worker
       \<lparr>wk_worker_id = cf_worker_id cf, wk_process_id = cf_process_id cf, wk_project_key = cf_project_key cf,
        wk_container_id = container_name, wk_worker_secret = worker_secret, wk_strategy = WorkerStrategy_name (cf_strategy cf),
        wk_agent_type = cf_agent_type cf, wk_container_status = ''provisioning'', wk_agent_status = ''starting'',
        wk_workspace_path = cf_workspace_dir cf, wk_created_at = now, wk_updated_at = now, wk_idle_redispatch_count = 0,
        wk_brain_path = cf_brain_path cf, wk_runtime = cf_runtime cf\<rparr>)"

definition manager_finalize_worker_launch :: "string \<Rightarrow> WorkerConfig \<Rightarrow> string \<Rightarrow> (pool_state, launch_error, unit) op" where
  "manager_finalize_worker_launch now cf container_id =
     bindS (on_db (finalize_worker_launch now (cf_worker_id cf) container_id)) (\<lambda>_.
       case cf_slot_id cf of None \<Rightarrow> ret () | Some slot_id \<Rightarrow> on_db (link_worker_slot now (cf_worker_id cf) slot_id))"

text \<open>The error of the launch is reported; a failure to remove the row only extends its text.\<close>

definition remove_provisioning_worker :: "string \<Rightarrow> launch_error \<Rightarrow> (pool_state, launch_error, string \<times> string) op" where
  "remove_provisioning_worker worker_id err st = (attempt (on_db (delete_worker worker_id)) st, Inl err)"

definition run_and_record ::
  "string \<Rightarrow> string \<Rightarrow> string \<Rightarrow> stop_answer \<Rightarrow> (string + string) \<Rightarrow> WorkerConfig \<Rightarrow> (pool_state, launch_error, string \<times> string) op" where
  "run_and_record now worker_prefix worker_secret cleanup launch_resp cf st =
     (case tolerate_missing cleanup of
        Inl e \<Rightarrow> (st, Inl e)
      | Inr _ \<Rightarrow>
          bindS (record_provisioning_worker now cf (worker_prefix @ cf_process_id cf) worker_secret) (\<lambda>_ st.
            case launch_resp of
              Inl status \<Rightarrow> remove_provisioning_worker (cf_worker_id cf) (LaunchRpc status) st
            | Inr container_id \<Rightarrow>
                (case manager_finalize_worker_launch now cf container_id st of
                   (st', Inl e) \<Rightarrow> remove_provisioning_worker (cf_worker_id cf) e st'
                 | (st', Inr _) \<Rightarrow> (st', Inr (container_id, worker_secret)))) st)"

definition stop_by_worker_id :: "string \<Rightarrow> (string \<Rightarrow> stop_answer) \<Rightarrow> string \<Rightarrow> (pool_state, launch_error, unit) op" where
  "stop_by_worker_id now stop worker_id st =
     (case get_worker (p_db st) worker_id of
        Inl e \<Rightarrow> (st, Inl (LaunchDb e))
      | Inr None \<Rightarrow> (st, Inl (UnknownWorker worker_id))
      | Inr (Some worker) \<Rightarrow>
          (case tolerate_missing (stop (wk_container_id worker)) of
             Inl e \<Rightarrow> (st, Inl e)
           | Inr _ \<Rightarrow>
               (case WorkerStrategy_from_name (wk_strategy worker) of
                  Inl e \<Rightarrow> (st, Inl (InvalidStrategy e))
                | Inr strat \<Rightarrow>
                    bindS
                      (if wk_project_key worker \<noteq> [] \<and> wk_workspace_path worker \<noteq> None
                       then (\<lambda>st. case strategy_release_slot strat worker_id st of
                               (st', Inl e) \<Rightarrow> (st', Inl (PoolFailed e)) | (st', Inr _) \<Rightarrow> (st', Inr ()))
                       else ret ())
                      (\<lambda>_. on_db (update_worker_container_status now worker_id ''stopped'')) st)))"

text \<open>
  \<open>inspect\<close> is the id of the container that has the given name (empty if there is none), or an
  error when the runtime cannot be asked.
\<close>

definition stop_unrecorded_by_name ::
  "string \<Rightarrow> string \<Rightarrow> coll \<Rightarrow> (string \<Rightarrow> stop_answer) \<Rightarrow> (string \<Rightarrow> string + string) \<Rightarrow> string \<Rightarrow> (pool_state, launch_error, unit) op" where
  "stop_unrecorded_by_name now worker_prefix le stop inspect process_id st =
     (case inspect (worker_prefix @ process_id) of
        Inl e \<Rightarrow> (st, Inl (LaunchRpc e))
      | Inr container_id \<Rightarrow>
          if container_id = [] then (st, Inl (UnknownWorker process_id))
          else
            (case get_worker_by_container_id le (p_db st) container_id of
               Inl e \<Rightarrow> (st, Inl (LaunchDb e))
             | Inr (Some owner) \<Rightarrow>
                 (case WorkerId_parse (wk_worker_id owner) of
                    Inl e \<Rightarrow> (st, Inl (BadWorkerId e)) | Inr i \<Rightarrow> stop_by_worker_id now stop i st)
             | Inr None \<Rightarrow>
                 (st, case stop container_id of
                        StopOk \<Rightarrow> Inr () | StopNotFound \<Rightarrow> Inl (UnknownWorker process_id) | StopError e \<Rightarrow> Inl (StopFailed e))))"

definition manager_stop ::
  "string \<Rightarrow> string \<Rightarrow> coll \<Rightarrow> (string \<Rightarrow> stop_answer) \<Rightarrow> (string \<Rightarrow> string + string) \<Rightarrow> string \<Rightarrow> (pool_state, launch_error, unit) op" where
  "manager_stop now worker_prefix le stop inspect process_id st =
     (case list_workers_by_container_status le (p_db st) ''running'' of
        Inl e \<Rightarrow> (st, Inl (LaunchDb e))
      | Inr workers \<Rightarrow>
          (case List.find (\<lambda>w. wk_process_id w = process_id) (rev workers) of
             Some worker \<Rightarrow>
               (case WorkerId_parse (wk_worker_id worker) of
                  Inl e \<Rightarrow> (st, Inl (BadWorkerId e)) | Inr i \<Rightarrow> stop_by_worker_id now stop i st)
           | None \<Rightarrow> stop_unrecorded_by_name now worker_prefix le stop inspect process_id st))"

subsection \<open>Properties of the pure parts\<close>

lemma rsplit_dash_append: "CHR ''-'' \<notin> set b \<Longrightarrow> rsplit_dash (a @ CHR ''-'' # b) = Some (a, b)"
  by (simp add: rsplit_dash_def split_once_append)

lemma suffix_char_ok: "n < 36 \<Longrightarrow> suffix_ok (suffix_char n)"
  by (auto simp: suffix_char_def suffix_ok_def)

lemma dash_not_ok: "\<not> suffix_ok (CHR ''-'')"
  by (simp add: suffix_ok_def)

text \<open>
  Every identifier generated for a non-empty process name is accepted by the parser, whatever
  random numbers are drawn and whatever dashes the name contains.
\<close>

lemma worker_id_roundtrip:
  assumes "process_id \<noteq> []" and "\<forall>k. rng k < 36"
  shows "WorkerId_parse (WorkerId_generate rng process_id) = Inr (WorkerId_generate rng process_id)"
proof -
  let ?suffix = "map (\<lambda>k. suffix_char (rng k)) [0..<4]"
  have ok: "list_all suffix_ok ?suffix" using suffix_char_ok assms(2) by (auto simp: list_all_iff)
  then have "CHR ''-'' \<notin> set ?suffix" using dash_not_ok unfolding list_all_iff by blast
  then have "rsplit_dash (WorkerId_generate rng process_id) = Some (process_id, ?suffix)"
    unfolding WorkerId_generate_def using rsplit_dash_append [of ?suffix process_id] by simp
  then show ?thesis using assms(1) ok by (simp add: WorkerId_parse_def)
qed

lemma add_project_skills_spec:
  "\<exists>xs. add_project_skills m ps = m @ xs \<and> distinct xs \<and> set xs = set ps - set m"
proof (induction ps arbitrary: m)
  case (Cons p ps)
  show ?case
  proof (cases "p \<in> set m")
    case True
    with Cons.IH [of m] show ?thesis by auto
  next
    case False
    obtain xs where "add_project_skills (m @ [p]) ps = (m @ [p]) @ xs" "distinct xs" "set xs = set ps - set (m @ [p])"
      using Cons.IH by blast
    with False show ?thesis by (intro exI [of _ "p # xs"]) auto
  qed
qed simp

lemma add_global_skills_spec:
  "\<exists>gs'. add_global_skills m ms gs = (m @ map gs_name gs', ms @ map (\<lambda>g. (gs_name g, gs_host_path g)) gs') \<and>
     set gs' \<subseteq> set gs \<and> distinct (map gs_name gs') \<and> gs_name ` set gs' = gs_name ` set gs - set m"
proof (induction gs arbitrary: m ms)
  case (Cons g gs)
  show ?case
  proof (cases "gs_name g \<in> set m")
    case True
    with Cons.IH [of m ms] show ?thesis by auto
  next
    case False
    obtain gs' where "add_global_skills (m @ [gs_name g]) (ms @ [(gs_name g, gs_host_path g)]) gs =
        ((m @ [gs_name g]) @ map gs_name gs', (ms @ [(gs_name g, gs_host_path g)]) @ map (\<lambda>g. (gs_name g, gs_host_path g)) gs')"
      "set gs' \<subseteq> set gs" "distinct (map gs_name gs')" "gs_name ` set gs' = gs_name ` set gs - set (m @ [gs_name g])"
      using Cons.IH by blast
    with False show ?thesis by (intro exI [of _ "g # gs'"]) auto
  qed
qed simp

text \<open>
  The skills of a launch are the mode's, then the new ones of the project, then the new ones of
  the configuration, so that a name keeps its earliest source; names that were distinct stay
  distinct, none is lost, and a mount is added for exactly the names the configuration contributed.
\<close>

lemma merge_skills_precedence:
  "\<exists>ps gs. merge_skills g strat mode_skills project_skills =
      (mode_skills @ ps @ map gs_name gs, map (\<lambda>g. (gs_name g, gs_host_path g)) gs) \<and>
    distinct (ps @ map gs_name gs) \<and>
    set ps = set project_skills - set mode_skills \<and>
    set gs \<subseteq> set (for_strategy g (WorkerStrategy_name strat)) \<and>
    gs_name ` set gs = gs_name ` set (for_strategy g (WorkerStrategy_name strat)) - set mode_skills - set project_skills"
proof -
  obtain ps where ps: "add_project_skills mode_skills project_skills = mode_skills @ ps" "distinct ps"
    "set ps = set project_skills - set mode_skills"
    using add_project_skills_spec by blast
  obtain gs where gs: "add_global_skills (mode_skills @ ps) [] (for_strategy g (WorkerStrategy_name strat)) =
      ((mode_skills @ ps) @ map gs_name gs, [] @ map (\<lambda>g. (gs_name g, gs_host_path g)) gs)"
    "set gs \<subseteq> set (for_strategy g (WorkerStrategy_name strat))" "distinct (map gs_name gs)"
    "gs_name ` set gs = gs_name ` set (for_strategy g (WorkerStrategy_name strat)) - set (mode_skills @ ps)"
    using add_global_skills_spec by blast
  show ?thesis
    by (rule exI [of _ ps], rule exI [of _ gs]) (use ps gs in \<open>auto simp: merge_skills_def\<close>)
qed

subsection \<open>Launching is all or nothing\<close>

lemma delete_worker_ok:
  assumes "worker_schema_ok db"
  shows "worker_schema_ok (cascade_workers p db)"
proof -
  have "ws_worker_id l \<in> ww_worker_id ` set (k_worker (cascade_workers p db))" if "l \<in> set (k_link (cascade_workers p db))" for l
  proof -
    have l: "l \<in> set (k_link db)" "\<not> (\<exists>w \<in> set (k_worker db). p w \<and> ww_worker_id w = ws_worker_id l)"
      using that by (auto simp: cascade_workers_def)
    with assms obtain w where "w \<in> set (k_worker db)" "ww_worker_id w = ws_worker_id l"
      by (fastforce simp: worker_schema_ok_def worker_fk_ok_def)
    with l(2) show ?thesis by (force simp: cascade_workers_def image_iff)
  qed
  then show ?thesis
    using assms by (auto simp: worker_schema_defs cascade_workers_def)
qed

lemma new_worker_id:
  assumes "worker_schema_ok (db\<lparr>k_worker := k_worker db @ [r]\<rparr>)" and "w \<in> set (k_worker db)"
  shows "ww_worker_id w \<noteq> ww_worker_id r"
proof -
  have "ww_worker_id r \<notin> ww_worker_id ` set (k_worker db)"
    using assms(1) by (simp add: worker_schema_ok_def worker_unique_ok_def)
  then show ?thesis using assms(2) by (metis imageI)
qed

lemma delete_new_worker:
  assumes "worker_schema_ok db" and ok: "worker_schema_ok (db\<lparr>k_worker := k_worker db @ [r]\<rparr>)" and "ww_worker_id r = i"
  shows "delete_worker i (db\<lparr>k_worker := k_worker db @ [r]\<rparr>) = (db, Inr 1)"
proof -
  have new: "ww_worker_id w \<noteq> i" if "w \<in> set (k_worker db)" for w
    using new_worker_id [OF ok that] assms(3) by simp
  then have none: "filter (\<lambda>w. ww_worker_id w = i) (k_worker db) = []" by (auto simp: filter_empty_conv)
  have nl: "ws_worker_id l \<noteq> i" if "l \<in> set (k_link db)" for l
  proof -
    have "ws_worker_id l \<in> ww_worker_id ` set (k_worker db)"
      using assms(1) that by (simp add: worker_schema_ok_def worker_fk_ok_def)
    then show ?thesis using new by (metis imageE)
  qed
  have links: "filter (\<lambda>l. \<not> (\<exists>w \<in> set (k_worker db @ [r]). ww_worker_id w = i \<and> ww_worker_id w = ws_worker_id l)) (k_link db) = k_link db"
    by (rule filter_True) (metis nl)
  have rows: "filter (\<lambda>w. ww_worker_id w \<noteq> i) (k_worker db) = k_worker db" using new by (intro filter_True) auto
  have cas: "cascade_workers (\<lambda>w. ww_worker_id w = i) (db\<lparr>k_worker := k_worker db @ [r]\<rparr>) = db"
    unfolding cascade_workers_def delete_where_def using links rows assms(3) by simp
  have "run_wk (cascade_workers (\<lambda>w. ww_worker_id w = i)) (db\<lparr>k_worker := k_worker db @ [r]\<rparr>) = (db, Inr ())"
    using worker_store.accepted [of "cascade_workers (\<lambda>w. ww_worker_id w = i)" "db\<lparr>k_worker := k_worker db @ [r]\<rparr>"] assms(1)
    by (simp add: cas)
  then show ?thesis using none assms(3) by (simp add: delete_worker_def rows_matching_def)
qed

lemma update_new_worker:
  assumes "worker_schema_ok db" and ok: "worker_schema_ok (db\<lparr>k_worker := k_worker db @ [r]\<rparr>)" and i: "ww_worker_id r = i"
  shows "finalize_worker_launch now i c (db\<lparr>k_worker := k_worker db @ [r]\<rparr>) =
    (db\<lparr>k_worker := k_worker db @ [r\<lparr>ww_container_id := c, ww_container_status := ''running'', ww_updated_at := now\<rparr>]\<rparr>, Inr ())"
    and "worker_schema_ok (db\<lparr>k_worker := k_worker db @ [r\<lparr>ww_container_id := c, ww_container_status := ''running'', ww_updated_at := now\<rparr>]\<rparr>)"
proof -
  let ?f = "\<lambda>w. w\<lparr>ww_container_id := c, ww_container_status := ''running'', ww_updated_at := now\<rparr>"
  let ?db = "db\<lparr>k_worker := k_worker db @ [r]\<rparr>"
  have new: "ww_worker_id w \<noteq> i" if "w \<in> set (k_worker db)" for w
    using new_worker_id [OF ok that] i by simp
  then have "update_where (\<lambda>w. ww_worker_id w = i) ?f (k_worker db) = k_worker db" by (rule update_where_none)
  then have rows: "update_where (\<lambda>w. ww_worker_id w = i) ?f (k_worker db @ [r]) = k_worker db @ [?f r]"
    using i by (simp add: update_where_def)
  have int: "int4 (ww_idle_redispatch_count (?f w))" if "w \<in> set (k_worker ?db)" for w
    using ok that by (auto simp: worker_schema_ok_def worker_int_ok_def)
  have up: "update_worker i ?f ?db = (db\<lparr>k_worker := k_worker db @ [?f r]\<rparr>, Inr ())"
    and sch: "worker_schema_ok (db\<lparr>k_worker := k_worker db @ [?f r]\<rparr>)"
    using update_worker_ok [of ?db ?f i] ok int rows by simp_all
  from sch show "worker_schema_ok (db\<lparr>k_worker := k_worker db @ [?f r]\<rparr>)" .
  have "rows_matching (\<lambda>w. ww_worker_id w = i) (k_worker ?db) \<noteq> 0" using i by (simp add: rows_matching_def)
  then show "finalize_worker_launch now i c ?db = (db\<lparr>k_worker := k_worker db @ [?f r]\<rparr>, Inr ())"
    unfolding finalize_worker_launch_def using up by simp
qed

text \<open>The row of a launch, and what the steps of the launch do with it.\<close>

definition provisioning_row :: "string \<Rightarrow> WorkerConfig \<Rightarrow> string \<Rightarrow> string \<Rightarrow> worker_row" where
  "provisioning_row now cf container_name secret =
     \<lparr>ww_worker_id = cf_worker_id cf, ww_process_id = cf_process_id cf, ww_project_key = cf_project_key cf,
      ww_container_id = container_name, ww_worker_secret = secret,
      ww_strategy = WorkerStrategy_name (cf_strategy cf), ww_agent_type = cf_agent_type cf,
      ww_container_status = ''provisioning'', ww_agent_status = ''starting'', ww_workspace_path = cf_workspace_dir cf,
      ww_created_at = now, ww_updated_at = now, ww_idle_redispatch_count = 0, ww_brain_path = cf_brain_path cf,
      ww_runtime = WorkerRuntime_as_str (cf_runtime cf)\<rparr>"

definition running_row :: "string \<Rightarrow> string \<Rightarrow> worker_row \<Rightarrow> worker_row" where
  "running_row now c r = r\<lparr>ww_container_id := c, ww_container_status := ''running'', ww_updated_at := now\<rparr>"

abbreviation with_row :: "worker_row \<Rightarrow> pool_state \<Rightarrow> pool_state" where
  "with_row r st \<equiv> st\<lparr>p_db := (p_db st)\<lparr>k_worker := k_worker (p_db st) @ [r]\<rparr>\<rparr>"

lemma record_provisioning_cases:
  obtains (recorded) "record_provisioning_worker now cf c secret st = (with_row (provisioning_row now cf c secret) st, Inr ())"
      "worker_schema_ok (p_db (with_row (provisioning_row now cf c secret) st))"
    | (refused) e where "record_provisioning_worker now cf c secret st = (st, Inl e)"
proof -
  let ?f = "\<lambda>db. db\<lparr>k_worker := k_worker db @ [provisioning_row now cf c secret]\<rparr>"
  have "record_provisioning_worker now cf c secret st = on_db (run_wk ?f) st"
    by (simp add: record_provisioning_worker_def on_db_def insert_worker_def provisioning_row_def)
  with that show thesis
    by (cases rule: worker_store.stmt_cases [of ?f "p_db st"]) (auto simp: on_db_def)
qed

lemma remove_provisioned:
  assumes "worker_schema_ok (p_db st)" "worker_schema_ok (p_db (with_row r st))" "ww_worker_id r = i"
  shows "remove_provisioning_worker i err (with_row r st) = (st, Inl err)"
  using delete_new_worker [OF assms(1) _ assms(3)] assms(2) by (simp add: remove_provisioning_worker_def attempt_def on_db_def)

lemma finalize_provisioned:
  assumes "worker_schema_ok (p_db st)" "worker_schema_ok (p_db (with_row r st))" "ww_worker_id r = cf_worker_id cf"
  obtains "manager_finalize_worker_launch now cf c (with_row r st) =
      (with_row (running_row now c r) st\<lparr>p_db := (p_db (with_row (running_row now c r) st))\<lparr>k_link := k_link (p_db st) @
         (case cf_slot_id cf of None \<Rightarrow> [] | Some s \<Rightarrow> [\<lparr>ws_worker_id = cf_worker_id cf, ws_slot_id = s, ws_created_at = now\<rparr>])\<rparr>\<rparr>, Inr ())"
    | e where "manager_finalize_worker_launch now cf c (with_row r st) = (with_row (running_row now c r) st, Inl e)"
      "worker_schema_ok (p_db (with_row (running_row now c r) st))"
proof -
  let ?db = "p_db (with_row (running_row now c r) st)"
  have fin: "finalize_worker_launch now (cf_worker_id cf) c (p_db (with_row r st)) = (?db, Inr ())" and ok: "worker_schema_ok ?db"
    using update_new_worker [OF assms(1) _ assms(3), of now c] assms(2) by (simp_all add: running_row_def)
  show thesis
  proof (cases "cf_slot_id cf")
    case None
    then show ?thesis using fin by (intro that(1)) (simp add: manager_finalize_worker_launch_def on_db_def)
  next
    case (Some s)
    let ?f = "\<lambda>db. db\<lparr>k_link := k_link db @ [\<lparr>ws_worker_id = cf_worker_id cf, ws_slot_id = s, ws_created_at = now\<rparr>]\<rparr>"
    have link: "manager_finalize_worker_launch now cf c (with_row r st) = on_db (run_wk ?f) (with_row (running_row now c r) st)"
      using fin Some by (simp add: manager_finalize_worker_launch_def on_db_def link_worker_slot_def)
    show ?thesis
      by (cases rule: worker_store.stmt_cases [of ?f ?db])
         (use Some link ok in \<open>auto simp: on_db_def intro: that\<close>)
  qed
qed

text \<open>
  C30: a launch that fails at any point (the clean-up, the insert, the container start, the final
  update or the link to the slot) leaves no trace in the store. A launch that succeeds leaves
  exactly one new worker, running in the container that was started, linked to its slot if it has
  one, whose credentials verify.
\<close>

theorem run_and_record_atomic:
  assumes "worker_schema_ok (p_db st)"
  shows "case run_and_record now worker_prefix secret cleanup launch_resp cf st of
      (st', Inl _) \<Rightarrow> st' = st
    | (st', Inr (container_id, secret')) \<Rightarrow>
        (\<exists>r. k_worker (p_db st') = k_worker (p_db st) @ [r] \<and> ww_worker_id r = cf_worker_id cf \<and>
             ww_container_id r = container_id \<and> ww_container_status r = ''running'') \<and>
        k_link (p_db st') = k_link (p_db st) @
          (case cf_slot_id cf of None \<Rightarrow> [] | Some s \<Rightarrow> [\<lparr>ws_worker_id = cf_worker_id cf, ws_slot_id = s, ws_created_at = now\<rparr>]) \<and>
        k_slot (p_db st') = k_slot (p_db st) \<and> p_claiming st' = p_claiming st \<and>
        launch_resp = Inr container_id \<and> verify_worker (p_db st') (cf_worker_id cf) secret'"
proof (cases "tolerate_missing cleanup")
  case (Inl e)
  then show ?thesis by (simp add: run_and_record_def)
next
  case clean: (Inr u)
  let ?row = "provisioning_row now cf (worker_prefix @ cf_process_id cf) secret"
  have id: "ww_worker_id ?row = cf_worker_id cf" by (simp add: provisioning_row_def)
  show ?thesis
  proof (cases rule: record_provisioning_cases [of now cf "worker_prefix @ cf_process_id cf" secret st])
    case (refused e)
    with clean show ?thesis by (simp add: run_and_record_def)
  next
    case recorded
    note run = run_and_record_def clean recorded(1)
    show ?thesis
    proof (cases launch_resp)
      case (Inl status)
      with remove_provisioned [OF assms recorded(2) id] show ?thesis by (simp add: run)
    next
      case (Inr c)
      show ?thesis
      proof (cases rule: finalize_provisioned [OF assms recorded(2) id, of now c])
        case 1
        then show ?thesis using Inr id by (simp add: run verify_worker_def rows_matching_def provisioning_row_def running_row_def)
      next
        case (2 e)
        with remove_provisioned [OF assms 2(2), of "cf_worker_id cf"] Inr id show ?thesis by (simp add: run running_row_def)
      qed
    qed
  qed
qed

subsection \<open>Stopping\<close>

text \<open>
  C33: stopping a code or manual worker of a project whose container stops, or is already gone,
  succeeds: the worker is stopped, it keeps no slot, and a slot is in use afterwards exactly when
  another active worker is linked to it. Claims and slots are untouched.
\<close>

theorem stop_releases_slot:
  assumes "worker_schema_ok (p_db st)" and "get_worker (p_db st) i = Inr (Some w)"
    and "stop (wk_container_id w) \<in> {StopOk, StopNotFound}"
    and "wk_strategy w \<in> {''code'', ''manual''}" and "wk_project_key w \<noteq> []" and "wk_workspace_path w \<noteq> None"
  shows "\<exists>st'. stop_by_worker_id now stop i st = (st', Inr ()) \<and> worker_schema_ok (p_db st') \<and>
    p_claiming st' = p_claiming st \<and> k_slot (p_db st') = k_slot (p_db st) \<and>
    get_worker_slot (p_db st') i = None \<and>
    (\<forall>r \<in> set (k_worker (p_db st')). ww_worker_id r = i \<longrightarrow> ww_container_status r = ''stopped'') \<and>
    (\<forall>s. in_use (p_db st') s \<longleftrightarrow>
       (\<exists>l \<in> set (k_link (p_db st)). \<exists>r \<in> set (k_worker (p_db st)). ws_slot_id l = s \<and>
          ww_worker_id r = ws_worker_id l \<and> active_status (ww_container_status r) \<and> ww_worker_id r \<noteq> i))"
proof -
  let ?db = "p_db st"
  let ?db1 = "?db\<lparr>k_link := delete_where (\<lambda>l. ws_worker_id l = i) (k_link ?db)\<rparr>"
  let ?rows = "update_where (\<lambda>r. ww_worker_id r = i) (\<lambda>r. r\<lparr>ww_container_status := ''stopped'', ww_updated_at := now\<rparr>) (k_worker ?db)"
  obtain strat where strat: "WorkerStrategy_from_name (wk_strategy w) = Inr strat" "strat \<noteq> StrategyDesign"
    using assms(4) by (auto simp: WorkerStrategy_from_name_def)
  have rel: "strategy_release_slot strat i st = (st\<lparr>p_db := ?db1\<rparr>, Inr ())"
    using strat(2) unlink_ok(1) [OF assms(1), of i]
    by (cases strat) (simp_all add: strategy_release_slot_def release_slot_def)
  note set_stopped = set_container_status_ok [OF unlink_ok(2) [OF assms(1), of i], where now = now and i = i and st = "''stopped''"]
  have run: "stop_by_worker_id now stop i st = (st\<lparr>p_db := ?db1\<lparr>k_worker := ?rows\<rparr>\<rparr>, Inr ())"
    using assms(2,3,5,6) strat(1) rel set_stopped(1)
    by (auto simp: stop_by_worker_id_def tolerate_missing_def on_db_def)
  let ?st = "st\<lparr>p_db := ?db1\<lparr>k_worker := ?rows\<rparr>\<rparr>"
  have "List.find (\<lambda>l. ws_worker_id l = i) (delete_where (\<lambda>l. ws_worker_id l = i) (k_link ?db)) = None"
    by (auto simp: find_None_iff)
  then have slot: "get_worker_slot (p_db ?st) i = None" by (simp add: get_worker_slot_def)
  have used: "in_use (p_db ?st) s \<longleftrightarrow>
       (\<exists>l \<in> set (k_link ?db). \<exists>r \<in> set (k_worker ?db). ws_slot_id l = s \<and>
          ww_worker_id r = ws_worker_id l \<and> active_status (ww_container_status r) \<and> ww_worker_id r \<noteq> i)" for s
    by (auto simp: in_use_def set_update_where split: if_splits)
  have "\<forall>r \<in> set ?rows. ww_worker_id r = i \<longrightarrow> ww_container_status r = ''stopped''"
    unfolding set_update_where by (intro ballI impI, erule imageE) (simp split: if_splits)
  then have rows: "\<forall>r \<in> set (k_worker (p_db ?st)). ww_worker_id r = i \<longrightarrow> ww_container_status r = ''stopped''"
    by simp
  have "worker_schema_ok (p_db ?st)" using set_stopped(2) by simp
  with run slot used rows show ?thesis by (intro exI [of _ ?st] conjI allI) (assumption | simp)+
qed

subsection \<open>Concurrent launches\<close>

text \<open>
  What a launch has done so far: queried the available slots, claimed one of them, recorded its
  worker, linked the worker to the slot (the claim is dropped afterwards).
\<close>

datatype phase = Waiting | Queried "Slot list" | Claimed string | Provisioned string string | Linked string string

record launches =
  l_pool :: pool_state
  l_phase :: "nat \<Rightarrow> phase"

abbreviation l_db :: "launches \<Rightarrow> worker_db" where
  "l_db st \<equiv> p_db (l_pool st)"

definition advance :: "nat \<Rightarrow> phase \<Rightarrow> worker_db \<Rightarrow> string set \<Rightarrow> launches \<Rightarrow> launches" where
  "advance t ph db claims st =
     \<lparr>l_pool = \<lparr>p_db = db, p_claiming = claims\<rparr>, l_phase = (l_phase st)(t := ph)\<rparr>"

inductive launch_step :: "coll \<Rightarrow> string \<Rightarrow> launches \<Rightarrow> launches \<Rightarrow> bool" for le project_key where
  query: "l_phase st t = Waiting \<Longrightarrow>
    launch_step le project_key st
      (advance t (Queried (find_available_slots le (l_db st) project_key)) (l_db st) (p_claiming (l_pool st)) st)"
| claim: "l_phase st t = Queried cands \<Longrightarrow> claim_first cands (p_claiming (l_pool st)) = Some (slot, claims) \<Longrightarrow>
    launch_step le project_key st (advance t (Claimed (sl_id slot)) (l_db st) claims st)"
| new_slot: "l_phase st t = Queried cands \<Longrightarrow> claim_first cands (p_claiming (l_pool st)) = None \<Longrightarrow>
    insert_slot slot (l_db st) = (db, Inr ()) \<Longrightarrow> claim_slot (sl_id slot) (p_claiming (l_pool st)) = Some claims \<Longrightarrow>
    launch_step le project_key st (advance t (Claimed (sl_id slot)) db claims st)"
| give_up: "l_phase st t = Queried cands \<Longrightarrow>
    launch_step le project_key st (advance t Waiting (l_db st) (p_claiming (l_pool st)) st)"
| provision: "l_phase st t = Claimed s \<Longrightarrow> insert_worker w (l_db st) = (db, Inr ()) \<Longrightarrow>
    launch_step le project_key st (advance t (Provisioned s (wk_worker_id w)) db (p_claiming (l_pool st)) st)"
| link: "l_phase st t = Provisioned s w \<Longrightarrow>
    bindS (finalize_worker_launch now w container_id) (\<lambda>_. link_worker_slot now w s) (l_db st) = (db, Inr ()) \<Longrightarrow>
    launch_step le project_key st (advance t (Linked s w) db (p_claiming (l_pool st)) st)"
| finished: "l_phase st t = Linked s w \<Longrightarrow>
    launch_step le project_key st (advance t Waiting (l_db st) (drop_claim s (p_claiming (l_pool st))) st)"
| fail_early: "l_phase st t = Claimed s \<Longrightarrow>
    launch_step le project_key st (advance t Waiting (l_db st) (drop_claim s (p_claiming (l_pool st))) st)"
| fail_late: "l_phase st t = Provisioned s w \<Longrightarrow> delete_worker w (l_db st) = (db, r) \<Longrightarrow>
    launch_step le project_key st (advance t Waiting db (drop_claim s (p_claiming (l_pool st))) st)"
| stopped: "stop_by_worker_id now stop w (l_pool st) = (pool, r) \<Longrightarrow>
    launch_step le project_key st (st\<lparr>l_pool := pool\<rparr>)"

definition launch_init :: "launches \<Rightarrow> bool" where
  "launch_init st = (worker_schema_ok (l_db st) \<and> p_claiming (l_pool st) = {} \<and> (\<forall>t. l_phase st t = Waiting))"

fun claim_of :: "phase \<Rightarrow> string option" where
  "claim_of (Claimed s) = Some s"
| "claim_of (Provisioned s w) = Some s"
| "claim_of (Linked s w) = Some s"
| "claim_of _ = None"

definition claims_exclusive :: "launches \<Rightarrow> bool" where
  "claims_exclusive st =
     ((\<forall>t s. claim_of (l_phase st t) = Some s \<longrightarrow> s \<in> p_claiming (l_pool st)) \<and>
      (\<forall>t u s. claim_of (l_phase st t) = Some s \<and> claim_of (l_phase st u) = Some s \<longrightarrow> t = u))"

lemma advance_keep:
  assumes "claims_exclusive st" and "claim_of ph = claim_of (l_phase st t)"
  shows "claims_exclusive (advance t ph db (p_claiming (l_pool st)) st)"
  using assms by (auto simp: claims_exclusive_def advance_def)

lemma advance_drop:
  assumes "claims_exclusive st" and "claim_of (l_phase st t) = Some s" and "claim_of ph = None"
  shows "claims_exclusive (advance t ph db (drop_claim s (p_claiming (l_pool st))) st)"
  using assms by (auto simp: claims_exclusive_def advance_def drop_claim_def)

lemma advance_claim:
  assumes "claims_exclusive st" and "s \<notin> p_claiming (l_pool st)" and "claim_of ph = Some s"
  shows "claims_exclusive (advance t ph db (insert s (p_claiming (l_pool st))) st)"
  using assms by (auto simp: claims_exclusive_def advance_def)

lemma stop_claims: "p_claiming (fst (stop_by_worker_id now stop w st)) = p_claiming st"
proof -
  have db: "p_claiming (fst (on_db m st)) = p_claiming st" for m :: "(worker_db, db_error, unit) op" and st
    by (simp add: on_db_def split: prod.splits sum.splits)
  have rel: "p_claiming (fst (strategy_release_slot strat w st)) = p_claiming st" for strat st
    by (simp add: strategy_release_slot_def release_slot_def split: WorkerStrategy.splits prod.splits sum.splits)
  show ?thesis
    using rel [of _ st] db
    by (auto simp: stop_by_worker_id_def bindS_def split: prod.splits sum.splits option.splits)
       (metis fst_conv)+
qed

interpretation launch_claims: transition_system launch_init "launch_step le project_key" claims_exclusive for le project_key
proof unfold_locales
  show "launch_init st \<Longrightarrow> claims_exclusive st" for st
    by (simp add: launch_init_def claims_exclusive_def)
next
  fix st st' assume inv: "claims_exclusive st" and "launch_step le project_key st st'"
  from this(2) show "claims_exclusive st'"
  proof cases
    case (claim t cands slot claims)
    then show ?thesis using advance_claim [OF inv] by (auto dest!: claim_first_Some)
  next
    case (new_slot t cands slot db claims)
    then show ?thesis using advance_claim [OF inv] by (auto simp: claim_slot_def split: if_splits)
  next
    case (stopped now stop w pool r)
    then have "p_claiming pool = p_claiming (l_pool st)" using stop_claims [of now stop w "l_pool st"] by simp
    then show ?thesis using inv stopped(1) by (simp add: claims_exclusive_def)
  qed (use inv in \<open>auto intro: advance_keep advance_drop\<close>)
qed

text \<open>
  C28: however concurrent launches interleave with each other and with stops, a claim is held by at
  most one launch at a time.
\<close>

theorem claims_held_once:
  assumes "reachable_from launch_init (launch_step le project_key) st"
    and "claim_of (l_phase st t) = Some s" and "claim_of (l_phase st u) = Some s"
  shows "t = u \<and> s \<in> p_claiming (l_pool st)"
  using launch_claims.inv_reachable [OF assms(1)] assms(2,3) by (auto simp: claims_exclusive_def)

end
