(* ===== verification/Worker_Examples.thy ===== *)
theory Worker_Examples
  imports Worker_Launch
begin

text \<open>
  A store with one slot on which the theorems about workers and slots are applied, and an execution
  of two launches in which both workers end up with that slot.
\<close>

definition one_slot :: Slot where
  "one_slot = \<lparr>sl_id = ''s0'', sl_project_key = ''ur'', sl_slot_name = ''0'', sl_host_path = ''/pool/ur/0'',
     sl_created_at = ''2026'', sl_updated_at = ''2026''\<rparr>"

definition sample_worker :: "string \<Rightarrow> Worker" where
  "sample_worker i = \<lparr>wk_worker_id = i, wk_process_id = i, wk_project_key = ''ur'', wk_container_id = i,
     wk_worker_secret = ''secret'', wk_strategy = ''code'', wk_agent_type = ''claude'',
     wk_container_status = ''provisioning'', wk_agent_status = ''starting'', wk_workspace_path = Some ''/pool/ur/0'',
     wk_created_at = ''2026'', wk_updated_at = ''2026'', wk_idle_redispatch_count = 0, wk_brain_path = None,
     wk_runtime = Container\<rparr>"

definition sample_row :: "string \<Rightarrow> string \<Rightarrow> worker_row" where
  "sample_row i st = \<lparr>ww_worker_id = i, ww_process_id = i, ww_project_key = ''ur'', ww_container_id = i,
     ww_worker_secret = ''secret'', ww_strategy = ''code'', ww_agent_type = ''claude'',
     ww_container_status = st, ww_agent_status = ''starting'', ww_workspace_path = Some ''/pool/ur/0'',
     ww_created_at = ''2026'', ww_updated_at = ''2026'', ww_idle_redispatch_count = 0, ww_brain_path = None,
     ww_runtime = ''container''\<rparr>"

definition sample_link :: "string \<Rightarrow> WorkerSlot" where
  "sample_link i = \<lparr>ws_worker_id = i, ws_slot_id = ''s0'', ws_created_at = ''2026''\<rparr>"

definition store :: "worker_row list \<Rightarrow> WorkerSlot list \<Rightarrow> worker_db" where
  "store ws ls = \<lparr>k_slot = [one_slot], k_worker = ws, k_link = ls\<rparr>"

lemmas sample_worker_simps = one_slot_def sample_worker_def sample_row_def sample_link_def store_def

abbreviation run_row :: "string \<Rightarrow> worker_row" where
  "run_row i \<equiv> sample_row i ''running''"

lemma store_schema:
  "distinct (map ww_worker_id ws) \<Longrightarrow> distinct (map (\<lambda>l. (ws_worker_id l, ws_slot_id l)) ls) \<Longrightarrow>
   (\<And>l. l \<in> set ls \<Longrightarrow> ws_worker_id l \<in> ww_worker_id ` set ws \<and> ws_slot_id l = ''s0'') \<Longrightarrow>
   (\<And>w. w \<in> set ws \<Longrightarrow> \<exists>i st. w = sample_row i st) \<Longrightarrow> worker_schema_ok (store ws ls)"
  by (fastforce simp: worker_schema_defs store_def one_slot_def sample_row_def int4_def)

lemma sample_row_id [simp]: "ww_worker_id (sample_row i st) = i"
  by (simp add: sample_row_def)

lemma sample_link_simps [simp]: "ws_worker_id (sample_link i) = i" "ws_slot_id (sample_link i) = ''s0''"
  by (simp_all add: sample_link_def)

lemma insert_sample:
  assumes "worker_schema_ok (store (ws @ [sample_row i ''provisioning'']) ls)"
  shows "insert_worker (sample_worker i) (store ws ls) = (store (ws @ [sample_row i ''provisioning'']) ls, Inr ())"
  using worker_store.accepted [of "\<lambda>db. db\<lparr>k_worker := k_worker db @ [sample_row i ''provisioning'']\<rparr>" "store ws ls"] assms
  by (simp add: insert_worker_def sample_worker_simps)

lemma finish_sample:
  assumes "worker_schema_ok (store ws ls)" and "worker_schema_ok (store (ws @ [sample_row i ''provisioning'']) ls)"
    and "worker_schema_ok (store (ws @ [run_row i]) (ls @ [sample_link i]))"
  shows "bindS (finalize_worker_launch ''2026'' i i) (\<lambda>_. link_worker_slot ''2026'' i ''s0'')
      (store (ws @ [sample_row i ''provisioning'']) ls) = (store (ws @ [run_row i]) (ls @ [sample_link i]), Inr ())"
proof -
  have st: "store (ws @ [r]) ls = (store ws ls)\<lparr>k_worker := k_worker (store ws ls) @ [r]\<rparr>" for r
    by (simp add: store_def)
  have "(sample_row i ''provisioning'')\<lparr>ww_container_id := i, ww_container_status := ''running'', ww_updated_at := ''2026''\<rparr> = run_row i"
    by (simp add: sample_row_def)
  then have 1: "finalize_worker_launch ''2026'' i i (store (ws @ [sample_row i ''provisioning'']) ls) = (store (ws @ [run_row i]) ls, Inr ())"
    using update_new_worker(1) [OF assms(1), of "sample_row i ''provisioning''" i "''2026''" i] assms(2)
    unfolding st [symmetric] by simp
  have "link_worker_slot ''2026'' i ''s0'' (store (ws @ [run_row i]) ls) = (store (ws @ [run_row i]) (ls @ [sample_link i]), Inr ())"
    using worker_store.accepted [of "\<lambda>db. db\<lparr>k_link := k_link db @ [sample_link i]\<rparr>" "store (ws @ [run_row i]) ls"] assms(3)
    by (simp add: link_worker_slot_def store_def sample_link_def)
  with 1 show ?thesis by simp
qed

lemma race_ok:
  "worker_schema_ok (store [] [])"
  "worker_schema_ok (store [sample_row ''w1'' st] [])"
  "worker_schema_ok (store [sample_row ''w1'' st] [sample_link ''w1''])"
  "worker_schema_ok (store [sample_row ''w1'' st, sample_row ''w2'' st2] [sample_link ''w1''])"
  "worker_schema_ok (store [sample_row ''w1'' st, sample_row ''w2'' st2] [sample_link ''w1'', sample_link ''w2''])"
  by (rule store_schema; auto)+

text \<open>Two launches, numbered 0 and 1, of which the second queries the slots before the first links its slot.\<close>

definition race_state :: "phase \<Rightarrow> phase \<Rightarrow> worker_row list \<Rightarrow> WorkerSlot list \<Rightarrow> string set \<Rightarrow> launches" where
  "race_state a b ws ls claims =
     \<lparr>l_pool = \<lparr>p_db = store ws ls, p_claiming = claims\<rparr>, l_phase = (\<lambda>_. Waiting)(0 := a, 1 := b)\<rparr>"

lemma race_advance:
  "advance 0 ph (store ws' ls') cl' (race_state a b ws ls cl) = race_state ph b ws' ls' cl'"
  "advance (Suc 0) ph (store ws' ls') cl' (race_state a b ws ls cl) = race_state a ph ws' ls' cl'"
  by (simp_all add: advance_def race_state_def fun_eq_iff)

lemma race_simps [simp]:
  "l_phase (race_state a b ws ls cl) 0 = a" "l_phase (race_state a b ws ls cl) (Suc 0) = b"
  "l_db (race_state a b ws ls cl) = store ws ls" "p_claiming (l_pool (race_state a b ws ls cl)) = cl"
  by (simp_all add: race_state_def)

lemma available_empty: "find_available_slots bytewise (store [] []) ''ur'' = [one_slot]"
  by (simp add: find_available_slots_def store_def active_links_def one_slot_def numeric_name_def)

lemma claim_one: "claim_first [one_slot] {} = Some (one_slot, {''s0''})" and one_slot_id [simp]: "sl_id one_slot = ''s0''"
  by (simp_all add: claim_slot_def one_slot_def)

text \<open>
  C27: the claims do not make slots exclusive. A launch that queried the available slots before
  another launch linked its slot, and that claims after the other dropped its claim, is given the
  same slot: there is an execution after which two active workers are linked to one slot.
\<close>

theorem stale_query_shares_slot:
  "\<exists>st l1 l2 w1 w2. reachable_from launch_init (launch_step bytewise ''ur'') st \<and>
     {l1, l2} \<subseteq> set (k_link (l_db st)) \<and> {w1, w2} \<subseteq> set (k_worker (l_db st)) \<and>
     ws_slot_id l1 = ws_slot_id l2 \<and> ws_worker_id l1 \<noteq> ws_worker_id l2 \<and>
     ww_worker_id w1 = ws_worker_id l1 \<and> active_status (ww_container_status w1) \<and>
     ww_worker_id w2 = ws_worker_id l2 \<and> active_status (ww_container_status w2)"
proof -
  let ?R = "reachable_from launch_init (launch_step bytewise ''ur'')"
  let ?q = "Queried [one_slot]"
  note ok = race_ok
  have "?R (race_state Waiting Waiting [] [] {})"
    by (rule reach_init) (simp add: launch_init_def ok, simp add: race_state_def)
  then have "?R (race_state Waiting ?q [] [] {})"
    by (rule reach_step) (use launch_step.query [of "race_state Waiting Waiting [] [] {}" "Suc 0" bytewise "''ur''"] in
        \<open>simp add: available_empty race_advance\<close>)
  then have "?R (race_state ?q ?q [] [] {})"
    by (rule reach_step) (use launch_step.query [of "race_state Waiting ?q [] [] {}" 0 bytewise "''ur''"] in
        \<open>simp add: available_empty race_advance\<close>)
  then have "?R (race_state (Claimed ''s0'') ?q [] [] {''s0''})"
    by (rule reach_step) (use launch_step.claim [of "race_state ?q ?q [] [] {}" 0 "[one_slot]" one_slot "{''s0''}" bytewise "''ur''"] in
        \<open>simp add: claim_one race_advance del: claim_first.simps\<close>)
  then have "?R (race_state (Provisioned ''s0'' ''w1'') ?q [sample_row ''w1'' ''provisioning''] [] {''s0''})"
    by (rule reach_step) (use launch_step.provision [of "race_state (Claimed ''s0'') ?q [] [] {''s0''}" 0 "''s0''" "sample_worker ''w1''"
          "store [sample_row ''w1'' ''provisioning''] []" bytewise "''ur''"] insert_sample [of "[]" "''w1''" "[]"] ok in
        \<open>auto simp: race_advance sample_worker_def\<close>)
  then have "?R (race_state (Linked ''s0'' ''w1'') ?q [run_row ''w1''] [sample_link ''w1''] {''s0''})"
    by (rule reach_step) (use launch_step.link [of "race_state (Provisioned ''s0'' ''w1'') ?q [sample_row ''w1'' ''provisioning''] [] {''s0''}"
          0 "''s0''" "''w1''" "''2026''" "''w1''" "store [run_row ''w1''] [sample_link ''w1'']" bytewise "''ur''"]
          finish_sample [of "[]" "[]" "''w1''"] ok in \<open>auto simp: race_advance\<close>)
  then have "?R (race_state Waiting ?q [run_row ''w1''] [sample_link ''w1''] {})"
    by (rule reach_step) (use launch_step.finished [of "race_state (Linked ''s0'' ''w1'') ?q [run_row ''w1''] [sample_link ''w1''] {''s0''}"
          0 "''s0''" "''w1''" bytewise "''ur''"] in \<open>simp add: race_advance drop_claim_def\<close>)
  then have "?R (race_state Waiting (Claimed ''s0'') [run_row ''w1''] [sample_link ''w1''] {''s0''})"
    by (rule reach_step) (use launch_step.claim [of "race_state Waiting ?q [run_row ''w1''] [sample_link ''w1''] {}" "Suc 0" "[one_slot]" one_slot
          "{''s0''}" bytewise "''ur''"] in \<open>simp add: claim_one race_advance del: claim_first.simps\<close>)
  then have "?R (race_state Waiting (Provisioned ''s0'' ''w2'') [run_row ''w1'', sample_row ''w2'' ''provisioning''] [sample_link ''w1''] {''s0''})"
    by (rule reach_step) (use launch_step.provision [of "race_state Waiting (Claimed ''s0'') [run_row ''w1''] [sample_link ''w1''] {''s0''}" "Suc 0"
          "''s0''" "sample_worker ''w2''" "store [run_row ''w1'', sample_row ''w2'' ''provisioning''] [sample_link ''w1'']" bytewise "''ur''"]
          insert_sample [of "[run_row ''w1'']" "''w2''" "[sample_link ''w1'']"] ok in \<open>auto simp: race_advance sample_worker_def\<close>)
  then have "?R (race_state Waiting (Linked ''s0'' ''w2'') [run_row ''w1'', run_row ''w2''] [sample_link ''w1'', sample_link ''w2''] {''s0''})"
    by (rule reach_step) (use launch_step.link [of "race_state Waiting (Provisioned ''s0'' ''w2'') [run_row ''w1'', sample_row ''w2'' ''provisioning''] [sample_link ''w1''] {''s0''}"
          "Suc 0" "''s0''" "''w2''" "''2026''" "''w2''" "store [run_row ''w1'', run_row ''w2''] [sample_link ''w1'', sample_link ''w2'']" bytewise "''ur''"]
          finish_sample [of "[run_row ''w1'']" "[sample_link ''w1'']" "''w2''"] ok in \<open>auto simp: race_advance\<close>)
  moreover have "active_status (ww_container_status (run_row i))" for i by (simp add: active_status_def sample_row_def)
  ultimately show ?thesis
    by (intro exI [of _ "race_state Waiting (Linked ''s0'' ''w2'') [run_row ''w1'', run_row ''w2''] [sample_link ''w1'', sample_link ''w2''] {''s0''}"]
        exI [of _ "sample_link ''w1''"] exI [of _ "sample_link ''w2''"] exI [of _ "run_row ''w1''"] exI [of _ "run_row ''w2''"])
       (simp add: store_def)
qed

subsection \<open>The theorems applied\<close>

theorem reconcile_workers_correct_witness:
  "\<exists>db' res. reconcile_workers bytewise ''now'' (\<lambda>c. if c = ''w1'' then Some False else None)
      (store [run_row ''w1'', run_row ''w2''] [sample_link ''w1'', sample_link ''w2'']) = (db', Inr res) \<and>
    k_link db' = [sample_link ''w2''] \<and> set (indeterminate res) = {''w2''}"
proof -
  have "filter (\<lambda>l. \<not> (\<exists>r \<in> set [run_row ''w1'', run_row ''w2'']. ww_worker_id r = ws_worker_id l \<and>
      found_dead (\<lambda>c. if c = ''w1'' then Some False else None) r)) [sample_link ''w1'', sample_link ''w2''] = [sample_link ''w2'']"
    by (simp add: found_dead_def sample_row_def sample_link_def)
  moreover have "{r \<in> set [run_row ''w1'', run_row ''w2'']. (if ww_container_id r = ''w1'' then Some False else None) = None} = {run_row ''w2''}"
    by (auto simp: sample_row_def)
  ultimately show ?thesis
    using reconcile_workers_correct [OF race_ok(5), of bytewise "''now''" "\<lambda>c. if c = ''w1'' then Some False else None" "''running''" "''running''"]
    unfolding store_def by auto
qed

definition sample_builder :: builder_pool where
  "sample_builder = \<lparr>bp_scan_slots = \<lambda>_. Inr [], bp_prepare_new_slot = \<lambda>_ _ _. Inr ''/pool/ur/0'',
     bp_recycle_slot = \<lambda>_ _ _. Inr ''/pool/ur/0'', bp_prepare_shared_slot = \<lambda>_ _. Inr ''/pool/ur/shared'',
     bp_checkout_branch = \<lambda>_ _ _ _. Inr (), bp_clean_slot = \<lambda>_ _. Inr ()\<rparr>"


theorem run_and_record_atomic_witness:
  "run_and_record ''2026'' [] ''secret'' StopNotFound (Inl ''no image'')
     \<lparr>cf_worker_id = ''w1'', cf_process_id = ''w1'', cf_project_key = ''ur'', cf_slot_id = Some ''s0'', cf_workspace_dir = None,
      cf_strategy = StrategyCode, cf_agent_type = ''claude'', cf_brain_path = None, cf_runtime = Container\<rparr>
     \<lparr>p_db = store [] [], p_claiming = {''s0''}\<rparr> = (\<lparr>p_db = store [] [], p_claiming = {''s0''}\<rparr>, Inl (LaunchRpc ''no image''))"
proof -
  let ?cf = "\<lparr>cf_worker_id = ''w1'', cf_process_id = ''w1'', cf_project_key = ''ur'', cf_slot_id = Some ''s0'', cf_workspace_dir = None,
      cf_strategy = StrategyCode, cf_agent_type = ''claude'', cf_brain_path = None, cf_runtime = Container\<rparr>"
  let ?st = "\<lparr>p_db = store [] [], p_claiming = {''s0''}\<rparr>"
  have "snd (run_and_record ''2026'' [] ''secret'' StopNotFound (Inl ''no image'') ?cf ?st) = Inl (LaunchRpc ''no image'')"
    by (simp add: run_and_record_def tolerate_missing_def record_provisioning_worker_def on_db_def insert_worker_def run_wk_def
        worker_schema_defs store_def int4_def remove_provisioning_worker_def one_slot_def)
  then show ?thesis
    using run_and_record_atomic [where st = ?st and now = "''2026''" and worker_prefix = "[]" and secret = "''secret''"
        and cleanup = StopNotFound and launch_resp = "Inl ''no image''" and cf = ?cf] race_ok(1)
    by (auto split: prod.splits)
qed

theorem stop_releases_slot_witness:
  "\<exists>st'. stop_by_worker_id ''now'' (\<lambda>_. StopNotFound) ''w1'' \<lparr>p_db = store [run_row ''w1''] [sample_link ''w1''], p_claiming = {}\<rparr> = (st', Inr ()) \<and>
     \<not> in_use (p_db st') ''s0''"
proof -
  let ?st = "\<lparr>p_db = store [run_row ''w1''] [sample_link ''w1''], p_claiming = {}\<rparr>"
  have w: "get_worker (p_db ?st) ''w1'' = Inr (Some (row_worker (run_row ''w1'')))"
    by (simp add: get_worker_def store_def transpose_row_def worker_from_row_ok sample_row_def)
  have "ww_runtime (run_row ''w1'') \<in> {''container'', ''local''}" by (simp add: sample_row_def)
  then have "wk_strategy (row_worker (run_row ''w1'')) = ''code''" "wk_project_key (row_worker (run_row ''w1'')) = ''ur''"
    "wk_workspace_path (row_worker (run_row ''w1'')) \<noteq> None"
    by (simp_all add: row_worker_def worker_from_row_def sample_row_def WorkerRuntime_from_str_def WorkerRuntime_ALL_def)
  then have "\<exists>st'. stop_by_worker_id ''now'' (\<lambda>_. StopNotFound) ''w1'' ?st = (st', Inr ()) \<and>
      (\<forall>s. in_use (p_db st') s \<longleftrightarrow>
       (\<exists>l \<in> set (k_link (p_db ?st)). \<exists>r \<in> set (k_worker (p_db ?st)). ws_slot_id l = s \<and>
          ww_worker_id r = ws_worker_id l \<and> active_status (ww_container_status r) \<and> ww_worker_id r \<noteq> ''w1''))"
    using stop_releases_slot [of ?st "''w1''" "row_worker (run_row ''w1'')" "\<lambda>_. StopNotFound" "''now''"] w race_ok(3) [of "''running''"]
    by fastforce
  then show ?thesis by (auto simp: store_def)
qed

theorem claims_held_once_witness:
  "claim_of (l_phase (race_state (Claimed ''s0'') (Queried [one_slot]) [] [] {''s0''}) 0) = Some ''s0'' \<and>
   ''s0'' \<in> p_claiming (l_pool (race_state (Claimed ''s0'') (Queried [one_slot]) [] [] {''s0''}))"
proof -
  let ?R = "reachable_from launch_init (launch_step bytewise ''ur'')" and ?q = "Queried [one_slot]"
  have "?R (race_state Waiting Waiting [] [] {})"
    by (rule reach_init) (simp add: launch_init_def race_ok, simp add: race_state_def)
  then have "?R (race_state Waiting ?q [] [] {})"
    by (rule reach_step) (use launch_step.query [of "race_state Waiting Waiting [] [] {}" "Suc 0" bytewise "''ur''"] in
        \<open>simp add: available_empty race_advance\<close>)
  then have "?R (race_state ?q ?q [] [] {})"
    by (rule reach_step) (use launch_step.query [of "race_state Waiting ?q [] [] {}" 0 bytewise "''ur''"] in
        \<open>simp add: available_empty race_advance\<close>)
  then have "?R (race_state (Claimed ''s0'') ?q [] [] {''s0''})"
    by (rule reach_step) (use launch_step.claim [of "race_state ?q ?q [] [] {}" 0 "[one_slot]" one_slot "{''s0''}" bytewise "''ur''"] in
        \<open>simp add: claim_one race_advance del: claim_first.simps\<close>)
  from claims_held_once [OF this, of 0 "''s0''" 0] show ?thesis by simp
qed

text \<open>Identifiers that determine the project and the slot: the project's length in unary, then both names.\<close>

definition sample_uuid :: "string \<Rightarrow> string \<Rightarrow> string" where
  "sample_uuid p n = replicate (length p) (CHR ''a'') @ CHR ''b'' # p @ n"

lemma replicate_delim: "x \<noteq> y \<Longrightarrow> replicate k x @ y # s = replicate m x @ y # t \<Longrightarrow> k = m \<and> s = t"
proof (induction k arbitrary: m)
  case 0
  then show ?case by (cases m) auto
next
  case (Suc k)
  then show ?case by (cases m) auto
qed

lemma sample_uuid_inj: "inj (\<lambda>(p, n). sample_uuid p n)"
proof (rule injI)
  fix x y :: "string \<times> string"
  assume "(case x of (p, n) \<Rightarrow> sample_uuid p n) = (case y of (p, n) \<Rightarrow> sample_uuid p n)"
  then show "x = y"
    by (cases x, cases y) (auto simp: sample_uuid_def dest!: replicate_delim [rotated])
qed

theorem reconcile_slots_correct_witness:
  "\<exists>db' res. reconcile_slots bytewise sample_uuid ''now'' (\<lambda>d. if d = ''/w/pool/ur'' then Some [(''1'', True), (''shared'', True)] else None)
      [''ur''] ''/w'' ''/h'' (store [run_row ''w1''] [sample_link ''w1'']) = (db', Inr res) \<and>
    slot_key ` set (k_slot db') = {(''ur'', ''1'')} \<and> k_worker db' = []"
proof -
  let ?fs = "\<lambda>d. if d = ''/w/pool/ur'' then Some [(''1'', True), (''shared'', True)] else None"
  let ?db = "store [run_row ''w1''] [sample_link ''w1'']"
  have disk: "disk_names ?fs (path_join ''/w'' ''pool'') ''ur'' = [''1'']"
    by (simp add: disk_names_def scan_disk_slots_def path_join_def)
  have "sample_uuid p n \<notin> sl_id ` set (k_slot ?db)" for p n
    by (cases p) (simp_all add: sample_uuid_def store_def one_slot_def)
  then obtain db' res where r: "reconcile_slots bytewise sample_uuid ''now'' ?fs [''ur''] ''/w'' ''/h'' ?db = (db', Inr res)"
    and k: "bij_betw slot_key (set (k_slot db')) {(p, n). p \<in> set [''ur''] \<and> n \<in> set (disk_names ?fs (path_join ''/w'' ''pool'') p)}"
    and w: "set (k_worker db') = {w \<in> set (k_worker ?db). \<not> linked ?db (set (deleted_stale res)) (ww_worker_id w)}"
    and d: "set (deleted_stale res) = sl_id ` {s \<in> set (k_slot ?db). sl_project_key s \<notin> set [''ur''] \<or>
       sl_slot_name s \<notin> set (disk_names ?fs (path_join ''/w'' ''pool'') (sl_project_key s))}"
    using reconcile_slots_correct [of ?db "[''ur'']" ?fs "''/w''" sample_uuid bytewise "''now''" "''/h''"] race_ok(3) [of "''running''"]
      sample_uuid_inj disk by (auto simp del: One_nat_def)
  have "{(p, n). p \<in> set [''ur''] \<and> n \<in> set (disk_names ?fs (path_join ''/w'' ''pool'') p)} = {(''ur'', ''1'')}"
    using disk by auto
  with k have "slot_key ` set (k_slot db') = {(''ur'', ''1'')}" by (simp add: bij_betw_def)
  moreover have "{s \<in> set (k_slot ?db). sl_project_key s \<notin> set [''ur''] \<or>
       sl_slot_name s \<notin> set (disk_names ?fs (path_join ''/w'' ''pool'') (sl_project_key s))} = {one_slot}"
    using disk by (auto simp: store_def one_slot_def)
  then have "set (k_worker db') = {}"
    using w d by (auto simp: store_def linked_def)
  then have "k_worker db' = []" by simp
  ultimately show ?thesis using r by blast
qed

end
