(* ===== verification/Server_State.thy ===== *)
theory Server_State
  imports Worker_Launch Workflow_Repo_Props
begin

text \<open>
  The state the workflow part of the server works on, \<open>WorkflowContext\<close> of
  \<open>crates/server/src/workflow/mod.rs\<close>: the three stores, the channels of transition requests and
  of cancellations to the coordinator, and a count of the readings of the clock and of the generators, so that two
  readings differ when the sources of \<open>clock\<close> say so.

  Each store keeps its own operations; here they are run on their part of the state, with their
  errors wrapped as \<open>anyhow\<close> does. What the outside world answers (git, GitHub, the worker
  daemons) is given by functions of the reading count, so it may change over time.
\<close>

subsection \<open>State\<close>

record TransitionRequest =
  tr_ticket_id :: string
  tr_target_status :: LifecycleStatus

record server =
  s_tickets :: ticket_db
  s_workflows :: workflow_db
  s_pool :: pool_state
  s_requests :: "TransitionRequest list"
  s_cancels :: "string list"
  s_receiving :: bool
  s_tick :: nat

record clock =
  ck_uuid :: "nat \<Rightarrow> string"
  ck_now :: "nat \<Rightarrow> string"
  ck_rng :: "nat \<Rightarrow> nat \<Rightarrow> nat"

abbreviation s_workers :: "server \<Rightarrow> worker_db" where
  "s_workers st \<equiv> p_db (s_pool st)"

text \<open>
  The errors a handler passes on; a message is what \<open>anyhow!\<close> or \<open>bail!\<close> formats. A panic is not
  passed on: it ends the task it happens in.
\<close>

datatype handler_error = StoreError db_error | Failed string | Panicked

text \<open>How an error is displayed; the text of a database error comes from the driver.\<close>

fun error_text :: "(db_error \<Rightarrow> string) \<Rightarrow> handler_error \<Rightarrow> string" where
  "error_text show_db (StoreError e) = show_db e"
| "error_text show_db (Failed m) = m"
| "error_text show_db Panicked = []"

type_synonym 'a server_op = "(server, handler_error, 'a) op"

subsection \<open>Operations of one part of the state\<close>

definition on_tickets :: "(ticket_db, db_error, 'a) op \<Rightarrow> 'a server_op" where
  "on_tickets = on_part s_tickets (\<lambda>db. s_tickets_update (\<lambda>_. db)) StoreError"

definition on_workflows :: "(workflow_db, db_error, 'a) op \<Rightarrow> 'a server_op" where
  "on_workflows = on_part s_workflows (\<lambda>db. s_workflows_update (\<lambda>_. db)) StoreError"

definition on_pool :: "('e \<Rightarrow> handler_error) \<Rightarrow> (pool_state, 'e, 'a) op \<Rightarrow> 'a server_op" where
  "on_pool = on_part s_pool (\<lambda>p. s_pool_update (\<lambda>_. p))"

definition on_workers :: "(worker_db, db_error, 'a) op \<Rightarrow> 'a server_op" where
  "on_workers m = on_pool StoreError (on_part p_db (\<lambda>db. p_db_update (\<lambda>_. db)) id m)"

interpretation tickets_part: state_part s_tickets "\<lambda>db. s_tickets_update (\<lambda>_. db)"
  by unfold_locales simp_all

interpretation workflows_part: state_part s_workflows "\<lambda>db. s_workflows_update (\<lambda>_. db)"
  by unfold_locales simp_all

interpretation pool_part: state_part s_pool "\<lambda>p. s_pool_update (\<lambda>_. p)"
  by unfold_locales simp_all

interpretation workers_part: state_part p_db "\<lambda>db. p_db_update (\<lambda>_. db)"
  by unfold_locales simp_all

subsection \<open>Readings and messages\<close>

text \<open>Runs an operation that needs a fresh id and the time.\<close>

definition fresh :: "(nat \<Rightarrow> 'a server_op) \<Rightarrow> 'a server_op" where
  "fresh f st = f (s_tick st) (st\<lparr>s_tick := Suc (s_tick st)\<rparr>)"

text \<open>A call to the outside, which answers a value or an error message.\<close>

definition ask :: "(nat \<Rightarrow> string + 'a) \<Rightarrow> 'a server_op" where
  "ask f st = (st\<lparr>s_tick := Suc (s_tick st)\<rparr>, case f (s_tick st) of Inl m \<Rightarrow> Inl (Failed m) | Inr a \<Rightarrow> Inr a)"

definition read_state :: "(server \<Rightarrow> handler_error + 'a) \<Rightarrow> 'a server_op" where
  "read_state f st = (st, f st)"

text \<open>
  Runs \<open>m\<close> and goes on whatever it returned, as the code does after logging the error.
\<close>

definition and_log :: "('s, 'e, 'a) op \<Rightarrow> ('s, 'f, unit) op" where
  "and_log m st = (attempt m st, Inr ())"

text \<open>
  \<open>transition_tx.send\<close>: it fails only when the coordinator has dropped its receiver. (A full
  channel makes the sender wait, which no state shows.)
\<close>

definition send_request :: "string \<Rightarrow> string \<Rightarrow> LifecycleStatus \<Rightarrow> unit server_op" where
  "send_request failure ticket_id target st =
     (if s_receiving st
      then (st\<lparr>s_requests := s_requests st @ [\<lparr>tr_ticket_id = ticket_id, tr_target_status = target\<rparr>]\<rparr>, Inr ())
      else (st, Inl (Failed failure)))"

definition ok_or_msg :: "string \<Rightarrow> 'a option \<Rightarrow> handler_error + 'a" where
  "ok_or_msg m x = (case x of None \<Rightarrow> Inl (Failed m) | Some a \<Rightarrow> Inr a)"

definition store_result :: "db_error + 'a \<Rightarrow> handler_error + 'a" where
  "store_result r = (case r of Inl e \<Rightarrow> Inl (StoreError e) | Inr a \<Rightarrow> Inr a)"

subsection \<open>What operations leave alone\<close>

named_theorems frame "operations that keep a part of the state"

text \<open>\<open>unchanged h m\<close>: the operation leaves the value of \<open>h\<close> as it was.\<close>

definition unchanged :: "('s \<Rightarrow> 'v) \<Rightarrow> ('s, 'e, 'a) op \<Rightarrow> bool" where
  "unchanged h m = keeps (\<lambda>st st'. h st' = h st) m"

lemma unchangedD: "unchanged h m \<Longrightarrow> h (fst (m st)) = h st"
  by (simp add: unchanged_def keeps_def)

lemma unchangedI: "(\<And>st. h (fst (m st)) = h st) \<Longrightarrow> unchanged h m"
  by (simp add: unchanged_def keeps_def)

lemma unchanged_ret [frame]: "unchanged h (ret a)"
  by (rule unchangedI) simp

lemma unchanged_throw [frame]: "unchanged h (throw e)"
  by (rule unchangedI) simp

lemma unchanged_bindS [frame]: "unchanged h m \<Longrightarrow> (\<And>a. unchanged h (f a)) \<Longrightarrow> unchanged h (bindS m f)"
  unfolding unchanged_def by (rule keeps_bindS) (auto intro: transpI reflpI)

lemma unchanged_read [frame]: "unchanged h (read_state f)"
  by (rule unchangedI) (simp add: read_state_def)

lemma unchanged_and_log [frame]: "unchanged h m \<Longrightarrow> unchanged h (and_log m)"
  by (rule unchangedI) (simp add: and_log_def attempt_def unchangedD)

lemma unchanged_if [frame]: "unchanged h m \<Longrightarrow> unchanged h n \<Longrightarrow> unchanged h (if b then m else n)"
  by simp

lemma unchanged_option [frame]:
  "unchanged h m \<Longrightarrow> (\<And>a. unchanged h (f a)) \<Longrightarrow> unchanged h (case x of None \<Rightarrow> m | Some a \<Rightarrow> f a)"
  by (cases x) auto

lemma unchanged_sum [frame]:
  "(\<And>e. unchanged h (g e)) \<Longrightarrow> (\<And>a. unchanged h (f a)) \<Longrightarrow> unchanged h (case x of Inl e \<Rightarrow> g e | Inr a \<Rightarrow> f a)"
  by (cases x) auto

end
