(* ===== verification/Coordinator.thy ===== *)
theory Coordinator
  imports Server_State
begin

text \<open>
  The coordinator of workflow transitions, \<open>crates/server/src/workflow/coordinator.rs\<close>, the event
  engine of \<open>engine.rs\<close> and the step router of \<open>step_router.rs\<close>.

  The handlers of the target statuses are a table, filled in by \<open>build_handlers\<close> (\<open>Push_Merge\<close>). A spawned task is a
  record in \<open>c_tasks\<close> from its spawn until it ends; its effects on the stores happen in one step
  when it ends. Aborting a task marks it. Each turn of the coordinator's \<open>select!\<close> takes the first
  branch that is ready (\<open>biased\<close>), looking at all of them at once.
\<close>

subsection \<open>Step router\<close>

datatype NextStepResult = Advance LifecycleStatus | AdvanceByFeedbackMode | Ignore

definition route :: "LifecycleStatus \<Rightarrow> NextStepResult" where
  "route current_status =
     (case current_status of
        Implementing \<Rightarrow> Advance Verifying
      | AddressingFeedback \<Rightarrow> AdvanceByFeedbackMode
      | _ \<Rightarrow> Ignore)"

subsection \<open>Running a handler\<close>

type_synonym handler = "string \<Rightarrow> unit server_op"
type_synonym handler_entry = "LifecycleStatus \<times> handler"

text \<open>The environment of a task: readings, ordering of text, display of errors.\<close>

record setting =
  x_clock :: clock
  x_le :: coll
  x_show :: "db_error \<Rightarrow> string"

abbreviation x_uuid :: "setting \<Rightarrow> nat \<Rightarrow> string" where "x_uuid x \<equiv> ck_uuid (x_clock x)"
abbreviation x_now :: "setting \<Rightarrow> nat \<Rightarrow> string" where "x_now x \<equiv> ck_now (x_clock x)"
abbreviation x_rng :: "setting \<Rightarrow> nat \<Rightarrow> nat \<Rightarrow> nat" where "x_rng x \<equiv> ck_rng (x_clock x)"

fun lifecycle_status_to_event :: "LifecycleStatus \<Rightarrow> WorkflowEventKind" where
  "lifecycle_status_to_event AwaitingDispatch = WAwaitingDispatch"
| "lifecycle_status_to_event Implementing = WImplementing"
| "lifecycle_status_to_event Verifying = WVerifying"
| "lifecycle_status_to_event Pushing = WPushing"
| "lifecycle_status_to_event InReview = WInReview"
| "lifecycle_status_to_event AddressingFeedback = WAddressingFeedback"
| "lifecycle_status_to_event Merging = WMerging"
| "lifecycle_status_to_event Done = WDone"
| "lifecycle_status_to_event Cancelled = WCancelled"
| "lifecycle_status_to_event LifecycleStatus.Open = WAwaitingDispatch"
| "lifecycle_status_to_event LifecycleStatus.Design = WAwaitingDispatch"

definition emit_workflow_event :: "setting \<Rightarrow> string \<Rightarrow> LifecycleStatus \<Rightarrow> server \<Rightarrow> server" where
  "emit_workflow_event x ticket_id target st =
     (case get_workflow_by_ticket (x_le x) (s_workflows st) ticket_id of
        None \<Rightarrow> st
      | Some workflow \<Rightarrow>
          attempt (fresh (\<lambda>n. on_workflows
            (insert_workflow_event (x_uuid x n) (x_now x n) (wf_id workflow) (lifecycle_status_to_event target)))) st)"

text \<open>The loop over the listed intents.\<close>

fun delete_matching_intents :: "string \<Rightarrow> LifecycleStatus \<Rightarrow> WorkflowIntent list \<Rightarrow> server \<Rightarrow> server" where
  "delete_matching_intents ticket_id target [] st = st"
| "delete_matching_intents ticket_id target (intent # intents) st =
     delete_matching_intents ticket_id target intents
       (if wi_ticket_id intent = ticket_id \<and> wi_target_status intent = target
        then attempt (on_workflows (delete_intent (wi_id intent))) st else st)"

definition cleanup_intent :: "setting \<Rightarrow> string \<Rightarrow> LifecycleStatus \<Rightarrow> server \<Rightarrow> server" where
  "cleanup_intent x ticket_id target st =
     delete_matching_intents ticket_id target (list_intents (x_le x) (s_workflows st)) st"

definition handle_failure :: "setting \<Rightarrow> string \<Rightarrow> LifecycleStatus \<Rightarrow> handler_error \<Rightarrow> server \<Rightarrow> server" where
  "handle_failure x ticket_id target e st =
     cleanup_intent x ticket_id target
       (attempt (on_workflows (set_workflow_stalled ticket_id (error_text (x_show x) e))) st)"

text \<open>The part of \<open>run_handler\<close> before the handler itself: the stores are moved to the target status.\<close>

definition enter_status :: "setting \<Rightarrow> string \<Rightarrow> LifecycleStatus \<Rightarrow> server \<Rightarrow> server" where
  "enter_status x ticket_id target st =
     (let st1 = (case on_workflows (update_workflow_status ticket_id target) st of
                   (st', Inr _) \<Rightarrow> st'
                 | (st', Inl _) \<Rightarrow>
                     attempt (fresh (\<lambda>n. on_workflows (create_workflow (x_uuid x n) (x_now x n) ticket_id target))) st');
          st2 = attempt (fresh (\<lambda>n. on_tickets (update_ticket (x_now x n) (x_rng x n) ticket_id
                  (TicketUpdate_default\<lparr>tu_lifecycle_status := Some target\<rparr>)))) st1;
          st3 = attempt (on_workflows (delete_workflow_events_for_ticket ticket_id)) st2
      in emit_workflow_event x ticket_id target st3)"

text \<open>\<open>Inl Panicked\<close> when the handler panicked: nothing after it in the task runs.\<close>

definition run_handler :: "setting \<Rightarrow> handler option \<Rightarrow> string \<Rightarrow> LifecycleStatus \<Rightarrow> unit server_op" where
  "run_handler x h ticket_id target st =
     (let st4 = enter_status x ticket_id target st in
      case h of
        None \<Rightarrow> (cleanup_intent x ticket_id target st4, Inr ())
      | Some handle \<Rightarrow>
          (case handle ticket_id st4 of
             (st5, Inr _) \<Rightarrow> (cleanup_intent x ticket_id target st5, Inr ())
           | (st5, Inl Panicked) \<Rightarrow> (st5, Inl Panicked)
           | (st5, Inl e) \<Rightarrow> (handle_failure x ticket_id target e st5, Inr ())))"

subsection \<open>The coordinator\<close>

record TicketSlot =
  ts_handle :: nat
  ts_pending :: "TransitionRequest option"

record task =
  j_handle :: nat
  j_ticket :: string
  j_target :: LifecycleStatus
  j_aborted :: bool

record coordinator =
  c_server :: server
  c_completions :: "string list"
  c_in_flight :: "string \<rightharpoonup> TicketSlot"
  c_tasks :: "task list"
  c_spawned :: nat

text \<open>Collecting the entries into a hash map keeps the last handler of a status.\<close>

definition handler_table :: "handler_entry list \<Rightarrow> LifecycleStatus \<Rightarrow> handler option" where
  "handler_table entries = map_of (rev entries)"

definition coordinator_new :: "server \<Rightarrow> coordinator" where
  "coordinator_new st =
     \<lparr>c_server = st, c_completions = [], c_in_flight = Map.empty, c_tasks = [], c_spawned = 0\<rparr>"

definition spawn_handler_task :: "string \<Rightarrow> LifecycleStatus \<Rightarrow> coordinator \<Rightarrow> coordinator" where
  "spawn_handler_task ticket_id target c =
     c\<lparr>c_tasks := c_tasks c @
         [\<lparr>j_handle = c_spawned c, j_ticket = ticket_id, j_target = target, j_aborted = False\<rparr>],
       c_in_flight := (c_in_flight c)(ticket_id \<mapsto> \<lparr>ts_handle = c_spawned c, ts_pending = None\<rparr>),
       c_spawned := Suc (c_spawned c)\<rparr>"

fun recover_intents :: "setting \<Rightarrow> WorkflowIntent list \<Rightarrow> coordinator \<Rightarrow> coordinator" where
  "recover_intents x [] c = c"
| "recover_intents x (intent # intents) c =
     (let stalled = (case get_workflow_by_ticket (x_le x) (s_workflows (c_server c)) (wi_ticket_id intent) of
                       Some w \<Rightarrow> wf_stalled w | None \<Rightarrow> False) in
      recover_intents x intents
        (if stalled then c\<lparr>c_server := attempt (on_workflows (delete_intent (wi_id intent))) (c_server c)\<rparr>
         else spawn_handler_task (wi_ticket_id intent) (wi_target_status intent) c))"

definition recover :: "setting \<Rightarrow> coordinator \<Rightarrow> coordinator" where
  "recover x c = recover_intents x (list_intents (x_le x) (s_workflows (c_server c))) c"

definition handle_request :: "setting \<Rightarrow> TransitionRequest \<Rightarrow> coordinator \<Rightarrow> coordinator" where
  "handle_request x request c =
     (let ticket_id = tr_ticket_id request in
      case fresh (\<lambda>n. on_workflows (create_intent (x_uuid x n) (x_now x n) ticket_id (tr_target_status request))) (c_server c) of
        (st', Inl _) \<Rightarrow> c\<lparr>c_server := st'\<rparr>
      | (st', Inr _) \<Rightarrow>
          (let c' = c\<lparr>c_server := st'\<rparr> in
           case c_in_flight c ticket_id of
             Some slot \<Rightarrow> c'\<lparr>c_in_flight := (c_in_flight c')(ticket_id \<mapsto> slot\<lparr>ts_pending := Some request\<rparr>)\<rparr>
           | None \<Rightarrow> spawn_handler_task ticket_id (tr_target_status request) c'))"

definition handle_completion :: "string \<Rightarrow> coordinator \<Rightarrow> coordinator" where
  "handle_completion ticket_id c =
     (case c_in_flight c ticket_id of
        None \<Rightarrow> c
      | Some slot \<Rightarrow>
          (let c' = c\<lparr>c_in_flight := (c_in_flight c)(ticket_id := None)\<rparr> in
           case ts_pending slot of
             None \<Rightarrow> c'
           | Some request \<Rightarrow> spawn_handler_task (tr_ticket_id request) (tr_target_status request) c'))"

definition abort :: "nat \<Rightarrow> task list \<Rightarrow> task list" where
  "abort handle = update_where (\<lambda>j. j_handle j = handle) (\<lambda>j. j\<lparr>j_aborted := True\<rparr>)"

definition handle_cancel :: "string \<Rightarrow> coordinator \<Rightarrow> coordinator" where
  "handle_cancel ticket_id c =
     (case c_in_flight c ticket_id of
        None \<Rightarrow> c
      | Some slot \<Rightarrow> c\<lparr>c_in_flight := (c_in_flight c)(ticket_id := None), c_tasks := abort (ts_handle slot) (c_tasks c)\<rparr>)"

text \<open>
  One turn of the loop of \<open>run\<close>, while no shutdown is signalled: \<open>None\<close> when no branch is ready.
\<close>

definition run_turn :: "setting \<Rightarrow> coordinator \<Rightarrow> coordinator option" where
  "run_turn x c =
     (case s_cancels (c_server c) of
        t # ts \<Rightarrow> Some (handle_cancel t (c\<lparr>c_server := (c_server c)\<lparr>s_cancels := ts\<rparr>\<rparr>))
      | [] \<Rightarrow>
          (case c_completions c of
             t # ts \<Rightarrow> Some (handle_completion t (c\<lparr>c_completions := ts\<rparr>))
           | [] \<Rightarrow>
               (case s_requests (c_server c) of
                  r # rs \<Rightarrow> Some (handle_request x r (c\<lparr>c_server := (c_server c)\<lparr>s_requests := rs\<rparr>\<rparr>))
                | [] \<Rightarrow> None)))"

text \<open>
  A task that ends: its handler has run, and it reports the ticket on the completion channel,
  unless the handler panicked.
\<close>

definition end_task :: "setting \<Rightarrow> (LifecycleStatus \<Rightarrow> handler option) \<Rightarrow> task \<Rightarrow> coordinator \<Rightarrow> coordinator" where
  "end_task x hs j c =
     (case run_handler x (hs (j_target j)) (j_ticket j) (j_target j) (c_server c) of
        (st', res) \<Rightarrow>
          c\<lparr>c_server := st',
            c_tasks := delete_where (\<lambda>i. j_handle i = j_handle j) (c_tasks c),
            c_completions := c_completions c @ (case res of Inr _ \<Rightarrow> [j_ticket j] | Inl _ \<Rightarrow> [])\<rparr>)"

text \<open>
  The steps of the coordinator, its tasks and the senders of its channels. An aborted task stops;
  with \<open>late_abort\<close> it may instead end normally, because \<open>abort\<close> takes effect only when the task
  next waits.
\<close>

inductive coord_step :: "bool \<Rightarrow> setting \<Rightarrow> (LifecycleStatus \<Rightarrow> handler option) \<Rightarrow> coordinator \<Rightarrow> coordinator \<Rightarrow> bool"
  for late_abort x hs where
  turn: "run_turn x c = Some c' \<Longrightarrow> coord_step late_abort x hs c c'"
| task_ends: "j \<in> set (c_tasks c) \<Longrightarrow> late_abort \<or> \<not> j_aborted j \<Longrightarrow> coord_step late_abort x hs c (end_task x hs j c)"
| task_stops: "j \<in> set (c_tasks c) \<Longrightarrow> j_aborted j \<Longrightarrow>
    coord_step late_abort x hs c (c\<lparr>c_tasks := delete_where (\<lambda>i. j_handle i = j_handle j) (c_tasks c)\<rparr>)"
| request_sent: "coord_step late_abort x hs c
    (c\<lparr>c_server := (c_server c)\<lparr>s_requests := s_requests (c_server c) @ [r]\<rparr>\<rparr>)"
| cancel_sent: "coord_step late_abort x hs c
    (c\<lparr>c_server := (c_server c)\<lparr>s_cancels := s_cancels (c_server c) @ [t]\<rparr>\<rparr>)"
| store_changed: "coord_step late_abort x hs c (c\<lparr>c_server := (c_server c)
    \<lparr>s_tickets := ts, s_workflows := ws, s_pool := p, s_tick := n\<rparr>\<rparr>)"

subsection \<open>The event engine\<close>

definition delete_event :: "string \<Rightarrow> server \<Rightarrow> server" where
  "delete_event event_id st = attempt (on_workflows (delete_workflow_event event_id)) st"

definition engine_handle_success :: "string \<Rightarrow> server \<Rightarrow> server" where
  "engine_handle_success event_id st = delete_event event_id st"

definition engine_handle_failure :: "setting \<Rightarrow> WorkflowEvent \<Rightarrow> handler_error \<Rightarrow> server \<Rightarrow> server" where
  "engine_handle_failure x event e st =
     delete_event (we_id event)
       (attempt (on_workflows (set_workflow_stalled (we_ticket_id event) (error_text (x_show x) e))) st)"

text \<open>A panic of the handler ends the engine's own task.\<close>

definition poll_once :: "setting \<Rightarrow> (LifecycleStatus \<Rightarrow> handler option) \<Rightarrow> unit server_op" where
  "poll_once x hs st =
     (case poll_workflow_event (x_le x) (s_workflows st) of
        None \<Rightarrow> (st, Inr ())
      | Some event \<Rightarrow>
          (case get_ticket (s_tickets st) (we_ticket_id event) of
             None \<Rightarrow> (delete_event (we_id event) st, Inr ())
           | Some ticket \<Rightarrow>
               if \<not> tk_lifecycle_managed ticket then (delete_event (we_id event) st, Inr ())
               else if tk_lifecycle_status ticket \<noteq> we_new_lifecycle_status event then (delete_event (we_id event) st, Inr ())
               else case hs (we_new_lifecycle_status event) of
                 None \<Rightarrow> (delete_event (we_id event) st, Inr ())
               | Some handle \<Rightarrow>
                   (case handle (we_ticket_id event) st of
                      (st', Inr _) \<Rightarrow> (engine_handle_success (we_id event) st', Inr ())
                    | (st', Inl Panicked) \<Rightarrow> (st', Inl Panicked)
                    | (st', Inl e) \<Rightarrow> (engine_handle_failure x event e st', Inr ()))))"

end
