(* ===== verification/Ticket_Service.thy ===== *)
theory Ticket_Service
  imports Server_State
begin

text \<open>
  The ticket service of \<open>crates/server/src/grpc_ticket.rs\<close>: the gRPC requests on tickets and
  workflows, in terms of the two stores.

  In a request an absent text and the empty text mean the same in most fields; the model keeps
  both. The statuses a call returns are the values of \<open>ticket_error\<close>; \<open>NoAnswer\<close> is a call whose
  recursive query does not end. The refresh of a worker's label is a spawned task without effect
  on the stores and is left out, as are the streaming calls.
\<close>

subsection \<open>The service and its errors\<close>

record RefCandidate =
  rc_id :: string
  rc_status :: string
  rc_title :: string

datatype ticket_error =
    NotFound string | HasOpenChildren string "string list" | ActiveWorkflow string
  | AmbiguousRef string "RefCandidate list" | Validation string | TicketDb db_error
  | StatusUnavailable string | StatusInvalidArgument string | StatusInternal string
  | NoWorkflow string | NoAnswer

text \<open>The part of the display of errors that callers read.\<close>

fun TicketError_text :: "(db_error \<Rightarrow> string) \<Rightarrow> ticket_error \<Rightarrow> string" where
  "TicketError_text show_db (NotFound i) = ''ticket not found: '' @ i"
| "TicketError_text show_db (HasOpenChildren i cs) =
     ''ticket '' @ i @ '' has open children; close them first or use --force''"
| "TicketError_text show_db (ActiveWorkflow i) = ''ticket '' @ i @ '' already has an active workflow''"
| "TicketError_text show_db (AmbiguousRef r cs) =
     ''ref '' @ [CHR 0x27] @ r @ [CHR 0x27] @ '' matches '' @ show_nat (length cs) @ '' tickets:'' @ [CHR 0x0A] @
     join [CHR 0x0A] (map (\<lambda>c. ''  '' @ rc_id c @ ''  '' @ rc_status c @ ''  '' @ rc_title c) cs) @ [CHR 0x0A] @
     ''re-run with a ticket ID, or: ur ticket list --meta ref='' @ r"
| "TicketError_text show_db (Validation m) = ''validation error: '' @ m"
| "TicketError_text show_db (TicketDb e) = ''database error: '' @ show_db e"
| "TicketError_text show_db (StatusUnavailable m) = m"
| "TicketError_text show_db (StatusInvalidArgument m) = m"
| "TicketError_text show_db (StatusInternal m) = m"
| "TicketError_text show_db (NoWorkflow i) = ''no workflow for ticket '' @ i"
| "TicketError_text show_db NoAnswer = []"

text \<open>
  What the service was built with: \<open>sv_engine\<close>, \<open>sv_cancelling\<close> and \<open>sv_stop\<close> say whether the
  optional channels and the worker manager are there (they are not on the server for workers).
  \<open>sv_projects\<close> are the configured project keys in the order the hash set lists them.
\<close>

record service =
  sv_clock :: clock
  sv_le :: coll
  sv_dfs :: dfs_fun
  sv_fuel :: nat
  sv_projects :: "string list"
  sv_engine :: bool
  sv_cancelling :: bool
  sv_stop :: "(string \<Rightarrow> stop_answer) option"

type_synonym 'a service_op = "(server, ticket_error, 'a) op"

definition in_tickets :: "(ticket_db, db_error, 'a) op \<Rightarrow> 'a service_op" where
  "in_tickets = on_part s_tickets (\<lambda>db. s_tickets_update (\<lambda>_. db)) TicketDb"

definition in_workflows :: "(workflow_db, db_error, 'a) op \<Rightarrow> 'a service_op" where
  "in_workflows = on_part s_workflows (\<lambda>db. s_workflows_update (\<lambda>_. db)) TicketDb"

definition with_tick :: "(nat \<Rightarrow> 'a service_op) \<Rightarrow> 'a service_op" where
  "with_tick f st = f (s_tick st) (st\<lparr>s_tick := Suc (s_tick st)\<rparr>)"

definition query_srv :: "(server \<Rightarrow> ticket_error + 'a) \<Rightarrow> 'a service_op" where
  "query_srv f st = (st, f st)"

definition db_result :: "db_error + 'a \<Rightarrow> ticket_error + 'a" where
  "db_result r = (case r of Inl e \<Rightarrow> Inl (TicketDb e) | Inr a \<Rightarrow> Inr a)"

text \<open>\<open>.filter(|s| !s.is_empty())\<close>\<close>

definition non_empty :: "string option \<Rightarrow> string option" where
  "non_empty s = (case s of None \<Rightarrow> None | Some v \<Rightarrow> if v = [] then None else Some v)"

text \<open>The cast \<open>as i32\<close> of a wider integer.\<close>

definition as_i32 :: "int \<Rightarrow> int" where
  "as_i32 n = signed_take_bit 31 n"

subsection \<open>Tickets\<close>

record CreateTicketRequest =
  cq_project :: string
  cq_ticket_type :: string
  cq_status :: string
  cq_priority :: int
  cq_parent_id :: "string option"
  cq_title :: string
  cq_body :: string
  cq_id :: "string option"
  cq_created_at :: "string option"
  cq_wip :: bool
  cq_branch :: "string option"

definition unknown_project :: "service \<Rightarrow> string \<Rightarrow> bool" where
  "unknown_project sv p = (sv_projects sv \<noteq> [] \<and> p \<notin> set (sv_projects sv))"

definition unknown_project_error :: "service \<Rightarrow> string \<Rightarrow> ticket_error" where
  "unknown_project_error sv p =
     Validation (''unknown project '' @ [CHR 0x27] @ p @ [CHR 0x27] @ ''; configured projects: '' @ join '', '' (sv_projects sv))"

definition new_ticket_of :: "CreateTicketRequest \<Rightarrow> NewTicket" where
  "new_ticket_of req =
     \<lparr>nt_id = non_empty (cq_id req), nt_project = cq_project req, nt_type = cq_ticket_type req,
      nt_priority = as_i32 (cq_priority req), nt_parent_id = non_empty (cq_parent_id req),
      nt_title = cq_title req, nt_body = cq_body req,
      nt_status = (if cq_status req = [] then None else Some (cq_status req)),
      nt_lifecycle_status = (if cq_wip req then Some LifecycleStatus.Design else None),
      nt_branch = non_empty (cq_branch req), nt_created_at = non_empty (cq_created_at req)\<rparr>"

definition create_ticket_rpc :: "service \<Rightarrow> CreateTicketRequest \<Rightarrow> string service_op" where
  "create_ticket_rpc sv req =
     (if unknown_project sv (cq_project req) then throw (unknown_project_error sv (cq_project req))
      else bindS (with_tick (\<lambda>n. in_tickets (create_ticket (ck_now (sv_clock sv) n) (ck_rng (sv_clock sv) n) (new_ticket_of req))))
             (\<lambda>ticket. ret (tk_id ticket)))"

record proto_ticket =
  pt_id :: string
  pt_ticket_type :: string
  pt_status :: string
  pt_priority :: int
  pt_parent_id :: string
  pt_title :: string
  pt_body :: string
  pt_created_at :: string
  pt_updated_at :: string
  pt_project :: string
  pt_branch :: string
  pt_depth :: int
  pt_children_completed :: int
  pt_children_total :: int
  pt_dispatch_status :: string
  pt_blocked :: bool

definition proto_of_ticket :: "int \<Rightarrow> Ticket \<Rightarrow> proto_ticket" where
  "proto_of_ticket depth t =
     \<lparr>pt_id = tk_id t, pt_ticket_type = tk_type t, pt_status = tk_status t, pt_priority = tk_priority t,
      pt_parent_id = opt_or (tk_parent_id t) [], pt_title = tk_title t, pt_body = tk_body t,
      pt_created_at = tk_created_at t, pt_updated_at = tk_updated_at t, pt_project = tk_project t,
      pt_branch = opt_or (tk_branch t) [], pt_depth = depth, pt_children_completed = tk_children_completed t,
      pt_children_total = tk_children_total t, pt_dispatch_status = [], pt_blocked = False\<rparr>"

record MetaListFilter =
  ml_project :: "string option"
  ml_type :: "string option"
  ml_status :: "string option"

definition status_list :: "string option \<Rightarrow> string list" where
  "status_list s = (case s of None \<Rightarrow> [] | Some v \<Rightarrow> map trim (split_on (CHR '','') v))"

definition hydrate_meta_matches :: "service \<Rightarrow> ticket_db \<Rightarrow> MetadataMatchTicket list \<Rightarrow> MetaListFilter \<Rightarrow> proto_ticket list" where
  "hydrate_meta_matches sv db matches f =
     (let statuses = status_list (ml_status f) in
      map (proto_of_ticket 0)
        (filter (\<lambda>t. (case ml_project f of None \<Rightarrow> True | Some p \<Rightarrow> tk_project t = p) \<and>
                     (case ml_type f of None \<Rightarrow> True | Some y \<Rightarrow> tk_type t = y) \<and>
                     (statuses = [] \<or> tk_status t \<in> set statuses))
          (get_tickets_by_ids (sv_le sv) db (map mm_id matches))))"

definition list_by_meta :: "service \<Rightarrow> ticket_db \<Rightarrow> string \<Rightarrow> string option \<Rightarrow> MetaListFilter \<Rightarrow> proto_ticket list" where
  "list_by_meta sv db key val f =
     hydrate_meta_matches sv db
       (case val of Some v \<Rightarrow> tickets_by_metadata db key v | None \<Rightarrow> tickets_with_metadata_key db key) f"

definition list_ticket_tree_rpc :: "service \<Rightarrow> ticket_db \<Rightarrow> string \<Rightarrow> string option \<Rightarrow> ticket_error + proto_ticket list" where
  "list_ticket_tree_rpc sv db root_id status_filter =
     (case list_ticket_tree (sv_le sv) (sv_fuel sv) db root_id status_filter of
        None \<Rightarrow> Inl NoAnswer
      | Some rows \<Rightarrow> Inr (map (\<lambda>(t, depth). proto_of_ticket depth t) rows))"

text \<open>The ids and the parents asked for, each parent once.\<close>

fun add_parents :: "string list \<Rightarrow> proto_ticket list \<Rightarrow> string list" where
  "add_parents ids [] = ids"
| "add_parents ids (t # ts) =
     add_parents (if pt_parent_id t \<noteq> [] \<and> pt_parent_id t \<notin> set ids then ids @ [pt_parent_id t] else ids) ts"

definition enrich_dispatch_status :: "workflow_db \<Rightarrow> proto_ticket list \<Rightarrow> proto_ticket list" where
  "enrich_dispatch_status db tickets =
     (if tickets = [] then []
      else
        let active = get_active_workflows_by_ticket_ids db (add_parents (map pt_id tickets) tickets) in
        map (\<lambda>t. case active (pt_id t) of
               Some status \<Rightarrow> t\<lparr>pt_dispatch_status := status\<rparr>
             | None \<Rightarrow>
                 (if pt_parent_id t \<noteq> []
                  then case active (pt_parent_id t) of Some status \<Rightarrow> t\<lparr>pt_dispatch_status := status\<rparr> | None \<Rightarrow> t
                  else t)) tickets)"

definition enrich_blocked :: "service \<Rightarrow> ticket_db \<Rightarrow> proto_ticket list \<Rightarrow> proto_ticket list" where
  "enrich_blocked sv db tickets =
     (if tickets = [] then []
      else
        let blocked = blocked_among (sv_dfs sv) (db_ticket db) (db_edge db) (map pt_id tickets) in
        map (\<lambda>t. t\<lparr>pt_blocked := pt_id t \<in> blocked\<rparr>) tickets)"

record ListTicketsRequest =
  lq_project :: "string option"
  lq_ticket_type :: "string option"
  lq_status :: "string option"
  lq_meta_key :: "string option"
  lq_meta_value :: "string option"
  lq_tree_root_id :: "string option"
  lq_page_size :: "int option"
  lq_offset :: "int option"
  lq_include_children :: "bool option"
  lq_parent_id :: "string option"

definition list_filtered :: "service \<Rightarrow> ticket_db \<Rightarrow> ListTicketsRequest \<Rightarrow> ticket_error + (proto_ticket list \<times> int)" where
  "list_filtered sv db req =
     (let f = \<lparr>tf_project = non_empty (lq_project req), tf_statuses = status_list (non_empty (lq_status req)),
               tf_type = non_empty (lq_ticket_type req), tf_parent_id = non_empty (lq_parent_id req),
               tf_lifecycle_status = None\<rparr>;
          offset = opt_or (lq_offset req) 0
      in if offset < 0 then Inl (Validation ''offset must be non-negative'')
         else if (case lq_page_size req of Some ps \<Rightarrow> ps \<le> 0 | None \<Rightarrow> False)
              then Inl (Validation ''page_size must be positive'')
         else
           and_then (db_result (list_tickets_paginated (sv_le sv) db f (lq_page_size req) offset (opt_or (lq_include_children req) False)))
             (\<lambda>(tickets, total_count). Inr (map (proto_of_ticket 0) tickets, total_count)))"

definition list_tickets_rpc :: "service \<Rightarrow> server \<Rightarrow> ListTicketsRequest \<Rightarrow> ticket_error + (proto_ticket list \<times> int)" where
  "list_tickets_rpc sv st req =
     (let db = s_tickets st;
          meta_filter = \<lparr>ml_project = non_empty (lq_project req), ml_type = non_empty (lq_ticket_type req),
                         ml_status = non_empty (lq_status req)\<rparr>;
          enrich = (\<lambda>ts. enrich_blocked sv db (enrich_dispatch_status (s_workflows st) ts));
          all = (\<lambda>ts. (enrich ts, as_i32 (int (length ts))))
      in case non_empty (lq_meta_key req) of
           Some key \<Rightarrow> Inr (all (list_by_meta sv db key (non_empty (lq_meta_value req)) meta_filter))
         | None \<Rightarrow>
             (case non_empty (lq_tree_root_id req) of
                Some root_id \<Rightarrow>
                  and_then (list_ticket_tree_rpc sv db root_id (non_empty (lq_status req))) (\<lambda>ts. Inr (all ts))
              | None \<Rightarrow> and_then (list_filtered sv db req) (\<lambda>(ts, total_count). Inr (enrich ts, total_count))))"

definition REF_META_KEY :: string where "REF_META_KEY = ''ref''"

definition resolve_ticket_ref :: "ticket_db \<Rightarrow> string \<Rightarrow> ticket_error + string" where
  "resolve_ticket_ref db arg =
     (if get_ticket_by_id db arg \<noteq> None then Inr arg
      else case tickets_by_metadata db REF_META_KEY arg of
             [] \<Rightarrow> Inl (NotFound arg)
           | [m] \<Rightarrow> Inr (mm_id m)
           | ms \<Rightarrow> Inl (AmbiguousRef arg (map (\<lambda>m. \<lparr>rc_id = mm_id m, rc_status = mm_status m, rc_title = mm_title m\<rparr>) ms)))"

record TicketEdge =
  te_other_id :: string
  te_relation :: string

definition classify_edge :: "string \<Rightarrow> Edge \<Rightarrow> TicketEdge" where
  "classify_edge ticket_id e =
     (case ed_kind e of
        Blocks \<Rightarrow> (if ed_source_id e = ticket_id then \<lparr>te_other_id = ed_target_id e, te_relation = ''blocks''\<rparr>
                   else \<lparr>te_other_id = ed_source_id e, te_relation = ''blocked_by''\<rparr>)
      | RelatesTo \<Rightarrow> (if ed_source_id e = ticket_id then \<lparr>te_other_id = ed_target_id e, te_relation = ''relates_to''\<rparr>
                      else \<lparr>te_other_id = ed_source_id e, te_relation = ''relates_to''\<rparr>))"

definition classify_edges :: "string \<Rightarrow> Edge list \<Rightarrow> TicketEdge list" where
  "classify_edges ticket_id raw = map (classify_edge ticket_id) raw"

record GetTicketResponse =
  gr_ticket :: proto_ticket
  gr_metadata :: "string \<rightharpoonup> string"
  gr_activities :: "Activity list"
  gr_edges :: "TicketEdge list"

definition get_ticket_rpc :: "service \<Rightarrow> ticket_db \<Rightarrow> string \<Rightarrow> string option \<Rightarrow> ticket_error + GetTicketResponse" where
  "get_ticket_rpc sv db req_id activity_author =
     and_then (resolve_ticket_ref db req_id) (\<lambda>i.
       case get_ticket_by_id db i of
         None \<Rightarrow> Inl (NotFound i)
       | Some t \<Rightarrow> Inr
           \<lparr>gr_ticket = proto_of_ticket 0 t, gr_metadata = get_meta db i ''ticket'',
            gr_activities = (case activity_author of Some a \<Rightarrow> get_activities_by_author (sv_le sv) db i a
                                                   | None \<Rightarrow> get_activities (sv_le sv) db i),
            gr_edges = classify_edges i (edges_for db i None)\<rparr>)"

record UpdateTicketRequest =
  uq_id :: string
  uq_status :: "string option"
  uq_ticket_type :: "string option"
  uq_priority :: "int option"
  uq_title :: "string option"
  uq_body :: "string option"
  uq_branch :: "string option"
  uq_parent_id :: "string option"
  uq_project :: "string option"
  uq_force :: bool

definition ticket_update_of :: "UpdateTicketRequest \<Rightarrow> TicketUpdate" where
  "ticket_update_of req =
     \<lparr>tu_status = non_empty (uq_status req), tu_lifecycle_status = None, tu_lifecycle_managed = None,
      tu_type = non_empty (uq_ticket_type req), tu_priority = map_option as_i32 (uq_priority req),
      tu_title = non_empty (uq_title req), tu_body = non_empty (uq_body req),
      tu_branch = (case uq_branch req of None \<Rightarrow> None
                   | Some s \<Rightarrow> if s = ''NONE'' then Some None else if s = [] then None else Some (Some s)),
      tu_parent_id = (case uq_parent_id req of None \<Rightarrow> None
                      | Some s \<Rightarrow> if s = ''NONE'' then Some None else Some (Some s)),
      tu_project = non_empty (uq_project req)\<rparr>"

definition update_ticket_rpc :: "service \<Rightarrow> UpdateTicketRequest \<Rightarrow> string service_op" where
  "update_ticket_rpc sv req =
     (let u = ticket_update_of req in
      if (case tu_project u of Some p \<Rightarrow> unknown_project sv p | None \<Rightarrow> False)
      then throw (unknown_project_error sv (the (tu_project u)))
      else
        bindS
          (if tu_status u = Some ''closed''
           then if uq_force req then bindS (in_tickets (close_open_children (uq_id req))) (\<lambda>_. ret ())
                else query_srv (\<lambda>st. if epic_all_children_closed (s_tickets st) (uq_id req) then Inr ()
                                      else Inl (HasOpenChildren (uq_id req) []))
           else ret ())
          (\<lambda>_. bindS (with_tick (\<lambda>n. in_tickets (update_ticket (ck_now (sv_clock sv) n) (ck_rng (sv_clock sv) n) (uq_id req) u)))
             (\<lambda>updated. ret (if tk_id updated \<noteq> uq_id req then tk_id updated else []))))"

definition set_meta_rpc :: "service \<Rightarrow> string \<Rightarrow> string \<Rightarrow> string \<Rightarrow> unit service_op" where
  "set_meta_rpc sv ticket_id key val =
     (if key = ''noverify'' then in_workflows (set_workflow_noverify ticket_id (val = ''true'' \<or> val = ''1''))
      else if key = ''feedback_mode'' then in_workflows (set_workflow_feedback_mode ticket_id val)
      else in_tickets (set_meta ticket_id ''ticket'' key val))"

definition delete_meta_rpc :: "string \<Rightarrow> string \<Rightarrow> unit service_op" where
  "delete_meta_rpc ticket_id key = in_tickets (delete_meta ticket_id ''ticket'' key)"

definition add_block :: "string \<Rightarrow> string \<Rightarrow> unit service_op" where
  "add_block blocker_id blocked_id = in_tickets (add_edge blocker_id blocked_id Blocks)"

definition remove_block :: "string \<Rightarrow> string \<Rightarrow> unit service_op" where
  "remove_block blocker_id blocked_id = in_tickets (remove_edge blocker_id blocked_id Blocks)"

definition add_link :: "string \<Rightarrow> string \<Rightarrow> string option \<Rightarrow> unit service_op" where
  "add_link left_id right_id edge_kind =
     (let k = opt_or edge_kind ''relates_to'' in
      if k = ''relates_to'' then in_tickets (add_edge left_id right_id RelatesTo)
      else throw (Validation (''unknown edge kind: '' @ k)))"

definition remove_link :: "string \<Rightarrow> string \<Rightarrow> unit service_op" where
  "remove_link left_id right_id = in_tickets (remove_edge left_id right_id RelatesTo)"

text \<open>The metadata of an activity, in the order the hash map lists its entries.\<close>

fun set_activity_meta :: "string \<Rightarrow> (string \<times> string) list \<Rightarrow> unit service_op" where
  "set_activity_meta activity_id [] = ret ()"
| "set_activity_meta activity_id ((k, v) # kvs) =
     bindS (in_tickets (set_meta activity_id ''activity'' k v)) (\<lambda>_. set_activity_meta activity_id kvs)"

definition add_activity_rpc :: "service \<Rightarrow> string \<Rightarrow> string \<Rightarrow> string \<Rightarrow> (string \<times> string) list \<Rightarrow> string service_op" where
  "add_activity_rpc sv ticket_id author message metadata =
     bindS (with_tick (\<lambda>n. in_tickets (add_activity (ck_uuid (sv_clock sv) n) (ck_now (sv_clock sv) n) ticket_id author message)))
       (\<lambda>activity. bindS (set_activity_meta (ac_id activity) metadata) (\<lambda>_. ret (ac_id activity)))"

definition list_activities :: "service \<Rightarrow> ticket_db \<Rightarrow> string \<Rightarrow> (Activity \<times> (string \<rightharpoonup> string)) list" where
  "list_activities sv db ticket_id =
     map (\<lambda>a. (a, get_meta db (ac_id a) ''activity'')) (get_activities (sv_le sv) db ticket_id)"

definition dispatchable_tickets_rpc ::
  "service \<Rightarrow> ticket_db \<Rightarrow> string \<Rightarrow> string option \<Rightarrow> ticket_error + (string \<times> string \<times> int) list" where
  "dispatchable_tickets_rpc sv db epic_id project =
     (case dispatchable_tickets (sv_dfs sv) (sv_fuel sv) db epic_id (non_empty project) of
        None \<Rightarrow> Inl NoAnswer
      | Some ts \<Rightarrow> Inr (map (\<lambda>t. (dt_id t, dt_title t, dt_priority t)) ts))"

subsection \<open>Workflows\<close>

definition send_transition :: "string \<Rightarrow> string \<Rightarrow> LifecycleStatus \<Rightarrow> unit service_op" where
  "send_transition failure ticket_id target st =
     (if s_receiving st
      then (st\<lparr>s_requests := s_requests st @ [\<lparr>tr_ticket_id = ticket_id, tr_target_status = target\<rparr>]\<rparr>, Inr ())
      else (st, Inl (StatusInternal failure)))"

definition create_workflow_rpc :: "service \<Rightarrow> string \<Rightarrow> string \<Rightarrow> string service_op" where
  "create_workflow_rpc sv ticket_id req_status =
     (if \<not> sv_engine sv
      then throw (StatusUnavailable ''workflow creation not available on this server (no workflow engine)'')
      else
        bindS (query_srv (\<lambda>st.
          case get_ticket (s_tickets st) ticket_id of
            None \<Rightarrow> Inl (NotFound ticket_id)
          | Some ticket \<Rightarrow>
              if tk_status ticket = ''closed''
              then Inl (Validation (''ticket '' @ ticket_id @ '' has status '' @ [CHR 0x27] @ ''closed'' @ [CHR 0x27] @ '', cannot create workflow''))
              else if \<not> is_ok_and (TicketType_from_str (tk_type ticket)) is_dispatchable
              then Inl (Validation (''ticket '' @ ticket_id @ '' has type '' @ [CHR 0x27] @ tk_type ticket @ [CHR 0x27] @ '', which cannot be dispatched''))
              else case LifecycleStatus_from_str req_status of
                     Inl _ \<Rightarrow> Inl (StatusInvalidArgument (''invalid status: '' @ req_status))
                   | Inr status \<Rightarrow>
                       if get_workflow_by_ticket (sv_le sv) (s_workflows st) ticket_id \<noteq> None
                       then Inl (ActiveWorkflow ticket_id) else Inr status))
        (\<lambda>status.
          bindS (with_tick (\<lambda>n. in_workflows (create_workflow (ck_uuid (sv_clock sv) n) (ck_now (sv_clock sv) n) ticket_id status)))
            (\<lambda>workflow.
              bindS (send_transition ''failed to send transition request: channel closed'' ticket_id status)
                (\<lambda>_. ret (wf_id workflow)))))"

definition kill_workflow_worker :: "service \<Rightarrow> string \<Rightarrow> server \<Rightarrow> server" where
  "kill_workflow_worker sv worker_id st =
     (if worker_id = [] then st
      else case sv_stop sv of
             None \<Rightarrow> st
           | Some stop \<Rightarrow>
               attempt (on_pool (\<lambda>_. Failed [])
                 (stop_by_worker_id (ck_now (sv_clock sv) (s_tick st)) stop worker_id))
                 (st\<lparr>s_tick := Suc (s_tick st)\<rparr>))"

definition cancel_active_workflow :: "service \<Rightarrow> string \<Rightarrow> unit service_op" where
  "cancel_active_workflow sv ticket_id st =
     (case get_workflow_by_ticket (sv_le sv) (s_workflows st) ticket_id of
        None \<Rightarrow> (st, Inr ())
      | Some workflow \<Rightarrow>
          (let st1 = (if sv_cancelling sv \<and> s_receiving st then st\<lparr>s_cancels := s_cancels st @ [ticket_id]\<rparr> else st);
               st2 = kill_workflow_worker sv (wf_worker_id workflow) st1
           in bindS (in_workflows (delete_intents_for_ticket ticket_id))
                (\<lambda>_. in_workflows (update_workflow_status ticket_id Cancelled)) st2))"

definition cancel_workflow :: "service \<Rightarrow> string \<Rightarrow> unit service_op" where
  "cancel_workflow sv ticket_id = cancel_active_workflow sv ticket_id"

definition stall_workflow :: "string \<Rightarrow> unit service_op" where
  "stall_workflow ticket_id = in_workflows (set_workflow_stalled ticket_id ''Manually stalled'')"

definition redrive_ticket :: "service \<Rightarrow> string \<Rightarrow> string \<Rightarrow> string service_op" where
  "redrive_ticket sv ticket_id req_status =
     (if \<not> sv_engine sv
      then throw (StatusUnavailable ''redrive not available on this server (no workflow coordinator)'')
      else case LifecycleStatus_from_str req_status of
             Inl _ \<Rightarrow> throw (StatusInvalidArgument (''invalid status: '' @ req_status))
           | Inr to_status \<Rightarrow>
               bindS (and_log (in_workflows (clear_workflow_stall ticket_id))) (\<lambda>_.
               bindS (and_log (in_workflows (reset_implement_cycles ticket_id))) (\<lambda>_.
               bindS (in_workflows (delete_workflow_events_for_ticket ticket_id)) (\<lambda>_.
               bindS (send_transition ''failed to submit redrive transition: channel closed'' ticket_id to_status) (\<lambda>_.
               ret (LifecycleStatus_as_str to_status))))))"

record WorkflowInfo =
  in_workflow :: Workflow
  in_status :: string
  in_pr_url :: string
  in_history :: "WorkflowEventRow list"
  in_children_open :: int
  in_children_closed :: int
  in_ticket_title :: string

definition enrich_workflow :: "service \<Rightarrow> server \<Rightarrow> Workflow \<Rightarrow> WorkflowInfo" where
  "enrich_workflow sv st w =
     (let db = s_tickets st; t = wf_ticket_id w; counts = get_ticket_children_counts db t in
      \<lparr>in_workflow = w, in_status = LifecycleStatus_as_str (wf_status w),
       in_pr_url = opt_or (get_meta db t ''ticket'' ''pr_url'') [],
       in_history = get_workflow_events (sv_le sv) (s_workflows st) (wf_id w),
       in_children_open = fst counts, in_children_closed = snd counts,
       in_ticket_title = opt_or (map_option tk_title (get_ticket_by_id db t)) []\<rparr>)"

definition enrich_paginated_workflow :: "service \<Rightarrow> server \<Rightarrow> PaginatedWorkflow \<Rightarrow> WorkflowInfo" where
  "enrich_paginated_workflow sv st pw = enrich_workflow sv st (pw_workflow pw)"

definition get_workflow_rpc :: "service \<Rightarrow> server \<Rightarrow> string \<Rightarrow> ticket_error + WorkflowInfo" where
  "get_workflow_rpc sv st ticket_id =
     (case get_latest_workflow_by_ticket (sv_le sv) (s_workflows st) ticket_id of
        Some w \<Rightarrow> Inr (enrich_workflow sv st w) | None \<Rightarrow> Inl (NoWorkflow ticket_id))"

definition list_workflows_by_project ::
  "service \<Rightarrow> server \<Rightarrow> int option \<Rightarrow> int \<Rightarrow> LifecycleStatus option \<Rightarrow> string \<Rightarrow> ticket_error + (PaginatedWorkflow list \<times> int)" where
  "list_workflows_by_project sv st page_size offset status project =
     and_then (db_result (list_workflows_paginated (sv_le sv) (s_workflows st) None 0 status)) (\<lambda>(all, _).
       let tickets = get_tickets_by_ids (sv_le sv) (s_tickets st) (map (\<lambda>pw. wf_ticket_id (pw_workflow pw)) all);
           matching = set (map tk_id (filter (\<lambda>t. tk_project t = project) tickets));
           filtered = filter (\<lambda>pw. wf_ticket_id (pw_workflow pw) \<in> matching) all;
           rest = drop (nat offset) filtered
       in Inr (case page_size of Some ps \<Rightarrow> take (nat ps) rest | None \<Rightarrow> rest, as_i32 (int (length filtered))))"

definition list_workflows_rpc ::
  "service \<Rightarrow> server \<Rightarrow> string option \<Rightarrow> int option \<Rightarrow> int option \<Rightarrow> string option \<Rightarrow> ticket_error + (WorkflowInfo list \<times> int)" where
  "list_workflows_rpc sv st req_status page_size req_offset req_project =
     and_then (case req_status of
                 None \<Rightarrow> Inr None
               | Some s \<Rightarrow> (case LifecycleStatus_from_str s of Inl e \<Rightarrow> Inl (StatusInvalidArgument e) | Inr x \<Rightarrow> Inr (Some x)))
       (\<lambda>status_filter.
         let offset = opt_or req_offset 0 in
         if offset < 0 then Inl (Validation ''offset must be non-negative'')
         else if (case page_size of Some ps \<Rightarrow> ps \<le> 0 | None \<Rightarrow> False)
              then Inl (Validation ''page_size must be positive'')
         else and_then
           (case non_empty req_project of
              Some project_key \<Rightarrow> list_workflows_by_project sv st page_size offset status_filter project_key
            | None \<Rightarrow> db_result (list_workflows_paginated (sv_le sv) (s_workflows st) page_size offset status_filter))
           (\<lambda>(paginated, total_count). Inr (map (enrich_paginated_workflow sv st) paginated, total_count)))"

end
