(* ===== verification/Workflow_Handlers.thy ===== *)
theory Workflow_Handlers
  imports Coordinator Ticket_Service "HOL-Library.Word"
begin

text \<open>
  The handlers of the workflow statuses, \<open>crates/server/src/workflow/handlers\<close>, the client for
  issue tickets of \<open>workflow/ticket_client.rs\<close>, the worker label of \<open>worker_label.rs\<close>, and the
  signals of the workers that advance a workflow (\<open>grpc.rs\<close>).

  Git, GitHub, the worker daemons and the file system answer through the fields of \<open>world\<close>; the
  first argument of each is the reading count at the time of the call. Text positions are byte
  positions, so a text is the list of its bytes.
\<close>

subsection \<open>The outside world\<close>

datatype PushStatus =
    Success | ForcePushed | Rejected string | RemoteRejected string | UpToDate | HookFailed string

record PushResult =
  pr_status :: PushStatus
  pr_ref_name :: string
  pr_summary :: string

record HookResult =
  hk_exit_code :: int
  hk_stdout :: string
  hk_stderr :: string

record PullRequest =
  pl_number :: int
  pl_url :: string
  pl_state :: string
  pl_head_ref :: string
  pl_base_ref :: string
  pl_title :: string
  pl_body :: string

record CreatePrOpts =
  po_title :: string
  po_body :: string
  po_head :: string
  po_base :: string
  po_draft :: bool

record MergeResult =
  mg_success :: bool
  mg_sha :: string
  mg_error_message :: string

record world =
  wd_current_branch :: "nat \<Rightarrow> string \<Rightarrow> string + string"
  wd_push :: "nat \<Rightarrow> string \<Rightarrow> string \<Rightarrow> bool \<Rightarrow> string + PushResult"
  wd_force_push :: "nat \<Rightarrow> string \<Rightarrow> string \<Rightarrow> bool \<Rightarrow> string + PushResult"
  wd_fetch :: "nat \<Rightarrow> string \<Rightarrow> string + unit"
  wd_run_hook :: "nat \<Rightarrow> string \<Rightarrow> string \<Rightarrow> string + HookResult"
  wd_get_pr :: "nat \<Rightarrow> string \<Rightarrow> int \<Rightarrow> string + PullRequest"
  wd_create_pr :: "nat \<Rightarrow> string \<Rightarrow> CreatePrOpts \<Rightarrow> string + PullRequest"
  wd_merge_pr :: "nat \<Rightarrow> string \<Rightarrow> int \<Rightarrow> string + MergeResult"
  wd_delete_branch :: "nat \<Rightarrow> string \<Rightarrow> string \<Rightarrow> string + unit"
  wd_implement :: "nat \<Rightarrow> Worker \<Rightarrow> string \<Rightarrow> string + unit"
  wd_address_feedback :: "nat \<Rightarrow> Worker \<Rightarrow> string \<Rightarrow> nat \<Rightarrow> string list \<Rightarrow> string + unit"
  wd_set_status_left :: "nat \<Rightarrow> Worker \<Rightarrow> string \<Rightarrow> nat \<Rightarrow> string + unit"
  wd_stop :: "nat \<Rightarrow> string \<Rightarrow> stop_answer"
  wd_exists :: "string \<Rightarrow> bool"
  wd_log_stamp :: "nat \<Rightarrow> string"
  wd_show_launch :: "launch_error \<Rightarrow> string"

subsection \<open>Configuration and context\<close>

record project_settings = ProjectConfig +
  ps_max_implement_cycles :: "nat option"
  ps_protected_branches :: "string list"
  ps_push_again_exit_code :: int

record workflow_context =
  cx_x :: setting
  cx_world :: world
  cx_service :: service
  cx_projects :: "string \<rightharpoonup> project_settings"
  cx_max_implement_cycles :: "nat option"
  cx_config_dir :: string

abbreviation cx_le :: "workflow_context \<Rightarrow> coll" where "cx_le cx \<equiv> x_le (cx_x cx)"

subsection \<open>Steps the handlers share\<close>

definition nl :: string where "nl = [CHR 0x0A]"
definition em_dash :: string where "em_dash = [CHR 0xE2, CHR 0x80, CHR 0x94]"

definition load_ticket :: "string \<Rightarrow> Ticket server_op" where
  "load_ticket ticket_id =
     read_state (\<lambda>st. ok_or_msg (''ticket not found: '' @ ticket_id) (get_ticket (s_tickets st) ticket_id))"

definition load_workflow :: "workflow_context \<Rightarrow> string \<Rightarrow> Workflow server_op" where
  "load_workflow cx ticket_id =
     read_state (\<lambda>st. ok_or_msg (''no workflow found for ticket '' @ ticket_id)
       (get_workflow_by_ticket (cx_le cx) (s_workflows st) ticket_id))"

text \<open>The workflow with the worker it is assigned to; \<open>what\<close> is the action the message names.\<close>

definition load_assigned :: "workflow_context \<Rightarrow> string \<Rightarrow> string \<Rightarrow> Workflow server_op" where
  "load_assigned cx ticket_id what =
     bindS (load_workflow cx ticket_id) (\<lambda>workflow.
       if wf_worker_id workflow = []
       then throw (Failed (''no worker_id on workflow for ticket '' @ ticket_id @ '' '' @ em_dash @ '' cannot '' @ what))
       else ret workflow)"

definition load_worker :: "string \<Rightarrow> Worker server_op" where
  "load_worker worker_id =
     read_state (\<lambda>st. and_then (store_result (get_worker (s_workers st) worker_id))
       (ok_or_msg (''worker '' @ worker_id @ '' not found in database'')))"

definition load_slot :: "string \<Rightarrow> Slot server_op" where
  "load_slot worker_id =
     read_state (\<lambda>st. and_then (ok_or_msg (''no slot linked to worker '' @ worker_id) (get_worker_slot (s_workers st) worker_id))
       (\<lambda>link. ok_or_msg (''slot '' @ ws_slot_id link @ '' not found in database'') (get_slot (s_workers st) (ws_slot_id link))))"

definition record_activity :: "workflow_context \<Rightarrow> string \<Rightarrow> string \<Rightarrow> unit server_op" where
  "record_activity cx ticket_id message =
     bindS (fresh (\<lambda>n. on_tickets (add_activity (x_uuid (cx_x cx) n) (x_now (cx_x cx) n) ticket_id ''workflow'' message)))
       (\<lambda>_. ret ())"


subsection \<open>Implementing\<close>

definition resolve_cycle_limit :: "workflow_context \<Rightarrow> string \<Rightarrow> nat option" where
  "resolve_cycle_limit cx project_key =
     (case cx_projects cx project_key of
        Some pc \<Rightarrow> (if ps_max_implement_cycles pc \<noteq> None then ps_max_implement_cycles pc else cx_max_implement_cycles cx)
      | None \<Rightarrow> cx_max_implement_cycles cx)"

text \<open>The cast \<open>as u32\<close> of a signed number of four bytes.\<close>

definition as_u32 :: "int \<Rightarrow> nat" where
  "as_u32 n = unat (word_of_int n :: 32 word)"

text \<open>A signed number as \<open>format!\<close> prints it.\<close>

definition show_int :: "int \<Rightarrow> string" where
  "show_int n = (if n < 0 then ''-'' @ show_nat (nat (- n)) else show_nat (nat n))"

definition check_cycle_limit :: "workflow_context \<Rightarrow> string \<Rightarrow> string \<Rightarrow> bool server_op" where
  "check_cycle_limit cx ticket_id project_key =
     (case resolve_cycle_limit cx project_key of
        None \<Rightarrow> ret False
      | Some max_cycles \<Rightarrow>
          bindS (load_workflow cx ticket_id) (\<lambda>workflow.
            if max_cycles \<le> as_u32 (wf_implement_cycles workflow)
            then bindS (on_workflows (set_workflow_stalled ticket_id
                   (''implement cycle limit reached ('' @ show_int (wf_implement_cycles workflow) @ ''/'' @ show_nat max_cycles @ '')'')))
                   (\<lambda>_. ret True)
            else ret False))"

definition read_worker_branch :: "workflow_context \<Rightarrow> string \<Rightarrow> string \<Rightarrow> string server_op" where
  "read_worker_branch cx worker_id ticket_id =
     bindS (load_slot worker_id) (\<lambda>slot.
     bindS (ask (\<lambda>n. wd_current_branch (cx_world cx) n (sl_host_path slot))) (\<lambda>branch.
       if branch = ''HEAD''
       then throw (Failed (''worker '' @ worker_id @ '' checkout is in detached HEAD state '' @ em_dash @ '' cannot determine branch for ticket '' @ ticket_id))
       else ret branch))"

definition ensure_ticket_branch :: "workflow_context \<Rightarrow> Ticket \<Rightarrow> string \<Rightarrow> string \<Rightarrow> string server_op" where
  "ensure_ticket_branch cx ticket ticket_id worker_id =
     (case tk_branch ticket of
        Some b \<Rightarrow> ret b
      | None \<Rightarrow>
          bindS (read_worker_branch cx worker_id ticket_id) (\<lambda>branch.
          bindS (fresh (\<lambda>n. on_tickets (update_ticket (x_now (cx_x cx) n) (x_rng (cx_x cx) n) ticket_id
                   (TicketUpdate_default\<lparr>tu_branch := Some (Some branch)\<rparr>)))) (\<lambda>_.
          ret branch)))"

text \<open>The tracked client: a successful dispatch marks the worker as working, errors are logged.\<close>

definition mark_working :: "workflow_context \<Rightarrow> string \<Rightarrow> unit server_op" where
  "mark_working cx worker_id =
     and_log (fresh (\<lambda>n. on_workers (update_worker_agent_status (x_now (cx_x cx) n) worker_id Working)))"

definition running_worker :: "string \<Rightarrow> (string \<Rightarrow> string) \<Rightarrow> Worker server_op" where
  "running_worker worker_id complaint =
     bindS (load_worker worker_id) (\<lambda>worker.
       if wk_container_status worker \<noteq> ''running'' then throw (Failed (complaint (wk_container_status worker))) else ret worker)"

definition dispatch_implement :: "workflow_context \<Rightarrow> string \<Rightarrow> unit server_op" where
  "dispatch_implement cx ticket_id =
     bindS (load_ticket ticket_id) (\<lambda>ticket.
     bindS (check_cycle_limit cx ticket_id (tk_project ticket)) (\<lambda>limited.
       if limited then ret ()
       else
         bindS (on_workflows (increment_implement_cycles ticket_id)) (\<lambda>_.
         bindS (load_assigned cx ticket_id ''dispatch implement'') (\<lambda>workflow.
         bindS (running_worker (wf_worker_id workflow)
                  (\<lambda>status. ''worker '' @ wf_worker_id workflow @ '' is not running (status: '' @ status @ '')'')) (\<lambda>worker.
         bindS (ensure_ticket_branch cx ticket ticket_id (wf_worker_id workflow)) (\<lambda>branch.
         bindS (ask (\<lambda>n. case wd_implement (cx_world cx) n worker ticket_id of
                           Inl e \<Rightarrow> Inl (''workerd implement RPC failed: '' @ e) | Inr u \<Rightarrow> Inr u)) (\<lambda>_.
         mark_working cx (wk_worker_id worker))))))))"

subsection \<open>Addressing feedback\<close>

text \<open>\<open>str::parse\<close> for an unsigned number: an optional plus sign and digits, below the bound.\<close>

definition is_digit :: "char \<Rightarrow> bool" where
  "is_digit c = (let n = of_char c :: nat in 48 \<le> n \<and> n \<le> 57)"

definition digits_value :: "string \<Rightarrow> nat" where
  "digits_value s = foldl (\<lambda>v c. 10 * v + (of_char c - 48)) 0 s"

definition parse_digits :: "string \<Rightarrow> nat option" where
  "parse_digits s = (if s \<noteq> [] \<and> list_all is_digit s then Some (digits_value s) else None)"

fun parse_u32_digits :: "nat \<Rightarrow> string \<Rightarrow> string + nat" where
  "parse_u32_digits v [] = Inr v"
| "parse_u32_digits v (c # cs) =
     (if \<not> is_digit c then Inl ''invalid digit found in string''
      else let w = 10 * v + (of_char c - 48) in
        if 2 ^ 32 \<le> w then Inl ''number too large to fit in target type'' else parse_u32_digits w cs)"

definition parse_u32 :: "string \<Rightarrow> string + nat" where
  "parse_u32 s =
     (case s of
        [] \<Rightarrow> Inl ''cannot parse integer from empty string''
      | c # cs \<Rightarrow>
          if c = CHR ''+'' \<and> cs \<noteq> [] then parse_u32_digits 0 cs
          else if (c = CHR ''+'' \<or> c = CHR ''-'') \<and> cs = [] then Inl ''invalid digit found in string''
          else parse_u32_digits 0 s)"

definition parse_i64 :: "string \<Rightarrow> int option" where
  "parse_i64 s =
     (case s of
        c # cs \<Rightarrow>
          if c = CHR ''-'' then (case parse_digits cs of Some v \<Rightarrow> if v \<le> 2 ^ 63 then Some (- int v) else None | None \<Rightarrow> None)
          else (case parse_digits (if c = CHR ''+'' then cs else s) of
                  Some v \<Rightarrow> if v < 2 ^ 63 then Some (int v) else None | None \<Rightarrow> None)
      | [] \<Rightarrow> None)"

definition handled_comments :: "workflow_context \<Rightarrow> workflow_db \<Rightarrow> string \<Rightarrow> string list" where
  "handled_comments cx db ticket_id =
     filter (\<lambda>i. i \<notin> set (get_pending_feedback_comments (cx_le cx) db ticket_id)) (get_seen_comment_ids (cx_le cx) db ticket_id)"

definition feedback_address :: "workflow_context \<Rightarrow> string \<Rightarrow> unit server_op" where
  "feedback_address cx ticket_id =
     bindS (load_ticket ticket_id) (\<lambda>_.
     bindS (load_assigned cx ticket_id ''dispatch address feedback'') (\<lambda>workflow.
     bindS (read_state (\<lambda>st. ok_or_msg
              (''no pr_number metadata on ticket '' @ ticket_id @ '' '' @ em_dash @ '' cannot address feedback tickets'')
              (get_meta (s_tickets st) ticket_id ''ticket'' ''pr_number''))) (\<lambda>pr_text.
     bindS (read_state (\<lambda>_. case parse_u32 pr_text of
              Inl e \<Rightarrow> Inl (Failed (''invalid pr_number '' @ [CHR 0x27] @ pr_text @ [CHR 0x27] @ '' on ticket '' @ ticket_id @ '': '' @ e))
            | Inr v \<Rightarrow> Inr v)) (\<lambda>pr_number.
     bindS (read_state (\<lambda>st. Inr (handled_comments cx (s_workflows st) ticket_id))) (\<lambda>handled.
     bindS (running_worker (wf_worker_id workflow)
              (\<lambda>status. ''worker '' @ wf_worker_id workflow @ '' is not running (status: '' @ status @
                 '') '' @ em_dash @ '' cannot dispatch address feedback for ticket '' @ ticket_id)) (\<lambda>worker.
     bindS (ask (\<lambda>n. case wd_address_feedback (cx_world cx) n worker ticket_id pr_number handled of
                       Inl e \<Rightarrow> Inl (''workerd address_feedback_tickets RPC failed: '' @ e) | Inr u \<Rightarrow> Inr u)) (\<lambda>_.
     mark_working cx (wk_worker_id worker))))))))"

subsection \<open>Verifying\<close>

datatype HookOutcome = Pass | PushAgain | Fail

definition classify_hook_outcome :: "int \<Rightarrow> int \<Rightarrow> HookOutcome" where
  "classify_hook_outcome exit_code push_again_exit_code =
     (if exit_code = 0 then Pass else if exit_code = push_again_exit_code then PushAgain else Fail)"

text \<open>
  A byte position is a character boundary of a text in UTF-8 when it is the end or the byte there
  is not a continuation byte. Slicing elsewhere panics.
\<close>

definition is_char_boundary :: "string \<Rightarrow> nat \<Rightarrow> bool" where
  "is_char_boundary s n =
     (n = 0 \<or> n = length s \<or> (n < length s \<and> \<not> (let b = of_char (s ! n) :: nat in 128 \<le> b \<and> b < 192)))"

definition slice_to :: "string \<Rightarrow> nat \<Rightarrow> string option" where
  "slice_to s n = (if is_char_boundary s n then Some (take n s) else None)"

text \<open>\<open>None\<close> is a panic.\<close>

definition build_output_summary :: "string \<Rightarrow> string \<Rightarrow> string option" where
  "build_output_summary stdout stderr =
     (let parts = (if stdout \<noteq> [] then [''stdout:'' @ nl @ stdout] else []) @
                  (if stderr \<noteq> [] then [''stderr:'' @ nl @ stderr] else []) in
      if parts = [] then Some ''(no output)''
      else
        let combined = join nl parts in
        if 4000 < length combined then map_option (\<lambda>h. h @ ''...(truncated)'') (slice_to combined 4000)
        else Some combined)"

definition find_workflow_hook_path :: "workflow_context \<Rightarrow> string \<Rightarrow> string \<Rightarrow> string option" where
  "find_workflow_hook_path cx project_key slot_host_path =
     (let host_overlay = cx_config_dir cx @ ''/projects/'' @ project_key @ ''/hooks/workflow/pre-push'';
          in_repo = slot_host_path @ ''/ur-hooks/workflow/pre-push''
      in if wd_exists (cx_world cx) host_overlay then Some host_overlay
         else if wd_exists (cx_world cx) in_repo then Some in_repo
         else None)"

definition advance_to_pushing :: "string \<Rightarrow> unit server_op" where
  "advance_to_pushing ticket_id = send_request ''failed to send Pushing transition: channel closed'' ticket_id Pushing"

definition advance_to_implementing :: "string \<Rightarrow> unit server_op" where
  "advance_to_implementing ticket_id =
     send_request ''failed to send Implementing transition: channel closed'' ticket_id Implementing"

definition handle_hook_failure :: "string \<Rightarrow> unit server_op" where
  "handle_hook_failure ticket_id = advance_to_implementing ticket_id"

definition add_hook_activity :: "workflow_context \<Rightarrow> string \<Rightarrow> string \<Rightarrow> string \<Rightarrow> unit server_op" where
  "add_hook_activity cx ticket_id result output =
     record_activity cx ticket_id
       (''[workflow] pre-push hook '' @ result @ nl @ ''source: workflow'' @ nl @ ''hook: pre-push'' @ nl @
        ''result: '' @ result @ nl @ ''---'' @ nl @ output)"

definition add_hook_failure_activity :: "workflow_context \<Rightarrow> string \<Rightarrow> string \<Rightarrow> string \<Rightarrow> unit server_op" where
  "add_hook_failure_activity cx ticket_id log_path output =
     record_activity cx ticket_id
       (''[workflow] verify failed '' @ em_dash @ '' logs at '' @ log_path @ nl @ ''source: workflow'' @ nl @ ''hook: pre-push'' @ nl @
        ''result: fail'' @ nl @ ''---'' @ nl @ output)"

definition CONTAINER_LOGS_DIR :: string where "CONTAINER_LOGS_DIR = ''/var/ur/logs''"

text \<open>The log file itself is written at best effort; what the workflow uses is its path.\<close>

definition write_hook_failure_log :: "workflow_context \<Rightarrow> string \<Rightarrow> string server_op" where
  "write_hook_failure_log cx hook =
     fresh (\<lambda>n. ret (CONTAINER_LOGS_DIR @ ''/'' @ hook @ ''-'' @ wd_log_stamp (cx_world cx) n @ ''.log''))"

definition resolve_hook_context :: "workflow_context \<Rightarrow> string \<Rightarrow> string \<Rightarrow> (string \<times> string) option server_op" where
  "resolve_hook_context cx ticket_id project_key =
     bindS (load_assigned cx ticket_id ''run verification'') (\<lambda>workflow.
     bindS (load_slot (wf_worker_id workflow)) (\<lambda>slot.
       case find_workflow_hook_path cx project_key (sl_host_path slot) of
         Some hook_path \<Rightarrow> ret (Some (hook_path, sl_host_path slot))
       | None \<Rightarrow> bindS (advance_to_pushing ticket_id) (\<lambda>_. ret None)))"

definition run_verification :: "workflow_context \<Rightarrow> string \<Rightarrow> unit server_op" where
  "run_verification cx ticket_id =
     bindS (load_ticket ticket_id) (\<lambda>ticket.
       case cx_projects cx (tk_project ticket) of
         None \<Rightarrow> advance_to_pushing ticket_id
       | Some project_config \<Rightarrow>
           bindS (resolve_hook_context cx ticket_id (tk_project ticket)) (\<lambda>resolved.
             case resolved of
               None \<Rightarrow> ret ()
             | Some (hook_path, working_dir) \<Rightarrow>
                 bindS (fresh (\<lambda>n. ret (wd_run_hook (cx_world cx) n hook_path working_dir))) (\<lambda>answer.
                   case answer of
                     Inl _ \<Rightarrow>
                       bindS (add_hook_activity cx ticket_id ''pass'' ''hook not found or not executable, skipping verification'')
                         (\<lambda>_. advance_to_pushing ticket_id)
                   | Inr hook \<Rightarrow>
                       (case build_output_summary (hk_stdout hook) (hk_stderr hook) of
                          None \<Rightarrow> throw Panicked
                        | Some summary \<Rightarrow>
                            bindS (load_assigned cx ticket_id ''run verification'') (\<lambda>_.
                              case classify_hook_outcome (hk_exit_code hook) (ps_push_again_exit_code project_config) of
                                Pass \<Rightarrow> bindS (add_hook_activity cx ticket_id ''pass'' summary) (\<lambda>_. advance_to_pushing ticket_id)
                              | PushAgain \<Rightarrow> bindS (add_hook_activity cx ticket_id ''push_again'' summary) (\<lambda>_. advance_to_pushing ticket_id)
                              | Fail \<Rightarrow>
                                  bindS (write_hook_failure_log cx ''verify'') (\<lambda>log_path.
                                  bindS (add_hook_failure_activity cx ticket_id log_path summary)
                                    (\<lambda>_. handle_hook_failure ticket_id)))))))"

end
