(* ===== verification/Branch_Policy.thy ===== *)
theory Branch_Policy
  imports Prelude
begin

text \<open>
  The text functions of the push and merge handlers (\<open>handlers/push.rs\<close>, \<open>handlers/merge.rs\<close>):
  which branches are protected, how a GitHub repository is read off a remote's URL, how a
  merge error is classified, and how the title of a pull request is built.
\<close>

subsection \<open>Searching text\<close>

definition starts_with :: "string \<Rightarrow> string \<Rightarrow> bool" where
  "starts_with s p = (take (length p) s = p)"

definition ends_with :: "string \<Rightarrow> string \<Rightarrow> bool" where
  "ends_with s p = (length p \<le> length s \<and> drop (length s - length p) s = p)"

text \<open>\<open>str::find\<close>: the first position where the needle occurs.\<close>

fun find_sub :: "string \<Rightarrow> string \<Rightarrow> nat option" where
  "find_sub p [] = (if p = [] then Some 0 else None)"
| "find_sub p (x # xs) = (if starts_with (x # xs) p then Some 0 else map_option Suc (find_sub p xs))"

definition contains :: "string \<Rightarrow> string \<Rightarrow> bool" where
  "contains s p = (find_sub p s \<noteq> None)"

text \<open>\<open>str::split\<close> at the occurrences of a non-empty text, from the left.\<close>

fun split_str :: "nat \<Rightarrow> string \<Rightarrow> string \<Rightarrow> string list" where
  "split_str 0 p s = [s]"
| "split_str (Suc fuel) p s =
     (case find_sub p s of
        None \<Rightarrow> [s]
      | Some i \<Rightarrow> take i s # split_str fuel p (drop (i + length p) s))"

definition split_text :: "string \<Rightarrow> string \<Rightarrow> string list" where
  "split_text p s = split_str (Suc (length s)) p s"

definition strip_prefix :: "string \<Rightarrow> string \<Rightarrow> string option" where
  "strip_prefix s p = (if starts_with s p then Some (drop (length p) s) else None)"

fun trim_end_matches :: "nat \<Rightarrow> string \<Rightarrow> string \<Rightarrow> string" where
  "trim_end_matches 0 s p = s"
| "trim_end_matches (Suc fuel) s p =
     (if ends_with s p then trim_end_matches fuel (take (length s - length p) s) p else s)"

subsection \<open>Protected branches\<close>

definition default_is_protected :: "string \<Rightarrow> bool" where
  "default_is_protected branch = (branch = ''main'' \<or> branch = ''master'')"

text \<open>The loop over the parts between the stars; \<open>i\<close> counts them and \<open>rest\<close> is what follows \<open>pos\<close>.\<close>

fun match_parts :: "nat \<Rightarrow> string list \<Rightarrow> string \<Rightarrow> string option" where
  "match_parts i [] rest = Some rest"
| "match_parts i (part # parts) rest =
     (if part = [] then match_parts (Suc i) parts rest
      else case find_sub part rest of
             None \<Rightarrow> None
           | Some found \<Rightarrow>
               if i = 0 \<and> found \<noteq> 0 then None
               else if 0 < i \<and> CHR ''/'' \<in> set (take found rest) then None
               else match_parts (Suc i) parts (drop (found + length part) rest))"

definition glob_match_single_star :: "string \<Rightarrow> string \<Rightarrow> bool" where
  "glob_match_single_star pattern value =
     (let parts = split_on (CHR ''*'') pattern in
      if length parts = 1 then pattern = value
      else case match_parts 0 parts value of
             None \<Rightarrow> False
           | Some rest \<Rightarrow> if \<not> ends_with pattern ''*'' then rest = [] else CHR ''/'' \<notin> set rest)"

definition glob_match_double_star :: "string list \<Rightarrow> string \<Rightarrow> bool" where
  "glob_match_double_star parts value =
     (if length parts = 1 then glob_match_single_star (hd parts) value
      else (hd parts = [] \<or> starts_with value (hd parts)) \<and> (last parts = [] \<or> ends_with value (last parts)))"

definition pattern_matches :: "string \<Rightarrow> string \<Rightarrow> bool" where
  "pattern_matches pattern value =
     (if pattern = value then True
      else
        let parts = split_text ''**'' pattern in
        if 1 < length parts then glob_match_double_star parts value else glob_match_single_star pattern value)"

definition is_branch_protected :: "string \<Rightarrow> string list option \<Rightarrow> bool" where
  "is_branch_protected branch protected_branches =
     (case protected_branches of
        None \<Rightarrow> default_is_protected branch
      | Some patterns \<Rightarrow> \<exists>pattern \<in> set patterns. pattern_matches pattern branch)"

subsection \<open>Repository and titles\<close>

definition trim_git :: "string \<Rightarrow> string" where
  "trim_git path = trim_end_matches (length path) path ''.git''"

definition gh_repo_from_url :: "string \<Rightarrow> string option" where
  "gh_repo_from_url url =
     (case strip_prefix url ''git@github.com:'' of
        Some path \<Rightarrow> Some (trim_git path)
      | None \<Rightarrow>
          (case (case strip_prefix url ''https://github.com/'' of Some r \<Rightarrow> Some r | None \<Rightarrow> strip_prefix url ''http://github.com/'') of
             Some rest \<Rightarrow> Some (trim_git rest)
           | None \<Rightarrow>
               if CHR ''/'' \<in> set url \<and> CHR '':'' \<notin> set url \<and> \<not> contains url ''//'' then Some url else None))"

definition build_pr_title :: "string \<Rightarrow> (string \<rightharpoonup> string) \<Rightarrow> string" where
  "build_pr_title title meta =
     (case meta ''ref'' of
        Some r \<Rightarrow> if trim r = [] then title else trim r @ '' '' @ title
      | None \<Rightarrow> title)"

text \<open>\<open>to_lowercase\<close>, for ASCII.\<close>

definition lower_char :: "char \<Rightarrow> char" where
  "lower_char c = (let n = of_char c :: nat in if 65 \<le> n \<and> n \<le> 90 then char_of (n + 32) else c)"

definition is_merge_conflict :: "string \<Rightarrow> bool" where
  "is_merge_conflict error_message =
     (let lower = map lower_char error_message in
      contains lower ''merge conflict'' \<or> contains lower ''not mergeable'' \<or> contains lower ''conflicts'')"

end
