(* ===== verification/Push_Merge.thy ===== *)
theory Push_Merge
  imports Workflow_Handlers Branch_Policy
begin

text \<open>
  The push and merge handlers (\<open>handlers/push.rs\<close>, \<open>handlers/merge.rs\<close>), the issue tickets they open
  (\<open>ticket_client.rs\<close>), the worker label (\<open>worker_label.rs\<close>), the table of handlers
  (\<open>handlers/mod.rs\<close>) and the signals of the workers (\<open>grpc.rs\<close>).
\<close>

subsection \<open>The label of a worker\<close>

definition build_label :: "string \<Rightarrow> string option \<Rightarrow> string" where
  "build_label ticket_id pr_number =
     (case pr_number of Some pr \<Rightarrow> ''['' @ ticket_id @ '' PR-'' @ pr @ ''] '' | None \<Rightarrow> ''['' @ ticket_id @ ''] '')"

definition label_push :: "workflow_context \<Rightarrow> string \<Rightarrow> unit server_op" where
  "label_push cx worker_id =
     bindS (read_state (\<lambda>st. ok_or_msg (''no active workflow found for worker '' @ worker_id)
              (ticket_id_by_worker_id (s_workflows st) worker_id))) (\<lambda>ticket_id.
     bindS (read_state (\<lambda>st. Inr (get_meta (s_tickets st) ticket_id ''ticket'' ''pr_number''))) (\<lambda>pr_number.
     bindS (load_worker worker_id) (\<lambda>worker.
     ask (\<lambda>n. case wd_set_status_left (cx_world cx) n worker (build_label ticket_id pr_number) 50 of
                Inl e \<Rightarrow> Inl (''workerd SetStatusLeft failed: '' @ e) | Inr u \<Rightarrow> Inr u))))"

definition push_worker_label :: "workflow_context \<Rightarrow> string \<Rightarrow> unit server_op" where
  "push_worker_label cx ticket_id st =
     (case get_workflow_by_ticket (cx_le cx) (s_workflows st) ticket_id of
        Some w \<Rightarrow> (if wf_worker_id w \<noteq> [] then and_log (label_push cx (wf_worker_id w)) st else (st, Inr ()))
      | None \<Rightarrow> (st, Inr ()))"

subsection \<open>Pushing\<close>

definition push_status_label :: "PushStatus \<Rightarrow> string" where
  "push_status_label status =
     (case status of
        Success \<Rightarrow> ''success'' | ForcePushed \<Rightarrow> ''force_pushed'' | UpToDate \<Rightarrow> ''up_to_date''
      | Rejected _ \<Rightarrow> ''rejected'' | RemoteRejected _ \<Rightarrow> ''remote_rejected'' | HookFailed _ \<Rightarrow> ''hook_failed'')"

definition add_push_activity :: "workflow_context \<Rightarrow> string \<Rightarrow> string \<Rightarrow> string \<Rightarrow> unit server_op" where
  "add_push_activity cx ticket_id result detail =
     record_activity cx ticket_id
       (''[workflow] push '' @ result @ nl @ ''source: workflow'' @ nl @ ''result: '' @ result @ nl @ ''---'' @ nl @ detail)"

definition stall_agent :: "workflow_context \<Rightarrow> string \<Rightarrow> string \<Rightarrow> unit server_op" where
  "stall_agent cx ticket_id worker_id st =
     (case fresh (\<lambda>n. on_workers (update_worker_agent_status (x_now (cx_x cx) n) worker_id Stalled)) st of
        (st', Inr _) \<Rightarrow> (st', Inr ())
      | (st', Inl e) \<Rightarrow>
          (st', Inl (Failed (''failed to set agent_status to stalled for worker '' @ worker_id @ '' (ticket '' @ ticket_id @ ''): '' @
                             error_text (x_show (cx_x cx)) e))))"

definition advance_to_in_review :: "string \<Rightarrow> unit server_op" where
  "advance_to_in_review ticket_id = send_request ''failed to send InReview transition: channel closed'' ticket_id InReview"

definition set_ticket_meta :: "string \<Rightarrow> string \<Rightarrow> string \<Rightarrow> unit server_op" where
  "set_ticket_meta ticket_id key val = on_tickets (set_meta ticket_id ''ticket'' key val)"

definition resolve_gh_repo :: "workflow_context \<Rightarrow> string \<Rightarrow> (string \<rightharpoonup> string) \<Rightarrow> string server_op" where
  "resolve_gh_repo cx ticket_id meta =
     (case meta ''gh_repo'' of
        Some r \<Rightarrow> ret r
      | None \<Rightarrow>
          bindS (load_ticket ticket_id) (\<lambda>ticket.
          bindS (read_state (\<lambda>_. ok_or_msg
                   (''no project config for '' @ [CHR 0x27] @ tk_project ticket @ [CHR 0x27] @ '' '' @ em_dash @
                    '' cannot determine gh_repo for PR creation'') (cx_projects cx (tk_project ticket)))) (\<lambda>project_config.
          bindS (read_state (\<lambda>_. ok_or_msg
                   (''project '' @ [CHR 0x27] @ tk_project ticket @ [CHR 0x27] @ '' is local (local = true, no repo) '' @ em_dash @
                    '' this operation requires a git remote'') (pc_repo project_config))) (\<lambda>repo.
          bindS (read_state (\<lambda>_. ok_or_msg
                   (''cannot derive GitHub owner/repo from project repo URL '' @ [CHR 0x27] @ repo @ [CHR 0x27] @ '' for project '' @
                    [CHR 0x27] @ tk_project ticket @ [CHR 0x27]) (gh_repo_from_url repo))) (\<lambda>derived.
          bindS (set_ticket_meta ticket_id ''gh_repo'' derived) (\<lambda>_.
          ret derived))))))"

definition ensure_pr :: "workflow_context \<Rightarrow> string \<Rightarrow> string \<Rightarrow> string \<Rightarrow> string \<Rightarrow> unit server_op" where
  "ensure_pr cx ticket_id branch title body =
     bindS (read_state (\<lambda>st. Inr (get_meta (s_tickets st) ticket_id ''ticket''))) (\<lambda>meta.
       if meta ''pr_number'' \<noteq> None then ret ()
       else
         bindS (resolve_gh_repo cx ticket_id meta) (\<lambda>gh_repo.
         bindS (ask (\<lambda>n. wd_create_pr (cx_world cx) n gh_repo
                  \<lparr>po_title = build_pr_title title meta,
                   po_body = (if body = [] then ''Ticket: '' @ ticket_id else body @ nl @ nl @ ''Ticket: '' @ ticket_id),
                   po_head = branch, po_base = [], po_draft = False\<rparr>)) (\<lambda>pr.
         bindS (set_ticket_meta ticket_id ''pr_number'' (show_int (pl_number pr))) (\<lambda>_.
         bindS (set_ticket_meta ticket_id ''pr_url'' (pl_url pr)) (\<lambda>_.
         bindS (set_ticket_meta ticket_id ''gh_repo'' gh_repo) (\<lambda>_.
         push_worker_label cx ticket_id))))))"

definition promote_autoapprove :: "string \<Rightarrow> (string \<rightharpoonup> string) \<Rightarrow> unit server_op" where
  "promote_autoapprove ticket_id meta =
     (if meta ''autoapprove'' \<noteq> None
      then on_workflows (update_workflow_condition ticket_id ReviewStatus review_APPROVED) else ret ())"

definition initialize_conditions_and_emit_event :: "workflow_context \<Rightarrow> string \<Rightarrow> unit server_op" where
  "initialize_conditions_and_emit_event cx ticket_id =
     bindS (on_workflows (initialize_workflow_conditions ticket_id)) (\<lambda>_.
     bindS (read_state (\<lambda>st. Inr (get_meta (s_tickets st) ticket_id ''ticket''))) (\<lambda>meta.
     bindS (promote_autoapprove ticket_id meta) (\<lambda>_.
     bindS (read_state (\<lambda>st. Inr (get_workflow_by_ticket (cx_le cx) (s_workflows st) ticket_id))) (\<lambda>workflow.
       case workflow of
         Some w \<Rightarrow> and_log (fresh (\<lambda>n. on_workflows (insert_workflow_event (x_uuid (cx_x cx) n) (x_now (cx_x cx) n) (wf_id w) WPrCreated)))
       | None \<Rightarrow> ret ()))))"

definition handle_push_success :: "workflow_context \<Rightarrow> string \<Rightarrow> string \<Rightarrow> string \<Rightarrow> string \<Rightarrow> PushResult \<Rightarrow> unit server_op" where
  "handle_push_success cx ticket_id branch title body push_result =
     bindS (add_push_activity cx ticket_id (push_status_label (pr_status push_result)) (pr_summary push_result)) (\<lambda>_.
     bindS (ensure_pr cx ticket_id branch title body) (\<lambda>_.
     bindS (initialize_conditions_and_emit_event cx ticket_id) (\<lambda>_.
     advance_to_in_review ticket_id)))"

definition handle_hook_failed :: "workflow_context \<Rightarrow> string \<Rightarrow> string \<Rightarrow> unit server_op" where
  "handle_hook_failed cx ticket_id summary =
     bindS (write_hook_failure_log cx ''push'') (\<lambda>log_path.
     bindS (record_activity cx ticket_id
              (''[workflow] push failed '' @ em_dash @ '' logs at '' @ log_path @ nl @ ''source: workflow'' @ nl @
               ''result: hook_failed'' @ nl @ ''---'' @ nl @ summary)) (\<lambda>_.
     advance_to_implementing ticket_id))"

definition rebase_detail :: "string \<Rightarrow> string" where
  "rebase_detail branch =
     ''Force-push rejected after fetching origin. Branch `'' @ branch @ ''` has diverged from `origin/'' @ branch @
     ''` and requires a rebase. Run `git fetch origin && git rebase origin/'' @ branch @
     ''`, resolve any conflicts, then continue.''"

definition perform_non_protected_retry ::
  "workflow_context \<Rightarrow> string \<Rightarrow> string \<Rightarrow> bool \<Rightarrow> string \<Rightarrow> string \<Rightarrow> string \<Rightarrow> unit server_op" where
  "perform_non_protected_retry cx working_dir branch no_verify ticket_id title body =
     bindS (and_log (ask (\<lambda>n. wd_fetch (cx_world cx) n working_dir))) (\<lambda>_.
     bindS (ask (\<lambda>n. wd_force_push (cx_world cx) n branch working_dir no_verify)) (\<lambda>force_result.
       case pr_status force_result of
         Rejected _ \<Rightarrow>
           bindS (add_push_activity cx ticket_id ''rebase_required'' (rebase_detail branch)) (\<lambda>_. advance_to_implementing ticket_id)
       | RemoteRejected _ \<Rightarrow>
           bindS (add_push_activity cx ticket_id ''rebase_required'' (rebase_detail branch)) (\<lambda>_. advance_to_implementing ticket_id)
       | HookFailed summary \<Rightarrow> handle_hook_failed cx ticket_id summary
       | _ \<Rightarrow> handle_push_success cx ticket_id branch title body
               (force_result\<lparr>pr_summary := ''Force push after rejection: '' @ pr_summary force_result\<rparr>)))"

definition protected_of :: "workflow_context \<Rightarrow> string \<Rightarrow> string list option" where
  "protected_of cx project_key = map_option ps_protected_branches (cx_projects cx project_key)"

definition handle_push_rejected ::
  "workflow_context \<Rightarrow> Ticket \<Rightarrow> string \<Rightarrow> string \<Rightarrow> string \<Rightarrow> string \<Rightarrow> string \<Rightarrow> bool \<Rightarrow> unit server_op" where
  "handle_push_rejected cx ticket ticket_id branch worker_id reason working_dir no_verify =
     (if is_branch_protected branch (protected_of cx (tk_project ticket))
      then bindS (add_push_activity cx ticket_id ''rejected_protected'' (''Push rejected on protected branch: '' @ reason))
             (\<lambda>_. stall_agent cx ticket_id worker_id)
      else perform_non_protected_retry cx working_dir branch no_verify ticket_id (tk_title ticket) (tk_body ticket))"

definition handle_push :: "workflow_context \<Rightarrow> string \<Rightarrow> unit server_op" where
  "handle_push cx ticket_id =
     bindS (load_ticket ticket_id) (\<lambda>ticket.
     bindS (read_state (\<lambda>_. ok_or_msg (''ticket '' @ ticket_id @ '' has no branch set '' @ em_dash @ '' cannot push without a branch'')
              (tk_branch ticket))) (\<lambda>branch.
     bindS (load_assigned cx ticket_id ''run push'') (\<lambda>workflow.
     bindS (load_slot (wf_worker_id workflow)) (\<lambda>slot.
     bindS (ask (\<lambda>n. wd_push (cx_world cx) n branch (sl_host_path slot) (wf_noverify workflow))) (\<lambda>push_result.
       case pr_status push_result of
         Rejected reason \<Rightarrow>
           handle_push_rejected cx ticket ticket_id branch (wf_worker_id workflow) reason (sl_host_path slot) (wf_noverify workflow)
       | RemoteRejected reason \<Rightarrow>
           bindS (add_push_activity cx ticket_id ''remote_rejected'' (''Remote rejected push: '' @ reason))
             (\<lambda>_. stall_agent cx ticket_id (wf_worker_id workflow))
       | HookFailed summary \<Rightarrow> handle_hook_failed cx ticket_id summary
       | _ \<Rightarrow> handle_push_success cx ticket_id branch (tk_title ticket) (tk_body ticket) push_result)))))"

subsection \<open>Issue tickets\<close>

definition issue_MERGE_CONFLICT :: string where "issue_MERGE_CONFLICT = ''merge_conflict''"
definition issue_MERGE_REJECTION :: string where "issue_MERGE_REJECTION = ''merge_rejection''"
definition issue_CI_FAILURE :: string where "issue_CI_FAILURE = ''ci_failure''"

definition issue_meta_key :: "string \<Rightarrow> string" where
  "issue_meta_key issue_type = ''workflow_issue:'' @ issue_type"

text \<open>A call of the ticket service from inside the server, with the status's message wrapped.\<close>

definition call_service :: "workflow_context \<Rightarrow> string \<Rightarrow> 'a service_op \<Rightarrow> 'a server_op" where
  "call_service cx what m st =
     (case m st of
        (st', Inr a) \<Rightarrow> (st', Inr a)
      | (st', Inl e) \<Rightarrow> (st', Inl (Failed (what @ '' failed: '' @ TicketError_text (x_show (cx_x cx)) e))))"

fun first_open_child :: "workflow_context \<Rightarrow> string \<Rightarrow> proto_ticket list \<Rightarrow> string option server_op" where
  "first_open_child cx parent_id [] = ret None"
| "first_open_child cx parent_id (c # cs) =
     bindS (call_service cx ''get_ticket'' (query_srv (\<lambda>st. get_ticket_rpc (cx_service cx) (s_tickets st) (pt_id c) None))) (\<lambda>detail.
       if pt_parent_id (gr_ticket detail) = parent_id \<and> pt_status (gr_ticket detail) = ''open''
       then ret (Some (pt_id (gr_ticket detail))) else first_open_child cx parent_id cs)"

definition find_existing_issue :: "workflow_context \<Rightarrow> string \<Rightarrow> string \<Rightarrow> string option server_op" where
  "find_existing_issue cx parent_id key =
     bindS (call_service cx ''list_tickets'' (query_srv (\<lambda>st. list_tickets_rpc (cx_service cx) st
              \<lparr>lq_project = None, lq_ticket_type = None, lq_status = Some ''open'', lq_meta_key = Some key,
               lq_meta_value = Some ''true'', lq_tree_root_id = None, lq_page_size = None, lq_offset = None,
               lq_include_children = None, lq_parent_id = None\<rparr>))) (\<lambda>(candidates, _).
     first_open_child cx parent_id candidates)"

definition create_workflow_issue_ticket :: "workflow_context \<Rightarrow> string \<Rightarrow> string \<Rightarrow> string \<Rightarrow> string \<Rightarrow> string server_op" where
  "create_workflow_issue_ticket cx parent_id issue_type title body =
     bindS (find_existing_issue cx parent_id (issue_meta_key issue_type)) (\<lambda>existing.
       case existing of
         Some existing_id \<Rightarrow> ret existing_id
       | None \<Rightarrow>
           bindS (call_service cx ''create_ticket'' (create_ticket_rpc (cx_service cx)
                    \<lparr>cq_project = hd (split_on (CHR ''-'') parent_id), cq_ticket_type = ''code'', cq_status = [], cq_priority = 2,
                     cq_parent_id = Some parent_id, cq_title = title, cq_body = body, cq_id = None, cq_created_at = None,
                     cq_wip = False, cq_branch = None\<rparr>)) (\<lambda>ticket_id.
           bindS (call_service cx ''set_meta'' (set_meta_rpc (cx_service cx) ticket_id (issue_meta_key issue_type) ''true'')) (\<lambda>_.
           ret ticket_id)))"

subsection \<open>Merging\<close>

definition check_pre_merge_conditions :: "Workflow \<Rightarrow> string \<Rightarrow> handler_error + unit" where
  "check_pre_merge_conditions workflow ticket_id =
     (let failures =
        (if wf_ci_status workflow \<noteq> ci_SUCCEEDED then [''ci_status='' @ wf_ci_status workflow @ '' (expected '' @ ci_SUCCEEDED @ '')''] else []) @
        (if wf_mergeable workflow \<noteq> mergeable_MERGEABLE then [''mergeable='' @ wf_mergeable workflow @ '' (expected '' @ mergeable_MERGEABLE @ '')''] else []) @
        (if wf_review_status workflow \<noteq> review_APPROVED then [''review_status='' @ wf_review_status workflow @ '' (expected '' @ review_APPROVED @ '')''] else [])
      in if failures \<noteq> []
         then Inl (Failed (''pre-merge conditions not met for ticket '' @ ticket_id @ '': '' @ join '', '' failures)) else Inr ())"

definition transition_to_implementing :: "string \<Rightarrow> unit server_op" where
  "transition_to_implementing ticket_id =
     send_request ''failed to send Implementing transition: channel closed'' ticket_id Implementing"

text \<open>Both failures of a merge open an issue ticket, record an activity and ask for a new implementation.\<close>

definition report_merge_failure ::
  "workflow_context \<Rightarrow> string \<Rightarrow> string \<Rightarrow> string \<Rightarrow> string \<Rightarrow> string \<Rightarrow> unit server_op" where
  "report_merge_failure cx ticket_id issue_type title body message =
     bindS (and_log (create_workflow_issue_ticket cx ticket_id issue_type title body)) (\<lambda>_.
     bindS (and_log (record_activity cx ticket_id message)) (\<lambda>_.
     transition_to_implementing ticket_id))"

definition handle_merge_conflict :: "workflow_context \<Rightarrow> string \<Rightarrow> string \<Rightarrow> string \<Rightarrow> unit server_op" where
  "handle_merge_conflict cx ticket_id pr_number error_message =
     report_merge_failure cx ticket_id issue_MERGE_CONFLICT (''Merge conflict on PR #'' @ pr_number)
       (''PR #'' @ pr_number @ '' merge failed due to conflicts.'' @ nl @ nl @ ''Error: '' @ error_message @ nl @ nl @
        ''Resolve the merge conflicts and push updated changes.'')
       (''[workflow] merge conflict detected'' @ nl @ ''source: workflow'' @ nl @ ''result: fail'' @ nl @ ''---'' @ nl @
        ''PR #'' @ pr_number @ '' merge failed: '' @ error_message)"

definition handle_merge_rejection :: "workflow_context \<Rightarrow> string \<Rightarrow> string \<Rightarrow> string \<Rightarrow> unit server_op" where
  "handle_merge_rejection cx ticket_id pr_number error_message =
     report_merge_failure cx ticket_id issue_MERGE_REJECTION (''Merge rejected on PR #'' @ pr_number)
       (''PR #'' @ pr_number @ '' merge was rejected.'' @ nl @ nl @ ''Error: '' @ error_message @ nl @ nl @
        ''This may be caused by branch protection rules or other repository settings.'')
       (''[workflow] merge rejected'' @ nl @ ''source: workflow'' @ nl @ ''result: fail'' @ nl @ ''---'' @ nl @
        ''PR #'' @ pr_number @ '' merge rejected: '' @ error_message)"

definition merge_pr :: "workflow_context \<Rightarrow> string \<Rightarrow> string \<Rightarrow> string \<Rightarrow> unit server_op" where
  "merge_pr cx ticket_id pr_number gh_repo =
     bindS (read_state (\<lambda>_. ok_or_msg (''invalid pr_number '' @ [CHR 0x27] @ pr_number @ [CHR 0x27] @ '' on ticket '' @ ticket_id)
              (parse_i64 pr_number))) (\<lambda>pr_num.
     bindS (ask (\<lambda>n. wd_merge_pr (cx_world cx) n gh_repo pr_num)) (\<lambda>result.
       if \<not> mg_success result
       then if is_merge_conflict (mg_error_message result)
            then handle_merge_conflict cx ticket_id pr_number (mg_error_message result)
            else handle_merge_rejection cx ticket_id pr_number (mg_error_message result)
       else ret ()))"

definition kill_worker :: "workflow_context \<Rightarrow> string \<Rightarrow> unit server_op" where
  "kill_worker cx worker_id =
     fresh (\<lambda>n. on_pool (\<lambda>e. Failed (''failed to stop worker '' @ worker_id @ '': '' @ wd_show_launch (cx_world cx) e))
       (stop_by_worker_id (x_now (cx_x cx) n) (wd_stop (cx_world cx) n) worker_id))"

definition close_ticket :: "workflow_context \<Rightarrow> string \<Rightarrow> unit server_op" where
  "close_ticket cx ticket_id =
     bindS (fresh (\<lambda>n. on_tickets (update_ticket (x_now (cx_x cx) n) (x_rng (cx_x cx) n) ticket_id
              (TicketUpdate_default\<lparr>tu_status := Some ''closed'', tu_lifecycle_status := Some Done\<rparr>)))) (\<lambda>_. ret ())"

definition pr_already_merged :: "PullRequest \<Rightarrow> bool" where
  "pr_already_merged pr = (pl_state pr = ''closed'' \<or> pl_state pr = ''CLOSED'' \<or> pl_state pr = ''MERGED'')"

definition execute_merge :: "workflow_context \<Rightarrow> string \<Rightarrow> unit server_op" where
  "execute_merge cx ticket_id =
     bindS (load_ticket ticket_id) (\<lambda>_.
     bindS (read_state (\<lambda>st. Inr (get_meta (s_tickets st) ticket_id ''ticket''))) (\<lambda>meta.
     bindS (promote_autoapprove ticket_id meta) (\<lambda>_.
     bindS (load_assigned cx ticket_id ''merge'') (\<lambda>workflow.
     bindS (read_state (\<lambda>_. check_pre_merge_conditions workflow ticket_id)) (\<lambda>_.
     bindS (read_state (\<lambda>_. ok_or_msg (''no pr_number metadata on ticket '' @ ticket_id @ '' '' @ em_dash @ '' cannot merge PR'')
              (meta ''pr_number''))) (\<lambda>pr_number.
     bindS (read_state (\<lambda>_. ok_or_msg (''no gh_repo metadata on ticket '' @ ticket_id @ '' '' @ em_dash @ '' cannot merge PR'')
              (meta ''gh_repo''))) (\<lambda>gh_repo.
     bindS (read_state (\<lambda>_. ok_or_msg (''invalid pr_number '' @ [CHR 0x27] @ pr_number @ [CHR 0x27] @ '' on ticket '' @ ticket_id)
              (parse_i64 pr_number))) (\<lambda>pr_num.
     bindS (ask (\<lambda>n. wd_get_pr (cx_world cx) n gh_repo pr_num)) (\<lambda>pr.
     bindS (kill_worker cx (wf_worker_id workflow)) (\<lambda>_.
     bindS (if pr_already_merged pr then and_log (ask (\<lambda>n. wd_delete_branch (cx_world cx) n gh_repo (pl_head_ref pr)))
            else merge_pr cx ticket_id pr_number gh_repo) (\<lambda>_.
     bindS (and_log (on_workflows (update_workflow_status ticket_id Done))) (\<lambda>_.
     close_ticket cx ticket_id))))))))))))"

subsection \<open>The table of handlers\<close>

definition build_handlers :: "workflow_context \<Rightarrow> handler_entry list" where
  "build_handlers cx =
     [(AwaitingDispatch, \<lambda>_. ret ()), (Implementing, dispatch_implement cx), (Verifying, run_verification cx),
      (Pushing, handle_push cx), (AddressingFeedback, feedback_address cx), (Merging, execute_merge cx),
      (InReview, \<lambda>_. ret ())]"

subsection \<open>Signals of the workers\<close>

definition mark_pending_feedback_comments :: "workflow_context \<Rightarrow> string \<Rightarrow> unit server_op" where
  "mark_pending_feedback_comments cx ticket_id st =
     (let pend = get_pending_feedback_comments (cx_le cx) (s_workflows st) ticket_id in
      if pend = [] then (st, Inr ()) else and_log (on_workflows (mark_feedback_created ticket_id pend)) st)"

definition worker_send_transition :: "string \<Rightarrow> LifecycleStatus \<Rightarrow> unit server_op" where
  "worker_send_transition ticket_id to = send_request ''failed to send transition request: channel closed'' ticket_id to"

definition handle_workflow_step_complete :: "workflow_context \<Rightarrow> string \<Rightarrow> unit server_op" where
  "handle_workflow_step_complete cx worker_id =
     bindS (read_state (\<lambda>st. Inr (ticket_id_by_worker_id (s_workflows st) worker_id))) (\<lambda>assigned.
       case assigned of
         None \<Rightarrow> ret ()
       | Some ticket_id \<Rightarrow>
           bindS (load_workflow cx ticket_id) (\<lambda>workflow.
             case route (wf_status workflow) of
               Advance to \<Rightarrow> worker_send_transition ticket_id to
             | AdvanceByFeedbackMode \<Rightarrow>
                 bindS (mark_pending_feedback_comments cx ticket_id) (\<lambda>_.
                 worker_send_transition ticket_id (if wf_feedback_mode workflow = feedback_NOW then Implementing else Merging))
             | Ignore \<Rightarrow> ret ()))"

definition handle_awaiting_dispatch_readiness :: "workflow_context \<Rightarrow> string \<Rightarrow> unit server_op" where
  "handle_awaiting_dispatch_readiness cx worker_id st =
     (case ticket_id_by_worker_id (s_workflows st) worker_id of
        None \<Rightarrow> (st, Inr ())
      | Some ticket_id \<Rightarrow>
          (case get_workflow_by_ticket (cx_le cx) (s_workflows st) ticket_id of
             Some w \<Rightarrow> (if wf_status w = AwaitingDispatch then worker_send_transition ticket_id Implementing st else (st, Inr ()))
           | None \<Rightarrow> (st, Inr ())))"

definition handle_request_human_activity :: "workflow_context \<Rightarrow> string \<Rightarrow> string \<Rightarrow> unit server_op" where
  "handle_request_human_activity cx worker_id message =
     bindS (read_state (\<lambda>st. Inr (ticket_id_by_worker_id (s_workflows st) worker_id))) (\<lambda>assigned.
       case assigned of
         None \<Rightarrow> ret ()
       | Some ticket_id \<Rightarrow>
           bindS (fresh (\<lambda>n. on_tickets (add_activity (x_uuid (cx_x cx) n) (x_now (cx_x cx) n) ticket_id ''agent'' message))) (\<lambda>activity.
           bindS (on_tickets (set_meta (ac_id activity) ''activity'' ''source'' ''agent'')) (\<lambda>_.
           bindS (on_tickets (set_meta (ac_id activity) ''activity'' ''kind'' ''request-human'')) (\<lambda>_.
           on_workflows (set_workflow_stalled ticket_id message)))))"

text \<open>
  \<open>update_agent_status\<close>: the new status is stored, and the two tasks it may spawn run afterwards.
\<close>

definition update_agent_status :: "workflow_context \<Rightarrow> string \<Rightarrow> string \<Rightarrow> string \<Rightarrow> (server, ticket_error, unit) op" where
  "update_agent_status cx worker_id status message st =
     (case AgentStatus_from_str status of
        Inl e \<Rightarrow> (st, Inl (StatusInvalidArgument e))
      | Inr agent_status \<Rightarrow>
          (case fresh (\<lambda>n. on_workers (update_worker_agent_status (x_now (cx_x cx) n) worker_id agent_status)) st of
             (st', Inl e) \<Rightarrow> (st', Inl (StatusInternal (''failed to update agent status: '' @ error_text (x_show (cx_x cx)) e)))
           | (st', Inr _) \<Rightarrow>
               (let st2 = (if status = ''idle'' then attempt (handle_awaiting_dispatch_readiness cx worker_id) st' else st');
                    st3 = (if status = ''stalled'' \<and> message \<noteq> [] then attempt (handle_request_human_activity cx worker_id message) st2 else st2)
                in (st3, Inr ()))))"

end
