(* ===== verification/Coordinator_Props.thy ===== *)
theory Coordinator_Props
  imports Coordinator
begin

text \<open>
  Properties of the coordinator and of the event engine: which handlers run at the same time,
  what a transition leaves in the stores, what happens to intents, and that the engine empties
  the event queue.
\<close>

subsection \<open>One handler per ticket\<close>

definition live :: "coordinator \<Rightarrow> task list" where
  "live c = filter (\<lambda>j. \<not> j_aborted j) (c_tasks c)"

text \<open>
  Every running task is the one recorded for its ticket, and its ticket has no completion
  waiting to be read.
\<close>

definition one_per_ticket :: "coordinator \<Rightarrow> bool" where
  "one_per_ticket c =
     (distinct (map j_handle (c_tasks c)) \<and> (\<forall>j \<in> set (c_tasks c). j_handle j < c_spawned c) \<and>
      distinct (map j_ticket (live c)) \<and> distinct (c_completions c) \<and>
      (\<forall>j \<in> set (live c). j_ticket j \<notin> set (c_completions c) \<and>
         (\<exists>slot. c_in_flight c (j_ticket j) = Some slot \<and> ts_handle slot = j_handle j)))"

text \<open>A slot may only hold a pending request of its own ticket.\<close>

definition pending_own :: "coordinator \<Rightarrow> bool" where
  "pending_own c = (\<forall>t slot r. c_in_flight c t = Some slot \<longrightarrow> ts_pending slot = Some r \<longrightarrow> tr_ticket_id r = t)"

definition serialized :: "coordinator \<Rightarrow> bool" where
  "serialized c = (one_per_ticket c \<and> pending_own c)"

lemma set_live: "j \<in> set (live c) \<longleftrightarrow> j \<in> set (c_tasks c) \<and> \<not> j_aborted j"
  by (auto simp: live_def)

lemma live_spawn [simp]:
  "live (spawn_handler_task t s c) =
     live c @ [\<lparr>j_handle = c_spawned c, j_ticket = t, j_target = s, j_aborted = False\<rparr>]"
  by (simp add: live_def spawn_handler_task_def)

lemma serialized_spawn:
  assumes "serialized c" "t \<notin> j_ticket ` set (live c)" "t \<notin> set (c_completions c)"
  shows "serialized (spawn_handler_task t s c)"
  using assms
  by (auto simp: serialized_def one_per_ticket_def pending_own_def spawn_handler_task_def live_def image_iff less_Suc_eq)

lemma serialized_store [simp]:
  "serialized (c\<lparr>c_server := st\<rparr>) = serialized c"
  by (simp add: serialized_def one_per_ticket_def pending_own_def live_def)

lemma free_ticket:
  "serialized c \<Longrightarrow> c_in_flight c t = None \<Longrightarrow> t \<notin> j_ticket ` set (live c)"
  by (force simp: serialized_def one_per_ticket_def)

lemma serialized_request:
  assumes "serialized c" "c_completions c = []"
  shows "serialized (handle_request x r c)"
proof (cases "c_in_flight c (tr_ticket_id r)")
  case None
  have "serialized (spawn_handler_task (tr_ticket_id r) (tr_target_status r) (c\<lparr>c_server := st\<rparr>))" for st
    using assms free_ticket [OF assms(1) None] by (intro serialized_spawn) (simp_all add: live_def)
  then show ?thesis
    using None assms by (auto simp: handle_request_def Let_def split: prod.splits sum.splits)
next
  case (Some slot)
  have "serialized (c\<lparr>c_server := st, c_in_flight := (c_in_flight c)(tr_ticket_id r \<mapsto> slot\<lparr>ts_pending := Some r\<rparr>)\<rparr>)" for st
    using assms Some
    by (fastforce simp: serialized_def one_per_ticket_def pending_own_def live_def)
  then show ?thesis
    using Some assms by (auto simp: handle_request_def Let_def split: prod.splits sum.splits)
qed

lemma serialized_completion:
  assumes "serialized c" "c_completions c = t # ts"
  shows "serialized (handle_completion t (c\<lparr>c_completions := ts\<rparr>))"
proof -
  let ?c = "c\<lparr>c_completions := ts\<rparr>"
  have base: "serialized ?c" "t \<notin> set ts" "t \<notin> j_ticket ` set (live c)"
    using assms by (auto simp: serialized_def one_per_ticket_def pending_own_def live_def)
  have removed: "serialized (?c\<lparr>c_in_flight := (c_in_flight c)(t := None)\<rparr>)"
    using base by (fastforce simp: serialized_def one_per_ticket_def pending_own_def live_def)
  show ?thesis
  proof (cases "c_in_flight c t")
    case None
    then show ?thesis
      using base by (simp add: handle_completion_def)
  next
    case (Some slot)
    show ?thesis
    proof (cases "ts_pending slot")
      case None
      then show ?thesis
        using Some removed by (simp add: handle_completion_def)
    next
      case pending: (Some r)
      have "tr_ticket_id r = t"
        using assms Some pending by (auto simp: serialized_def pending_own_def)
      then show ?thesis
        using Some pending base serialized_spawn [OF removed, of t "tr_target_status r"]
        by (simp add: handle_completion_def live_def)
    qed
  qed
qed

lemma live_abort [simp]:
  "live (c\<lparr>c_tasks := abort h (c_tasks c)\<rparr>) = filter (\<lambda>j. j_handle j \<noteq> h) (live c)"
proof -
  have "filter (\<lambda>j. \<not> j_aborted j) (abort h js) = filter (\<lambda>j. j_handle j \<noteq> h) (filter (\<lambda>j. \<not> j_aborted j) js)" for js
    by (induction js) (auto simp: abort_def)
  then show ?thesis
    by (simp add: live_def)
qed

lemma serialized_cancel:
  assumes "serialized c"
  shows "serialized (handle_cancel t c)"
proof (cases "c_in_flight c t")
  case (Some slot)
  let ?d = "c\<lparr>c_in_flight := (c_in_flight c)(t := None), c_tasks := abort (ts_handle slot) (c_tasks c)\<rparr>"
  have live: "live ?d = filter (\<lambda>j. j_handle j \<noteq> ts_handle slot) (live c)"
    using live_abort [of "ts_handle slot" c] by (simp add: live_def)
  have other: "j_ticket j \<noteq> t" if "j \<in> set (live c)" "j_handle j \<noteq> ts_handle slot" for j
    using assms Some that by (force simp: serialized_def one_per_ticket_def)
  have handles: "map j_handle (c_tasks ?d) = map j_handle (c_tasks c)"
    "j_handle ` set (c_tasks ?d) = j_handle ` set (c_tasks c)"
    by (simp_all add: abort_def map_update_where flip: set_map)
  have "one_per_ticket ?d"
  proof (unfold one_per_ticket_def live, intro conjI ballI)
    show "distinct (map j_handle (c_tasks ?d))"
      using assms handles by (simp add: serialized_def one_per_ticket_def)
    show "j_handle j < c_spawned ?d" if "j \<in> set (c_tasks ?d)" for j
    proof -
      have "j_handle j \<in> j_handle ` set (c_tasks c)"
        using that handles(2) by (metis imageI)
      then show ?thesis
        using assms by (auto simp: serialized_def one_per_ticket_def)
    qed
    show "distinct (map j_ticket (filter (\<lambda>j. j_handle j \<noteq> ts_handle slot) (live c)))"
      using assms by (simp add: serialized_def one_per_ticket_def distinct_map_filter)
    show "distinct (c_completions ?d)"
      using assms by (simp add: serialized_def one_per_ticket_def)
    fix j
    assume j: "j \<in> set (filter (\<lambda>j. j_handle j \<noteq> ts_handle slot) (live c))"
    show "j_ticket j \<notin> set (c_completions ?d)"
      using assms j by (simp add: serialized_def one_per_ticket_def)
    show "\<exists>slot. c_in_flight ?d (j_ticket j) = Some slot \<and> ts_handle slot = j_handle j"
      using assms j other [of j] by (simp add: serialized_def one_per_ticket_def)
  qed
  moreover have "pending_own ?d"
    using assms by (auto simp: serialized_def pending_own_def)
  ultimately show ?thesis
    using Some by (simp add: handle_cancel_def serialized_def)
qed (simp add: handle_cancel_def assms)

lemma serialized_delete:
  assumes "serialized c"
  shows "serialized (c\<lparr>c_tasks := delete_where P (c_tasks c)\<rparr>)"
proof -
  have "live (c\<lparr>c_tasks := delete_where P (c_tasks c)\<rparr>) = filter (\<lambda>j. \<not> P j) (live c)"
    by (simp add: live_def delete_where_def filter_filter conj_commute)
  then show ?thesis
    using assms
    by (auto simp: serialized_def one_per_ticket_def pending_own_def distinct_map_filter delete_where_def)
qed

lemma serialized_end_task:
  assumes "serialized c" "j \<in> set (live c)"
  shows "serialized (end_task x hs j c)"
proof -
  let ?d = "c\<lparr>c_tasks := delete_where (\<lambda>i. j_handle i = j_handle j) (c_tasks c)\<rparr>"
  have inv: "serialized ?d"
    by (rule serialized_delete [OF assms(1)])
  have live: "live ?d = filter (\<lambda>i. j_handle i \<noteq> j_handle j) (live c)"
    by (simp add: live_def delete_where_def filter_filter conj_commute)
  have "j_ticket i \<noteq> j_ticket j" if "i \<in> set (live ?d)" for i
    using assms that live
    by (auto simp: serialized_def one_per_ticket_def distinct_map dest: inj_onD)
  moreover have "j_ticket j \<notin> set (c_completions c)"
    using assms by (auto simp: serialized_def one_per_ticket_def)
  ultimately have "serialized (?d\<lparr>c_completions := c_completions c @ [j_ticket j]\<rparr>)"
    using inv by (auto simp: serialized_def one_per_ticket_def pending_own_def live_def)
  then show ?thesis
    using inv by (auto simp: end_task_def serialized_def one_per_ticket_def pending_own_def live_def split: prod.splits sum.splits)
qed

lemma serialized_turn:
  assumes "serialized c" "run_turn x c = Some c'"
  shows "serialized c'"
  using assms
  by (auto simp: run_turn_def serialized_cancel serialized_completion serialized_request split: list.splits)

lemma serialized_step: "coord_step False x hs c c' \<Longrightarrow> serialized c \<Longrightarrow> serialized c'"
  by (induction rule: coord_step.induct)
     (auto simp: serialized_turn serialized_end_task serialized_delete set_live)

text \<open>A ticket is stalled when its active workflow is.\<close>

definition stalled_ticket :: "setting \<Rightarrow> server \<Rightarrow> string \<Rightarrow> bool" where
  "stalled_ticket x st t =
     (case get_workflow_by_ticket (x_le x) (s_workflows st) t of Some w \<Rightarrow> wf_stalled w | None \<Rightarrow> False)"

definition recovered_intents :: "setting \<Rightarrow> server \<Rightarrow> WorkflowIntent list" where
  "recovered_intents x st =
     filter (\<lambda>i. \<not> stalled_ticket x st (wi_ticket_id i)) (list_intents (x_le x) (s_workflows st))"

lemma delete_intent_keeps_workflows: "w_workflow (fst (delete_intent i db)) = w_workflow db"
  by (simp add: delete_intent_def run_wf_def Let_def)

lemma stalled_ticket_delete [simp]:
  "stalled_ticket x (attempt (on_workflows (delete_intent i)) st) t = stalled_ticket x st t"
  by (simp add: stalled_ticket_def attempt_def on_workflows_def workflows_part.on_part_state
      get_workflow_by_ticket_def get_workflow_by_ticket_inner_def delete_intent_keeps_workflows Let_def)

lemma stalled_ticket_spawn [simp]: "c_server (spawn_handler_task t s c) = c_server c"
  by (simp add: spawn_handler_task_def)

lemma recover_intents_Cons:
  "recover_intents x (i # is) c =
     recover_intents x is
       (if stalled_ticket x (c_server c) (wi_ticket_id i)
        then c\<lparr>c_server := attempt (on_workflows (delete_intent (wi_id i))) (c_server c)\<rparr>
        else spawn_handler_task (wi_ticket_id i) (wi_target_status i) c)"
  by (simp add: stalled_ticket_def Let_def)

lemma recover_intents_tasks:
  "map (\<lambda>j. (j_ticket j, j_target j, j_aborted j)) (c_tasks (recover_intents x is c)) =
     map (\<lambda>j. (j_ticket j, j_target j, j_aborted j)) (c_tasks c) @
     map (\<lambda>i. (wi_ticket_id i, wi_target_status i, False)) (filter (\<lambda>i. \<not> stalled_ticket x (c_server c) (wi_ticket_id i)) is)"
proof (induction "is" arbitrary: c)
  case (Cons i "is")
  show ?case
    by (subst recover_intents_Cons) (auto simp: Cons.IH spawn_handler_task_def)
qed simp

lemma spawn_completions: "c_completions (spawn_handler_task t s c) = c_completions c"
  by (simp add: spawn_handler_task_def)

lemma recover_intents_serialized:
  assumes "serialized c" "c_completions c = []"
    and "distinct (map wi_ticket_id (filter (\<lambda>i. \<not> stalled_ticket x (c_server c) (wi_ticket_id i)) is))"
    and "\<forall>i \<in> set is. stalled_ticket x (c_server c) (wi_ticket_id i) \<or> wi_ticket_id i \<notin> j_ticket ` set (live c)"
  shows "serialized (recover_intents x is c)"
  using assms
proof (induction "is" arbitrary: c)
  case (Cons i "is")
  show ?case
  proof (cases "stalled_ticket x (c_server c) (wi_ticket_id i)")
    case True
    then show ?thesis
      using Cons.prems by (subst recover_intents_Cons) (auto intro!: Cons.IH simp: live_def)
  next
    case False
    let ?d = "spawn_handler_task (wi_ticket_id i) (wi_target_status i) c"
    have "serialized ?d"
      using Cons.prems False by (intro serialized_spawn) auto
    moreover have "\<forall>k \<in> set is. stalled_ticket x (c_server ?d) (wi_ticket_id k) \<or> wi_ticket_id k \<notin> j_ticket ` set (live ?d)"
      using Cons.prems(3,4) False by (auto simp: image_iff)
    ultimately have "serialized (recover_intents x is ?d)"
      using Cons.prems(2,3) False by (intro Cons.IH) (simp_all add: spawn_completions)
    then show ?thesis
      using False by (subst recover_intents_Cons) simp
  qed
qed simp

text \<open>
  On a restart the coordinator spawns one task for every intent left in the store whose
  ticket is not stalled, in the order of the intents; nothing merges the intents of one ticket,
  so two of them run at the same time.
\<close>

lemma recover_spawns_every_intent:
  "map (\<lambda>j. (j_ticket j, j_target j)) (live (recover x (coordinator_new st))) =
     map (\<lambda>i. (wi_ticket_id i, wi_target_status i))
       (filter (\<lambda>i. \<not> stalled_ticket x st (wi_ticket_id i)) (list_intents (x_le x) (s_workflows st)))"
proof -
  let ?js = "c_tasks (recover x (coordinator_new st))"
  have tasks: "map (\<lambda>j. (j_ticket j, j_target j, j_aborted j)) ?js =
      map (\<lambda>i. (wi_ticket_id i, wi_target_status i, False)) (recovered_intents x st)"
    using recover_intents_tasks [of x "list_intents (x_le x) (s_workflows st)" "coordinator_new st"]
    by (simp add: recover_def coordinator_new_def recovered_intents_def)
  then have "(\<lambda>j. (j_ticket j, j_target j, j_aborted j)) ` set ?js \<subseteq> {(t, s, b). \<not> b}"
    by (metis (no_types, lifting) image_set image_subset_iff case_prod_conv mem_Collect_eq)
  then have "live (recover x (coordinator_new st)) = ?js"
    by (auto simp: live_def filter_id_conv)
  moreover have "map (\<lambda>j. (j_ticket j, j_target j)) ?js = map (\<lambda>(t, s, b). (t, s)) (map (\<lambda>j. (j_ticket j, j_target j, j_aborted j)) ?js)"
    by simp
  ultimately show ?thesis
    using tasks by (simp add: recovered_intents_def)
qed

text \<open>A start where no ticket has two intents to resume.\<close>

definition coord_init :: "setting \<Rightarrow> coordinator \<Rightarrow> bool" where
  "coord_init x c = (\<exists>st. c = recover x (coordinator_new st) \<and> distinct (map wi_ticket_id (recovered_intents x st)))"

lemma coordinator_new_simps [simp]:
  "serialized (coordinator_new st)" "live (coordinator_new st) = []" "c_completions (coordinator_new st) = []"
  "c_server (coordinator_new st) = st"
  by (simp_all add: coordinator_new_def serialized_def one_per_ticket_def pending_own_def live_def)

lemma coord_init_serialized: "coord_init x c \<Longrightarrow> serialized c"
  by (auto simp: coord_init_def recover_def recovered_intents_def intro!: recover_intents_serialized)

interpretation serial: transition_system "coord_init x" "coord_step False x hs" serialized for x hs
  by unfold_locales (auto intro: coord_init_serialized serialized_step)

text \<open>
  C1: started with at most one intent to resume per ticket, and with aborted tasks stopping at
  once, the coordinator never has two handlers of one ticket running, whatever the order of
  requests, cancellations and ends of handlers.
\<close>

theorem handlers_serialized:
  assumes "reachable_from (coord_init x) (coord_step False x hs) c"
    and "i \<in> set (live c)" and "j \<in> set (live c)" and "j_ticket i = j_ticket j"
  shows "i = j"
proof -
  have "distinct (map j_ticket (live c))"
    using serial.inv_reachable [OF assms(1)] by (simp add: serialized_def one_per_ticket_def)
  then show ?thesis
    using assms(2-4) by (auto simp: distinct_map dest: inj_onD)
qed

subsection \<open>A handler that panics\<close>

text \<open>No task of the ticket exists and nothing that could remove its slot is on its way.\<close>

definition stuck :: "string \<Rightarrow> coordinator \<Rightarrow> bool" where
  "stuck t c = (pending_own c \<and> c_in_flight c t \<noteq> None \<and> t \<notin> j_ticket ` set (c_tasks c) \<and>
     t \<notin> set (c_completions c) \<and> t \<notin> set (s_cancels (c_server c)))"

lemma stuck_turn:
  assumes "stuck t c" "run_turn x c = Some c'" "t \<notin> set (s_cancels (c_server c'))"
  shows "stuck t c'"
proof (cases "s_cancels (c_server c)")
  case (Cons u us)
  then have c': "c' = handle_cancel u (c\<lparr>c_server := (c_server c)\<lparr>s_cancels := us\<rparr>\<rparr>)" "t \<noteq> u"
    using assms by (auto simp: run_turn_def stuck_def)
  have "j_ticket ` set (abort h js) = j_ticket ` set js" for h js
    by (simp add: abort_def map_update_where flip: set_map)
  then show ?thesis
    using assms c' Cons by (auto simp: stuck_def handle_cancel_def pending_own_def split: option.splits if_splits)
next
  case cancels: Nil
  show ?thesis
  proof (cases "c_completions c")
    case (Cons u us)
    then have c': "c' = handle_completion u (c\<lparr>c_completions := us\<rparr>)" "t \<noteq> u"
      using assms cancels by (auto simp: run_turn_def stuck_def)
    show ?thesis
      using assms(1,3) c' Cons
      by (auto simp: stuck_def handle_completion_def pending_own_def spawn_handler_task_def Let_def split: option.splits if_splits)
  next
    case Nil
    then obtain r rs where c': "c' = handle_request x r (c\<lparr>c_server := (c_server c)\<lparr>s_requests := rs\<rparr>\<rparr>)"
      using assms cancels by (auto simp: run_turn_def split: list.splits)
    show ?thesis
      using assms(1,3) unfolding c'
      by (auto simp: stuck_def handle_request_def pending_own_def spawn_handler_task_def Let_def
          split: option.splits if_splits prod.splits sum.splits)
  qed
qed

lemma stuck_step:
  assumes "coord_step late_abort x hs c c'" "t \<notin> set (s_cancels (c_server c'))" "stuck t c"
  shows "stuck t c'"
  using assms
proof (induction rule: coord_step.induct)
  case (turn c c')
  then show ?case by (metis stuck_turn)
next
  case (task_ends j c)
  then show ?case
    by (auto simp: stuck_def end_task_def pending_own_def split: prod.splits sum.splits)
qed (auto simp: stuck_def pending_own_def)


subsection \<open>Latest request wins\<close>

lemma create_intent_ok:
  assumes "wf_schema_ok db" "uuid \<notin> ir_id ` set (w_intent db)"
  shows "create_intent uuid now t s db =
    (db\<lparr>w_intent := w_intent db @ [\<lparr>ir_id = uuid, ir_ticket_id = t, ir_target_status = LifecycleStatus_as_str s, ir_created_at = now\<rparr>]\<rparr>,
     Inr \<lparr>wi_id = uuid, wi_ticket_id = t, wi_target_status = s, wi_created_at = now\<rparr>)"
proof -
  let ?row = "\<lparr>ir_id = uuid, ir_ticket_id = t, ir_target_status = LifecycleStatus_as_str s, ir_created_at = now\<rparr>"
  have "wf_schema_ok (db\<lparr>w_intent := w_intent db @ [?row]\<rparr>)"
    using assms by (auto simp: wf_schema_defs)
  then show ?thesis
    unfolding create_intent_def by (simp add: workflow_store.accepted)
qed

text \<open>The next id is not that of a stored intent, now or after any number of readings.\<close>

definition fresh_ids :: "setting \<Rightarrow> server \<Rightarrow> bool" where
  "fresh_ids x st = (inj (x_uuid x) \<and> (\<forall>n \<ge> s_tick st. x_uuid x n \<notin> ir_id ` set (w_intent (s_workflows st))))"

lemma handle_request_pending:
  assumes "wf_schema_ok (s_workflows (c_server c))" "fresh_ids x (c_server c)"
    and "c_in_flight c (tr_ticket_id r) = Some slot"
  shows "c_in_flight (handle_request x r c) = (c_in_flight c)(tr_ticket_id r \<mapsto> slot\<lparr>ts_pending := Some r\<rparr>) \<and>
    c_tasks (handle_request x r c) = c_tasks c \<and>
    wf_schema_ok (s_workflows (c_server (handle_request x r c))) \<and> fresh_ids x (c_server (handle_request x r c))"
proof -
  let ?st = "c_server c"
  let ?n = "s_tick ?st"
  let ?row = "\<lparr>ir_id = x_uuid x ?n, ir_ticket_id = tr_ticket_id r,
    ir_target_status = LifecycleStatus_as_str (tr_target_status r), ir_created_at = x_now x ?n\<rparr>"
  let ?db = "(s_workflows ?st)\<lparr>w_intent := w_intent (s_workflows ?st) @ [?row]\<rparr>"
  have new: "x_uuid x ?n \<notin> ir_id ` set (w_intent (s_workflows ?st))"
    using assms(2) by (simp add: fresh_ids_def)
  have req: "handle_request x r c = c\<lparr>c_server := ?st\<lparr>s_tick := Suc ?n, s_workflows := ?db\<rparr>,
      c_in_flight := (c_in_flight c)(tr_ticket_id r \<mapsto> slot\<lparr>ts_pending := Some r\<rparr>)\<rparr>"
    using assms(3) create_intent_ok [OF assms(1) new]
    by (simp add: handle_request_def fresh_def on_workflows_def on_part_def Let_def)
  have "wf_schema_ok ?db"
    using assms(1) new by (auto simp: wf_schema_defs)
  moreover have "fresh_ids x (?st\<lparr>s_tick := Suc ?n, s_workflows := ?db\<rparr>)"
    using assms(2) by (auto simp: fresh_ids_def dest: injD)
  ultimately show ?thesis
    by (simp add: req)
qed

lemma handle_requests_pending:
  assumes "rs \<noteq> []" "\<forall>r \<in> set rs. tr_ticket_id r = t" "wf_schema_ok (s_workflows (c_server c))"
    and "fresh_ids x (c_server c)" "c_in_flight c t = Some slot"
  shows "c_in_flight (fold (handle_request x) rs c) = (c_in_flight c)(t \<mapsto> slot\<lparr>ts_pending := Some (last rs)\<rparr>) \<and>
    c_tasks (fold (handle_request x) rs c) = c_tasks c"
  using assms
proof (induction rs arbitrary: c slot)
  case (Cons r rs)
  note one = handle_request_pending [where c = c and x = x and r = r and slot = slot]
  show ?case
    using Cons.prems one Cons.IH [of "handle_request x r c" "slot\<lparr>ts_pending := Some r\<rparr>"] by (cases rs) auto
qed simp

text \<open>
  C10: requests for a ticket whose handler is running spawn nothing and replace each other; when
  the handler's completion is read, exactly the last of them is spawned and the others are
  dropped.
\<close>

theorem latest_request_wins:
  assumes "rs \<noteq> []" and "\<forall>r \<in> set rs. tr_ticket_id r = t"
    and "wf_schema_ok (s_workflows (c_server c))" and "fresh_ids x (c_server c)"
    and "c_in_flight c t = Some slot"
  shows "let c' = fold (handle_request x) rs c in
    c_tasks c' = c_tasks c \<and>
    (\<exists>j. c_tasks (handle_completion t c') = c_tasks c @ [j] \<and> j_ticket j = t \<and> j_target j = tr_target_status (last rs))"
proof -
  have "tr_ticket_id (last rs) = t"
    using assms(1,2) by simp
  then show ?thesis
    using handle_requests_pending [OF assms]
    by (simp add: Let_def handle_completion_def spawn_handler_task_def)
qed

subsection \<open>Intents after a handler\<close>

lemma delete_intent_ok:
  assumes "wf_schema_ok db"
  shows "delete_intent i db = (db\<lparr>w_intent := delete_where (\<lambda>r. ir_id r = i) (w_intent db)\<rparr>, Inr ())"
proof -
  have "wf_schema_ok (db\<lparr>w_intent := delete_where (\<lambda>r. ir_id r = i) (w_intent db)\<rparr>)"
    using assms by (auto simp: wf_schema_defs)
  then show ?thesis
    unfolding delete_intent_def by (rule workflow_store.accepted)
qed

lemma attempt_delete_intent:
  assumes "wf_schema_ok (s_workflows st)"
  shows "attempt (on_workflows (delete_intent i)) st =
    st\<lparr>s_workflows := (s_workflows st)\<lparr>w_intent := delete_where (\<lambda>r. ir_id r = i) (w_intent (s_workflows st))\<rparr>\<rparr>"
  using delete_intent_ok [OF assms] by (simp add: attempt_def on_workflows_def on_part_def)

lemma delete_matching_intents_effect:
  assumes "wf_schema_ok (s_workflows st)"
  shows "delete_matching_intents t s is st =
    st\<lparr>s_workflows := (s_workflows st)\<lparr>w_intent := delete_where
      (\<lambda>r. \<exists>i \<in> set is. wi_id i = ir_id r \<and> wi_ticket_id i = t \<and> wi_target_status i = s) (w_intent (s_workflows st))\<rparr>\<rparr>"
  using assms
proof (induction "is" arbitrary: st)
  case Nil
  then show ?case by (simp add: delete_where_def)
next
  case (Cons i "is")
  let ?db = "(s_workflows st)\<lparr>w_intent := delete_where (\<lambda>r. ir_id r = wi_id i) (w_intent (s_workflows st))\<rparr>"
  have ok: "wf_schema_ok ?db"
    using Cons.prems by (auto simp: wf_schema_defs)
  show ?case
  proof (cases "wi_ticket_id i = t \<and> wi_target_status i = s")
    case True
    then show ?thesis
      using Cons.prems ok
      by (simp add: attempt_delete_intent Cons.IH delete_where_def filter_filter)
         (rule arg_cong [where f = "\<lambda>xs. st\<lparr>s_workflows := (s_workflows st)\<lparr>w_intent := xs\<rparr>\<rparr>"], rule filter_cong, auto)
  next
    case False
    then have "(\<lambda>r :: intent_row. \<exists>j \<in> set (i # is). wi_id j = ir_id r \<and> wi_ticket_id j = t \<and> wi_target_status j = s) =
        (\<lambda>r. \<exists>j \<in> set is. wi_id j = ir_id r \<and> wi_ticket_id j = t \<and> wi_target_status j = s)"
      by auto
    then show ?thesis
      using False Cons.prems by (simp only: delete_matching_intents.simps if_False Cons.IH)
  qed
qed

text \<open>The intents of a ticket for a target status.\<close>

definition intents_for :: "string \<Rightarrow> LifecycleStatus \<Rightarrow> workflow_db \<Rightarrow> intent_row list" where
  "intents_for t s db = filter (\<lambda>r. ir_ticket_id r = t \<and> parse_lifecycle (ir_target_status r) = s) (w_intent db)"

lemma cleanup_intent_effect:
  assumes "wf_schema_ok (s_workflows st)"
  shows "cleanup_intent x t s st =
    st\<lparr>s_workflows := (s_workflows st)\<lparr>w_intent := delete_where
      (\<lambda>r. ir_ticket_id r = t \<and> parse_lifecycle (ir_target_status r) = s) (w_intent (s_workflows st))\<rparr>\<rparr>"
proof -
  have dist: "distinct (map ir_id (w_intent (s_workflows st)))"
    using assms by (simp add: wf_schema_defs)
  have "(\<exists>i \<in> set (list_intents (x_le x) (s_workflows st)). wi_id i = ir_id r \<and> wi_ticket_id i = t \<and> wi_target_status i = s) \<longleftrightarrow>
      ir_ticket_id r = t \<and> parse_lifecycle (ir_target_status r) = s" if "r \<in> set (w_intent (s_workflows st))" for r
    using that dist by (auto simp: list_intents_def intent_from_row_def dest: distinct_key_unique)
  then show ?thesis
    unfolding cleanup_intent_def delete_matching_intents_effect [OF assms] delete_where_def
    by (simp cong: filter_cong)
qed

subsection \<open>A transition\<close>

lemma delete_events_ok:
  assumes "wf_schema_ok db"
  shows "delete_workflow_events_for_ticket t db = (db\<lparr>w_queue := delete_where (\<lambda>q. qr_ticket_id q = t) (w_queue db)\<rparr>, Inr ())"
proof -
  have "wf_schema_ok (db\<lparr>w_queue := delete_where (\<lambda>q. qr_ticket_id q = t) (w_queue db)\<rparr>)"
    using assms by (auto simp: wf_schema_defs)
  then show ?thesis
    unfolding delete_workflow_events_for_ticket_def by (rule workflow_store.accepted)
qed

lemma emit_workflow_event_frame:
  assumes "wf_schema_ok (s_workflows st)"
  shows "wf_schema_ok (s_workflows (emit_workflow_event x t s st))"
    and "\<exists>evs. s_workflows (emit_workflow_event x t s st) = (s_workflows st)\<lparr>w_events := evs\<rparr>"
    and "s_tickets (emit_workflow_event x t s st) = s_tickets st"
    and "s_requests (emit_workflow_event x t s st) = s_requests st"
    and "s_pool (emit_workflow_event x t s st) = s_pool st"
proof -
  have stmt: "wf_schema_ok (fst (insert_workflow_event u n w k (s_workflows st)))"
    "\<exists>evs. fst (insert_workflow_event u n w k (s_workflows st)) = (s_workflows st)\<lparr>w_events := evs\<rparr>" for u n w k
    using workflow_store.stmt_preserves assms
    by (auto simp: insert_workflow_event_def preserves_def run_wf_def Let_def
        intro: exI [of _ "w_events (s_workflows st)"])
  show "wf_schema_ok (s_workflows (emit_workflow_event x t s st))"
    "\<exists>evs. s_workflows (emit_workflow_event x t s st) = (s_workflows st)\<lparr>w_events := evs\<rparr>"
    "s_tickets (emit_workflow_event x t s st) = s_tickets st"
    "s_requests (emit_workflow_event x t s st) = s_requests st"
    "s_pool (emit_workflow_event x t s st) = s_pool st"
    using stmt assms
    by (auto simp: emit_workflow_event_def attempt_def fresh_def on_workflows_def workflows_part.on_part_state
        split: option.splits intro: exI [of _ "w_events (s_workflows st)"])
qed

text \<open>
  C9: before a transition's handler runs, the stores agree on the new status: the ticket's row and
  its active workflows carry it, no queued event of the ticket is left for the engine, and the
  intents are still there, so that a crash from here on resumes the transition.
\<close>

theorem enter_status_effect:
  assumes "wf_schema_ok (s_workflows st)" and "schema_ok (s_tickets st)"
    and "get_ticket (s_tickets st) t = Some ticket"
  shows "let st' = enter_status x t s st in
    get_ticket (s_tickets st') t \<noteq> None \<and>
    tk_lifecycle_status (the (get_ticket (s_tickets st') t)) = s \<and>
    w_workflow (s_workflows st') = update_where (\<lambda>w. wr_ticket_id w = t \<and> active_row w)
      (\<lambda>w. w\<lparr>wr_status := LifecycleStatus_as_str s\<rparr>) (w_workflow (s_workflows st)) \<and>
    w_queue (s_workflows st') = delete_where (\<lambda>q. qr_ticket_id q = t) (w_queue (s_workflows st)) \<and>
    w_intent (s_workflows st') = w_intent (s_workflows st) \<and>
    s_requests st' = s_requests st \<and> s_pool st' = s_pool st"
proof -
  let ?u = "TicketUpdate_default\<lparr>tu_lifecycle_status := Some s\<rparr>"
  let ?n = "s_tick st"
  let ?row = "merged_row ticket ?u t (x_now x ?n)"
  let ?ws = "(s_workflows st)\<lparr>w_workflow := update_where (\<lambda>w. wr_ticket_id w = t \<and> active_row w)
      (\<lambda>w. w\<lparr>wr_status := LifecycleStatus_as_str s\<rparr>) (w_workflow (s_workflows st))\<rparr>"
  let ?ts = "write_row t ?row (s_tickets st)"
  let ?st3 = "st\<lparr>s_tick := Suc ?n, s_tickets := ?ts,
      s_workflows := ?ws\<lparr>w_queue := delete_where (\<lambda>q. qr_ticket_id q = t) (w_queue (s_workflows st))\<rparr>\<rparr>"
  have upd: "update_workflow_status t s (s_workflows st) = (?ws, Inr ())"
    using update_active_ok [of "s_workflows st" "\<lambda>w. w\<lparr>wr_status := LifecycleStatus_as_str s\<rparr>" t] assms(1)
    by (simp add: update_workflow_status_def wf_schema_ok_def wf_int_ok_def)
  have "wf_schema_ok (fst (update_workflow_status t s (s_workflows st)))"
    unfolding update_workflow_status_def update_active_def
    by (rule preservesD [OF workflow_store.stmt_preserves assms(1)])
  then have ws: "wf_schema_ok ?ws"
    by (simp add: upd)
  have tkt: "update_ticket (x_now x ?n) (x_rng x ?n) t ?u (s_tickets st) = (?ts, Inr (ticket_from_row ?row 0 0))"
    "List.find (\<lambda>r. et_id r = t) (db_ticket ?ts) = Some ?row"
    using update_ticket_writes [where u = ?u, OF assms(2,3)] by (simp_all add: TicketUpdate_default_def)
  have "enter_status x t s st = emit_workflow_event x t s ?st3"
    using upd tkt(1) delete_events_ok [OF ws]
    by (simp add: enter_status_def attempt_def fresh_def on_workflows_def on_tickets_def on_part_def Let_def)
  moreover have "wf_schema_ok (s_workflows ?st3)"
    using ws by (auto simp: wf_schema_defs)
  moreover have "get_ticket ?ts t = Some (row_with_counts (db_ticket ?ts) ?row)"
    using tkt(2) by (simp add: get_ticket_def)
  moreover have "tk_lifecycle_status (row_with_counts (db_ticket ?ts) ?row) = s"
    by (simp add: row_with_counts_def ticket_from_row_def merged_row_def)
  ultimately show ?thesis
    using emit_workflow_event_frame [of ?st3 x t s] by (auto simp: Let_def)
qed

lemma stalled_effect:
  assumes "wf_schema_ok (s_workflows st)"
  shows "attempt (on_workflows (set_workflow_stalled t m)) st =
      st\<lparr>s_workflows := (s_workflows st)\<lparr>w_workflow := update_where (\<lambda>w. wr_ticket_id w = t \<and> active_row w)
        (\<lambda>w. w\<lparr>wr_stalled := True, wr_stall_reason := m\<rparr>) (w_workflow (s_workflows st))\<rparr>\<rparr>"
    and "wf_schema_ok (s_workflows (attempt (on_workflows (set_workflow_stalled t m)) st))"
proof -
  show "attempt (on_workflows (set_workflow_stalled t m)) st =
      st\<lparr>s_workflows := (s_workflows st)\<lparr>w_workflow := update_where (\<lambda>w. wr_ticket_id w = t \<and> active_row w)
        (\<lambda>w. w\<lparr>wr_stalled := True, wr_stall_reason := m\<rparr>) (w_workflow (s_workflows st))\<rparr>\<rparr>"
    using update_active_ok [of "s_workflows st" "\<lambda>w. w\<lparr>wr_stalled := True, wr_stall_reason := m\<rparr>" t] assms
    by (simp add: set_workflow_stalled_def attempt_def on_workflows_def on_part_def wf_schema_ok_def wf_int_ok_def)
  show "wf_schema_ok (s_workflows (attempt (on_workflows (set_workflow_stalled t m)) st))"
    using workflow_store.stmt_preserves assms
    by (simp add: set_workflow_stalled_def update_active_def attempt_def on_workflows_def
        workflows_part.on_part_state preserves_def)
qed

text \<open>
  C8: how a transition ends. When the handler succeeds, the state is the one the handler left, less
  every intent of this ticket and target; when it fails, moreover every active workflow of the
  ticket is stalled with the error's text. In both cases no such intent is left, also not that of
  the same transition requested again while the handler ran. Only a panic leaves the intents.
\<close>

theorem run_handler_outcome:
  assumes "wf_schema_ok (s_workflows (fst (h t (enter_status x t s st))))"
  shows "case h t (enter_status x t s st) of
       (st', Inl Panicked) \<Rightarrow> run_handler x (Some h) t s st = (st', Inl Panicked)
     | (st', Inr _) \<Rightarrow>
         run_handler x (Some h) t s st =
         (st'\<lparr>s_workflows := (s_workflows st')\<lparr>w_intent :=
           delete_where (\<lambda>r. ir_ticket_id r = t \<and> parse_lifecycle (ir_target_status r) = s) (w_intent (s_workflows st'))\<rparr>\<rparr>, Inr ())
     | (st', Inl e) \<Rightarrow>
         run_handler x (Some h) t s st =
         (st'\<lparr>s_workflows := (s_workflows st')
           \<lparr>w_workflow := update_where (\<lambda>w. wr_ticket_id w = t \<and> active_row w)
              (\<lambda>w. w\<lparr>wr_stalled := True, wr_stall_reason := error_text (x_show x) e\<rparr>) (w_workflow (s_workflows st')),
            w_intent := delete_where (\<lambda>r. ir_ticket_id r = t \<and> parse_lifecycle (ir_target_status r) = s)
              (w_intent (s_workflows st'))\<rparr>\<rparr>, Inr ())"
proof -
  obtain st' res where h: "h t (enter_status x t s st) = (st', res)"
    by fastforce
  then have ok: "wf_schema_ok (s_workflows st')"
    using assms by simp
  have stall: "handle_failure x t s e st' = st'\<lparr>s_workflows := (s_workflows st')
           \<lparr>w_workflow := update_where (\<lambda>w. wr_ticket_id w = t \<and> active_row w)
              (\<lambda>w. w\<lparr>wr_stalled := True, wr_stall_reason := error_text (x_show x) e\<rparr>) (w_workflow (s_workflows st')),
            w_intent := delete_where (\<lambda>r. ir_ticket_id r = t \<and> parse_lifecycle (ir_target_status r) = s)
              (w_intent (s_workflows st'))\<rparr>\<rparr>" for e
    using cleanup_intent_effect [OF stalled_effect(2) [OF ok, of t "error_text (x_show x) e"], of x t s]
      stalled_effect(1) [OF ok, of t "error_text (x_show x) e"]
    by (simp add: handle_failure_def)
  show ?thesis
    using h stall by (simp add: run_handler_def cleanup_intent_effect [OF ok] split: sum.split handler_error.split)
qed

subsection \<open>The event engine\<close>

text \<open>
  What the engine needs of a handler: it leaves the queue alone, keeps the schema of the workflow
  store and does not panic.
\<close>

definition queue_safe :: "('a \<Rightarrow> ('b \<Rightarrow> unit server_op) option) \<Rightarrow> bool" where
  "queue_safe hs =
     (\<forall>s h t. hs s = Some h \<longrightarrow>
        unchanged (\<lambda>st. w_queue (s_workflows st)) (h t) \<and> preserves (\<lambda>st. wf_schema_ok (s_workflows st)) (h t) \<and>
        (\<forall>st. snd (h t st) \<noteq> Inl Panicked))"

lemma delete_event_effect:
  assumes "wf_schema_ok (s_workflows st)"
  shows "delete_event i st =
      st\<lparr>s_workflows := (s_workflows st)\<lparr>w_queue := delete_where (\<lambda>q. qr_id q = i) (w_queue (s_workflows st))\<rparr>\<rparr>"
    and "wf_schema_ok (s_workflows (delete_event i st))"
proof -
  have "wf_schema_ok ((s_workflows st)\<lparr>w_queue := delete_where (\<lambda>q. qr_id q = i) (w_queue (s_workflows st))\<rparr>)"
    using assms by (auto simp: wf_schema_defs)
  then show "delete_event i st =
      st\<lparr>s_workflows := (s_workflows st)\<lparr>w_queue := delete_where (\<lambda>q. qr_id q = i) (w_queue (s_workflows st))\<rparr>\<rparr>"
    "wf_schema_ok (s_workflows (delete_event i st))"
    by (simp_all add: delete_event_def attempt_def on_workflows_def on_part_def delete_workflow_event_def workflow_store.accepted)
qed

lemma poll_once_deletes:
  assumes "wf_schema_ok (s_workflows st)" "queue_safe hs"
    and poll: "poll_workflow_event (x_le x) (s_workflows st) = Some event"
  shows "\<exists>st'. poll_once x hs st = (delete_event (we_id event) st', Inr ()) \<and> wf_schema_ok (s_workflows st') \<and>
    w_queue (s_workflows st') = w_queue (s_workflows st)"
proof -
  let ?t = "we_ticket_id event"
  show ?thesis
  proof (cases "\<exists>ticket h. get_ticket (s_tickets st) ?t = Some ticket \<and> tk_lifecycle_managed ticket \<and>
      tk_lifecycle_status ticket = we_new_lifecycle_status event \<and> hs (we_new_lifecycle_status event) = Some h")
    case False
    then have "poll_once x hs st = (delete_event (we_id event) st, Inr ())"
      using poll by (auto simp: poll_once_def split: option.splits)
    then show ?thesis
      using assms(1) by blast
  next
    case True
    then obtain ticket h where h: "get_ticket (s_tickets st) ?t = Some ticket" "tk_lifecycle_managed ticket"
      "tk_lifecycle_status ticket = we_new_lifecycle_status event" "hs (we_new_lifecycle_status event) = Some h"
      by blast
    obtain st' res where run: "h ?t st = (st', res)"
      by fastforce
    have ok: "wf_schema_ok (s_workflows st')" "w_queue (s_workflows st') = w_queue (s_workflows st)"
      using assms(1,2) h(4) run unchangedD [of "\<lambda>st. w_queue (s_workflows st)" "h ?t" st]
        preservesD [of "\<lambda>st. wf_schema_ok (s_workflows st)" "h ?t" st]
      by (simp_all add: queue_safe_def)
    show ?thesis
    proof (cases res)
      case (Inl e)
      have "e \<noteq> Panicked"
        using assms(2) h(4) run Inl unfolding queue_safe_def by (metis snd_conv)
      then have "poll_once x hs st = (delete_event (we_id event)
          (attempt (on_workflows (set_workflow_stalled ?t (error_text (x_show x) e))) st'), Inr ())"
        using poll h run Inl by (cases e) (simp_all add: poll_once_def engine_handle_failure_def)
      then show ?thesis
        using stalled_effect [OF ok(1), of ?t "error_text (x_show x) e"] ok(2) by auto
    next
      case (Inr u)
      then have "poll_once x hs st = (delete_event (we_id event) st', Inr ())"
        using poll h run by (simp add: poll_once_def engine_handle_success_def)
      then show ?thesis
        using ok by blast
    qed
  qed
qed

lemma poll_first:
  assumes "w_queue db \<noteq> []"
  shows "\<exists>event. poll_workflow_event le db = Some event \<and> (\<exists>q \<in> set (w_queue db). we_id event = qr_id q)"
proof -
  obtain q qs where "order_by (on_key le qr_id) (w_queue db) = q # qs"
    using assms by (metis order_by_Nil_iff neq_Nil_conv)
  moreover from this have "q \<in> set (w_queue db)"
    by (metis list.set_intros(1) set_order_by)
  ultimately show ?thesis
    by (auto simp: poll_workflow_event_def first_row_def event_from_row_def)
qed

lemma delete_key_length:
  assumes "distinct (map k rs)" "r \<in> set rs"
  shows "length (delete_where (\<lambda>q. k q = k r) rs) = length rs - 1"
  using assms
proof (induction rs)
  case (Cons a rs)
  show ?case
  proof (cases "a = r")
    case True
    then have "delete_where (\<lambda>q. k q = k r) rs = rs"
      using Cons.prems(1) by (auto simp: delete_where_def filter_id_conv) (metis imageI)
    then show ?thesis
      using True by simp
  next
    case False
    then have "k a \<noteq> k r" "r \<in> set rs"
      using Cons.prems by auto
    then show ?thesis
      using Cons by (cases rs) auto
  qed
qed simp

lemma poll_once_shrinks:
  assumes "wf_schema_ok (s_workflows st)" "queue_safe hs"
  shows "wf_schema_ok (s_workflows (fst (poll_once x hs st)))"
    and "length (w_queue (s_workflows (fst (poll_once x hs st)))) = length (w_queue (s_workflows st)) - 1"
proof -
  have "wf_schema_ok (s_workflows (fst (poll_once x hs st))) \<and>
    length (w_queue (s_workflows (fst (poll_once x hs st)))) = length (w_queue (s_workflows st)) - 1"
  proof (cases "w_queue (s_workflows st) = []")
    case True
    then show ?thesis
      using assms by (simp add: poll_once_def poll_workflow_event_def first_row_def)
  next
    case False
    then obtain event q where e: "poll_workflow_event (x_le x) (s_workflows st) = Some event"
      "q \<in> set (w_queue (s_workflows st))" "we_id event = qr_id q"
      using poll_first by blast
    obtain st' where st': "poll_once x hs st = (delete_event (qr_id q) st', Inr ())" "wf_schema_ok (s_workflows st')"
      "w_queue (s_workflows st') = w_queue (s_workflows st)"
      using poll_once_deletes [OF assms e(1)] e(3) by auto
    have "distinct (map qr_id (w_queue (s_workflows st)))"
      using assms(1) by (simp add: wf_schema_defs)
    then show ?thesis
      using st' delete_event_effect [OF st'(2), of "qr_id q"] delete_key_length [of qr_id _ q] e(2) by simp
  qed
  then show "wf_schema_ok (s_workflows (fst (poll_once x hs st)))"
    "length (w_queue (s_workflows (fst (poll_once x hs st)))) = length (w_queue (s_workflows st)) - 1"
    by simp_all
qed

lemma polls_drain:
  assumes "wf_schema_ok (s_workflows st)" "queue_safe hs"
  shows "length (w_queue (s_workflows (((\<lambda>st. fst (poll_once x hs st)) ^^ n) st))) = length (w_queue (s_workflows st)) - n \<and>
    wf_schema_ok (s_workflows (((\<lambda>st. fst (poll_once x hs st)) ^^ n) st))"
  using assms poll_once_shrinks by (induction n) simp_all

text \<open>
  The engine never gets stuck on an event: whatever the tickets, the handlers and their errors,
  every poll takes one event off the queue, and as many polls as there are events empty it.
\<close>

lemma engine_drains:
  assumes "wf_schema_ok (s_workflows st)" and "queue_safe hs"
  shows "w_queue (s_workflows (((\<lambda>st. fst (poll_once x hs st)) ^^ length (w_queue (s_workflows st))) st)) = []"
  using polls_drain [OF assms, where n = "length (w_queue (s_workflows st))"] by simp

subsection \<open>A cancelled handler that ends late\<close>

text \<open>The workflow store is in order and the next intents get ids of their own.\<close>

definition can_request :: "setting \<Rightarrow> server \<Rightarrow> bool" where
  "can_request x st = (wf_schema_ok (s_workflows st) \<and> fresh_ids x st)"

lemma can_request_mono:
  assumes "can_request x st" "wf_schema_ok (s_workflows st')" "s_tick st \<le> s_tick st'"
    and "set (w_intent (s_workflows st')) \<subseteq> set (w_intent (s_workflows st))"
  shows "can_request x st'"
  using assms unfolding can_request_def fresh_ids_def by (metis image_mono le_trans subsetD)

lemma create_intent_can_request:
  assumes "can_request x st"
  obtains st' i where "fresh (\<lambda>n. on_workflows (create_intent (x_uuid x n) (x_now x n) t s)) st = (st', Inr i)"
    and "can_request x st'" and "s_requests st' = s_requests st" and "s_cancels st' = s_cancels st"
    and "s_tickets st' = s_tickets st" and "w_workflow (s_workflows st') = w_workflow (s_workflows st)"
    and "w_queue (s_workflows st') = w_queue (s_workflows st)"
proof -
  let ?n = "s_tick st"
  let ?row = "\<lparr>ir_id = x_uuid x ?n, ir_ticket_id = t, ir_target_status = LifecycleStatus_as_str s, ir_created_at = x_now x ?n\<rparr>"
  let ?st = "st\<lparr>s_tick := Suc ?n, s_workflows := (s_workflows st)\<lparr>w_intent := w_intent (s_workflows st) @ [?row]\<rparr>\<rparr>"
  have new: "x_uuid x ?n \<notin> ir_id ` set (w_intent (s_workflows st))"
    using assms by (simp add: can_request_def fresh_ids_def)
  have "can_request x ?st"
    using assms new by (auto simp: can_request_def fresh_ids_def wf_schema_defs dest: injD)
  then show thesis
    using that [of ?st] create_intent_ok [OF _ new] assms
    by (simp add: fresh_def on_workflows_def on_part_def can_request_def)
qed

lemma handle_request_spawns:
  assumes "can_request x (c_server c)" "c_in_flight c t = None"
  obtains st' where "handle_request x \<lparr>tr_ticket_id = t, tr_target_status = s\<rparr> c = spawn_handler_task t s (c\<lparr>c_server := st'\<rparr>)"
    and "can_request x st'" and "s_requests st' = s_requests (c_server c)" and "s_cancels st' = s_cancels (c_server c)"
    and "s_tickets st' = s_tickets (c_server c)" and "w_workflow (s_workflows st') = w_workflow (s_workflows (c_server c))"
    and "w_queue (s_workflows st') = w_queue (s_workflows (c_server c))"
proof (rule create_intent_can_request [OF assms(1), of t s])
  fix st' i
  assume st': "fresh (\<lambda>n. on_workflows (create_intent (x_uuid x n) (x_now x n) t s)) (c_server c) = (st', Inr i)"
    and facts: "can_request x st'" "s_requests st' = s_requests (c_server c)" "s_cancels st' = s_cancels (c_server c)"
      "s_tickets st' = s_tickets (c_server c)" "w_workflow (s_workflows st') = w_workflow (s_workflows (c_server c))"
      "w_queue (s_workflows st') = w_queue (s_workflows (c_server c))"
  have "handle_request x \<lparr>tr_ticket_id = t, tr_target_status = s\<rparr> c = spawn_handler_task t s (c\<lparr>c_server := st'\<rparr>)"
    by (simp add: handle_request_def st' assms(2))
  then show thesis
    using facts by (rule that)
qed

text \<open>A server without tickets, workflows and events.\<close>

definition bare :: "server \<Rightarrow> bool" where
  "bare st = (db_ticket (s_tickets st) = [] \<and> w_workflow (s_workflows st) = [] \<and> w_queue (s_workflows st) = [])"

lemma run_handler_bare:
  assumes "can_request x st" "bare st"
  obtains st' where "run_handler x None t s st = (st', Inr ())" and "can_request x st'" and "bare st'"
    and "s_requests st' = s_requests st" and "s_cancels st' = s_cancels st"
proof -
  have ws: "wf_schema_ok (s_workflows st)"
    using assms(1) by (simp add: can_request_def)
  have same: "(s_workflows st)\<lparr>w_workflow := []\<rparr> = s_workflows st" "(s_workflows st)\<lparr>w_queue := []\<rparr> = s_workflows st"
    using assms(2) by (simp_all add: bare_def)
  have noop: "update_workflow_status t s (s_workflows st) = (s_workflows st, Inr ())"
    "delete_workflow_events_for_ticket t (s_workflows st) = (s_workflows st, Inr ())"
    using update_active_ok [OF ws, of "\<lambda>w. w\<lparr>wr_status := LifecycleStatus_as_str s\<rparr>" t] delete_events_ok [OF ws, of t] assms(2) same
    by (simp_all add: bare_def update_workflow_status_def)
  have gone: "get_ticket (s_tickets st) t = None" "get_workflow_by_ticket (x_le x) (s_workflows st) t = None"
    using assms(2) by (simp_all add: bare_def get_ticket_def get_workflow_by_ticket_def get_workflow_by_ticket_inner_def first_row_def)
  have "enter_status x t s st = st\<lparr>s_tick := Suc (s_tick st)\<rparr>"
    by (simp add: enter_status_def Let_def on_workflows_def on_part_def noop attempt_def fresh_def on_tickets_def update_ticket_def
        gone emit_workflow_event_def)
  then have run: "run_handler x None t s st = (cleanup_intent x t s (st\<lparr>s_tick := Suc (s_tick st)\<rparr>), Inr ())"
    by (simp add: run_handler_def)
  let ?st = "cleanup_intent x t s (st\<lparr>s_tick := Suc (s_tick st)\<rparr>)"
  note clean = cleanup_intent_effect [of "st\<lparr>s_tick := Suc (s_tick st)\<rparr>" x t s, simplified, OF ws]
  have "wf_schema_ok (s_workflows ?st)"
    using ws by (auto simp: clean wf_schema_defs)
  then have "can_request x ?st"
    by (rule can_request_mono [OF assms(1)]) (auto simp: clean)
  moreover have "bare ?st" "s_requests ?st = s_requests st" "s_cancels ?st = s_cancels st"
    using assms(2) by (simp_all add: clean bare_def)
  ultimately show thesis
    using that run by blast
qed

definition quiet :: "setting \<Rightarrow> coordinator \<Rightarrow> bool" where
  "quiet x c = (s_requests (c_server c) = [] \<and> s_cancels (c_server c) = [] \<and> c_completions c = [] \<and>
     can_request x (c_server c) \<and> bare (c_server c))"

lemma drained [simp]: "s_requests st = [] \<Longrightarrow> st\<lparr>s_requests := []\<rparr> = st" "s_cancels st = [] \<Longrightarrow> st\<lparr>s_cancels := []\<rparr> = st"
  by (cases st, simp)+

lemma request_spawns:
  assumes "reachable_from init (coord_step la x hs) c" "quiet x c" "c_in_flight c t = None"
  obtains st' where "reachable_from init (coord_step la x hs) (spawn_handler_task t s (c\<lparr>c_server := st'\<rparr>))"
    and "quiet x (spawn_handler_task t s (c\<lparr>c_server := st'\<rparr>))"
proof -
  let ?r = "\<lparr>tr_ticket_id = t, tr_target_status = s\<rparr>"
  let ?c = "c\<lparr>c_server := (c_server c)\<lparr>s_requests := [?r]\<rparr>\<rparr>"
  have sent: "reachable_from init (coord_step la x hs) ?c"
    using reach_step [OF assms(1) coord_step.request_sent [of la x hs c ?r]] assms(2) by (simp add: quiet_def)
  have "run_turn x ?c = Some (handle_request x ?r c)"
    using assms(2) by (simp add: run_turn_def quiet_def)
  then have "reachable_from init (coord_step la x hs) (handle_request x ?r c)"
    using reach_step [OF sent coord_step.turn] by blast
  moreover have "can_request x (c_server c)"
    using assms(2) by (simp add: quiet_def)
  then obtain st' where "handle_request x ?r c = spawn_handler_task t s (c\<lparr>c_server := st'\<rparr>)"
    "can_request x st'" "s_requests st' = s_requests (c_server c)" "s_cancels st' = s_cancels (c_server c)"
    "s_tickets st' = s_tickets (c_server c)" "w_workflow (s_workflows st') = w_workflow (s_workflows (c_server c))"
    "w_queue (s_workflows st') = w_queue (s_workflows (c_server c))"
    using assms(3) by (rule handle_request_spawns)
  ultimately show thesis
    using that [of st'] assms(2) by (simp add: quiet_def bare_def spawn_handler_task_def)
qed

lemma cancel_aborts:
  assumes "reachable_from init (coord_step la x hs) c" "quiet x c"
  shows "reachable_from init (coord_step la x hs) (handle_cancel t c)"
proof -
  let ?c = "c\<lparr>c_server := (c_server c)\<lparr>s_cancels := [t]\<rparr>\<rparr>"
  have sent: "reachable_from init (coord_step la x hs) ?c"
    using reach_step [OF assms(1) coord_step.cancel_sent [of la x hs c t]] assms(2) by (simp add: quiet_def)
  have "run_turn x ?c = Some (handle_cancel t c)"
    using assms(2) by (simp add: run_turn_def quiet_def)
  then show ?thesis
    using reach_step [OF sent coord_step.turn] by blast
qed

lemma late_end_completes:
  assumes "reachable_from init (coord_step True x Map.empty) c" "quiet x c" "j \<in> set (c_tasks c)"
  obtains st' where "reachable_from init (coord_step True x Map.empty)
      (handle_completion (j_ticket j) (c\<lparr>c_server := st', c_tasks := delete_where (\<lambda>i. j_handle i = j_handle j) (c_tasks c)\<rparr>))"
    and "can_request x st'" and "bare st'" and "s_requests st' = []" and "s_cancels st' = []"
proof -
  obtain st' where run: "run_handler x None (j_ticket j) (j_target j) (c_server c) = (st', Inr ())"
    and st': "can_request x st'" "bare st'" "s_requests st' = []" "s_cancels st' = []"
    using run_handler_bare [of x "c_server c" "j_ticket j" "j_target j"] assms(2) unfolding quiet_def by metis
  let ?c = "c\<lparr>c_server := st', c_tasks := delete_where (\<lambda>i. j_handle i = j_handle j) (c_tasks c)\<rparr>"
  have ended: "end_task x Map.empty j c = ?c\<lparr>c_completions := [j_ticket j]\<rparr>"
    using run assms(2) by (simp add: end_task_def quiet_def)
  have "reachable_from init (coord_step True x Map.empty) (end_task x Map.empty j c)"
    using reach_step [OF assms(1) coord_step.task_ends [OF assms(3)]] by blast
  moreover have "?c\<lparr>c_completions := []\<rparr> = ?c"
    using assms(2) by (simp add: quiet_def)
  then have "run_turn x (end_task x Map.empty j c) = Some (handle_completion (j_ticket j) ?c)"
    using st' unfolding ended by (simp add: run_turn_def)
  ultimately have "reachable_from init (coord_step True x Map.empty) (handle_completion (j_ticket j) ?c)"
    using reach_step coord_step.turn by metis
  then show thesis
    using that st' by blast
qed

text \<open>
  C40: cancelling can make two handlers of one ticket run. An aborted task may still end, and its
  completion is then taken for that of the task spawned after the cancellation: its slot is
  removed while it runs, and the next request spawns a second one.
\<close>

theorem late_abort_runs_two:
  assumes "can_request x st" and "bare st" and "w_intent (s_workflows st) = []"
    and "s_requests st = []" and "s_cancels st = []"
  shows "\<exists>c i j. reachable_from (coord_init x) (coord_step True x Map.empty) c \<and>
    i \<in> set (live c) \<and> j \<in> set (live c) \<and> i \<noteq> j \<and> j_ticket i = j_ticket j"
proof -
  let ?R = "reachable_from (coord_init x) (coord_step True x Map.empty)"
  let ?t = "''ur-1''" and ?s = Implementing
  have "coord_init x (coordinator_new st)"
    using assms(3) unfolding coord_init_def recover_def recovered_intents_def list_intents_def
    by (intro exI [of _ st]) simp
  then have R0: "?R (coordinator_new st)"
    by (rule reach_init)
  have q0: "quiet x (coordinator_new st)"
    using assms by (simp add: quiet_def)
  have "c_in_flight (coordinator_new st) ?t = None"
    by (simp add: coordinator_new_def)
  then obtain s1 where c1: "?R (spawn_handler_task ?t ?s ((coordinator_new st)\<lparr>c_server := s1\<rparr>))"
    "quiet x (spawn_handler_task ?t ?s ((coordinator_new st)\<lparr>c_server := s1\<rparr>))"
    by (rule request_spawns [OF R0 q0])
  let ?c1 = "spawn_handler_task ?t ?s ((coordinator_new st)\<lparr>c_server := s1\<rparr>)"
  let ?c2 = "handle_cancel ?t ?c1"
  have R2: "?R ?c2"
    by (rule cancel_aborts [OF c1])
  have q2: "quiet x ?c2" "c_in_flight ?c2 ?t = None"
    using c1(2) by (simp_all add: handle_cancel_def spawn_handler_task_def quiet_def)
  obtain s3 where c3: "?R (spawn_handler_task ?t ?s (?c2\<lparr>c_server := s3\<rparr>))"
    "quiet x (spawn_handler_task ?t ?s (?c2\<lparr>c_server := s3\<rparr>))"
    by (rule request_spawns [OF R2 q2])
  let ?c3 = "spawn_handler_task ?t ?s (?c2\<lparr>c_server := s3\<rparr>)"
  let ?j0 = "\<lparr>j_handle = 0, j_ticket = ?t, j_target = ?s, j_aborted = True\<rparr>"
  let ?j1 = "\<lparr>j_handle = Suc 0, j_ticket = ?t, j_target = ?s, j_aborted = False\<rparr>"
  have tasks3: "c_tasks ?c3 = [?j0, ?j1]" "c_spawned ?c3 = 2" "c_in_flight ?c3 ?t = Some \<lparr>ts_handle = Suc 0, ts_pending = None\<rparr>"
    by (simp_all add: handle_cancel_def spawn_handler_task_def coordinator_new_def abort_def)
  have "?j0 \<in> set (c_tasks ?c3)"
    by (simp add: tasks3(1))
  then obtain s4 where "?R (handle_completion (j_ticket ?j0)
      (?c3\<lparr>c_server := s4, c_tasks := delete_where (\<lambda>i. j_handle i = j_handle ?j0) (c_tasks ?c3)\<rparr>))"
    and c4': "can_request x s4" "bare s4" "s_requests s4 = []" "s_cancels s4 = []"
    by (rule late_end_completes [OF c3])
  then have c4: "?R (handle_completion ?t (?c3\<lparr>c_server := s4, c_tasks := [?j1]\<rparr>))"
    by (simp add: tasks3(1))
  let ?c4 = "handle_completion ?t (?c3\<lparr>c_server := s4, c_tasks := [?j1]\<rparr>)"
  have q4: "c_in_flight ?c4 ?t = None" "quiet x ?c4" "c_tasks ?c4 = [?j1]" "c_spawned ?c4 = 2"
    using c3(2) c4' tasks3(2,3) by (simp_all add: handle_completion_def quiet_def)
  obtain s5 where c5: "?R (spawn_handler_task ?t ?s (?c4\<lparr>c_server := s5\<rparr>))"
    by (rule request_spawns [OF c4 q4(2,1)])
  let ?c5 = "spawn_handler_task ?t ?s (?c4\<lparr>c_server := s5\<rparr>)"
  have "set (live ?c5) = {?j1, \<lparr>j_handle = 2, j_ticket = ?t, j_target = ?s, j_aborted = False\<rparr>}"
    using q4(3,4) by (simp add: live_def spawn_handler_task_def insert_commute)
  then show ?thesis
    using c5 by (intro exI [of _ ?c5] exI [of _ ?j1] exI [of _ "\<lparr>j_handle = 2, j_ticket = ?t, j_target = ?s, j_aborted = False\<rparr>"]) simp
qed

end
