(* ===== verification/Handler_Props.thy ===== *)
theory Handler_Props
  imports Push_Merge Coordinator_Props
begin

text \<open>
  Properties of the workflow handlers: none touches the event queue, so the engine empties it; a
  protected branch is never force-pushed; the limit on implementation cycles; and how a merge ends.
\<close>

subsection \<open>The queue and the schema\<close>

text \<open>\<open>safe_op m\<close>: the operation leaves the event queue alone, keeps the schema and does not panic.\<close>

definition safe_op :: "(server, handler_error, 'a) op \<Rightarrow> bool" where
  "safe_op m = (unchanged (\<lambda>st. w_queue (s_workflows st)) m \<and> preserves (\<lambda>st. wf_schema_ok (s_workflows st)) m \<and>
     (\<forall>st. snd (m st) \<noteq> Inl Panicked))"

named_theorems safe "operations that are safe"

lemma safe_ret [safe]: "safe_op (ret a)"
  by (simp add: safe_op_def unchanged_ret)

lemma safe_throw [safe]: "e \<noteq> Panicked \<Longrightarrow> safe_op (throw e)"
  by (simp add: safe_op_def unchanged_throw)

lemma safe_bindS [safe]: "safe_op m \<Longrightarrow> (\<And>a. safe_op (f a)) \<Longrightarrow> safe_op (bindS m f)"
  unfolding safe_op_def
  by (intro conjI unchanged_bindS preserves_bindS) (auto simp: bindS_def split: prod.splits sum.splits, metis snd_conv)+

lemma safe_read [safe]: "(\<And>st. f st \<noteq> Inl Panicked) \<Longrightarrow> safe_op (read_state f)"
  by (simp add: safe_op_def unchanged_read) (simp add: preserves_def read_state_def)

lemma safe_ask [safe]: "safe_op (ask f)"
  by (auto simp: safe_op_def unchanged_def keeps_def preserves_def ask_def split: sum.splits)

lemma safe_send [safe]: "safe_op (send_request m t s)"
  by (auto simp: safe_op_def unchanged_def keeps_def preserves_def send_request_def)

lemma safe_fresh [safe]: "(\<And>n. safe_op (f n)) \<Longrightarrow> safe_op (fresh f)"
  by (auto simp: safe_op_def unchanged_def keeps_def preserves_def fresh_def)

lemma safe_and_log [safe]: "safe_op m \<Longrightarrow> safe_op (and_log m)"
  by (auto simp: safe_op_def unchanged_def keeps_def preserves_def and_log_def attempt_def)

lemma safe_on_tickets [safe]: "safe_op (on_tickets m)"
  by (auto simp: safe_op_def unchanged_def keeps_def preserves_def on_tickets_def on_part_def split: prod.splits sum.splits)

lemma safe_on_workers [safe]: "safe_op (on_workers m)"
  by (auto simp: safe_op_def unchanged_def keeps_def preserves_def on_workers_def on_pool_def on_part_def split: prod.splits sum.splits)

lemma safe_on_pool [safe]: "(\<And>e. g e \<noteq> Panicked) \<Longrightarrow> safe_op (on_pool g m)"
  by (auto simp: safe_op_def unchanged_def keeps_def preserves_def on_pool_def on_part_def split: prod.splits sum.splits)

lemma safe_on_workflows:
  assumes "\<And>db. w_queue (f db) = w_queue db"
  shows "safe_op (on_workflows (run_wf f))"
proof -
  have "preserves (\<lambda>st. wf_schema_ok (s_workflows st)) (on_workflows (run_wf f))"
    unfolding on_workflows_def by (rule workflows_part.on_part_preserves [OF workflow_store.stmt_preserves])
  moreover have "w_queue (fst (run_wf f db)) = w_queue db" for db
    using assms by (simp add: run_wf_def Let_def)
  ultimately show ?thesis
    by (auto simp: safe_op_def unchanged_def keeps_def on_workflows_def on_part_def split: prod.splits sum.splits) (metis fst_conv)+
qed

lemma safe_update_active: "safe_op (on_workflows (update_active t f))"
  unfolding update_active_def by (rule safe_on_workflows) simp

lemma safe_workflow_stmts [safe]:
  "safe_op (on_workflows (update_workflow_status t s))" "safe_op (on_workflows (set_workflow_stalled t m))"
  "safe_op (on_workflows (increment_implement_cycles t))" "safe_op (on_workflows (initialize_workflow_conditions t))"
  "safe_op (on_workflows (update_workflow_condition t c v))" "safe_op (on_workflows (insert_workflow_event u n w k))"
  unfolding update_workflow_status_def set_workflow_stalled_def increment_implement_cycles_def
    initialize_workflow_conditions_def update_workflow_condition_def insert_workflow_event_def
  by (rule safe_update_active safe_on_workflows; simp)+

lemma safe_if [safe]: "(b \<Longrightarrow> safe_op m) \<Longrightarrow> (\<not> b \<Longrightarrow> safe_op n) \<Longrightarrow> safe_op (if b then m else n)"
  by simp

lemma safe_option [safe]: "safe_op m \<Longrightarrow> (\<And>a. safe_op (f a)) \<Longrightarrow> safe_op (case y of None \<Rightarrow> m | Some a \<Rightarrow> f a)"
  by (cases y) auto

lemma safe_prod [safe]: "(\<And>a b. safe_op (f a b)) \<Longrightarrow> safe_op (case y of (a, b) \<Rightarrow> f a b)"
  by (cases y) auto

lemma ok_or_msg_safe [simp]: "ok_or_msg m y \<noteq> Inl Panicked" "store_result r \<noteq> Inl Panicked"
  by (simp_all add: ok_or_msg_def store_result_def split: option.splits sum.splits)

lemma and_then_safe [simp]:
  "r \<noteq> Inl Panicked \<Longrightarrow> (\<And>a. f a \<noteq> Inl Panicked) \<Longrightarrow> and_then r f \<noteq> Inl Panicked"
  by (cases r) (auto simp: and_then_def)

lemmas handler_steps =
  load_ticket_def load_workflow_def load_assigned_def load_worker_def load_slot_def record_activity_def
  mark_working_def running_worker_def

lemma safe_steps [safe]:
  "safe_op (load_ticket t)" "safe_op (load_workflow cx t)" "safe_op (load_assigned cx t w)" "safe_op (load_worker i)"
  "safe_op (load_slot i)" "safe_op (record_activity cx t m)" "safe_op (mark_working cx i)" "safe_op (running_worker i c)"
  unfolding handler_steps by (intro safe; simp)+

lemma safe_dispatch_implement: "safe_op (dispatch_implement cx t)"
  unfolding dispatch_implement_def check_cycle_limit_def ensure_ticket_branch_def read_worker_branch_def
  by (intro safe; simp)

lemma safe_feedback_address: "safe_op (feedback_address cx t)"
  unfolding feedback_address_def by (intro safe; simp split: sum.splits)

text \<open>The verification hook's output can be cut where \<open>build_output_summary\<close> cuts it.\<close>

definition hooks_sliceable :: "workflow_context \<Rightarrow> bool" where
  "hooks_sliceable cx =
     (\<forall>n p d h. wd_run_hook (cx_world cx) n p d = Inr h \<longrightarrow> build_output_summary (hk_stdout h) (hk_stderr h) \<noteq> None)"

lemma safe_fresh_ret:
  assumes "\<And>n. safe_op (f (v n))"
  shows "safe_op (bindS (fresh (\<lambda>n. ret (v n))) f)"
  using assms by (auto simp: safe_op_def unchanged_def keeps_def preserves_def fresh_def bindS_def)

lemma safe_verification_steps [safe]:
  "safe_op (advance_to_pushing t)" "safe_op (advance_to_implementing t)" "safe_op (handle_hook_failure t)"
  "safe_op (add_hook_activity cx t r out)" "safe_op (add_hook_failure_activity cx t l out)"
  "safe_op (write_hook_failure_log cx h)" "safe_op (resolve_hook_context cx t k)"
  unfolding advance_to_pushing_def advance_to_implementing_def handle_hook_failure_def add_hook_activity_def
    add_hook_failure_activity_def write_hook_failure_log_def resolve_hook_context_def
  by (intro safe; simp)+

lemma safe_run_verification:
  assumes "hooks_sliceable cx"
  shows "safe_op (run_verification cx t)"
proof -
  have hook: "safe_op (case build_output_summary (hk_stdout h) (hk_stderr h) of None \<Rightarrow> throw Panicked | Some y \<Rightarrow> g y)"
    if run: "wd_run_hook (cx_world cx) n p d = Inr h" and g: "\<And>y. safe_op (g y)" for n p d h and g :: "string \<Rightarrow> unit server_op"
  proof -
    obtain y where "build_output_summary (hk_stdout h) (hk_stderr h) = Some y"
      using assms run unfolding hooks_sliceable_def by blast
    then show ?thesis
      using g by simp
  qed
  show ?thesis
    unfolding run_verification_def
    by (intro safe_bindS [OF safe_steps(1)] safe_bindS [OF safe_verification_steps(7)] safe_option safe safe_prod safe_fresh_ret)
       (auto intro!: safe hook split: sum.splits HookOutcome.splits)
qed

lemma safe_label_push [safe]: "safe_op (label_push cx i)"
  unfolding label_push_def by (intro safe; simp)

lemma safe_push_worker_label [safe]: "safe_op (push_worker_label cx t)"
proof -
  have m: "safe_op (and_log (label_push cx i) :: unit server_op)" for i
    by (intro safe)
  show ?thesis
    using m unfolding safe_op_def push_worker_label_def unchanged_def keeps_def preserves_def
    by (auto split: option.splits)
qed

lemma safe_stall_agent [safe]: "safe_op (stall_agent cx t i)"
proof -
  have m: "safe_op (fresh (\<lambda>n. on_workers (update_worker_agent_status (x_now (cx_x cx) n) i Stalled)))"
    by (intro safe)
  show ?thesis
    using m unfolding safe_op_def stall_agent_def unchanged_def keeps_def preserves_def
    by (auto split: prod.splits sum.splits) (metis fst_conv)+
qed

lemma safe_push_steps [safe]:
  "safe_op (add_push_activity cx t r d)" "safe_op (advance_to_in_review t)" "safe_op (set_ticket_meta t k v)"
  "safe_op (promote_autoapprove t meta)" "safe_op (resolve_gh_repo cx t meta)" "safe_op (ensure_pr cx t b title body)"
  "safe_op (initialize_conditions_and_emit_event cx t)" "safe_op (handle_hook_failed cx t m)"
  unfolding add_push_activity_def advance_to_in_review_def set_ticket_meta_def promote_autoapprove_def resolve_gh_repo_def
    ensure_pr_def initialize_conditions_and_emit_event_def handle_hook_failed_def
  by (intro safe; simp)+

lemma safe_handle_push_success [safe]: "safe_op (handle_push_success cx t b title body r)"
  unfolding handle_push_success_def by (intro safe)

lemma safe_status [safe]:
  assumes "safe_op a" "safe_op b" "\<And>r. safe_op (c r)" "\<And>r. safe_op (d r)" "safe_op e" "\<And>m. safe_op (f m)"
  shows "safe_op (case s of Success \<Rightarrow> a | ForcePushed \<Rightarrow> b | Rejected r \<Rightarrow> c r | RemoteRejected r \<Rightarrow> d r | UpToDate \<Rightarrow> e | HookFailed m \<Rightarrow> f m)"
  using assms by (cases s) auto

lemma safe_handle_push: "safe_op (handle_push cx t)"
  unfolding handle_push_def handle_push_rejected_def perform_non_protected_retry_def
  by (intro safe; simp)

lemma safe_call_service:
  assumes "unchanged (\<lambda>st. w_queue (s_workflows st)) m" "preserves (\<lambda>st. wf_schema_ok (s_workflows st)) m"
  shows "safe_op (call_service cx what m)"
  using assms unfolding safe_op_def call_service_def unchanged_def keeps_def preserves_def
  by (auto split: prod.splits sum.splits) (metis fst_conv)+

lemma safe_call_query [safe]: "safe_op (call_service cx what (query_srv f))"
  by (rule safe_call_service) (auto simp: unchanged_def keeps_def preserves_def query_srv_def)

lemma safe_call_create [safe]: "safe_op (call_service cx what (create_ticket_rpc sv req))"
  by (rule safe_call_service)
     (auto simp: unchanged_def keeps_def preserves_def create_ticket_rpc_def bindS_def with_tick_def in_tickets_def on_part_def
       split: prod.splits sum.splits)

lemma safe_call_issue_meta [safe]: "safe_op (call_service cx what (set_meta_rpc sv t (issue_meta_key k) v))"
  by (rule safe_call_service)
     (auto simp: unchanged_def keeps_def preserves_def set_meta_rpc_def issue_meta_key_def in_tickets_def on_part_def
       split: prod.splits sum.splits)

lemma safe_first_open_child [safe]: "safe_op (first_open_child cx p cs)"
proof (induction cs)
  case Nil
  show ?case by (simp only: first_open_child.simps safe_ret)
next
  case (Cons c cs)
  show ?case unfolding first_open_child.simps by (intro safe Cons.IH)
qed

lemma safe_merge_steps [safe]:
  "safe_op (create_workflow_issue_ticket cx p k title body)" "safe_op (kill_worker cx i)" "safe_op (close_ticket cx t)"
  "safe_op (merge_pr cx t n repo)"
  unfolding create_workflow_issue_ticket_def find_existing_issue_def kill_worker_def close_ticket_def merge_pr_def
    handle_merge_conflict_def handle_merge_rejection_def report_merge_failure_def transition_to_implementing_def
  by (intro safe; simp)+

lemma safe_execute_merge: "safe_op (execute_merge cx t)"
  unfolding execute_merge_def by (intro safe; simp add: check_pre_merge_conditions_def Let_def)

lemma handlers_queue_safe:
  assumes "hooks_sliceable cx"
  shows "queue_safe (handler_table (build_handlers cx))"
  using safe_dispatch_implement safe_feedback_address safe_run_verification [OF assms] safe_handle_push safe_execute_merge safe_ret
  unfolding queue_safe_def handler_table_def build_handlers_def safe_op_def
  by (auto split: if_splits)

text \<open>
  C7: the engine empties the queue of lifecycle events. With the server's own handlers, and hook
  output that can be cut, every poll takes one event off the queue, whether its ticket is gone,
  unmanaged or moved on, and whether the handler succeeds or fails; as many polls as there are
  events leave none.
\<close>

theorem engine_empties_queue:
  assumes "wf_schema_ok (s_workflows st)" and "hooks_sliceable cx"
  shows "length (w_queue (s_workflows (((\<lambda>st. fst (poll_once x (handler_table (build_handlers cx)) st)) ^^ n) st))) =
    length (w_queue (s_workflows st)) - n"
  using polls_drain [OF assms(1) handlers_queue_safe [OF assms(2)]] by blast

subsection \<open>Force pushes\<close>

definition with_force_push :: "(nat \<Rightarrow> string \<Rightarrow> string \<Rightarrow> bool \<Rightarrow> string + PushResult) \<Rightarrow> workflow_context \<Rightarrow> workflow_context" where
  "with_force_push f cx = cx\<lparr>cx_world := (cx_world cx)\<lparr>wd_force_push := f\<rparr>\<rparr>"

lemma with_force_push_fields:
  "cx_x (with_force_push f cx) = cx_x cx" "cx_projects (with_force_push f cx) = cx_projects cx"
  "wd_push (cx_world (with_force_push f cx)) = wd_push (cx_world cx)"
  "wd_create_pr (cx_world (with_force_push f cx)) = wd_create_pr (cx_world cx)"
  "wd_set_status_left (cx_world (with_force_push f cx)) = wd_set_status_left (cx_world cx)"
  "wd_log_stamp (cx_world (with_force_push f cx)) = wd_log_stamp (cx_world cx)"
  by (simp_all add: with_force_push_def)

lemma with_force_push_steps:
  "load_assigned (with_force_push f cx) t what = load_assigned cx t what"
  "add_push_activity (with_force_push f cx) t r d = add_push_activity cx t r d"
  "stall_agent (with_force_push f cx) t i = stall_agent cx t i"
  "handle_hook_failed (with_force_push f cx) t m = handle_hook_failed cx t m"
  "handle_push_success (with_force_push f cx) t b title body res = handle_push_success cx t b title body res"
  unfolding fun_eq_iff [of "stall_agent (with_force_push f cx) t i"] load_assigned_def load_workflow_def add_push_activity_def
    record_activity_def stall_agent_def handle_hook_failed_def write_hook_failure_log_def handle_push_success_def ensure_pr_def
    resolve_gh_repo_def fun_eq_iff [of "push_worker_label (with_force_push f cx) t"] push_worker_label_def label_push_def
    initialize_conditions_and_emit_event_def with_force_push_fields
  by simp_all

text \<open>
  C6: a push of a protected branch never turns into a force push: when the ticket's branch matches
  the project's protected patterns, the outcome does not depend on what a force push would do.
\<close>

theorem protected_branch_not_forced:
  assumes "get_ticket (s_tickets st) t = Some ticket" and "tk_branch ticket = Some b"
    and "is_branch_protected b (map_option ps_protected_branches (cx_projects cx (tk_project ticket)))"
  shows "handle_push (with_force_push f cx) t st = handle_push cx t st"
proof -
  have "handle_push_rejected (with_force_push f cx) ticket t b i r d v = handle_push_rejected cx ticket t b i r d v" for i r d v
    using assms(3) by (simp add: handle_push_rejected_def protected_of_def with_force_push_fields with_force_push_steps)
  moreover have "load_ticket t st = (st, Inr ticket)"
    by (simp add: load_ticket_def read_state_def ok_or_msg_def assms(1))
  moreover have "read_state (\<lambda>_. ok_or_msg m (tk_branch ticket)) st = (st, Inr b)" for m
    by (simp add: read_state_def ok_or_msg_def assms(2))
  ultimately show ?thesis
    unfolding handle_push_def with_force_push_steps with_force_push_fields by (simp only: bindS_Inr)
qed

subsection \<open>The limit on implementation cycles\<close>

definition active_rows :: "string \<Rightarrow> workflow_db \<Rightarrow> workflow_row list" where
  "active_rows t db = filter (\<lambda>w. wr_ticket_id w = t \<and> active_row w) (w_workflow db)"

lemma get_workflow_active:
  "get_workflow_by_ticket le db t = map_option row_to_workflow (first_row (active_rows t db))"
  by (simp add: get_workflow_by_ticket_def get_workflow_by_ticket_inner_def active_rows_def filter_filter conj_commute)

lemma unchanged_workflows [frame]:
  "unchanged s_workflows (ask g)" "unchanged s_workflows (on_tickets m)" "unchanged s_workflows (on_workers m')"
  "(\<And>n. unchanged s_workflows (h n)) \<Longrightarrow> unchanged s_workflows (fresh h)"
  by (auto simp: unchanged_def keeps_def ask_def on_tickets_def on_workers_def on_pool_def on_part_def fresh_def
      split: prod.splits sum.splits)

lemma unchanged_steps [frame]:
  "unchanged h (load_ticket t)" "unchanged h (load_workflow cx t)" "unchanged h (load_assigned cx t w)" "unchanged h (load_worker i)"
  "unchanged h (load_slot i)" "unchanged h (running_worker i c)"
  unfolding load_ticket_def load_workflow_def load_assigned_def load_worker_def load_slot_def running_worker_def
  by (intro frame)+

lemma as_u32_nonneg: "0 \<le> n \<Longrightarrow> int4 n \<Longrightarrow> as_u32 n = nat n"
  by (simp add: as_u32_def int4_def unat_eq_nat_uint uint_word_of_int)

lemma active_rows_update:
  assumes "\<And>w. wr_ticket_id (f w) = wr_ticket_id w" "\<And>w. active_row (f w) = active_row w"
  shows "active_rows t (db\<lparr>w_workflow := update_where (\<lambda>w. wr_ticket_id w = t \<and> active_row w) f (w_workflow db)\<rparr>) =
    map f (active_rows t db)"
proof -
  have "filter (\<lambda>w. wr_ticket_id w = t \<and> active_row w) (update_where (\<lambda>w. wr_ticket_id w = t \<and> active_row w) f ws) =
      map f (filter (\<lambda>w. wr_ticket_id w = t \<and> active_row w) ws)" for ws
    by (induction ws) (simp_all add: assms)
  then show ?thesis
    by (simp add: active_rows_def)
qed

lemma dispatch_after_count:
  "unchanged s_workflows
     (bindS (load_assigned cx t ''dispatch implement'') (\<lambda>workflow.
      bindS (running_worker (wf_worker_id workflow) (c workflow)) (\<lambda>worker.
      bindS (ensure_ticket_branch cx ticket t (wf_worker_id workflow)) (\<lambda>branch.
      bindS (ask (\<lambda>n. a n worker)) (\<lambda>_. mark_working cx (wk_worker_id worker))))))"
  unfolding ensure_ticket_branch_def read_worker_branch_def mark_working_def by (intro frame)

text \<open>
  C37: the limit on implementation cycles holds: with one active workflow for the ticket whose
  counter is within the limit, dispatching an implementation leaves the counter within the limit;
  when the limit is already reached, the workflow is stalled with that reason and nothing else
  happens.
\<close>

theorem implement_cycles_bounded:
  assumes "wf_schema_ok (s_workflows st)" and "active_rows t (s_workflows st) = [w]"
    and "get_ticket (s_tickets st) t = Some ticket" and "resolve_cycle_limit cx (tk_project ticket) = Some limit"
    and "0 \<le> wr_implement_cycles w" and "wr_implement_cycles w \<le> int limit"
  shows "(\<forall>w' \<in> set (active_rows t (s_workflows (fst (dispatch_implement cx t st)))).
       0 \<le> wr_implement_cycles w' \<and> wr_implement_cycles w' \<le> int limit) \<and>
    (wr_implement_cycles w = int limit \<longrightarrow>
       dispatch_implement cx t st =
       (st\<lparr>s_workflows := (s_workflows st)\<lparr>w_workflow := update_where (\<lambda>w. wr_ticket_id w = t \<and> active_row w)
          (\<lambda>w. w\<lparr>wr_stalled := True, wr_stall_reason :=
             ''implement cycle limit reached ('' @ show_int (int limit) @ ''/'' @ show_nat limit @ '')''\<rparr>) (w_workflow (s_workflows st))\<rparr>\<rparr>, Inr ()))"
proof -
  let ?db = "s_workflows st"
  have wmem: "w \<in> set (w_workflow ?db)"
    using arg_cong [OF assms(2), of set] by (auto simp: active_rows_def)
  have u32: "as_u32 (wr_implement_cycles w) = nat (wr_implement_cycles w)"
    using assms(1,5) wmem by (simp add: as_u32_nonneg wf_schema_defs)
  have wf: "get_workflow_by_ticket (cx_le cx) ?db t = Some (row_to_workflow w)"
    by (simp add: get_workflow_active assms(2) first_row_def)
  note loads = load_ticket_def load_workflow_def read_state_def ok_or_msg_def assms(3,4) wf row_to_workflow_def u32
  show ?thesis
  proof (cases "limit \<le> nat (wr_implement_cycles w)")
    case True
    let ?m = "''implement cycle limit reached ('' @ show_int (wr_implement_cycles w) @ ''/'' @ show_nat limit @ '')''"
    let ?f = "\<lambda>w. w\<lparr>wr_stalled := True, wr_stall_reason := ?m\<rparr>"
    let ?db' = "?db\<lparr>w_workflow := update_where (\<lambda>w. wr_ticket_id w = t \<and> active_row w) ?f (w_workflow ?db)\<rparr>"
    have "set_workflow_stalled t ?m ?db = (?db', Inr ())"
      using update_active_ok [of ?db ?f t] assms(1) by (simp add: set_workflow_stalled_def wf_schema_ok_def wf_int_ok_def)
    then have run: "dispatch_implement cx t st = (st\<lparr>s_workflows := ?db'\<rparr>, Inr ())"
      using True by (simp add: dispatch_implement_def check_cycle_limit_def bindS_def loads on_workflows_def on_part_def)
    moreover have "active_rows t ?db' = map ?f (active_rows t ?db)"
      by (rule active_rows_update) (simp_all add: active_row_def)
    ultimately show ?thesis
      using True assms(2,5,6) by auto
  next
    case False
    let ?f = "\<lambda>w. w\<lparr>wr_implement_cycles := wr_implement_cycles w + 1\<rparr>"
    let ?db' = "?db\<lparr>w_workflow := update_where (\<lambda>w. wr_ticket_id w = t \<and> active_row w) ?f (w_workflow ?db)\<rparr>"
    have "s_workflows (fst (dispatch_implement cx t st)) = s_workflows (fst (on_workflows (increment_implement_cycles t) st))"
      using False unfolding dispatch_implement_def
      by (simp add: check_cycle_limit_def loads bindS_def [of "\<lambda>a. (a, _)"] bindS_def [of "on_workflows _"]
          split: prod.splits sum.splits) (simp add: unchangedD [OF dispatch_after_count])
    moreover have "s_workflows (fst (on_workflows (increment_implement_cycles t) st)) \<in> {?db, ?db'}"
      using workflow_store.stmt_cases
      by (auto simp: on_workflows_def workflows_part.on_part_state increment_implement_cycles_def update_active_def run_wf_def Let_def)
    moreover have "active_rows t ?db' = map ?f (active_rows t ?db)"
      by (rule active_rows_update) (simp_all add: active_row_def)
    ultimately show ?thesis
      using False assms(2,5,6) by auto
  qed
qed

subsection \<open>How a merge ends\<close>

lemma close_ticket_effect:
  assumes "close_ticket cx t st = (st', Inr ())"
  shows "s_requests st' = s_requests st"
    and "\<exists>row. List.find (\<lambda>r. et_id r = t) (db_ticket (s_tickets st')) = Some row \<and>
      et_status row = ''closed'' \<and> et_lifecycle_status row = LifecycleStatus_as_str Done"
proof -
  let ?u = "TicketUpdate_default\<lparr>tu_status := Some ''closed'', tu_lifecycle_status := Some Done\<rparr>"
  let ?n = "s_tick st"
  obtain db ticket where upd: "update_ticket (x_now (cx_x cx) ?n) (x_rng (cx_x cx) ?n) t ?u (s_tickets st) = (db, Inr ticket)"
    and st': "st' = st\<lparr>s_tick := Suc ?n, s_tickets := db\<rparr>"
    using assms
    by (auto simp: close_ticket_def bindS_def fresh_def on_tickets_def on_part_def split: prod.splits sum.splits)
  obtain e where e: "get_ticket (s_tickets st) t = Some e"
    using upd by (auto simp: update_ticket_def split: option.splits)
  let ?row = "merged_row e ?u t (x_now (cx_x cx) ?n)"
  have "run_stmt (write_row t ?row) (s_tickets st) = (db, Inr ())"
    using upd e by (auto simp: update_ticket_def Let_def bindS_def TicketUpdate_default_def split: prod.splits sum.splits)
  then have "db = write_row t ?row (s_tickets st)"
    by (simp add: ticket_store.stmt_Inr)
  moreover obtain r where "List.find (\<lambda>r. et_id r = t) (db_ticket (s_tickets st)) = Some r"
    using get_ticket_Some [OF e] .
  ultimately have "List.find (\<lambda>r. et_id r = t) (db_ticket db) = Some (?row\<lparr>et_created_at := et_created_at r\<rparr>)"
    using find_write_row(1) [of ?row t "s_tickets st"] by (simp add: merged_row_def)
  then show "\<exists>row. List.find (\<lambda>r. et_id r = t) (db_ticket (s_tickets st')) = Some row \<and>
      et_status row = ''closed'' \<and> et_lifecycle_status row = LifecycleStatus_as_str Done"
    by (simp add: st' merged_row_def)
  show "s_requests st' = s_requests st"
    by (simp add: st')
qed

lemma failed_merge_requests_implementing:
  assumes "merge_pr cx t n repo st = (st', Inr ())"
    and "\<And>k i res. wd_merge_pr (cx_world cx) k repo i = Inr res \<Longrightarrow> \<not> mg_success res"
  shows "\<lparr>tr_ticket_id = t, tr_target_status = Implementing\<rparr> \<in> set (s_requests st')"
proof -
  have last: "report_merge_failure cx t k title body m s = (s', Inr ()) \<Longrightarrow>
      \<lparr>tr_ticket_id = t, tr_target_status = Implementing\<rparr> \<in> set (s_requests s')" for k title body m s s'
    by (auto simp: report_merge_failure_def transition_to_implementing_def send_request_def bindS_def
        split: prod.splits sum.splits if_splits)
  show ?thesis
    using assms last
    by (auto simp: merge_pr_def handle_merge_conflict_def handle_merge_rejection_def ask_def elim!: bindS_InrE
        split: sum.splits if_splits)
qed

text \<open>
  C38: a merge that fails still finishes the ticket. When GitHub refuses to merge an open pull
  request, the handler opens an issue and asks for a new implementation, and then goes on as after
  a merge: whenever it returns without an error, the ticket is closed with the lifecycle status
  done while the request for another implementation is queued for it.
\<close>

theorem failed_merge_closes_ticket:
  assumes "execute_merge cx t st = (st', Inr ())"
    and "\<forall>k repo i pr. wd_get_pr (cx_world cx) k repo i = Inr pr \<longrightarrow> \<not> pr_already_merged pr"
    and "\<forall>k repo i res. wd_merge_pr (cx_world cx) k repo i = Inr res \<longrightarrow> \<not> mg_success res"
  shows "\<lparr>tr_ticket_id = t, tr_target_status = Implementing\<rparr> \<in> set (s_requests st') \<and>
    (\<exists>row. List.find (\<lambda>r. et_id r = t) (db_ticket (s_tickets st')) = Some row \<and>
      et_status row = ''closed'' \<and> et_lifecycle_status row = LifecycleStatus_as_str Done)"
proof -
  obtain n repo s1 s2 where merge: "merge_pr cx t n repo s1 = (s2, Inr ())"
    and close: "close_ticket cx t (attempt (on_workflows (update_workflow_status t Done)) s2) = (st', Inr ())"
    using assms(1,2)
    by (auto simp: execute_merge_def and_log_def ask_def elim!: bindS_InrE split: sum.splits if_splits)
  have "s_requests (attempt (on_workflows (update_workflow_status t Done)) s2) = s_requests s2"
    by (simp add: attempt_def on_workflows_def workflows_part.on_part_state)
  then show ?thesis
    using failed_merge_requests_implementing [OF merge] close_ticket_effect [OF close] assms(3) by auto
qed

end
