(* ===== verification/Coordinator_Refine.thy ===== *)
theory Coordinator_Refine
  imports Coordinator_Props
begin

text \<open>
  What the coordinator promises for one ticket, as a small machine: the ticket is free, its handler
  for a status is running, or its handler has ended and the coordinator has not yet noticed; while
  it is not free, at most one further status waits, the one asked for last. The coordinator with
  its channels, slots and tasks refines this machine for every ticket.
\<close>

subsection \<open>Refinement\<close>

locale refinement = transition_system init step inv
  for init :: "'s \<Rightarrow> bool" and step :: "'s \<Rightarrow> 's \<Rightarrow> bool" and inv :: "'s \<Rightarrow> bool" +
  fixes abs :: "'s \<Rightarrow> 'a" and ainit :: "'a \<Rightarrow> bool" and astep :: "'a \<Rightarrow> 'a \<Rightarrow> bool"
  assumes abs_init: "init s \<Longrightarrow> ainit (abs s)"
    and abs_step: "inv s \<Longrightarrow> step s t \<Longrightarrow> abs t = abs s \<or> astep (abs s) (abs t)"
begin

lemma reachable_step: "reachable_from init step s \<Longrightarrow> step s t \<Longrightarrow> abs t = abs s \<or> astep (abs s) (abs t)"
  using inv_reachable abs_step by blast

lemma abs_reachable: "reachable_from init step s \<Longrightarrow> reachable_from ainit astep (abs s)"
proof (induction rule: reachable_from.induct)
  case (reach_init s)
  then show ?case
    by (intro reachable_from.reach_init abs_init)
next
  case (reach_step s t)
  then show ?case
    using reachable_step reachable_from.reach_step by metis
qed

end

subsection \<open>The machine of a ticket\<close>

datatype ticket_phase = Free | Running LifecycleStatus "LifecycleStatus option" | Ended "LifecycleStatus option"

inductive phase_step :: "ticket_phase \<Rightarrow> ticket_phase \<Rightarrow> bool" where
  starts: "phase_step Free (Running s None)"
| waits: "phase_step (Running s n) (Running s (Some s'))"
| waits_ended: "phase_step (Ended n) (Ended (Some s'))"
| ends: "phase_step (Running s n) (Ended n)"
| freed: "phase_step (Ended None) Free"
| next_starts: "phase_step (Ended (Some s)) (Running s None)"
| cancelled: "phase_step p Free"

definition phase_init :: "ticket_phase \<Rightarrow> bool" where
  "phase_init p = (p = Free \<or> (\<exists>s. p = Running s None))"

definition slot_phase :: "string \<Rightarrow> TicketSlot option \<Rightarrow> task list \<Rightarrow> ticket_phase" where
  "slot_phase t in_flight js =
     (case in_flight of
        None \<Rightarrow> Free
      | Some slot \<Rightarrow>
          (let n = map_option tr_target_status (ts_pending slot) in
           case List.find (\<lambda>j. j_ticket j = t) js of Some j \<Rightarrow> Running (j_target j) n | None \<Rightarrow> Ended n))"

definition phase :: "string \<Rightarrow> coordinator \<Rightarrow> ticket_phase" where
  "phase t c = slot_phase t (c_in_flight c t) (live c)"

lemma slot_phase_None [simp]: "slot_phase t None js = Free"
  by (simp add: slot_phase_def)

lemma slot_phase_cong:
  "List.find (\<lambda>j. j_ticket j = t) js = List.find (\<lambda>j. j_ticket j = t) js' \<Longrightarrow> slot_phase t s js = slot_phase t s js'"
  unfolding slot_phase_def by metis

lemma live_other [simp]:
  "live (c\<lparr>c_server := st\<rparr>) = live c" "live (c\<lparr>c_completions := ts\<rparr>) = live c"
  "live (c\<lparr>c_in_flight := m\<rparr>) = live c" "live (c\<lparr>c_spawned := n\<rparr>) = live c"
  by (simp_all add: live_def)

lemma in_flight_spawn [simp]:
  "c_in_flight (spawn_handler_task t s c) = (c_in_flight c)(t \<mapsto> \<lparr>ts_handle = c_spawned c, ts_pending = None\<rparr>)"
  by (simp add: spawn_handler_task_def)

text \<open>The handles in the slots are those of past spawns and differ from ticket to ticket.\<close>

definition slots_own :: "coordinator \<Rightarrow> bool" where
  "slots_own c =
     ((\<forall>t slot. c_in_flight c t = Some slot \<longrightarrow> ts_handle slot < c_spawned c) \<and>
      (\<forall>t u s1 s2. c_in_flight c t = Some s1 \<longrightarrow> c_in_flight c u = Some s2 \<longrightarrow> ts_handle s1 = ts_handle s2 \<longrightarrow> t = u))"

definition coord_inv :: "coordinator \<Rightarrow> bool" where
  "coord_inv c = (serialized c \<and> slots_own c)"

lemma slots_own_spawn [simp]: "slots_own c \<Longrightarrow> slots_own (spawn_handler_task t s c)"
  by (fastforce simp: slots_own_def spawn_handler_task_def split: if_splits)

lemma slots_own_other [simp]:
  "slots_own (c\<lparr>c_server := st\<rparr>) = slots_own c" "slots_own (c\<lparr>c_completions := ts\<rparr>) = slots_own c"
  "slots_own (c\<lparr>c_tasks := js\<rparr>) = slots_own c"
  by (simp_all add: slots_own_def)

lemma slots_own_remove [simp]: "slots_own c \<Longrightarrow> slots_own (c\<lparr>c_in_flight := (c_in_flight c)(t := None)\<rparr>)"
  by (simp add: slots_own_def)

lemma slots_own_pending:
  "slots_own c \<Longrightarrow> c_in_flight c t = Some slot \<Longrightarrow> slots_own (c\<lparr>c_in_flight := (c_in_flight c)(t \<mapsto> slot\<lparr>ts_pending := r\<rparr>)\<rparr>)"
  unfolding slots_own_def by (auto split: if_splits)

lemma slots_own_request: "slots_own c \<Longrightarrow> slots_own (handle_request x r c)"
  by (auto simp: handle_request_def Let_def slots_own_pending [of "c\<lparr>c_server := _\<rparr>", simplified] split: prod.splits sum.splits option.splits)

lemma slots_own_completion: "slots_own c \<Longrightarrow> slots_own (handle_completion t c)"
  by (auto simp: handle_completion_def Let_def split: option.splits)

lemma slots_own_cancel:
  assumes "slots_own c"
  shows "slots_own (handle_cancel t c)"
proof -
  have "slots_own ((c\<lparr>c_in_flight := (c_in_flight c)(t := None)\<rparr>)\<lparr>c_tasks := js\<rparr>)" for js
    using assms by simp
  then show ?thesis
    using assms by (auto simp: handle_cancel_def split: option.splits)
qed

lemma slots_own_step: "coord_step late_abort x hs c c' \<Longrightarrow> slots_own c \<Longrightarrow> slots_own c'"
proof (induction rule: coord_step.induct)
  case (turn c c')
  then show ?case
    by (auto simp: run_turn_def slots_own_cancel slots_own_completion slots_own_request split: list.splits)
next
  case (task_ends j c)
  then show ?case
    by (simp add: end_task_def slots_own_def split: prod.splits)
qed simp_all

lemma slots_own_recover: "slots_own c \<Longrightarrow> slots_own (recover_intents x is c)"
  by (induction "is" arbitrary: c) (simp_all add: Let_def)

lemma slots_own_init: "coord_init x c \<Longrightarrow> slots_own c"
proof -
  have "slots_own (coordinator_new st)" for st
    by (simp add: slots_own_def coordinator_new_def)
  then show "coord_init x c \<Longrightarrow> slots_own c"
    by (auto simp: coord_init_def recover_def intro: slots_own_recover)
qed

lemma coord_inv_init: "coord_init x c \<Longrightarrow> coord_inv c"
  by (simp add: coord_inv_def coord_init_serialized slots_own_init)

lemma coord_inv_step: "coord_inv c \<Longrightarrow> coord_step False x hs c c' \<Longrightarrow> coord_inv c'"
  using serialized_step slots_own_step unfolding coord_inv_def by blast

subsection \<open>Steps of the coordinator as steps of a ticket\<close>

lemma phase_other [simp]:
  "phase t (c\<lparr>c_server := st\<rparr>) = phase t c" "phase t (c\<lparr>c_completions := ts\<rparr>) = phase t c"
  by (simp_all add: phase_def)

lemma find_ticket_None: "t \<notin> j_ticket ` set js \<Longrightarrow> List.find (\<lambda>j. j_ticket j = t) js = None"
  by (auto simp: find_None_iff)

lemma find_append: "List.find P (xs @ ys) = (case List.find P xs of None \<Rightarrow> List.find P ys | Some x \<Rightarrow> Some x)"
  by (induction xs) auto

lemma find_filter: "(\<And>x. x \<in> set xs \<Longrightarrow> P x \<Longrightarrow> Q x) \<Longrightarrow> List.find P (filter Q xs) = List.find P xs"
  by (induction xs) auto

lemma phase_spawn:
  "phase t (spawn_handler_task u s c) =
     (if u \<noteq> t then phase t c else if t \<notin> j_ticket ` set (live c) then Running s None
      else slot_phase t (Some \<lparr>ts_handle = c_spawned c, ts_pending = None\<rparr>) (live c))"
proof (cases "u = t")
  case True
  then show ?thesis
    by (cases "List.find (\<lambda>j. j_ticket j = t) (live c)")
       (auto simp: phase_def slot_phase_def find_append find_ticket_None find_None_iff)
next
  case False
  then have "List.find (\<lambda>j. j_ticket j = t) (live (spawn_handler_task u s c)) = List.find (\<lambda>j. j_ticket j = t) (live c)"
    by (simp add: find_append split: option.splits)
  then have "slot_phase t (c_in_flight c t) (live (spawn_handler_task u s c)) = slot_phase t (c_in_flight c t) (live c)"
    by (rule slot_phase_cong)
  then show ?thesis
    using False by (simp add: phase_def del: live_spawn)
qed

lemma phase_request:
  assumes "serialized c"
  shows "phase t (handle_request x r c) = phase t c \<or> phase_step (phase t c) (phase t (handle_request x r c))"
proof -
  let ?u = "tr_ticket_id r" and ?s = "tr_target_status r"
  obtain st' res where run: "fresh (\<lambda>n. on_workflows (create_intent (x_uuid x n) (x_now x n) ?u ?s)) (c_server c) = (st', res)"
    by fastforce
  show ?thesis
  proof (cases res)
    case (Inl e)
    then show ?thesis
      using run by (simp add: handle_request_def Let_def)
  next
    case ok: (Inr a)
    show ?thesis
    proof (cases "c_in_flight c ?u")
      case None
      then have "handle_request x r c = spawn_handler_task ?u ?s (c\<lparr>c_server := st'\<rparr>)"
        using run ok by (simp add: handle_request_def Let_def)
      moreover have "phase ?u c = Free"
        using None by (simp add: phase_def)
      ultimately show ?thesis
        using free_ticket [OF assms None] phase_spawn [of t ?u ?s "c\<lparr>c_server := st'\<rparr>"]
        by (cases "?u = t") (auto intro: phase_step.starts)
    next
      case (Some slot)
      then have h: "handle_request x r c = c\<lparr>c_server := st', c_in_flight := (c_in_flight c)(?u \<mapsto> slot\<lparr>ts_pending := Some r\<rparr>)\<rparr>"
        using run ok by (simp add: handle_request_def Let_def)
      show ?thesis
      proof (cases "?u = t")
        case True
        then show ?thesis
          using Some
          by (cases "List.find (\<lambda>j. j_ticket j = t) (live c)")
             (auto simp: h phase_def slot_phase_def intro: phase_step.waits phase_step.waits_ended)
      qed (simp add: h phase_def)
    qed
  qed
qed

lemma phase_completion:
  assumes "serialized c" and "c_completions c = u # us"
  shows "phase t (handle_completion u (c\<lparr>c_completions := us\<rparr>)) = phase t c \<or>
    phase_step (phase t c) (phase t (handle_completion u (c\<lparr>c_completions := us\<rparr>)))"
proof (cases "c_in_flight c u")
  case None
  then show ?thesis
    by (simp add: handle_completion_def)
next
  case (Some slot)
  let ?d = "c\<lparr>c_completions := us, c_in_flight := (c_in_flight c)(u := None)\<rparr>"
  have gone: "u \<notin> j_ticket ` set (live c)"
    using assms by (force simp: serialized_def one_per_ticket_def)
  have ended: "phase u c = Ended (map_option tr_target_status (ts_pending slot))"
    using Some gone by (simp add: phase_def slot_phase_def find_ticket_None)
  have rest: "phase t ?d = (if t = u then Free else phase t c)"
    by (simp add: phase_def)
  show ?thesis
  proof (cases "ts_pending slot")
    case None
    then have "handle_completion u (c\<lparr>c_completions := us\<rparr>) = ?d"
      using Some by (simp add: handle_completion_def)
    then show ?thesis
      using rest ended None by (auto intro: phase_step.freed)
  next
    case pend: (Some r)
    then have "tr_ticket_id r = u"
      using assms(1) Some by (auto simp: serialized_def pending_own_def)
    then have "handle_completion u (c\<lparr>c_completions := us\<rparr>) = spawn_handler_task u (tr_target_status r) ?d"
      using Some pend by (simp add: handle_completion_def Let_def)
    moreover have "live ?d = live c"
      by simp
    ultimately show ?thesis
      using phase_spawn [of t u "tr_target_status r" ?d] gone rest ended pend by (auto intro: phase_step.next_starts)
  qed
qed

lemma phase_cancel:
  assumes "coord_inv c"
  shows "phase t (handle_cancel u c) = phase t c \<or> phase_step (phase t c) (phase t (handle_cancel u c))"
proof (cases "c_in_flight c u")
  case (Some slot)
  let ?d = "c\<lparr>c_in_flight := (c_in_flight c)(u := None), c_tasks := abort (ts_handle slot) (c_tasks c)\<rparr>"
  have h: "handle_cancel u c = ?d"
    using Some by (simp add: handle_cancel_def)
  show ?thesis
  proof (cases "t = u")
    case True
    then have "phase t ?d = Free"
      by (simp add: phase_def)
    then show ?thesis
      using h by (simp add: phase_step.cancelled)
  next
    case False
    have live: "live ?d = filter (\<lambda>j. j_handle j \<noteq> ts_handle slot) (live c)"
      using live_abort [of "ts_handle slot" "c\<lparr>c_in_flight := (c_in_flight c)(u := None)\<rparr>"] by simp
    have keep: "j_handle j \<noteq> ts_handle slot" if "j \<in> set (live c)" "j_ticket j = t" for j
      using assms that Some False unfolding coord_inv_def serialized_def one_per_ticket_def slots_own_def by metis
    then have "List.find (\<lambda>j. j_ticket j = t) (live ?d) = List.find (\<lambda>j. j_ticket j = t) (live c)"
      unfolding live by (rule find_filter)
    then have "slot_phase t (c_in_flight c t) (live ?d) = slot_phase t (c_in_flight c t) (live c)"
      by (rule slot_phase_cong)
    then show ?thesis
      using False by (simp add: h phase_def del: live_other)
  qed
qed (simp add: handle_cancel_def)

lemma phase_delete:
  assumes "serialized c" and "j \<in> set (c_tasks c)"
  defines "d \<equiv> c\<lparr>c_tasks := delete_where (\<lambda>i. j_handle i = j_handle j) (c_tasks c)\<rparr>"
  shows "phase t d = phase t c \<or> (\<not> j_aborted j \<and> phase_step (phase t c) (phase t d))"
proof -
  have live: "live d = filter (\<lambda>i. i \<noteq> j) (live c)"
  proof -
    have "j_handle i = j_handle j \<longleftrightarrow> i = j" if "i \<in> set (c_tasks c)" for i
      using assms(1,2) that by (auto simp: serialized_def one_per_ticket_def distinct_map dest: inj_onD)
    then show ?thesis
      by (auto simp: d_def live_def delete_where_def intro: filter_cong)
  qed
  have slots: "c_in_flight d = c_in_flight c"
    by (simp add: d_def)
  show ?thesis
  proof (cases "j \<in> set (live c) \<and> j_ticket j = t")
    case True
    have only: "i = j" if "i \<in> set (live c)" "j_ticket i = t" for i
      using assms(1) True that by (auto simp: serialized_def one_per_ticket_def distinct_map dest: inj_onD)
    have "List.find (\<lambda>i. j_ticket i = t) (live d) = None"
      using only by (intro find_ticket_None) (auto simp: live)
    moreover have "List.find (\<lambda>i. j_ticket i = t) (live c) = Some j"
      using True only by (metis (mono_tags, lifting) find_None_iff find_SomeD option.exhaust)
    moreover obtain slot where "c_in_flight c t = Some slot"
      using assms(1) True by (auto simp: serialized_def one_per_ticket_def)
    ultimately show ?thesis
      using True by (auto simp: phase_def slot_phase_def slots set_live intro: phase_step.ends)
  next
    case False
    then have "List.find (\<lambda>i. j_ticket i = t) (live d) = List.find (\<lambda>i. j_ticket i = t) (live c)"
      unfolding live by (intro find_filter) auto
    then have "slot_phase t (c_in_flight c t) (live d) = slot_phase t (c_in_flight c t) (live c)"
      by (rule slot_phase_cong)
    then show ?thesis
      by (simp add: phase_def slots)
  qed
qed

lemma phase_of_step:
  assumes "coord_inv c" and "coord_step False x hs c c'"
  shows "phase t c' = phase t c \<or> phase_step (phase t c) (phase t c')"
  using assms(2,1)
proof (induction rule: coord_step.induct)
  case (turn c c')
  then have "serialized c" by (simp add: coord_inv_def)
  have inv: "coord_inv (c\<lparr>c_server := st\<rparr>)" for st
    using turn by (simp add: coord_inv_def)
  note cancel = phase_cancel [OF inv, simplified]
  note request = phase_request [of "c\<lparr>c_server := st\<rparr>" for st, simplified, OF \<open>serialized c\<close>]
  show ?case
  proof (cases "s_cancels (c_server c)")
    case Cons
    then show ?thesis
      using turn cancel by (metis list.simps(5) option.inject run_turn_def)
  next
    case no_cancel: Nil
    show ?thesis
    proof (cases "c_completions c")
      case (Cons u us)
      then show ?thesis
        using turn no_cancel phase_completion [OF \<open>serialized c\<close> Cons, of t] by (simp add: run_turn_def)
    next
      case Nil
      then show ?thesis
        using turn no_cancel request by (auto simp: run_turn_def split: list.splits)
    qed
  qed
next
  case (task_ends j c)
  have "phase t (end_task x hs j c) = phase t (c\<lparr>c_tasks := delete_where (\<lambda>i. j_handle i = j_handle j) (c_tasks c)\<rparr>)"
    by (simp add: end_task_def phase_def live_def split: prod.splits)
  then show ?case
    using task_ends phase_delete [of c j t] by (auto simp: coord_inv_def)
next
  case (task_stops j c)
  then show ?case
    using phase_delete [of c j t] by (auto simp: coord_inv_def)
qed simp_all

lemma phase_init_spawn: "phase_init (phase t c) \<Longrightarrow> phase_init (phase t (spawn_handler_task u s c))"
  by (auto simp: phase_spawn phase_init_def slot_phase_def find_None_iff split: option.splits)

lemma phase_of_init: "coord_init x c \<Longrightarrow> phase_init (phase t c)"
proof -
  have "phase_init (phase t (recover_intents x is c))" if "phase_init (phase t c)" for "is" c
    using that by (induction "is" arbitrary: c) (simp_all add: Let_def phase_init_spawn)
  moreover have "phase_init (phase t (coordinator_new st))" for st
    by (simp add: phase_init_def phase_def coordinator_new_def)
  ultimately show "coord_init x c \<Longrightarrow> phase_init (phase t c)"
    by (auto simp: coord_init_def recover_def)
qed

interpretation ticket: refinement "coord_init x" "coord_step False x hs" coord_inv "phase t" phase_init phase_step for x hs t
  by unfold_locales (fact coord_inv_init coord_inv_step phase_of_init phase_of_step)+


end
