(* ===== verification/Server_Examples.thy ===== *)
theory Server_Examples
  imports Handler_Props Coordinator_Refine
begin

text \<open>
  A server with one ticket, its workflow and its worker, on which the theorems about the
  coordinator and the handlers are applied, and an execution of the coordinator in which a late
  abort makes two handlers of one ticket run.
\<close>

subsection \<open>A server\<close>

definition ex_ticket :: ExportTicket where
  "ex_ticket = \<lparr>et_id = ''ur-1'', et_project = ''ur'', et_type = ''code'', et_status = ''open'', et_lifecycle_status = ''open'',
     et_lifecycle_managed = True, et_priority = 1, et_parent_id = None, et_title = ''title'', et_body = [],
     et_branch = Some ''main'', et_created_at = ''2026'', et_updated_at = ''2026''\<rparr>"

definition ex_meta :: "string \<Rightarrow> string \<Rightarrow> ExportMeta" where
  "ex_meta k v = \<lparr>em_entity_id = ''ur-1'', em_entity_type = ''ticket'', em_key = k, em_value = v\<rparr>"

definition ex_tickets :: ticket_db where
  "ex_tickets = \<lparr>db_ticket = [ex_ticket], db_edge = [], db_meta = [ex_meta ''pr_number'' ''7'', ex_meta ''gh_repo'' ''o/r''],
     db_activity = [\<lparr>ea_id = ''u0'', ea_ticket_id = ''ur-1'', ea_timestamp = ''2026'', ea_author = ''agent'', ea_message = []\<rparr>],
     db_comments = []\<rparr>"

definition ex_workflow :: workflow_row where
  "ex_workflow = \<lparr>wr_id = ''f'', wr_ticket_id = ''ur-1'', wr_status = ''implementing'', wr_stalled = False, wr_stall_reason = [],
     wr_implement_cycles = 1, wr_worker_id = ''k'', wr_noverify = False, wr_feedback_mode = [], wr_ci_status = ''succeeded'',
     wr_mergeable = ''mergeable'', wr_review_status = ''approved'', wr_created_at = ''2026''\<rparr>"

definition ex_event :: event_queue_row where
  "ex_event = \<lparr>qr_id = ''q'', qr_ticket_id = ''ur-1'', qr_old = ''open'', qr_new = ''implementing'', qr_attempts = 0,
     qr_created_at = ''2026''\<rparr>"

definition ex_intent :: intent_row where
  "ex_intent = \<lparr>ir_id = ''i'', ir_ticket_id = ''ur-1'', ir_target_status = ''implementing'', ir_created_at = ''2026''\<rparr>"

definition ex_workflows :: workflow_db where
  "ex_workflows = \<lparr>w_workflow = [ex_workflow], w_queue = [ex_event], w_intent = [ex_intent], w_comments = [], w_events = []\<rparr>"

definition ex_worker :: worker_row where
  "ex_worker = \<lparr>ww_worker_id = ''k'', ww_process_id = ''k'', ww_project_key = ''ur'', ww_container_id = ''c'',
     ww_worker_secret = [], ww_strategy = ''code'', ww_agent_type = ''claude'', ww_container_status = ''running'',
     ww_agent_status = ''idle'', ww_workspace_path = Some ''/p'', ww_created_at = ''2026'', ww_updated_at = ''2026'',
     ww_idle_redispatch_count = 0, ww_brain_path = None, ww_runtime = ''container''\<rparr>"

definition ex_workers :: worker_db where
  "ex_workers = \<lparr>k_slot = [\<lparr>sl_id = ''s'', sl_project_key = ''ur'', sl_slot_name = ''0'', sl_host_path = ''/p'',
       sl_created_at = ''2026'', sl_updated_at = ''2026''\<rparr>], k_worker = [ex_worker],
     k_link = [\<lparr>ws_worker_id = ''k'', ws_slot_id = ''s'', ws_created_at = ''2026''\<rparr>]\<rparr>"

definition ex_server :: server where
  "ex_server = \<lparr>s_tickets = ex_tickets, s_workflows = ex_workflows, s_pool = \<lparr>p_db = ex_workers, p_claiming = {}\<rparr>,
     s_requests = [], s_cancels = [], s_receiving = True, s_tick = 0\<rparr>"

text \<open>The generator of ids and the project keys the service knows vary.\<close>

definition ex_setting :: "(nat \<Rightarrow> string) \<Rightarrow> setting" where
  "ex_setting uuid = \<lparr>x_clock = \<lparr>ck_uuid = uuid, ck_now = (\<lambda>_. ''2027''), ck_rng = (\<lambda>_ _. 0)\<rparr>,
     x_le = bytewise, x_show = (\<lambda>_. ''database error'')\<rparr>"

definition ex_world :: world where
  "ex_world = \<lparr>wd_current_branch = (\<lambda>_ _. Inr ''main''),
     wd_push = (\<lambda>_ b _ _. Inr \<lparr>pr_status = Rejected ''non-fast-forward'', pr_ref_name = b, pr_summary = []\<rparr>),
     wd_force_push = (\<lambda>_ b _ _. Inr \<lparr>pr_status = Success, pr_ref_name = b, pr_summary = []\<rparr>),
     wd_fetch = (\<lambda>_ _. Inr ()), wd_run_hook = (\<lambda>_ _ _. Inl ''no hook''),
     wd_get_pr = (\<lambda>_ _ n. Inr \<lparr>pl_number = n, pl_url = [], pl_state = ''OPEN'', pl_head_ref = ''b'', pl_base_ref = ''main'',
                              pl_title = [], pl_body = []\<rparr>),
     wd_create_pr = (\<lambda>_ _ _. Inl ''refused''),
     wd_merge_pr = (\<lambda>_ _ _. Inr \<lparr>mg_success = False, mg_sha = [], mg_error_message = ''Merge conflict''\<rparr>),
     wd_delete_branch = (\<lambda>_ _ _. Inr ()), wd_implement = (\<lambda>_ _ _. Inr ()), wd_address_feedback = (\<lambda>_ _ _ _ _. Inr ()),
     wd_set_status_left = (\<lambda>_ _ _ _. Inr ()), wd_stop = (\<lambda>_ _. StopOk), wd_exists = (\<lambda>_. False), wd_log_stamp = (\<lambda>_. []),
     wd_show_launch = (\<lambda>_. [])\<rparr>"

definition ex_service :: "(nat \<Rightarrow> string) \<Rightarrow> service" where
  "ex_service uuid = \<lparr>sv_clock = x_clock (ex_setting uuid), sv_le = bytewise, sv_dfs = (\<lambda>_ _ _. []), sv_fuel = 10,
     sv_projects = [''other''],
     sv_engine = True, sv_cancelling = True, sv_stop = None\<rparr>"

definition ex_context :: "(nat \<Rightarrow> string) \<Rightarrow> workflow_context" where
  "ex_context uuid = \<lparr>cx_x = ex_setting uuid, cx_world = ex_world, cx_service = ex_service uuid,
     cx_projects = [''ur'' \<mapsto> \<lparr>pc_repo = Some ''git@github.com:o/r.git'', pc_pool_limit = 2, ps_max_implement_cycles = Some 1,
                            ps_protected_branches = [''main''], ps_push_again_exit_code = 200\<rparr>],
     cx_max_implement_cycles = None, cx_config_dir = ''/c''\<rparr>"

lemma ex_workflows_ok: "wf_schema_ok ex_workflows"
  by (simp add: wf_schema_defs ex_workflows_def ex_workflow_def ex_event_def ex_intent_def int4_def)

lemma ex_tickets_ok: "schema_ok ex_tickets"
  by code_simp

lemma ex_server_parts [simp]:
  "s_workflows ex_server = ex_workflows" "s_tickets ex_server = ex_tickets" "s_requests ex_server = []" "s_tick ex_server = 0"
  by (simp_all add: ex_server_def)

lemma ex_context_parts [simp]: "cx_world (ex_context uuid) = ex_world" "cx_x (ex_context uuid) = ex_setting uuid"
  by (simp_all add: ex_context_def)

subsection \<open>Handlers\<close>

text \<open>
  The merge of a pull request with conflicts. Opening the issue and recording the activity fail
  here (the project is unknown to the service and the id is taken), which the handler only logs.
\<close>

abbreviation ex_merge_context :: workflow_context where
  "ex_merge_context \<equiv> ex_context (\<lambda>_. ''u0'')"

definition ex_stopped :: pool_state where
  "ex_stopped = \<lparr>p_db = ex_workers\<lparr>k_worker := [ex_worker\<lparr>ww_container_status := ''stopped'', ww_updated_at := ''2027''\<rparr>], k_link := []\<rparr>,
     p_claiming = {}\<rparr>"

definition ex_killed :: server where
  "ex_killed = ex_server\<lparr>s_tick := 2, s_pool := ex_stopped\<rparr>"

definition ex_unmerged :: server where
  "ex_unmerged = ex_killed\<lparr>s_tick := 4, s_requests := [\<lparr>tr_ticket_id = ''ur-1'', tr_target_status = Implementing\<rparr>]\<rparr>"

definition ex_unmerged_done :: server where
  "ex_unmerged_done = ex_unmerged\<lparr>s_workflows := ex_workflows\<lparr>w_workflow := [ex_workflow\<lparr>wr_status := ''done''\<rparr>]\<rparr>\<rparr>"

lemma ex_merge_steps:
  "load_ticket ''ur-1'' ex_server = (ex_server, Inr (row_with_counts [ex_ticket] ex_ticket))"
  "promote_autoapprove ''ur-1'' (get_meta ex_tickets ''ur-1'' ''ticket'') ex_server = (ex_server, Inr ())"
  "load_assigned ex_merge_context ''ur-1'' ''merge'' ex_server = (ex_server, Inr (row_to_workflow ex_workflow))"
  "check_pre_merge_conditions (row_to_workflow ex_workflow) ''ur-1'' = Inr ()"
  "get_meta ex_tickets ''ur-1'' ''ticket'' ''pr_number'' = Some ''7''"
  "get_meta ex_tickets ''ur-1'' ''ticket'' ''gh_repo'' = Some ''o/r''"
  "kill_worker ex_merge_context ''k'' (ex_server\<lparr>s_tick := Suc 0\<rparr>) = (ex_killed, Inr ())"
  "on_workflows (update_workflow_status ''ur-1'' Done) ex_unmerged = (ex_unmerged_done, Inr ())"
  "snd (close_ticket ex_merge_context ''ur-1'' ex_unmerged_done) = Inr ()"
  by code_simp+

lemma ex_parse: "parse_i64 ''7'' = Some 7"
  by (simp add: parse_i64_def parse_digits_def is_digit_def digits_value_def)

lemma ex_merge_failure:
  "handle_merge_conflict ex_merge_context ''ur-1'' ''7'' ''Merge conflict'' (ex_killed\<lparr>s_tick := Suc (Suc (Suc 0))\<rparr>) = (ex_unmerged, Inr ())"
  "is_merge_conflict ''Merge conflict''" "s_tick ex_killed = 2"
  by code_simp+

lemma ex_merge_pr: "merge_pr ex_merge_context ''ur-1'' ''7'' ''o/r'' ex_killed = (ex_unmerged, Inr ())"
  using ex_merge_failure by (simp add: merge_pr_def read_state_def ok_or_msg_def ex_parse ask_def ex_world_def eval_nat_numeral)

theorem failed_merge_closes_ticket_witness:
  "\<exists>st'. execute_merge ex_merge_context ''ur-1'' ex_server = (st', Inr ()) \<and>
     \<lparr>tr_ticket_id = ''ur-1'', tr_target_status = Implementing\<rparr> \<in> set (s_requests st') \<and>
     (\<exists>row. List.find (\<lambda>r. et_id r = ''ur-1'') (db_ticket (s_tickets st')) = Some row \<and> et_status row = ''closed'')"
proof -
  have read: "read_state f st = (st, f st)" for f :: "server \<Rightarrow> handler_error + 'a" and st
    by (simp add: read_state_def)
  have pr: "ask (\<lambda>n. wd_get_pr (cx_world ex_merge_context) n ''o/r'' 7) ex_server = (ex_server\<lparr>s_tick := Suc 0\<rparr>,
      Inr \<lparr>pl_number = 7, pl_url = [], pl_state = ''OPEN'', pl_head_ref = ''b'', pl_base_ref = ''main'', pl_title = [], pl_body = []\<rparr>)"
    by (simp add: ask_def ex_world_def)
  have "snd (execute_merge ex_merge_context ''ur-1'' ex_server) = snd (close_ticket ex_merge_context ''ur-1'' ex_unmerged_done)"
    using ex_merge_steps ex_parse ex_merge_pr pr
    by (simp add: execute_merge_def read ok_or_msg_def and_log_def attempt_def pr_already_merged_def row_to_workflow_def ex_workflow_def)
  then have "snd (execute_merge ex_merge_context ''ur-1'' ex_server) = Inr ()"
    using ex_merge_steps by simp
  then obtain st' where run: "execute_merge ex_merge_context ''ur-1'' ex_server = (st', Inr ())"
    by (metis prod.collapse)
  moreover have "\<forall>k repo i pr. wd_get_pr (cx_world ex_merge_context) k repo i = Inr pr \<longrightarrow> \<not> pr_already_merged pr"
    by (auto simp: ex_world_def pr_already_merged_def)
  moreover have "\<forall>k repo i res. wd_merge_pr (cx_world ex_merge_context) k repo i = Inr res \<longrightarrow> \<not> mg_success res"
    by (auto simp: ex_world_def)
  ultimately show ?thesis
    using failed_merge_closes_ticket [of ex_merge_context "''ur-1''" ex_server st'] by blast
qed

abbreviation ex_uuid :: "nat \<Rightarrow> string" where
  "ex_uuid \<equiv> \<lambda>n. CHR ''u'' # show_nat n"

theorem protected_branch_not_forced_witness:
  "handle_push (with_force_push (\<lambda>_ _ _ _. Inl ''unreachable'') (ex_context ex_uuid)) ''ur-1'' ex_server =
   handle_push (ex_context ex_uuid) ''ur-1'' ex_server"
proof -
  have "get_ticket (s_tickets ex_server) ''ur-1'' = Some (row_with_counts [ex_ticket] ex_ticket)"
    "tk_branch (row_with_counts [ex_ticket] ex_ticket) = Some ''main''"
    "is_branch_protected ''main'' (map_option ps_protected_branches (cx_projects (ex_context ex_uuid) (tk_project (row_with_counts [ex_ticket] ex_ticket))))"
    by code_simp+
  then show ?thesis
    by (rule protected_branch_not_forced)
qed

theorem implement_cycles_bounded_witness:
  "snd (dispatch_implement (ex_context ex_uuid) ''ur-1'' ex_server) = Inr () \<and>
   map wr_stalled (w_workflow (s_workflows (fst (dispatch_implement (ex_context ex_uuid) ''ur-1'' ex_server)))) = [True]"
proof -
  have "active_rows ''ur-1'' (s_workflows ex_server) = [ex_workflow]"
    "get_ticket (s_tickets ex_server) ''ur-1'' = Some (row_with_counts [ex_ticket] ex_ticket)"
    "resolve_cycle_limit (ex_context ex_uuid) (tk_project (row_with_counts [ex_ticket] ex_ticket)) = Some 1"
    by code_simp+
  note bounded = implement_cycles_bounded [OF _ this]
  show ?thesis
    using bounded ex_workflows_ok by (simp add: ex_workflows_def ex_workflow_def active_row_def)
qed

theorem engine_empties_queue_witness:
  "w_queue (s_workflows (fst (poll_once (ex_setting ex_uuid) (handler_table (build_handlers (ex_context ex_uuid))) ex_server))) = []"
proof -
  have "hooks_sliceable (ex_context ex_uuid)" "wf_schema_ok (s_workflows ex_server)" "length (w_queue (s_workflows ex_server)) = 1"
    using ex_workflows_ok by (simp_all add: hooks_sliceable_def ex_world_def) (simp add: ex_workflows_def)
  then show ?thesis
    using engine_empties_queue [where st = ex_server and cx = "ex_context ex_uuid" and x = "ex_setting ex_uuid" and n = 1] by simp
qed

subsection \<open>Transitions\<close>

lemma ex_ticket_there: "get_ticket (s_tickets ex_server) ''ur-1'' = Some (row_with_counts [ex_ticket] ex_ticket)"
  by code_simp

theorem enter_status_effect_witness:
  "tk_lifecycle_status (the (get_ticket (s_tickets (enter_status (ex_setting ex_uuid) ''ur-1'' Verifying ex_server)) ''ur-1'')) = Verifying \<and>
   map wr_status (w_workflow (s_workflows (enter_status (ex_setting ex_uuid) ''ur-1'' Verifying ex_server))) = [''verifying''] \<and>
   w_queue (s_workflows (enter_status (ex_setting ex_uuid) ''ur-1'' Verifying ex_server)) = [] \<and>
   w_intent (s_workflows (enter_status (ex_setting ex_uuid) ''ur-1'' Verifying ex_server)) = [ex_intent]"
  using enter_status_effect [OF _ _ ex_ticket_there, of "ex_setting ex_uuid" Verifying] ex_workflows_ok ex_tickets_ok
  by (simp add: Let_def ex_workflows_def ex_workflow_def ex_event_def active_row_def)

lemma ex_enter_ok: "wf_schema_ok (s_workflows (enter_status (ex_setting ex_uuid) ''ur-1'' Implementing ex_server))"
  by code_simp

lemma ex_enter_rows:
  "w_workflow (s_workflows (enter_status (ex_setting ex_uuid) ''ur-1'' Implementing ex_server)) = [ex_workflow]"
  "w_intent (s_workflows (enter_status (ex_setting ex_uuid) ''ur-1'' Implementing ex_server)) = [ex_intent]"
  by code_simp+

theorem run_handler_outcome_witness:
  "\<exists>st'. run_handler (ex_setting ex_uuid) (Some (\<lambda>_. throw (Failed ''boom''))) ''ur-1'' Implementing ex_server = (st', Inr ()) \<and>
     map wr_stall_reason (w_workflow (s_workflows st')) = [''boom''] \<and> w_intent (s_workflows st') = []"
  using run_handler_outcome [where h = "\<lambda>_. throw (Failed ''boom'')" and t = "''ur-1''" and s = Implementing and st = ex_server
      and x = "ex_setting ex_uuid"] ex_enter_ok
  by (simp add: ex_enter_rows) (simp add: ex_workflow_def ex_intent_def active_row_def parse_lifecycle_def LifecycleStatus_from_str_def)

subsection \<open>The coordinator\<close>

lemma ex_fresh: "fresh_ids (ex_setting ex_uuid) ex_server"
proof -
  have "inj ex_uuid"
    by (rule injI) (auto dest: show_nat_inj)
  then show ?thesis
    by (simp add: fresh_ids_def ex_setting_def ex_workflows_def ex_intent_def)
qed

definition ex_busy :: coordinator where
  "ex_busy = spawn_handler_task ''ur-1'' Implementing (coordinator_new ex_server)"

theorem latest_request_wins_witness:
  "\<exists>j. c_tasks (handle_completion ''ur-1'' (fold (handle_request (ex_setting ex_uuid))
      [\<lparr>tr_ticket_id = ''ur-1'', tr_target_status = Verifying\<rparr>, \<lparr>tr_ticket_id = ''ur-1'', tr_target_status = Pushing\<rparr>] ex_busy)) =
     c_tasks ex_busy @ [j] \<and> j_target j = Pushing"
proof -
  have "c_in_flight ex_busy ''ur-1'' = Some \<lparr>ts_handle = 0, ts_pending = None\<rparr>" "c_server ex_busy = ex_server"
    by (simp_all add: ex_busy_def spawn_handler_task_def coordinator_new_def)
  then show ?thesis
    using latest_request_wins [where t = "''ur-1''" and c = ex_busy and x = "ex_setting ex_uuid" and slot = "\<lparr>ts_handle = 0, ts_pending = None\<rparr>"
        and rs = "[\<lparr>tr_ticket_id = ''ur-1'', tr_target_status = Verifying\<rparr>, \<lparr>tr_ticket_id = ''ur-1'', tr_target_status = Pushing\<rparr>]"]
      ex_fresh ex_workflows_ok by (auto simp: Let_def)
qed

abbreviation ex_started :: coordinator where
  "ex_started \<equiv> recover (ex_setting ex_uuid) (coordinator_new ex_server)"

abbreviation ex_task :: task where
  "ex_task \<equiv> \<lparr>j_handle = 0, j_ticket = ''ur-1'', j_target = Implementing, j_aborted = False\<rparr>"

lemma ex_started_facts:
  "c_tasks ex_started = [ex_task]" "c_server ex_started = ex_server"
  by code_simp+

lemma ex_started_init: "coord_init (ex_setting ex_uuid) ex_started"
proof -
  have "distinct (map wi_ticket_id (recovered_intents (ex_setting ex_uuid) ex_server))"
    by code_simp
  then show ?thesis
    unfolding coord_init_def by blast
qed

theorem handlers_serialized_witness: "set (live ex_started) = {ex_task}"
proof -
  have there: "ex_task \<in> set (live ex_started)"
    by (simp add: set_live ex_started_facts)
  have "reachable_from (coord_init (ex_setting ex_uuid)) (coord_step False (ex_setting ex_uuid) Map.empty) ex_started"
    by (rule reach_init [of "coord_init (ex_setting ex_uuid)", OF ex_started_init])
  then have "i = ex_task" if "i \<in> set (live ex_started)" for i
    using handlers_serialized [OF _ that there] that by (simp add: set_live ex_started_facts)
  then show ?thesis
    using there by blast
qed


definition ex_empty :: server where
  "ex_empty = ex_server\<lparr>s_tickets := ex_tickets\<lparr>db_ticket := []\<rparr>,
     s_workflows := \<lparr>w_workflow = [], w_queue = [], w_intent = [], w_comments = [], w_events = []\<rparr>\<rparr>"

theorem late_abort_runs_two_witness:
  "\<exists>c i j. reachable_from (coord_init (ex_setting ex_uuid)) (coord_step True (ex_setting ex_uuid) Map.empty) c \<and>
    i \<in> set (live c) \<and> j \<in> set (live c) \<and> i \<noteq> j \<and> j_ticket i = j_ticket j"
proof -
  have "inj ex_uuid"
    by (rule injI) (auto dest: show_nat_inj)
  then have "can_request (ex_setting ex_uuid) ex_empty"
    by (simp add: can_request_def fresh_ids_def ex_empty_def ex_setting_def wf_schema_defs)
  then show ?thesis
    using late_abort_runs_two [of "ex_setting ex_uuid" ex_empty] by (simp add: bare_def ex_empty_def ex_server_def)
qed

abbreviation ex_ended :: coordinator where
  "ex_ended \<equiv> end_task (ex_setting ex_uuid) Map.empty ex_task ex_started"


end
