(* ===== verification/Github_Poller.thy ===== *)
theory Github_Poller
  imports Push_Merge
begin

text \<open>
  The poller of \<open>crates/server/src/workflow/github_poller.rs\<close>: it looks at the pull requests of the
  tickets in review, records what it finds in the conditions of their workflows, opens issue
  tickets for failures and asks the coordinator for the next transition; and it answers the
  comments that tickets were made from.

  What GitHub answers is given by \<open>github\<close>, with the reading count as first argument. The methods
  of the poller return nothing; an error is logged and ends the method, so they are functions on
  the server's state. The pauses between calls are left out.
\<close>

subsection \<open>GitHub\<close>

record CheckRun =
  kr_name :: string
  kr_status :: string
  kr_conclusion :: string
  kr_details_url :: string
  kr_completed_at :: string

record ConversationComment =
  cc_id :: int
  cc_user :: string
  cc_is_bot :: bool
  cc_body :: string
  cc_created_at :: string

text \<open>
  \<open>gw_mergeable\<close> and \<open>gw_merged\<close> are the fields of that name of the pull request's JSON, read as
  booleans; \<open>gw_commits\<close> is the exit code and output of the query for the latest commits, and
  \<open>gw_commit_date\<close> the date of the last commit in such an output, empty when it has none.
\<close>

record github =
  gw_get_pr :: "nat \<Rightarrow> string \<Rightarrow> int \<Rightarrow> string + PullRequest"
  gw_mergeable :: "nat \<Rightarrow> string \<Rightarrow> int \<Rightarrow> string + bool option"
  gw_merged :: "nat \<Rightarrow> string \<Rightarrow> int \<Rightarrow> string + bool option"
  gw_check_runs :: "nat \<Rightarrow> string \<Rightarrow> int \<Rightarrow> string + CheckRun list"
  gw_comments :: "nat \<Rightarrow> string \<Rightarrow> int \<Rightarrow> string + ConversationComment list"
  gw_commits :: "nat \<Rightarrow> string \<Rightarrow> int \<Rightarrow> string + int \<times> string"
  gw_commit_date :: "string \<Rightarrow> string option"
  gw_reply :: "nat \<Rightarrow> string \<Rightarrow> int \<Rightarrow> int \<Rightarrow> string \<Rightarrow> string + int"
  gw_post_comment :: "nat \<Rightarrow> string \<Rightarrow> int \<Rightarrow> string \<Rightarrow> string + int"

record poller =
  gp_cx :: workflow_context
  gp_github :: github
  gp_ignored :: "string \<Rightarrow> string list option"

definition query_github :: "(nat \<Rightarrow> 'a) \<Rightarrow> server \<Rightarrow> server \<times> 'a" where
  "query_github f st = (st\<lparr>s_tick := Suc (s_tick st)\<rparr>, f (s_tick st))"

subsection \<open>Check runs\<close>

definition eq_ignore_ascii_case :: "string \<Rightarrow> string \<Rightarrow> bool" where
  "eq_ignore_ascii_case a b = (map lower_char a = map lower_char b)"

definition is_check_completed :: "string \<Rightarrow> string \<Rightarrow> bool" where
  "is_check_completed status conclusion =
     (status = [] \<or> eq_ignore_ascii_case status ''completed'' \<or> eq_ignore_ascii_case status ''success'' \<or>
      eq_ignore_ascii_case status ''failure'' \<or> eq_ignore_ascii_case status ''neutral'' \<or>
      eq_ignore_ascii_case status ''skipped'' \<or> conclusion \<noteq> [])"

definition is_check_failed :: "string \<Rightarrow> bool" where
  "is_check_failed conclusion =
     (conclusion \<noteq> [] \<and> \<not> eq_ignore_ascii_case conclusion ''success'' \<and>
      \<not> eq_ignore_ascii_case conclusion ''skipped'' \<and> \<not> eq_ignore_ascii_case conclusion ''neutral'')"

definition filter_ignored_checks :: "CheckRun list \<Rightarrow> string list \<Rightarrow> CheckRun list" where
  "filter_ignored_checks runs ignored = filter (\<lambda>r. kr_name r \<notin> set ignored) runs"

record CiCheckResult =
  ci_result_status :: string
  ci_result_completed_at :: string

text \<open>The loop over the runs, with its three variables.\<close>

fun ci_loop :: "CheckRun list \<Rightarrow> bool \<Rightarrow> bool \<Rightarrow> string \<Rightarrow> bool \<times> bool \<times> string" where
  "ci_loop [] all_completed any_failed latest = (all_completed, any_failed, latest)"
| "ci_loop (run # runs) all_completed any_failed latest =
     (if \<not> is_check_completed (kr_status run) (kr_conclusion run) then ci_loop runs False any_failed latest
      else ci_loop runs all_completed (any_failed \<or> is_check_failed (kr_conclusion run))
             (if kr_completed_at run \<noteq> [] \<and> latest < kr_completed_at run then kr_completed_at run else latest))"

definition evaluate_ci_runs :: "CheckRun list \<Rightarrow> CiCheckResult" where
  "evaluate_ci_runs runs =
     (case ci_loop runs True False [] of (all_completed, any_failed, latest) \<Rightarrow>
        \<lparr>ci_result_status = (if any_failed then ci_FAILED else if all_completed then ci_SUCCEEDED else ci_PENDING),
         ci_result_completed_at = latest\<rparr>)"

definition check_ci_status :: "string + CheckRun list \<Rightarrow> string list \<Rightarrow> string + string \<times> string" where
  "check_ci_status answer ignored =
     and_then answer (\<lambda>runs.
       if runs = [] then Inr (ci_SUCCEEDED, [])
       else let filtered = filter_ignored_checks runs ignored in
         if filtered = [] then Inr (ci_SUCCEEDED, [])
         else let result = evaluate_ci_runs filtered in Inr (ci_result_status result, ci_result_completed_at result))"

definition collect_failing_checks :: "string + CheckRun list \<Rightarrow> string list \<Rightarrow> string" where
  "collect_failing_checks answer ignored =
     (case answer of
        Inl e \<Rightarrow> ''(failed to fetch check runs: '' @ e @ '')''
      | Inr runs \<Rightarrow>
          (let failures = map (\<lambda>r. kr_name r @ '': '' @ kr_conclusion r)
                 (filter (\<lambda>r. is_check_failed (kr_conclusion r)) (filter_ignored_checks runs ignored)) in
           if failures = [] then ''CI failed (no specific failing checks identified)''
           else ''Failing checks:'' @ nl @ join nl failures))"

subsection \<open>Review signals\<close>

datatype ReviewSignal = Approve | RequestChanges | Merged | Closed | Pending

record ReviewCheckResult =
  rk_signal :: ReviewSignal
  rk_unseen_count :: nat

definition parse_review_command :: "string \<Rightarrow> ReviewSignal option" where
  "parse_review_command text =
     (if text = ''ur approve'' then Some Approve else if text = ''ur respond'' then Some RequestChanges else None)"

definition has_commits_after_comment :: "(string \<Rightarrow> string option) \<Rightarrow> string \<Rightarrow> string \<Rightarrow> bool" where
  "has_commits_after_comment commit_date commits_stdout comment_created_at =
     (case commit_date commits_stdout of
        None \<Rightarrow> False
      | Some d \<Rightarrow> comment_created_at \<noteq> [] \<and> d \<noteq> [] \<and> comment_created_at < d)"

definition unseen_comments :: "ConversationComment list \<Rightarrow> string list \<Rightarrow> ConversationComment list" where
  "unseen_comments comments seen_ids = filter (\<lambda>c. show_int (cc_id c) \<notin> set seen_ids) comments"

definition check_open_pr_comments ::
  "github \<Rightarrow> string \<Rightarrow> int \<Rightarrow> string list \<Rightarrow> server \<Rightarrow> server \<times> (string + ReviewCheckResult)" where
  "check_open_pr_comments gh gh_repo pr_number seen_ids st =
     (case query_github (\<lambda>n. gw_comments gh n gh_repo pr_number) st of
        (st1, Inl e) \<Rightarrow> (st1, Inl e)
      | (st1, Inr comments) \<Rightarrow>
          (let unseen = unseen_comments comments seen_ids in
           if unseen = [] then (st1, Inr \<lparr>rk_signal = Pending, rk_unseen_count = 0\<rparr>)
           else
             let latest = last unseen in
             case query_github (\<lambda>n. gw_commits gh n gh_repo pr_number) st1 of
               (st2, answer) \<Rightarrow>
                 (let superseded = (case answer of
                        Inl _ \<Rightarrow> False
                      | Inr (exit_code, stdout) \<Rightarrow>
                          exit_code = 0 \<and> has_commits_after_comment (gw_commit_date gh) stdout (cc_created_at latest));
                      signal = (if superseded then Pending
                                else opt_or (parse_review_command (trim (cc_body latest))) Pending)
                  in (st2, Inr \<lparr>rk_signal = signal, rk_unseen_count = length unseen\<rparr>))))"

definition determine_closed_pr_signal :: "github \<Rightarrow> string \<Rightarrow> string \<Rightarrow> int \<Rightarrow> server \<Rightarrow> server \<times> (string + ReviewSignal)" where
  "determine_closed_pr_signal gh state gh_repo pr_number st =
     (if state = ''MERGED'' then (st, Inr Merged)
      else case query_github (\<lambda>n. gw_merged gh n gh_repo pr_number) st of
             (st1, Inl e) \<Rightarrow> (st1, Inl e)
           | (st1, Inr merged) \<Rightarrow> (st1, Inr (if opt_or merged False then Merged else Closed)))"

definition check_review_signal ::
  "github \<Rightarrow> string \<Rightarrow> int \<Rightarrow> string list \<Rightarrow> server \<Rightarrow> server \<times> (string + ReviewCheckResult)" where
  "check_review_signal gh gh_repo pr_number seen_ids st =
     (case query_github (\<lambda>n. gw_get_pr gh n gh_repo pr_number) st of
        (st1, Inl e) \<Rightarrow> (st1, Inl e)
      | (st1, Inr pr) \<Rightarrow>
          if pr_already_merged pr
          then (case determine_closed_pr_signal gh (pl_state pr) gh_repo pr_number st1 of
                  (st2, Inl e) \<Rightarrow> (st2, Inl e)
                | (st2, Inr signal) \<Rightarrow> (st2, Inr \<lparr>rk_signal = signal, rk_unseen_count = 0\<rparr>))
          else check_open_pr_comments gh gh_repo pr_number seen_ids st1)"

subsection \<open>Conditions of a workflow\<close>

definition to_ci_status_const :: "string \<Rightarrow> string" where
  "to_ci_status_const v = (if v = ci_SUCCEEDED then ci_SUCCEEDED else if v = ci_FAILED then ci_FAILED else ci_PENDING)"

definition to_mergeable_const :: "string \<Rightarrow> string" where
  "to_mergeable_const v =
     (if v = mergeable_MERGEABLE then mergeable_MERGEABLE else if v = mergeable_CONFLICT then mergeable_CONFLICT else mergeable_UNKNOWN)"

definition to_review_status_const :: "string \<Rightarrow> string" where
  "to_review_status_const v =
     (if v = review_APPROVED then review_APPROVED
      else if v = review_CHANGES_REQUESTED then review_CHANGES_REQUESTED else review_PENDING)"

definition poller_emit_event :: "poller \<Rightarrow> string \<Rightarrow> WorkflowEventKind \<Rightarrow> server \<Rightarrow> server" where
  "poller_emit_event gp workflow_id event st =
     (let x = cx_x (gp_cx gp) in
      attempt (fresh (\<lambda>n. on_workflows (insert_workflow_event (x_uuid x n) (x_now x n) workflow_id event))) st)"

definition emit_workflow_event_at :: "poller \<Rightarrow> string \<Rightarrow> WorkflowEventKind \<Rightarrow> string \<Rightarrow> server \<Rightarrow> server" where
  "emit_workflow_event_at gp workflow_id event created_at st =
     (if created_at = [] then poller_emit_event gp workflow_id event st
      else attempt (fresh (\<lambda>n. on_workflows (insert_workflow_event_at (x_uuid (cx_x (gp_cx gp)) n) workflow_id event created_at))) st)"

definition poll_ci_condition ::
  "poller \<Rightarrow> string \<Rightarrow> Workflow \<Rightarrow> string \<Rightarrow> int \<Rightarrow> string list \<Rightarrow> server \<Rightarrow> server \<times> string" where
  "poll_ci_condition gp ticket_id workflow gh_repo pr_number ignored st =
     (case query_github (\<lambda>n. check_ci_status (gw_check_runs (gp_github gp) n gh_repo pr_number) ignored) st of
        (st1, Inl _) \<Rightarrow> (st1, to_ci_status_const (wf_ci_status workflow))
      | (st1, Inr (new_status, completed_at)) \<Rightarrow>
          if new_status \<noteq> wf_ci_status workflow
          then (case on_workflows (update_workflow_condition ticket_id CiStatus new_status) st1 of
                  (st2, Inl _) \<Rightarrow> (st2, to_ci_status_const (wf_ci_status workflow))
                | (st2, Inr _) \<Rightarrow>
                    (if new_status = ci_SUCCEEDED then emit_workflow_event_at gp (wf_id workflow) WCiSucceeded completed_at st2
                     else if new_status = ci_FAILED then emit_workflow_event_at gp (wf_id workflow) WCiFailed completed_at st2
                     else st2, new_status))
          else (st1, new_status))"

definition check_mergeable :: "string + bool option \<Rightarrow> string" where
  "check_mergeable answer =
     (case answer of
        Inl _ \<Rightarrow> mergeable_UNKNOWN
      | Inr m \<Rightarrow> (case m of None \<Rightarrow> mergeable_UNKNOWN | Some b \<Rightarrow> if b then mergeable_MERGEABLE else mergeable_CONFLICT))"

definition poll_mergeable_condition :: "poller \<Rightarrow> string \<Rightarrow> Workflow \<Rightarrow> string \<Rightarrow> int \<Rightarrow> server \<Rightarrow> server \<times> string" where
  "poll_mergeable_condition gp ticket_id workflow gh_repo pr_number st =
     (case query_github (\<lambda>n. check_mergeable (gw_mergeable (gp_github gp) n gh_repo pr_number)) st of
        (st1, new_status) \<Rightarrow>
          if new_status \<noteq> wf_mergeable workflow
          then (case on_workflows (update_workflow_condition ticket_id Mergeable new_status) st1 of
                  (st2, Inl _) \<Rightarrow> (st2, to_mergeable_const (wf_mergeable workflow))
                | (st2, Inr _) \<Rightarrow>
                    (if new_status = mergeable_CONFLICT then poller_emit_event gp (wf_id workflow) WMergeConflictDetected st2
                     else st2, new_status))
          else (st1, new_status))"

record ReviewResult =
  rv_status :: string
  rv_signal :: ReviewSignal
  rv_unseen_count :: nat

definition poll_review_condition :: "poller \<Rightarrow> string \<Rightarrow> Workflow \<Rightarrow> string \<Rightarrow> int \<Rightarrow> server \<Rightarrow> server \<times> ReviewResult" where
  "poll_review_condition gp ticket_id workflow gh_repo pr_number st =
     (let current_status = to_review_status_const (wf_review_status workflow);
          seen_ids = get_seen_comment_ids (cx_le (gp_cx gp)) (s_workflows st) ticket_id
      in case check_review_signal (gp_github gp) gh_repo pr_number seen_ids st of
           (st1, Inl _) \<Rightarrow> (st1, \<lparr>rv_status = current_status, rv_signal = Pending, rv_unseen_count = 0\<rparr>)
         | (st1, Inr result) \<Rightarrow>
             (let found = (\<lambda>status. \<lparr>rv_status = status, rv_signal = rk_signal result, rv_unseen_count = rk_unseen_count result\<rparr>);
                  update = (\<lambda>new_status event.
                    if new_status \<noteq> wf_review_status workflow
                    then (case on_workflows (update_workflow_condition ticket_id ReviewStatus new_status) st1 of
                            (st2, Inl _) \<Rightarrow> (st2, found current_status)
                          | (st2, Inr _) \<Rightarrow> (poller_emit_event gp (wf_id workflow) event st2, found new_status))
                    else (st1, found new_status))
              in case rk_signal result of
                   Approve \<Rightarrow> update review_APPROVED WReviewApproved
                 | RequestChanges \<Rightarrow> update review_CHANGES_REQUESTED WReviewChangesRequested
                 | _ \<Rightarrow> (st1, found current_status)))"

subsection \<open>Transitions\<close>

definition poller_send_transition :: "string \<Rightarrow> LifecycleStatus \<Rightarrow> server \<Rightarrow> server" where
  "poller_send_transition ticket_id to st = attempt (send_request [] ticket_id to) st"

definition set_feedback_mode_and_transition :: "string \<Rightarrow> string \<Rightarrow> LifecycleStatus \<Rightarrow> server \<Rightarrow> server" where
  "set_feedback_mode_and_transition ticket_id feedback_mode target st =
     (case on_workflows (set_workflow_feedback_mode ticket_id feedback_mode) st of
        (st1, Inl _) \<Rightarrow> st1
      | (st1, Inr _) \<Rightarrow> poller_send_transition ticket_id target st1)"

definition record_comments_and_transition ::
  "poller \<Rightarrow> string \<Rightarrow> string \<Rightarrow> int \<Rightarrow> string \<Rightarrow> LifecycleStatus \<Rightarrow> server \<Rightarrow> server" where
  "record_comments_and_transition gp ticket_id gh_repo pr_number feedback_mode target st =
     (case query_github (\<lambda>n. gw_comments (gp_github gp) n gh_repo pr_number) st of
        (st1, answer) \<Rightarrow>
          (let comment_ids = (case answer of Inl _ \<Rightarrow> [] | Inr comments \<Rightarrow> map (show_int \<circ> cc_id) comments);
               st2 = attempt (fresh (\<lambda>n. on_workflows (insert_workflow_comments (x_now (cx_x (gp_cx gp)) n) ticket_id comment_ids))) st1
           in set_feedback_mode_and_transition ticket_id feedback_mode target st2))"

definition count_unseen_comments :: "poller \<Rightarrow> string \<Rightarrow> string \<Rightarrow> int \<Rightarrow> server \<Rightarrow> server \<times> nat" where
  "count_unseen_comments gp ticket_id gh_repo pr_number st =
     (let seen_ids = get_seen_comment_ids (cx_le (gp_cx gp)) (s_workflows st) ticket_id in
      case query_github (\<lambda>n. gw_comments (gp_github gp) n gh_repo pr_number) st of
        (st1, Inl _) \<Rightarrow> (st1, 0)
      | (st1, Inr comments) \<Rightarrow> (st1, length (unseen_comments comments seen_ids)))"

text \<open>An approval with at most one comment that was not seen yet skips the feedback step.\<close>

definition approve_transition :: "poller \<Rightarrow> string \<Rightarrow> string \<Rightarrow> int \<Rightarrow> nat \<Rightarrow> server \<Rightarrow> server" where
  "approve_transition gp ticket_id gh_repo pr_number unseen_count st =
     record_comments_and_transition gp ticket_id gh_repo pr_number feedback_LATER
       (if unseen_count \<le> 1 then Merging else AddressingFeedback) st"

definition handle_manual_merge :: "poller \<Rightarrow> string \<Rightarrow> string \<Rightarrow> string \<Rightarrow> int \<Rightarrow> server \<Rightarrow> server" where
  "handle_manual_merge gp ticket_id workflow_id gh_repo pr_number st =
     (let st1 = attempt (on_workflows (update_workflow_condition ticket_id ReviewStatus review_APPROVED)) st;
          st2 = attempt (on_workflows (update_workflow_condition ticket_id CiStatus ci_SUCCEEDED)) st1;
          st3 = attempt (on_workflows (update_workflow_condition ticket_id Mergeable mergeable_MERGEABLE)) st2;
          st4 = poller_emit_event gp workflow_id WReviewApproved st3
      in case count_unseen_comments gp ticket_id gh_repo pr_number st4 of
           (st5, unseen_count) \<Rightarrow> approve_transition gp ticket_id gh_repo pr_number unseen_count st5)"

definition cancel_workflow_and_revert :: "poller \<Rightarrow> string \<Rightarrow> server \<Rightarrow> server" where
  "cancel_workflow_and_revert gp ticket_id st =
     (let cx = gp_cx gp;
          worker_id = (case get_workflow_by_ticket (cx_le cx) (s_workflows st) ticket_id of Some w \<Rightarrow> wf_worker_id w | None \<Rightarrow> [])
      in case on_workflows (update_workflow_status ticket_id Cancelled) st of
           (st1, Inl _) \<Rightarrow> st1
         | (st1, Inr _) \<Rightarrow>
             (let st2 = (if worker_id \<noteq> [] then attempt (kill_worker cx worker_id) st1 else st1)
              in attempt (fresh (\<lambda>n. on_tickets (update_ticket (x_now (cx_x cx) n) (x_rng (cx_x cx) n) ticket_id
                   (TicketUpdate_default\<lparr>tu_status := Some ''open''\<rparr>)))) st2))"

definition evaluate_transition ::
  "poller \<Rightarrow> string \<Rightarrow> string \<Rightarrow> string \<Rightarrow> int \<Rightarrow> string \<Rightarrow> string \<Rightarrow> ReviewResult \<Rightarrow> bool \<Rightarrow> server \<Rightarrow> server" where
  "evaluate_transition gp ticket_id workflow_id gh_repo pr_number ci_status mergeable review has_failures st =
     (if rv_signal review = Merged then handle_manual_merge gp ticket_id workflow_id gh_repo pr_number st
      else if rv_signal review = Closed then cancel_workflow_and_revert gp ticket_id st
      else if rv_status review = review_CHANGES_REQUESTED
      then record_comments_and_transition gp ticket_id gh_repo pr_number feedback_NOW AddressingFeedback
             (attempt (on_workflows (reset_implement_cycles ticket_id)) st)
      else if has_failures then poller_send_transition ticket_id Implementing st
      else if rv_status review = review_APPROVED \<and> ci_status = ci_SUCCEEDED \<and> mergeable = mergeable_MERGEABLE
      then approve_transition gp ticket_id gh_repo pr_number (rv_unseen_count review) st
      else st)"

definition create_issue_tickets_and_evaluate ::
  "poller \<Rightarrow> string \<Rightarrow> string \<Rightarrow> string \<Rightarrow> int \<Rightarrow> string list \<Rightarrow> string \<Rightarrow> string \<Rightarrow> ReviewResult \<Rightarrow> server \<Rightarrow> server" where
  "create_issue_tickets_and_evaluate gp ticket_id workflow_id gh_repo pr_number ignored ci_result mergeable_result review st =
     (let cx = gp_cx gp;
          st1 = (if ci_result = ci_FAILED
                 then (case query_github (\<lambda>n. collect_failing_checks (gw_check_runs (gp_github gp) n gh_repo pr_number) ignored) st of
                         (st', failing_checks) \<Rightarrow>
                           attempt (create_workflow_issue_ticket cx ticket_id issue_CI_FAILURE
                             (''CI failure on PR #'' @ show_int pr_number) failing_checks) st')
                 else st);
          st2 = (if mergeable_result = mergeable_CONFLICT
                 then attempt (create_workflow_issue_ticket cx ticket_id issue_MERGE_CONFLICT
                        (''Merge conflict on PR #'' @ show_int pr_number) ''The PR has merge conflicts that must be resolved.'') st1
                 else st1)
      in evaluate_transition gp ticket_id workflow_id gh_repo pr_number ci_result mergeable_result review
           (ci_result = ci_FAILED \<or> mergeable_result = mergeable_CONFLICT) st2)"

subsection \<open>Tickets in review\<close>

definition extract_pr_context :: "(string \<rightharpoonup> string) \<Rightarrow> (int \<times> string) option" where
  "extract_pr_context meta =
     (case meta ''pr_number'' of
        None \<Rightarrow> None
      | Some text \<Rightarrow>
          (case parse_i64 text of
             None \<Rightarrow> None
           | Some pr_number \<Rightarrow> (case meta ''gh_repo'' of None \<Rightarrow> None | Some gh_repo \<Rightarrow> Some (pr_number, gh_repo))))"

definition check_in_review_ticket :: "poller \<Rightarrow> Ticket \<Rightarrow> server \<Rightarrow> server" where
  "check_in_review_ticket gp ticket st =
     (let meta = get_meta (s_tickets st) (tk_id ticket) ''ticket'' in
      case extract_pr_context meta of
        None \<Rightarrow> st
      | Some (pr_number, gh_repo) \<Rightarrow>
          if meta ''autoapprove'' \<noteq> None
          then set_feedback_mode_and_transition (tk_id ticket) feedback_LATER AddressingFeedback st
          else
            (case get_workflow_by_ticket (cx_le (gp_cx gp)) (s_workflows st) (tk_id ticket) of
               None \<Rightarrow> st
             | Some workflow \<Rightarrow>
                 (let ignored = opt_or (gp_ignored gp (tk_project ticket)) [] in
                  case poll_ci_condition gp (tk_id ticket) workflow gh_repo pr_number ignored st of
                    (st1, ci_result) \<Rightarrow>
                      (case poll_mergeable_condition gp (tk_id ticket) workflow gh_repo pr_number st1 of
                         (st2, mergeable_result) \<Rightarrow>
                           (case poll_review_condition gp (tk_id ticket) workflow gh_repo pr_number st2 of
                              (st3, review_result) \<Rightarrow>
                                create_issue_tickets_and_evaluate gp (tk_id ticket) (wf_id workflow) gh_repo pr_number ignored
                                  ci_result mergeable_result review_result st3)))))"

definition check_in_review_tickets :: "poller \<Rightarrow> string list \<Rightarrow> server \<Rightarrow> server" where
  "check_in_review_tickets gp ids st =
     fold (check_in_review_ticket gp) (get_tickets_by_ids (cx_le (gp_cx gp)) (s_tickets st) ids) st"

subsection \<open>Replies to comments\<close>

text \<open>
  One group per repository, pull request and comment, with the tickets in the order of the rows. The
  order of the groups, that of a hash map in the code, is here that of their first rows.
\<close>

fun group_pending_replies :: "TicketComment list \<Rightarrow> ((string \<times> int \<times> string) \<times> string list) list" where
  "group_pending_replies [] = []"
| "group_pending_replies (row # rows) =
     (let k = (tc_gh_repo row, tc_pr_number row, tc_comment_id row);
          same = (\<lambda>r. (tc_gh_repo r, tc_pr_number r, tc_comment_id r) = k)
      in (k, map tc_ticket_id (row # filter same rows)) # group_pending_replies (filter (\<lambda>r. \<not> same r) rows))"

definition build_reply_body :: "string list \<Rightarrow> string" where
  "build_reply_body ids =
     (if length ids = 1 then ''Tracking in `'' @ hd ids @ ''`''
      else ''Tracking in '' @ join '', '' (map (\<lambda>i. ''`'' @ i @ ''`'') ids))"

definition robot :: string where "robot = [CHR 0xF0, CHR 0x9F, CHR 0xA4, CHR 0x96]"

definition post_reply_with_fallback ::
  "github \<Rightarrow> string \<Rightarrow> int \<Rightarrow> int \<Rightarrow> string \<Rightarrow> server \<Rightarrow> server \<times> (string + unit)" where
  "post_reply_with_fallback gh gh_repo pr_number comment_id body st =
     (case query_github (\<lambda>n. gw_reply gh n gh_repo pr_number comment_id (robot @ '' '' @ body)) st of
        (st1, Inr _) \<Rightarrow> (st1, Inr ())
      | (st1, Inl e) \<Rightarrow>
          if contains e ''HTTP 404'' \<or> contains e ''not found''
          then (case query_github (\<lambda>n. gw_post_comment gh n gh_repo pr_number (robot @ '' '' @ body)) st1 of
                  (st2, Inr _) \<Rightarrow> (st2, Inr ()) | (st2, Inl e') \<Rightarrow> (st2, Inl e'))
          else (st1, Inl e))"

fun mark_replies_posted :: "string \<Rightarrow> string list \<Rightarrow> server \<Rightarrow> server" where
  "mark_replies_posted comment_id [] st = st"
| "mark_replies_posted comment_id (i # is) st =
     mark_replies_posted comment_id is (attempt (on_tickets (mark_reply_posted comment_id i)) st)"

definition reply_to_group :: "github \<Rightarrow> (string \<times> int \<times> string) \<times> string list \<Rightarrow> server \<Rightarrow> server" where
  "reply_to_group gh grp st =
     (case grp of ((gh_repo, pr_number, comment_id), ids) \<Rightarrow>
        (case parse_i64 comment_id of
           None \<Rightarrow> st
         | Some i \<Rightarrow>
             (case post_reply_with_fallback gh gh_repo pr_number i (build_reply_body ids) st of
                (st1, Inl _) \<Rightarrow> st1
              | (st1, Inr _) \<Rightarrow> mark_replies_posted comment_id ids st1)))"

definition scan_pending_replies :: "poller \<Rightarrow> server \<Rightarrow> server" where
  "scan_pending_replies gp st =
     fold (reply_to_group (gp_github gp)) (group_pending_replies (get_pending_replies (cx_le (gp_cx gp)) (s_tickets st))) st"

definition github_poll_once :: "poller \<Rightarrow> server \<Rightarrow> server" where
  "github_poll_once gp st =
     (let ids = ticket_ids_by_workflow_status (cx_le (gp_cx gp)) (s_workflows st) InReview in
      scan_pending_replies gp (if ids \<noteq> [] then check_in_review_tickets gp ids st else st))"

end
