(* ===== verification/Poller_Props.thy ===== *)
theory Poller_Props
  imports Github_Poller Handler_Props
begin

text \<open>
  Properties of the poller: how it reads check runs, that it asks for a merge only when the merge
  handler's gate will pass, and that every comment is answered once.
\<close>

subsection \<open>Check runs\<close>

definition run_completed :: "CheckRun \<Rightarrow> bool" where
  "run_completed r = is_check_completed (kr_status r) (kr_conclusion r)"

definition run_failed :: "CheckRun \<Rightarrow> bool" where
  "run_failed r = is_check_failed (kr_conclusion r)"

lemma failed_is_completed: "run_failed r \<Longrightarrow> run_completed r"
  by (simp add: run_failed_def run_completed_def is_check_failed_def is_check_completed_def)

lemma ci_loop_flags:
  "\<exists>latest'. ci_loop runs a f latest = (a \<and> (\<forall>r \<in> set runs. run_completed r), f \<or> (\<exists>r \<in> set runs. run_failed r), latest')"
proof (induction runs arbitrary: a f latest)
  case (Cons r runs)
  show ?case
  proof (cases "run_completed r")
    case True
    then show ?thesis
      using Cons.IH [of a "f \<or> run_failed r"] by (auto simp: run_completed_def run_failed_def)
  next
    case False
    moreover have "\<not> run_failed r"
      using False failed_is_completed by blast
    ultimately show ?thesis
      using Cons.IH [of False f] by (simp add: run_completed_def)
  qed
qed simp

lemma ci_loop_latest:
  "snd (snd (ci_loop runs a f latest)) = foldl max latest (map kr_completed_at (filter run_completed runs))"
proof (induction runs arbitrary: a f latest)
  case (Cons r runs)
  have "(if kr_completed_at r \<noteq> [] \<and> latest < kr_completed_at r then kr_completed_at r else latest) = max latest (kr_completed_at r)"
    by (auto simp: max_def)
  then show ?case
    using Cons by (simp add: run_completed_def)
qed simp

lemma evaluate_ci_runs_verdict:
  "evaluate_ci_runs runs =
     \<lparr>ci_result_status = (if \<exists>r \<in> set runs. run_failed r then ci_FAILED
        else if \<forall>r \<in> set runs. run_completed r then ci_SUCCEEDED else ci_PENDING),
      ci_result_completed_at = foldl max [] (map kr_completed_at (filter run_completed runs))\<rparr>"
proof -
  obtain latest where "ci_loop runs True False [] = (\<forall>r \<in> set runs. run_completed r, \<exists>r \<in> set runs. run_failed r, latest)"
    using ci_loop_flags [of runs True False "[]"] by auto
  moreover have "snd (snd (ci_loop runs True False [])) = foldl max [] (map kr_completed_at (filter run_completed runs))"
    by (rule ci_loop_latest)
  ultimately show ?thesis
    by (simp add: evaluate_ci_runs_def)
qed

subsection \<open>Replies\<close>

definition reply_key :: "TicketComment \<Rightarrow> string \<times> int \<times> string" where
  "reply_key r = (tc_gh_repo r, tc_pr_number r, tc_comment_id r)"

lemma reply_groups:
  "distinct (map fst (group_pending_replies rows)) \<and>
   set (group_pending_replies rows) = (\<lambda>k. (k, map tc_ticket_id (filter (\<lambda>r. reply_key r = k) rows))) ` reply_key ` set rows"
proof (induction rows rule: group_pending_replies.induct)
  case (2 row rows)
  let ?k = "reply_key row" and ?rest = "filter (\<lambda>r. reply_key r \<noteq> reply_key row) rows"
  have step: "group_pending_replies (row # rows) =
      (?k, map tc_ticket_id (row # filter (\<lambda>r. reply_key r = ?k) rows)) # group_pending_replies ?rest"
    by (simp add: reply_key_def Let_def)
  have IH: "distinct (map fst (group_pending_replies ?rest))"
    "set (group_pending_replies ?rest) = (\<lambda>k. (k, map tc_ticket_id (filter (\<lambda>r. reply_key r = k) ?rest))) ` reply_key ` set ?rest"
    using 2 [OF refl refl] by (simp_all add: reply_key_def)
  have same: "filter (\<lambda>r. reply_key r = k) ?rest = filter (\<lambda>r. reply_key r = k) rows" if "k \<noteq> ?k" for k
    using that by (auto simp: filter_filter intro: filter_cong)
  have "?k \<notin> fst ` set (group_pending_replies ?rest)"
    using IH(2) by auto
  then have "distinct (map fst (group_pending_replies (row # rows)))"
    unfolding step using IH(1) by simp
  moreover have "set (group_pending_replies (row # rows)) =
      (\<lambda>k. (k, map tc_ticket_id (filter (\<lambda>r. reply_key r = k) (row # rows)))) ` reply_key ` set (row # rows)"
  proof -
    have "reply_key ` set (row # rows) = insert ?k (reply_key ` set ?rest)"
      by auto
    moreover have "(\<lambda>k. (k, map tc_ticket_id (filter (\<lambda>r. reply_key r = k) (row # rows)))) ` reply_key ` set ?rest =
        (\<lambda>k. (k, map tc_ticket_id (filter (\<lambda>r. reply_key r = k) ?rest))) ` reply_key ` set ?rest"
      using same by (intro image_cong) auto
    ultimately show ?thesis
      unfolding step list.set(2) IH(2) by (simp only: image_insert) simp
  qed
  ultimately show ?case by blast
qed simp

subsection \<open>Conditions of the active workflow\<close>

definition cond_row :: "workflow_row \<Rightarrow> string \<times> string \<times> string" where
  "cond_row w = (wr_ci_status w, wr_mergeable w, wr_review_status w)"

definition conds :: "string \<Rightarrow> server \<Rightarrow> (string \<times> string \<times> string) list" where
  "conds t st = map cond_row (active_rows t (s_workflows st))"

definition set_cond :: "WorkflowCondition \<Rightarrow> string \<Rightarrow> string \<times> string \<times> string \<Rightarrow> string \<times> string \<times> string" where
  "set_cond k v c = (case c of (ci, me, re) \<Rightarrow>
     (case k of CiStatus \<Rightarrow> (v, me, re) | Mergeable \<Rightarrow> (ci, v, re) | ReviewStatus \<Rightarrow> (ci, me, v)))"

text \<open>A step that keeps the schema, the conditions of the ticket and the requests.\<close>

definition calm :: "string \<Rightarrow> server \<Rightarrow> server \<Rightarrow> bool" where
  "calm t st st' = (wf_schema_ok (s_workflows st) \<longrightarrow>
     wf_schema_ok (s_workflows st') \<and> conds t st' = conds t st \<and> s_requests st' = s_requests st)"

lemma calm_refl: "calm t st st"
  by (simp add: calm_def)

lemma calm_trans: "calm t st st' \<Longrightarrow> calm t st' st'' \<Longrightarrow> calm t st st''"
  by (simp add: calm_def)

lemma calm_other: "s_workflows st' = s_workflows st \<Longrightarrow> s_requests st' = s_requests st \<Longrightarrow> calm t st st'"
  by (simp add: calm_def conds_def)

lemma on_workflows_requests: "s_requests (fst (on_workflows m st)) = s_requests st"
  by (simp add: on_workflows_def workflows_part.on_part_state)

lemma calm_run_wf:
  assumes "\<And>db. w_workflow (f db) = w_workflow db"
  shows "calm t st (fst (on_workflows (run_wf f) st))"
  using assms workflow_store.stmt_preserves [of f]
  by (auto simp: calm_def conds_def active_rows_def on_workflows_def workflows_part.on_part_state preserves_def run_wf_def Let_def)

lemma update_active_rows:
  assumes "wf_schema_ok db"
    and "\<And>w. wr_id (f w) = wr_id w \<and> wr_ticket_id (f w) = wr_ticket_id w \<and> wr_status (f w) = wr_status w"
    and "\<And>w. int4 (wr_implement_cycles w) \<Longrightarrow> int4 (wr_implement_cycles (f w))"
  shows "\<exists>db'. update_active t f db = (db', Inr ()) \<and> wf_schema_ok db' \<and> active_rows t db' = map f (active_rows t db)"
proof -
  let ?rows = "update_where (\<lambda>w. wr_ticket_id w = t \<and> active_row w) f (w_workflow db)"
  have run: "update_active t f db = (db\<lparr>w_workflow := ?rows\<rparr>, Inr ())"
    using assms by (intro update_active_ok) (auto simp: wf_schema_ok_def wf_int_ok_def)
  have "preserves wf_schema_ok (update_active t f)"
    unfolding update_active_def by (rule workflow_store.stmt_preserves)
  then have "wf_schema_ok (db\<lparr>w_workflow := ?rows\<rparr>)"
    using assms(1) run preservesD by fastforce
  moreover have "active_rows t (db\<lparr>w_workflow := ?rows\<rparr>) = map f (active_rows t db)"
    using assms(2) by (intro active_rows_update) (simp_all add: active_row_def)
  ultimately show ?thesis
    using run by simp
qed

lemma on_workflows_update:
  assumes "wf_schema_ok (s_workflows st)"
    and "\<And>w. wr_id (f w) = wr_id w \<and> wr_ticket_id (f w) = wr_ticket_id w \<and> wr_status (f w) = wr_status w"
    and "\<And>w. int4 (wr_implement_cycles w) \<Longrightarrow> int4 (wr_implement_cycles (f w))"
  shows "\<exists>st'. on_workflows (update_active t f) st = (st', Inr ()) \<and> wf_schema_ok (s_workflows st') \<and>
    active_rows t (s_workflows st') = map f (active_rows t (s_workflows st)) \<and> s_requests st' = s_requests st"
  using update_active_rows [of "s_workflows st" f t] assms
  by (auto simp: on_workflows_def workflows_part.on_part_Inr)

lemma update_condition_conds:
  assumes "wf_schema_ok (s_workflows st)"
  shows "\<exists>st'. on_workflows (update_workflow_condition t k v) st = (st', Inr ()) \<and> wf_schema_ok (s_workflows st') \<and>
    conds t st' = map (set_cond k v) (conds t st) \<and> s_requests st' = s_requests st"
proof -
  let ?f = "case k of CiStatus \<Rightarrow> (\<lambda>w. w\<lparr>wr_ci_status := v\<rparr>) | Mergeable \<Rightarrow> (\<lambda>w. w\<lparr>wr_mergeable := v\<rparr>)
     | ReviewStatus \<Rightarrow> (\<lambda>w. w\<lparr>wr_review_status := v\<rparr>)"
  have "cond_row (?f w) = set_cond k v (cond_row w)" for w
    by (cases k) (simp_all add: cond_row_def set_cond_def)
  moreover have "\<exists>st'. on_workflows (update_active t ?f) st = (st', Inr ()) \<and> wf_schema_ok (s_workflows st') \<and>
      active_rows t (s_workflows st') = map ?f (active_rows t (s_workflows st)) \<and> s_requests st' = s_requests st"
    using assms by (intro on_workflows_update) (auto split: WorkflowCondition.splits)
  ultimately show ?thesis
    unfolding update_workflow_condition_def conds_def by (auto simp: comp_def)
qed

lemma calm_update_active:
  assumes "\<And>w. wr_id (f w) = wr_id w \<and> wr_ticket_id (f w) = wr_ticket_id w \<and> wr_status (f w) = wr_status w \<and> cond_row (f w) = cond_row w"
    and "\<And>w. int4 (wr_implement_cycles w) \<Longrightarrow> int4 (wr_implement_cycles (f w))"
  shows "calm t st (fst (on_workflows (update_active t f) st))"
  using on_workflows_update [of st f t] assms by (fastforce simp: calm_def conds_def comp_def)

lemma calm_query: "query_github f st = (st', a) \<Longrightarrow> calm t st st'"
  by (rule calm_other) (auto simp: query_github_def)

lemma calm_fresh: "(\<And>n st. calm t st (fst (f n st))) \<Longrightarrow> calm t st (attempt (fresh f) st)"
  by (rule calm_trans [OF calm_other [of "st\<lparr>s_tick := Suc (s_tick st)\<rparr>"]]) (simp_all add: attempt_def fresh_def)

lemma calm_emit: "calm t st (poller_emit_event gp i e st)"
  unfolding poller_emit_event_def Let_def insert_workflow_event_def by (intro calm_fresh calm_run_wf) simp

lemma calm_emit_at: "calm t st (emit_workflow_event_at gp i e n st)"
  unfolding emit_workflow_event_at_def insert_workflow_event_at_def by (simp add: calm_emit) (intro impI calm_fresh calm_run_wf, simp)

lemma calmD:
  assumes "calm t st st'" "wf_schema_ok (s_workflows st)"
  shows "wf_schema_ok (s_workflows st')" "conds t st' = conds t st" "s_requests st' = s_requests st"
  using assms by (simp_all add: calm_def)

lemma poll_ci:
  assumes "wf_schema_ok (s_workflows st)" "conds t st = [(wf_ci_status flow, me, re)]"
    and "poll_ci_condition gp t flow repo n ign st = (st', r)"
  shows "wf_schema_ok (s_workflows st') \<and> s_requests st' = s_requests st \<and>
    (\<exists>ci. conds t st' = [(ci, me, re)] \<and> (r = ci_SUCCEEDED \<longrightarrow> ci = ci_SUCCEEDED))"
proof -
  obtain st1 a where q: "query_github (\<lambda>k. check_ci_status (gw_check_runs (gp_github gp) k repo n) ign) st = (st1, a)"
    by fastforce
  note c1 = calmD [OF calm_query [OF q, of t] assms(1)]
  have old: "to_ci_status_const v = ci_SUCCEEDED \<longleftrightarrow> v = ci_SUCCEEDED" for v
    by (simp add: to_ci_status_const_def ci_SUCCEEDED_def ci_FAILED_def ci_PENDING_def)
  show ?thesis
  proof (cases a)
    case (Inl e)
    then show ?thesis
      using assms(2,3) q c1 by (auto simp: poll_ci_condition_def old)
  next
    case (Inr p)
    obtain new done_at where p: "p = (new, done_at)" by fastforce
    obtain st2 where up: "on_workflows (update_workflow_condition t CiStatus new) st1 = (st2, Inr ())" "wf_schema_ok (s_workflows st2)"
      "conds t st2 = map (set_cond CiStatus new) (conds t st1)" "s_requests st2 = s_requests st1"
      using update_condition_conds [OF c1(1)] by blast
    note emit = calmD [OF calm_emit_at [of t st2] up(2)]
    show ?thesis
    proof (cases "new = wf_ci_status flow")
      case True
      then show ?thesis
        using assms(2,3) q c1 Inr p by (auto simp: poll_ci_condition_def)
    next
      case False
      then show ?thesis
        using assms(2,3) q c1 Inr p up emit by (auto simp: poll_ci_condition_def set_cond_def)
    qed
  qed
qed

lemma poll_mergeable:
  assumes "wf_schema_ok (s_workflows st)" "conds t st = [(ci, wf_mergeable flow, re)]"
    and "poll_mergeable_condition gp t flow repo n st = (st', r)"
  shows "wf_schema_ok (s_workflows st') \<and> s_requests st' = s_requests st \<and>
    (\<exists>me. conds t st' = [(ci, me, re)] \<and> (r = mergeable_MERGEABLE \<longrightarrow> me = mergeable_MERGEABLE))"
proof -
  obtain st1 new where q: "query_github (\<lambda>k. check_mergeable (gw_mergeable (gp_github gp) k repo n)) st = (st1, new)"
    by fastforce
  note c1 = calmD [OF calm_query [OF q, of t] assms(1)]
  obtain st2 where up: "on_workflows (update_workflow_condition t Mergeable new) st1 = (st2, Inr ())" "wf_schema_ok (s_workflows st2)"
    "conds t st2 = map (set_cond Mergeable new) (conds t st1)" "s_requests st2 = s_requests st1"
    using update_condition_conds [OF c1(1)] by blast
  note emit = calmD [OF calm_emit [of t st2] up(2)]
  show ?thesis
  proof (cases "new = wf_mergeable flow")
    case True
    then show ?thesis
      using assms(2,3) q c1 by (auto simp: poll_mergeable_condition_def)
  next
    case False
    then show ?thesis
      using assms(2,3) q c1 up emit by (auto simp: poll_mergeable_condition_def set_cond_def)
  qed
qed

lemma calm_check_review_signal: "check_review_signal gh repo n seen_ids st = (st', r) \<Longrightarrow> calm t st st'"
  unfolding check_review_signal_def determine_closed_pr_signal_def check_open_pr_comments_def
  by (rule calm_other) (auto simp: query_github_def Let_def split: sum.splits if_splits prod.splits)

lemma poll_review:
  assumes "wf_schema_ok (s_workflows st)" "conds t st = [(ci, me, wf_review_status flow)]"
    and "poll_review_condition gp t flow repo n st = (st', r)"
  shows "wf_schema_ok (s_workflows st') \<and> s_requests st' = s_requests st \<and>
    (\<exists>re. conds t st' = [(ci, me, re)] \<and> (rv_status r = review_APPROVED \<longrightarrow> re = review_APPROVED))"
proof -
  let ?seen = "get_seen_comment_ids (cx_le (gp_cx gp)) (s_workflows st) t"
  obtain st1 a where q: "check_review_signal (gp_github gp) repo n ?seen st = (st1, a)"
    by fastforce
  note c1 = calmD [OF calm_check_review_signal [OF q, of t] assms(1)]
  have old: "to_review_status_const v = review_APPROVED \<longleftrightarrow> v = review_APPROVED" for v
    by (simp add: to_review_status_const_def review_APPROVED_def review_CHANGES_REQUESTED_def review_PENDING_def)
  have up: "\<exists>st2. on_workflows (update_workflow_condition t ReviewStatus new) st1 = (st2, Inr ()) \<and> wf_schema_ok (s_workflows st2) \<and>
      conds t st2 = [(ci, me, new)] \<and> s_requests st2 = s_requests st" for new
    using update_condition_conds [OF c1(1), of t ReviewStatus new] c1 assms(2) by (auto simp: set_cond_def)
  show ?thesis
  proof (cases a)
    case (Inl e)
    then show ?thesis
      using assms(2,3) q c1 by (auto simp: poll_review_condition_def Let_def old)
  next
    case (Inr res)
    obtain s2 where s2: "on_workflows (update_workflow_condition t ReviewStatus review_APPROVED) st1 = (s2, Inr ())"
      "wf_schema_ok (s_workflows s2)" "conds t s2 = [(ci, me, review_APPROVED)]" "s_requests s2 = s_requests st"
      using up by blast
    obtain s3 where s3: "on_workflows (update_workflow_condition t ReviewStatus review_CHANGES_REQUESTED) st1 = (s3, Inr ())"
      "wf_schema_ok (s_workflows s3)" "conds t s3 = [(ci, me, review_CHANGES_REQUESTED)]" "s_requests s3 = s_requests st"
      using up by blast
    note emit = calmD [OF calm_emit [of t s2] s2(2)] calmD [OF calm_emit [of t s3] s3(2)]
    show ?thesis
      using assms(2,3) q c1 Inr s2 s3 emit
      by (cases "rk_signal res") (auto simp: poll_review_condition_def Let_def old split: if_splits)
  qed
qed

subsection \<open>Issue tickets\<close>

abbreviation flows_requests :: "server \<Rightarrow> workflow_db \<times> TransitionRequest list" where
  "flows_requests st \<equiv> (s_workflows st, s_requests st)"

lemma unchanged_call_service: "unchanged h m \<Longrightarrow> unchanged h (call_service cx what m)"
  unfolding unchanged_def keeps_def call_service_def by (auto split: prod.splits sum.splits) (metis fst_conv)+

lemma unchanged_query_srv: "unchanged h (query_srv f)"
  by (rule unchangedI) (simp add: query_srv_def)

lemma unchanged_in_tickets: "unchanged flows_requests (in_tickets m)"
  by (rule unchangedI) (simp add: in_tickets_def tickets_part.on_part_state)

lemma unchanged_with_tick: "(\<And>n. unchanged flows_requests (f n)) \<Longrightarrow> unchanged flows_requests (with_tick f)"
  by (rule unchangedI) (simp add: with_tick_def unchangedD [of flows_requests])

lemma unchanged_first_open_child: "unchanged h (first_open_child cx p cs)"
proof (induction cs)
  case Nil
  show ?case by (simp only: first_open_child.simps unchanged_ret)
next
  case (Cons c cs)
  then show ?case
    unfolding first_open_child.simps
    by (intro frame unchanged_call_service unchanged_query_srv) simp_all
qed

lemma unchanged_issue_ticket: "unchanged flows_requests (create_workflow_issue_ticket cx p ty title body)"
proof -
  have find: "unchanged flows_requests (find_existing_issue cx p k)" for k
    unfolding find_existing_issue_def
    by (intro unchanged_bindS unchanged_call_service unchanged_query_srv) (simp add: unchanged_first_open_child split: prod.splits)
  have "unchanged flows_requests (create_ticket_rpc sv req)" for sv req
    unfolding create_ticket_rpc_def by (intro frame unchanged_with_tick unchanged_in_tickets)
  moreover have "set_meta_rpc sv i (issue_meta_key ty) v = in_tickets (set_meta i ''ticket'' (issue_meta_key ty) v)" for sv i v
    by (simp add: set_meta_rpc_def issue_meta_key_def)
  ultimately show ?thesis
    unfolding create_workflow_issue_ticket_def
    by (intro frame find unchanged_call_service) (simp_all add: unchanged_in_tickets)
qed

lemma calm_issue_ticket: "calm t st (attempt (create_workflow_issue_ticket cx p ty title body) st)"
  using unchangedD [OF unchanged_issue_ticket] by (intro calm_other) (simp_all add: attempt_def)

subsection \<open>Transitions\<close>

text \<open>
  What a step of the poller for a ticket does: the schema stays, at most one transition of the ticket
  is asked for, to one of the given statuses, and the conditions are as given.
\<close>

definition asks :: "string \<Rightarrow> LifecycleStatus set \<Rightarrow> (string \<times> string \<times> string) list \<Rightarrow> server \<Rightarrow> server \<Rightarrow> bool" where
  "asks t S cs st st' =
     (wf_schema_ok (s_workflows st') \<and> conds t st' = cs \<and>
      (\<exists>ss. s_requests st' = s_requests st @ map (\<lambda>s. \<lparr>tr_ticket_id = t, tr_target_status = s\<rparr>) ss \<and> length ss \<le> 1 \<and> set ss \<subseteq> S))"

lemma asks_after: "calm t st st1 \<Longrightarrow> wf_schema_ok (s_workflows st) \<Longrightarrow> asks t S cs st1 st' \<Longrightarrow> asks t S cs st st'"
  by (simp add: calm_def asks_def)

lemma asks_mono: "asks t S cs st st' \<Longrightarrow> S \<subseteq> S' \<Longrightarrow> asks t S' cs st st'"
  unfolding asks_def by blast

lemma asks_none: "calm t st st' \<Longrightarrow> wf_schema_ok (s_workflows st) \<Longrightarrow> asks t {} (conds t st) st st'"
  by (simp add: calm_def asks_def)

lemma asks_send: "wf_schema_ok (s_workflows st) \<Longrightarrow> asks t {s} (conds t st) st (poller_send_transition t s st)"
  by (cases "s_receiving st")
     (auto simp: asks_def poller_send_transition_def send_request_def attempt_def conds_def intro: exI [of _ "[s]"])

lemma asks_feedback:
  assumes "wf_schema_ok (s_workflows st)"
  shows "asks t {s} (conds t st) st (set_feedback_mode_and_transition t mode s st)"
proof -
  let ?f = "\<lambda>w :: workflow_row. w\<lparr>wr_feedback_mode := mode\<rparr>"
  have "\<exists>st'. on_workflows (update_active t ?f) st = (st', Inr ()) \<and> wf_schema_ok (s_workflows st') \<and>
      active_rows t (s_workflows st') = map ?f (active_rows t (s_workflows st)) \<and> s_requests st' = s_requests st"
    using assms by (intro on_workflows_update) simp_all
  then obtain st1 where st1: "on_workflows (update_active t ?f) st = (st1, Inr ())" by blast
  have "calm t st (fst (on_workflows (update_active t ?f) st))"
    by (rule calm_update_active) (simp_all add: cond_row_def)
  then have c: "calm t st st1"
    by (simp only: st1 fst_conv)
  then have "asks t {s} (conds t st1) st1 (poller_send_transition t s st1)"
    using calmD [OF c assms] by (intro asks_send)
  then show ?thesis
    using asks_after [OF c assms] calmD [OF c assms] st1
    by (simp add: set_feedback_mode_and_transition_def set_workflow_feedback_mode_def)
qed

lemma insert_comment_row_frame:
  assumes "wf_schema_ok db"
  shows "wf_schema_ok (fst (insert_comment_row now u c db))"
    and "w_workflow (fst (insert_comment_row now u c db)) = w_workflow db"
proof -
  have "preserves wf_schema_ok (insert_comment_row now u c)"
    unfolding insert_comment_row_def by (rule workflow_store.stmt_preserves)
  then show "wf_schema_ok (fst (insert_comment_row now u c db))"
    using assms by (rule preservesD)
  show "w_workflow (fst (insert_comment_row now u c db)) = w_workflow db"
    by (simp add: insert_comment_row_def run_wf_def Let_def)
qed

lemma insert_workflow_comments_frame:
  "wf_schema_ok db \<Longrightarrow> wf_schema_ok (fst (insert_workflow_comments now u cs db)) \<and>
    w_workflow (fst (insert_workflow_comments now u cs db)) = w_workflow db"
proof (induction cs arbitrary: db)
  case Nil
  then show ?case by (simp add: ret_def)
next
  case (Cons c cs)
  obtain db1 r where run: "insert_comment_row now u c db = (db1, r)" by fastforce
  note step = insert_comment_row_frame [OF Cons.prems, of now u c, unfolded run fst_conv]
  show ?case
  proof (cases r)
    case (Inl e)
    then show ?thesis using run step by (simp add: bindS_def)
  next
    case (Inr v)
    then show ?thesis using run step Cons.IH [OF step(1)] by (simp add: bindS_def)
  qed
qed

lemma calm_insert_comments: "calm t st (fst (on_workflows (insert_workflow_comments now u cs) st))"
  using insert_workflow_comments_frame [of "s_workflows st" now u cs]
  by (simp add: calm_def conds_def active_rows_def on_workflows_def workflows_part.on_part_state)

lemma asks_record:
  assumes "wf_schema_ok (s_workflows st)"
  shows "asks t {s} (conds t st) st (record_comments_and_transition gp t repo n mode s st)"
proof -
  obtain st1 a where q: "query_github (\<lambda>k. gw_comments (gp_github gp) k repo n) st = (st1, a)"
    by fastforce
  let ?ids = "case a of Inl _ \<Rightarrow> [] | Inr comments \<Rightarrow> map (show_int \<circ> cc_id) comments"
  let ?st2 = "attempt (fresh (\<lambda>k. on_workflows (insert_workflow_comments (x_now (cx_x (gp_cx gp)) k) t ?ids))) st1"
  have c: "calm t st ?st2"
    by (rule calm_trans [OF calm_query [OF q] calm_fresh [OF calm_insert_comments]])
  have "asks t {s} (conds t ?st2) ?st2 (set_feedback_mode_and_transition t mode s ?st2)"
    using calmD [OF c assms] by (intro asks_feedback)
  then show ?thesis
    using asks_after [OF c assms] calmD [OF c assms] q by (simp add: record_comments_and_transition_def Let_def)
qed

subsection \<open>The gate before a merge\<close>

text \<open>
  At most one transition of the ticket was asked for, and a merge only when the stored workflow
  passes the check that the merge handler begins with.
\<close>

definition gated :: "coll \<Rightarrow> string \<Rightarrow> server \<Rightarrow> server \<Rightarrow> bool" where
  "gated le t st st' =
     (\<exists>ss. s_requests st' = s_requests st @ map (\<lambda>s. \<lparr>tr_ticket_id = t, tr_target_status = s\<rparr>) ss \<and>
        length ss \<le> 1 \<and> set ss \<subseteq> {AddressingFeedback, Implementing, Merging} \<and>
        (Merging \<in> set ss \<longrightarrow> (\<exists>w. get_workflow_by_ticket le (s_workflows st') t = Some w \<and> check_pre_merge_conditions w t = Inr ())))"

lemma gated_same: "s_requests st' = s_requests st \<Longrightarrow> gated le t st st'"
  unfolding gated_def by (intro exI [of _ "[]"]) simp

lemma gated_after: "s_requests st1 = s_requests st \<Longrightarrow> gated le t st1 st' \<Longrightarrow> gated le t st st'"
  by (simp add: gated_def)

lemma gated_asks: "asks t S cs st st' \<Longrightarrow> S \<subseteq> {AddressingFeedback, Implementing} \<Longrightarrow> gated le t st st'"
  unfolding asks_def gated_def by blast

lemma gate_open:
  assumes "conds t st = [(ci_SUCCEEDED, mergeable_MERGEABLE, review_APPROVED)]"
  shows "\<exists>w. get_workflow_by_ticket le (s_workflows st) t = Some w \<and> check_pre_merge_conditions w t = Inr ()"
proof -
  obtain z where "active_rows t (s_workflows st) = [z]" "cond_row z = (ci_SUCCEEDED, mergeable_MERGEABLE, review_APPROVED)"
    using assms by (auto simp: conds_def)
  then have "get_workflow_by_ticket le (s_workflows st) t = Some (row_to_workflow z) \<and>
      check_pre_merge_conditions (row_to_workflow z) t = Inr ()"
    by (simp add: cond_row_def get_workflow_active first_row_def row_to_workflow_def check_pre_merge_conditions_def)
  then show ?thesis by blast
qed

lemma gated_open:
  assumes "asks t S [(ci_SUCCEEDED, mergeable_MERGEABLE, review_APPROVED)] st st'" "S \<subseteq> {AddressingFeedback, Implementing, Merging}"
  shows "gated le t st st'"
proof -
  have "conds t st' = [(ci_SUCCEEDED, mergeable_MERGEABLE, review_APPROVED)]"
    using assms(1) by (simp add: asks_def)
  note open_gate = gate_open [OF this, of le]
  show ?thesis
    using assms open_gate unfolding asks_def gated_def by blast
qed

lemma approve_gated:
  assumes "wf_schema_ok (s_workflows st)" "conds t st = [(ci_SUCCEEDED, mergeable_MERGEABLE, review_APPROVED)]"
  shows "gated le t st (approve_transition gp t repo n k st)"
proof (rule gated_open)
  show "asks t {if k \<le> 1 then Merging else AddressingFeedback} [(ci_SUCCEEDED, mergeable_MERGEABLE, review_APPROVED)] st
      (approve_transition gp t repo n k st)"
    using asks_record [OF assms(1)] assms(2) unfolding approve_transition_def by metis
qed simp

lemma calm_count: "count_unseen_comments gp t repo n st = (st', k) \<Longrightarrow> calm u st st'"
  unfolding count_unseen_comments_def
  by (rule calm_other) (auto simp: query_github_def Let_def split: sum.splits)

lemma manual_merge_gated:
  assumes "wf_schema_ok (s_workflows st)" "length (conds t st) = 1"
  shows "gated le t st (handle_manual_merge gp t i repo n st)"
proof -
  obtain c where c: "conds t st = [c]"
    using assms(2) by (cases "conds t st") auto
  obtain st1 where st1: "on_workflows (update_workflow_condition t ReviewStatus review_APPROVED) st = (st1, Inr ())"
    "wf_schema_ok (s_workflows st1)" "conds t st1 = map (set_cond ReviewStatus review_APPROVED) (conds t st)" "s_requests st1 = s_requests st"
    using update_condition_conds [OF assms(1), of t ReviewStatus review_APPROVED] by blast
  obtain st2 where st2: "on_workflows (update_workflow_condition t CiStatus ci_SUCCEEDED) st1 = (st2, Inr ())"
    "wf_schema_ok (s_workflows st2)" "conds t st2 = map (set_cond CiStatus ci_SUCCEEDED) (conds t st1)" "s_requests st2 = s_requests st1"
    using update_condition_conds [OF st1(2), of t CiStatus ci_SUCCEEDED] by blast
  obtain st3 where st3: "on_workflows (update_workflow_condition t Mergeable mergeable_MERGEABLE) st2 = (st3, Inr ())"
    "wf_schema_ok (s_workflows st3)" "conds t st3 = map (set_cond Mergeable mergeable_MERGEABLE) (conds t st2)" "s_requests st3 = s_requests st2"
    using update_condition_conds [OF st2(2), of t Mergeable mergeable_MERGEABLE] by blast
  let ?st4 = "poller_emit_event gp i WReviewApproved st3"
  obtain st5 k where st5: "count_unseen_comments gp t repo n ?st4 = (st5, k)" by fastforce
  note quiet = calmD [OF calm_trans [OF calm_emit calm_count [OF st5]] st3(2)]
  have "set_cond Mergeable mergeable_MERGEABLE (set_cond CiStatus ci_SUCCEEDED (set_cond ReviewStatus review_APPROVED c)) =
      (ci_SUCCEEDED, mergeable_MERGEABLE, review_APPROVED)"
    by (simp add: set_cond_def split: prod.splits)
  then have "conds t st5 = [(ci_SUCCEEDED, mergeable_MERGEABLE, review_APPROVED)]"
    by (simp only: quiet(2) st3(3) st2(3) st1(3) c list.map)
  then have "gated le t st5 (approve_transition gp t repo n k st5)"
    by (rule approve_gated [OF quiet(1)])
  moreover have "handle_manual_merge gp t i repo n st = approve_transition gp t repo n k st5"
    by (simp only: handle_manual_merge_def Let_def attempt_def st1(1) st2(1) st3(1) st5 fst_conv prod.case)
  moreover have "s_requests st5 = s_requests st"
    by (simp only: quiet(3) st1(4) st2(4) st3(4))
  ultimately show ?thesis
    using gated_after [of st5 st le t] by simp
qed

lemma unchanged_requests:
  "unchanged s_requests (on_tickets m)" "unchanged s_requests (on_workflows m')" "unchanged s_requests (on_pool g m'')"
  "(\<And>n. unchanged s_requests (h n)) \<Longrightarrow> unchanged s_requests (fresh h)"
  by (auto simp: unchanged_def keeps_def on_tickets_def on_workflows_def on_pool_def on_part_def fresh_def split: prod.splits sum.splits)

lemma cancel_revert_requests: "s_requests (cancel_workflow_and_revert gp t st) = s_requests st"
proof -
  obtain st1 r where run: "on_workflows (update_workflow_status t Cancelled) st = (st1, r)" by fastforce
  have q1: "s_requests st1 = s_requests st"
    using unchangedD [OF unchanged_requests(2) [of "update_workflow_status t Cancelled"], of st] run by simp
  have q2: "s_requests (fst (kill_worker cx i s)) = s_requests s" for cx i s
    unfolding kill_worker_def by (rule unchangedD) (intro unchanged_requests)
  have q3: "s_requests (fst (fresh (\<lambda>n. on_tickets (f n)) s)) = s_requests s" for f :: "nat \<Rightarrow> (ticket_db, db_error, 'a) op" and s
    by (rule unchangedD) (intro unchanged_requests)
  show ?thesis
    using q1 run by (cases r) (simp_all add: cancel_workflow_and_revert_def Let_def attempt_def q2 q3)
qed

lemma asks_respond:
  assumes "wf_schema_ok (s_workflows st)"
  shows "gated le t st (record_comments_and_transition gp t repo n mode AddressingFeedback
    (attempt (on_workflows (reset_implement_cycles t)) st))"
proof -
  let ?st1 = "attempt (on_workflows (reset_implement_cycles t)) st"
  have c: "calm t st ?st1"
    unfolding reset_implement_cycles_def attempt_def by (rule calm_update_active) (simp_all add: cond_row_def int4_def)
  have "asks t {AddressingFeedback} (conds t ?st1) ?st1 (record_comments_and_transition gp t repo n mode AddressingFeedback ?st1)"
    using calmD(1) [OF c assms] by (rule asks_record)
  then show ?thesis
    by (rule gated_asks [OF asks_after [OF c assms]]) simp
qed

lemma evaluate_gated:
  assumes "wf_schema_ok (s_workflows st)" "conds t st = [(ci, me, re)]"
    and "ci_r = ci_SUCCEEDED \<Longrightarrow> ci = ci_SUCCEEDED" "me_r = mergeable_MERGEABLE \<Longrightarrow> me = mergeable_MERGEABLE"
    and "rv_status r = review_APPROVED \<Longrightarrow> re = review_APPROVED"
  shows "gated le t st (evaluate_transition gp t i repo n ci_r me_r r failures st)"
proof -
  have "length (conds t st) = 1" using assms(2) by simp
  note merged = manual_merge_gated [OF assms(1) this, of le gp i repo n]
  have sent: "gated le t st (poller_send_transition t Implementing st)"
    by (rule gated_asks [OF asks_send [OF assms(1)]]) simp
  have approved: "gated le t st (approve_transition gp t repo n (rv_unseen_count r) st)"
    if "rv_status r = review_APPROVED" "ci_r = ci_SUCCEEDED" "me_r = mergeable_MERGEABLE"
    using that assms(2-5) by (intro approve_gated [OF assms(1)]) simp
  show ?thesis
    unfolding evaluate_transition_def
    by (simp add: merged sent approved asks_respond [OF assms(1)] gated_same cancel_revert_requests)
qed

lemma issues_calm:
  assumes "wf_schema_ok (s_workflows st)"
  shows "\<exists>st2. calm t st st2 \<and>
    create_issue_tickets_and_evaluate gp t i repo n ignored ci_r me_r r st =
      evaluate_transition gp t i repo n ci_r me_r r (ci_r = ci_FAILED \<or> me_r = mergeable_CONFLICT) st2"
proof -
  obtain st' checks where q: "query_github (\<lambda>k. collect_failing_checks (gw_check_runs (gp_github gp) k repo n) ignored) st = (st', checks)"
    by fastforce
  let ?issue = "\<lambda>ty title body. create_workflow_issue_ticket (gp_cx gp) t ty title body"
  let ?st1 = "if ci_r = ci_FAILED then attempt (?issue issue_CI_FAILURE (''CI failure on PR #'' @ show_int n) checks) st' else st"
  let ?st2 = "if me_r = mergeable_CONFLICT
    then attempt (?issue issue_MERGE_CONFLICT (''Merge conflict on PR #'' @ show_int n) ''The PR has merge conflicts that must be resolved.'') ?st1
    else ?st1"
  have c1: "calm t st ?st1"
    using calm_trans [OF calm_query [OF q] calm_issue_ticket] calm_refl by simp
  have "calm t ?st1 ?st2"
    using calm_issue_ticket calm_refl by simp
  with c1 have "calm t st ?st2" by (rule calm_trans)
  moreover have "create_issue_tickets_and_evaluate gp t i repo n ignored ci_r me_r r st =
      evaluate_transition gp t i repo n ci_r me_r r (ci_r = ci_FAILED \<or> me_r = mergeable_CONFLICT) ?st2"
    by (simp only: create_issue_tickets_and_evaluate_def Let_def q prod.case)
  ultimately show ?thesis by blast
qed

lemma issues_gated:
  assumes "wf_schema_ok (s_workflows st)" "conds t st = [(ci, me, re)]"
    and "ci_r = ci_SUCCEEDED \<Longrightarrow> ci = ci_SUCCEEDED" "me_r = mergeable_MERGEABLE \<Longrightarrow> me = mergeable_MERGEABLE"
    and "rv_status r = review_APPROVED \<Longrightarrow> re = review_APPROVED"
  shows "gated le t st (create_issue_tickets_and_evaluate gp t i repo n ignored ci_r me_r r st)"
proof -
  obtain st2 where c: "calm t st st2"
    and eq: "create_issue_tickets_and_evaluate gp t i repo n ignored ci_r me_r r st =
      evaluate_transition gp t i repo n ci_r me_r r (ci_r = ci_FAILED \<or> me_r = mergeable_CONFLICT) st2"
    using issues_calm [OF assms(1)] by blast
  note quiet = calmD [OF c assms(1)]
  show ?thesis
    unfolding eq using assms quiet by (intro gated_after [OF quiet(3)] evaluate_gated [of _ _ ci me re]) simp_all
qed

lemma conds_of_active:
  assumes "get_workflow_by_ticket le (s_workflows st) t = Some flow" "length (active_rows t (s_workflows st)) \<le> 1"
  shows "conds t st = [(wf_ci_status flow, wf_mergeable flow, wf_review_status flow)]"
proof (cases "active_rows t (s_workflows st)")
  case Nil
  then show ?thesis using assms(1) by (simp add: get_workflow_active first_row_def)
next
  case (Cons w ws)
  then have "ws = []" using assms(2) by simp
  moreover have "flow = row_to_workflow w"
    using assms(1) Cons by (simp add: get_workflow_active first_row_def)
  ultimately show ?thesis
    using Cons by (simp add: conds_def cond_row_def row_to_workflow_def)
qed

lemma polled_gated:
  assumes ok: "wf_schema_ok (s_workflows st)" and one: "length (active_rows t (s_workflows st)) \<le> 1"
    and flow: "get_workflow_by_ticket le (s_workflows st) t = Some flow"
    and ci: "poll_ci_condition gp t flow repo n ignored st = (st1, ci)"
    and mergeable: "poll_mergeable_condition gp t flow repo n st1 = (st2, me)"
    and review: "poll_review_condition gp t flow repo n st2 = (st3, r)"
  shows "gated le t st (create_issue_tickets_and_evaluate gp t i repo n ignored ci me r st3)"
proof (rule gated_after)
  from poll_ci [OF ok conds_of_active [OF flow one] ci]
  obtain ci' where s1: "wf_schema_ok (s_workflows st1)" "s_requests st1 = s_requests st"
    "conds t st1 = [(ci', wf_mergeable flow, wf_review_status flow)]" "ci = ci_SUCCEEDED \<longrightarrow> ci' = ci_SUCCEEDED" by blast
  from poll_mergeable [OF s1(1,3) mergeable]
  obtain me' where s2: "wf_schema_ok (s_workflows st2)" "s_requests st2 = s_requests st1"
    "conds t st2 = [(ci', me', wf_review_status flow)]" "me = mergeable_MERGEABLE \<longrightarrow> me' = mergeable_MERGEABLE" by blast
  from poll_review [OF s2(1,3) review]
  obtain re' where s3: "wf_schema_ok (s_workflows st3)" "s_requests st3 = s_requests st2"
    "conds t st3 = [(ci', me', re')]" "rv_status r = review_APPROVED \<longrightarrow> re' = review_APPROVED" by blast
  show "s_requests st3 = s_requests st"
    by (simp only: s3(2) s2(2) s1(2))
  show "gated le t st3 (create_issue_tickets_and_evaluate gp t i repo n ignored ci me r st3)"
    using s1(4) s2(4) s3(4) by (intro issues_gated [OF s3(1,3)]) simp_all
qed

text \<open>
  C11: When the poller looks at a ticket in review whose ticket has at most one active workflow, it asks
  for at most one transition, of that ticket, and only to addressing feedback, implementing or
  merging; and it asks for a merge only when the workflow it leaves in the store passes the check of
  CI, mergeability and approval with which the merge handler begins. This holds whatever GitHub
  answers, failed queries included, and also for a pull request merged by hand.
\<close>
theorem poller_merge_gate:
  assumes "wf_schema_ok (s_workflows st)" "length (active_rows (tk_id ticket) (s_workflows st)) \<le> 1"
  shows "gated (cx_le (gp_cx gp)) (tk_id ticket) st (check_in_review_ticket gp ticket st)"
proof -
  let ?t = "tk_id ticket" and ?le = "cx_le (gp_cx gp)"
  have auto: "gated ?le ?t st (set_feedback_mode_and_transition ?t feedback_LATER AddressingFeedback st)"
    by (rule gated_asks [OF asks_feedback [OF assms(1)]]) simp
  let ?meta = "get_meta (s_tickets st) ?t ''ticket''"
  show ?thesis
  proof (cases "extract_pr_context ?meta")
    case None
    then show ?thesis by (simp add: check_in_review_ticket_def gated_same)
  next
    case (Some p)
    obtain n repo where p: "p = (n, repo)" by fastforce
    let ?ignored = "opt_or (gp_ignored gp (tk_project ticket)) []"
    consider "?meta ''autoapprove'' \<noteq> None"
      | "?meta ''autoapprove'' = None" "get_workflow_by_ticket ?le (s_workflows st) ?t = None"
      | flow where "?meta ''autoapprove'' = None" "get_workflow_by_ticket ?le (s_workflows st) ?t = Some flow"
      by fastforce
    then show ?thesis
    proof cases
      case 1
      with Some p auto show ?thesis by (simp add: check_in_review_ticket_def Let_def)
    next
      case 2
      with Some p show ?thesis by (simp add: check_in_review_ticket_def gated_same)
    next
      case (3 flow)
      obtain st1 ci where q1: "poll_ci_condition gp ?t flow repo n ?ignored st = (st1, ci)" by fastforce
      obtain st2 me where q2: "poll_mergeable_condition gp ?t flow repo n st1 = (st2, me)" by fastforce
      obtain st3 r where q3: "poll_review_condition gp ?t flow repo n st2 = (st3, r)" by fastforce
      show ?thesis
        using polled_gated [OF assms 3(2) q1 q2 q3] Some p 3 q1 q2 q3 by (simp add: check_in_review_ticket_def Let_def)
    qed
  qed
qed

end
