(* ===== verification/Poller_Examples.thy ===== *)
theory Poller_Examples
  imports Poller_Props Server_Examples
begin

text \<open>
  A pull request with an approving comment, on which the theorem about the poller is applied.
\<close>

definition ex_comment :: ConversationComment where
  "ex_comment = \<lparr>cc_id = 11, cc_user = ''u'', cc_is_bot = False, cc_body = ''ur approve'', cc_created_at = ''2026''\<rparr>"

definition ex_github :: github where
  "ex_github = \<lparr>gw_get_pr = (\<lambda>_ _ _. Inr \<lparr>pl_number = 7, pl_url = [], pl_state = ''OPEN'', pl_head_ref = ''b'', pl_base_ref = ''main'',
       pl_title = [], pl_body = []\<rparr>),
     gw_mergeable = (\<lambda>_ _ _. Inr (Some True)), gw_merged = (\<lambda>_ _ _. Inr None), gw_check_runs = (\<lambda>_ _ _. Inr []),
     gw_comments = (\<lambda>_ _ _. Inr [ex_comment]), gw_commits = (\<lambda>_ _ _. Inr (0, [])), gw_commit_date = (\<lambda>_. None),
     gw_reply = (\<lambda>_ _ _ _ _. Inr 1), gw_post_comment = (\<lambda>_ _ _ _. Inr 1)\<rparr>"

definition ex_poller :: poller where
  "ex_poller = \<lparr>gp_cx = ex_context ex_uuid, gp_github = ex_github, gp_ignored = (\<lambda>_. None)\<rparr>"

definition ex_review_ticket :: Ticket where
  "ex_review_ticket = row_with_counts [ex_ticket] ex_ticket"

theorem poller_merge_gate_witness:
  "gated bytewise ''ur-1'' ex_server (check_in_review_ticket ex_poller ex_review_ticket ex_server)"
proof -
  have "length (active_rows (tk_id ex_review_ticket) (s_workflows ex_server)) \<le> 1"
    by (simp add: active_rows_def ex_workflows_def)
  moreover have "tk_id ex_review_ticket = ''ur-1''" "cx_le (gp_cx ex_poller) = bytewise"
    by (simp_all add: ex_review_ticket_def row_with_counts_def ticket_from_row_def ex_ticket_def ex_poller_def ex_context_def ex_setting_def)
  ultimately show ?thesis
    using poller_merge_gate [of ex_server ex_review_ticket ex_poller] ex_workflows_ok by simp
qed

end
