(* ===== verification/Agent_Types.thy ===== *)
theory Agent_Types
  imports Workflow_Handlers Branch_Policy
begin

text \<open>
  The agents that run a worker, \<open>crates/ur_config/src/agent.rs\<close>: names, files, images, commands
  and defaults of each of them. Paths are texts; the environment is a function from names of
  variables to their values.
\<close>

subsection \<open>Agents\<close>

datatype AgentType = Claude | Codex | Agy

definition AgentType_ALL :: "AgentType list" where
  "AgentType_ALL = [Claude, Codex, Agy]"

fun AgentType_name :: "AgentType \<Rightarrow> string" where
  "AgentType_name Claude = ''claude''"
| "AgentType_name Codex = ''codex''"
| "AgentType_name Agy = ''agy''"

definition AgentType_parse :: "string \<Rightarrow> string + AgentType" where
  "AgentType_parse s =
     (if s = ''claude'' then Inr Claude else if s = ''codex'' then Inr Codex else if s = ''agy'' then Inr Agy else Inl s)"

interpretation agent: canonical_enum AgentType_name AgentType_parse
proof unfold_locales
  show "AgentType_parse (AgentType_name x) = Inr x" for x
    by (cases x) (simp_all add: AgentType_parse_def)
  show "AgentType_parse s = Inr x \<Longrightarrow> AgentType_name x = s" for s x
    by (auto simp: AgentType_parse_def split: if_splits)
qed

definition UR_AGENT_TYPE_ENV :: string where "UR_AGENT_TYPE_ENV = ''UR_AGENT_TYPE''"

definition AgentType_from_env :: "(string \<Rightarrow> string option) \<Rightarrow> AgentType" where
  "AgentType_from_env env =
     (case env UR_AGENT_TYPE_ENV of
        Some val \<Rightarrow> if trim val \<noteq> [] then unwrap_or (AgentType_parse (trim val)) Claude else Claude
      | None \<Rightarrow> Claude)"

fun home_subdir :: "AgentType \<Rightarrow> string" where
  "home_subdir Claude = ''.claude''"
| "home_subdir Codex = ''.codex''"
| "home_subdir Agy = ''.gemini/antigravity-cli''"

definition customization_root :: "AgentType \<Rightarrow> string" where
  "customization_root a = (case a of Agy \<Rightarrow> ''.gemini/config'' | _ \<Rightarrow> home_subdir a)"

definition instruction_filename :: "AgentType \<Rightarrow> string" where
  "instruction_filename a = (case a of Claude \<Rightarrow> ''CLAUDE.md'' | _ \<Rightarrow> ''AGENTS.md'')"

definition skill_subdir :: "AgentType \<Rightarrow> string" where "skill_subdir a = ''skills''"

definition skill_hooks_subdir :: "AgentType \<Rightarrow> string" where "skill_hooks_subdir a = ''skill-hooks''"

definition settings_filename :: "AgentType \<Rightarrow> string option" where
  "settings_filename a = Some (case a of Codex \<Rightarrow> ''config.toml'' | _ \<Rightarrow> ''settings.json'')"

definition memory_subdir :: "AgentType \<Rightarrow> string option" where
  "memory_subdir a = (case a of Claude \<Rightarrow> Some ''projects/-workspace/memory'' | _ \<Rightarrow> None)"

definition supports_local_runtime :: "AgentType \<Rightarrow> bool" where
  "supports_local_runtime a = (case a of Claude \<Rightarrow> True | _ \<Rightarrow> False)"

fun proxy_domains :: "AgentType \<Rightarrow> string list" where
  "proxy_domains Claude = [''api.anthropic.com'', ''platform.claude.com'', ''downloads.claude.ai'', ''.frame.claudeusercontent.com'']"
| "proxy_domains Codex = [''chatgpt.com'', ''api.openai.com'', ''auth.openai.com'']"
| "proxy_domains Agy = [''oauth2.googleapis.com'', ''www.googleapis.com'', ''cloudcode-pa.googleapis.com'',
     ''daily-cloudcode-pa.googleapis.com'', ''lh3.googleusercontent.com'', ''accounts.google.com'']"

subsection \<open>Credentials\<close>

datatype AuthSource =
    Keychain (service: string) (account: "string option") (linux_fallback: string)
  | HostFile (path_from_home: string)
  | InContainer

record AgentAuth =
  au_source :: AuthSource
  au_bootstrap :: bool
  au_credentials_path :: string
  au_app_config_path :: string

fun agent_auth :: "AgentType \<Rightarrow> AgentAuth option" where
  "agent_auth Claude = Some \<lparr>au_source = Keychain ''Claude Code-credentials'' None ''.claude/.credentials.json'', au_bootstrap = False,
     au_credentials_path = ''.claude/.credentials.json'', au_app_config_path = ''.claude.json''\<rparr>"
| "agent_auth Codex = Some \<lparr>au_source = HostFile ''.codex/auth.json'', au_bootstrap = False,
     au_credentials_path = ''.codex/auth.json'', au_app_config_path = ''.codex/config.toml''\<rparr>"
| "agent_auth Agy = Some \<lparr>au_source = Keychain ''gemini'' (Some ''antigravity'') ''.gemini/antigravity-cli/antigravity-oauth-token'',
     au_bootstrap = True, au_credentials_path = ''.gemini/antigravity-cli/antigravity-oauth-token'',
     au_app_config_path = ''.gemini/antigravity-cli/settings.json''\<rparr>"

definition MIN_SEEDED_CREDENTIALS_BYTES :: nat where "MIN_SEEDED_CREDENTIALS_BYTES = 10"

text \<open>The size of a file, if it can be read, is what the file system answers.\<close>

definition credentials_file_is_seeded :: "(string \<Rightarrow> nat option) \<Rightarrow> string \<Rightarrow> bool" where
  "credentials_file_is_seeded size_of path =
     (case size_of path of None \<Rightarrow> False | Some n \<Rightarrow> MIN_SEEDED_CREDENTIALS_BYTES \<le> n)"

text \<open>\<open>Path::file_name\<close> of a path that ends in a name: what follows the last slash.\<close>

definition file_name :: "string \<Rightarrow> string option" where
  "file_name path =
     (let name = last (split_on (CHR ''/'') path) in
      if name = [] \<or> name = ''.'' \<or> name = ''..'' then None else Some name)"

definition host_credentials_path :: "AgentType \<Rightarrow> string \<Rightarrow> string option" where
  "host_credentials_path a config_dir =
     (case agent_auth a of
        None \<Rightarrow> None
      | Some auth \<Rightarrow>
          (case file_name (au_credentials_path auth) of
             None \<Rightarrow> None
           | Some name \<Rightarrow> Some (path_join (path_join config_dir (AgentType_name a)) name)))"

fun login_instruction :: "AgentType \<Rightarrow> string" where
  "login_instruction Claude = ''log in to Claude Code on this machine''"
| "login_instruction Codex = ''run `codex login` on this machine''"
| "login_instruction Agy = ''run `agy` on this machine''"

definition credentials_remediation :: "AgentType \<Rightarrow> string" where
  "credentials_remediation a =
     ''no credentials for agent '' @ [CHR 0x27] @ AgentType_name a @ [CHR 0x27] @ '' '' @ em_dash @ '' '' @ login_instruction a @
     '', then run `ur worker reseed-credentials --agent '' @ AgentType_name a @ ''`''"

subsection \<open>Images\<close>

definition IMAGE_ALIASES :: "string list" where "IMAGE_ALIASES = [''ur-worker'']"

definition LEGACY_RUST_IMAGE_ALIAS :: string where "LEGACY_RUST_IMAGE_ALIAS = ''ur-worker-rust''"

definition default_image_alias :: string where "default_image_alias = IMAGE_ALIASES ! 0"

definition UR_IMAGE_TAG_ENV :: string where "UR_IMAGE_TAG_ENV = ''UR_IMAGE_TAG''"

definition worker_image_tag :: "(string \<Rightarrow> string option) \<Rightarrow> string" where
  "worker_image_tag env =
     (case env UR_IMAGE_TAG_ENV of Some tag \<Rightarrow> if tag \<noteq> [] then tag else ''latest'' | None \<Rightarrow> ''latest'')"

definition full_reference :: "string \<Rightarrow> bool" where
  "full_reference raw = (CHR '':'' \<in> set raw \<or> CHR ''/'' \<in> set raw)"

definition validate_image_alias :: "string \<Rightarrow> string + unit" where
  "validate_image_alias raw =
     (if full_reference raw then Inr ()
      else if raw \<in> set IMAGE_ALIASES \<or> raw = LEGACY_RUST_IMAGE_ALIAS then Inr ()
      else Inl raw)"

definition resolve_image :: "AgentType \<Rightarrow> string \<Rightarrow> string \<Rightarrow> (string \<times> AgentType) + string" where
  "resolve_image a raw tag =
     (if full_reference raw then Inr raw
      else if raw = LEGACY_RUST_IMAGE_ALIAS then Inr (''ur-worker-'' @ AgentType_name a @ '':'' @ tag)
      else if raw \<in> set IMAGE_ALIASES then Inr (raw @ ''-'' @ AgentType_name a @ '':'' @ tag)
      else Inl (raw, a))"

text \<open>The unwrapped result of the default alias; the lemma below shows that it is never an error.\<close>

definition fallback_image :: "AgentType \<Rightarrow> string \<Rightarrow> string" where
  "fallback_image a tag = unwrap_or (resolve_image a default_image_alias tag) []"

lemma fallback_image_resolves: "resolve_image a default_image_alias tag = Inr (fallback_image a tag)"
  by (simp add: fallback_image_def resolve_image_def default_image_alias_def IMAGE_ALIASES_def full_reference_def
      LEGACY_RUST_IMAGE_ALIAS_def)

lemma validated_image_resolves:
  "validate_image_alias raw = Inr () \<longleftrightarrow> (\<exists>image. resolve_image a raw tag = Inr image)"
  by (auto simp: validate_image_alias_def resolve_image_def)

subsection \<open>Commands\<close>

definition quoted :: "string \<Rightarrow> string" where
  "quoted s = [CHR 0x27] @ s @ [CHR 0x27]"

text \<open>The trimmed model, when there is one that is not blank.\<close>

definition given_model :: "string option \<Rightarrow> string option" where
  "given_model model = (case model of None \<Rightarrow> None | Some m \<Rightarrow> if trim m \<noteq> [] then Some (trim m) else None)"

fun spawn_command :: "AgentType \<Rightarrow> string option \<Rightarrow> string \<Rightarrow> string" where
  "spawn_command Claude model effort =
     (case given_model model of
        Some m \<Rightarrow> ''claude --model '' @ quoted m @ '' --effort '' @ quoted effort
      | None \<Rightarrow> ''claude --effort '' @ quoted effort)"
| "spawn_command Codex model effort =
     (case given_model model of
        Some m \<Rightarrow> ''codex -m '' @ quoted m @ '' -c model_reasoning_effort='' @ [CHR 0x22] @ effort @ [CHR 0x22]
      | None \<Rightarrow> ''codex -c model_reasoning_effort='' @ [CHR 0x22] @ effort @ [CHR 0x22])"
| "spawn_command Agy model effort =
     (case given_model model of
        Some m \<Rightarrow> ''agy --model '' @ quoted m @ '' --effort '' @ quoted effort @ '' --dangerously-skip-permissions''
      | None \<Rightarrow> ''agy --effort '' @ quoted effort @ '' --dangerously-skip-permissions'')"

definition supported_efforts :: "AgentType \<Rightarrow> string list" where
  "supported_efforts a =
     [''low'', ''medium'', ''high'', ''xhigh'', ''max''] @ (case a of Claude \<Rightarrow> [] | _ \<Rightarrow> [''ultra''])"

definition default_effort :: "AgentType \<Rightarrow> string" where "default_effort a = ''medium''"

definition clear_command :: "AgentType \<Rightarrow> string" where
  "clear_command a = (case a of Codex \<Rightarrow> ''/new'' | _ \<Rightarrow> ''/clear'')"

fun push_args :: "string \<Rightarrow> string list \<Rightarrow> string" where
  "push_args invocation [] = invocation"
| "push_args invocation (arg # args) = push_args (invocation @ '' '' @ arg) args"

definition skill_invocation :: "AgentType \<Rightarrow> string \<Rightarrow> string list \<Rightarrow> string" where
  "skill_invocation a skill args =
     (case a of
        Codex \<Rightarrow>
          (let base_skill = last (split_on (CHR '':'') skill);
               prohibition = (if base_skill = ''implement'' then '' DO NOT USE DESIGN SKILL.'' else [])
           in if args = [] then ''Run the `'' @ skill @ ''` skill.'' @ prohibition
              else ''Run the `'' @ skill @ ''` skill.'' @ prohibition @ '' Arguments: '' @ join '', '' args)
      | _ \<Rightarrow> push_args (''/'' @ skill) args)"

definition default_model :: "AgentType \<Rightarrow> string \<Rightarrow> string option" where
  "default_model a strat =
     (case a of
        Claude \<Rightarrow> if strat = ''code'' then Some ''sonnet'' else if strat = ''design'' \<or> strat = ''manual'' then Some ''opus'' else None
      | Codex \<Rightarrow> if strat = ''code'' then Some ''gpt-5.6-terra'' else if strat = ''design'' \<or> strat = ''manual'' then Some ''gpt-5.6-sol'' else None
      | Agy \<Rightarrow> if strat = ''code'' \<or> strat = ''design'' \<or> strat = ''manual'' then Some ''gemini-3.8-flash'' else None)"

lemma default_effort_supported: "default_effort a \<in> set (supported_efforts a)"
  by (simp add: default_effort_def supported_efforts_def)

lemma strategies_have_models: "default_model a (WorkerStrategy_name s) \<noteq> None"
  by (cases a; cases s) (simp_all add: default_model_def)

end
