(* ===== verification/Config_Model.thy ===== *)
theory Config_Model
  imports Agent_Types
begin

text \<open>
  The configuration of \<open>crates/ur_config/src\<close>: template paths (\<open>template_path.rs\<close>), the forge of a
  repository (\<open>forge.rs\<close>), and how the sections of \<open>ur.toml\<close> are checked and completed with their
  defaults (\<open>lib.rs\<close>).

  The TOML parser is not part of the model: \<open>toml_value\<close> is a parsed document and the \<open>Raw\<close> records
  are what it is read into. Variables of the environment and the look of the file system are
  arguments. Paths are texts and tables association lists, since their order is that of the file.
\<close>

subsection \<open>Template paths\<close>

definition WORKSPACE_TEMPLATE :: string where "WORKSPACE_TEMPLATE = ''%WORKSPACE%''"

definition PROJECT_VAR :: string where "PROJECT_VAR = ''%PROJECT%''"

definition URCONFIG_VAR :: string where "URCONFIG_VAR = ''%URCONFIG%''"

text \<open>\<open>str::replace\<close> of a non-empty text: the pieces around its occurrences, joined by the new text.\<close>

definition resolve_workspace_content :: "string \<Rightarrow> string \<Rightarrow> string" where
  "resolve_workspace_content content workspace = join workspace (split_text WORKSPACE_TEMPLATE content)"

datatype ResolvedTemplatePath = ProjectRelative string | HostPath string

datatype template_error = TemplateStart string | TemplateVariable string | TemplateEmpty

definition resolve_template_path :: "string \<Rightarrow> string \<Rightarrow> template_error + ResolvedTemplatePath" where
  "resolve_template_path tpl config_dir =
     (case strip_prefix tpl PROJECT_VAR of
        Some sfx \<Rightarrow> Inr (ProjectRelative (opt_or (strip_prefix sfx ''/'') sfx))
      | None \<Rightarrow>
          (case strip_prefix tpl URCONFIG_VAR of
             Some sfx \<Rightarrow> Inr (HostPath (path_join config_dir (opt_or (strip_prefix sfx ''/'') sfx)))
           | None \<Rightarrow> if starts_with tpl ''/'' then Inr (HostPath tpl) else Inl (TemplateStart tpl)))"

text \<open>
  The loop over the \<open>%\<close> signs: \<open>rest\<close> is the text from \<open>search_from\<close>. It ends when no sign is left, when
  the sign is the last character or when no second one follows.
\<close>

function template_vars_ok :: "string \<Rightarrow> template_error + unit" where
  "template_vars_ok rest =
     (case split_once (CHR ''%'') rest of
        None \<Rightarrow> Inr ()
      | Some (_, after) \<Rightarrow>
          (case split_once (CHR ''%'') after of
             None \<Rightarrow> Inr ()
           | Some (var, next) \<Rightarrow>
               if ''%'' @ var @ ''%'' \<noteq> PROJECT_VAR \<and> ''%'' @ var @ ''%'' \<noteq> URCONFIG_VAR
               then Inl (TemplateVariable (''%'' @ var @ ''%''))
               else template_vars_ok next))"
  by pat_completeness auto
termination by (relation "measure length") (auto dest!: split_once_Some)

declare template_vars_ok.simps [simp del]

definition validate_template_str :: "string \<Rightarrow> template_error + unit" where
  "validate_template_str tpl =
     and_then (template_vars_ok tpl) (\<lambda>_.
       if tpl = [] then Inl TemplateEmpty
       else if \<not> starts_with tpl PROJECT_VAR \<and> \<not> starts_with tpl URCONFIG_VAR \<and> \<not> starts_with tpl ''/'' then Inl (TemplateStart tpl)
       else Inr ())"

subsection \<open>Forges\<close>

datatype ForgeType = GitHub | Gitea

fun ForgeType_as_str :: "ForgeType \<Rightarrow> string" where
  "ForgeType_as_str GitHub = ''github''"
| "ForgeType_as_str Gitea = ''gitea''"

text \<open>The first piece of \<open>str::split\<close> at any of some characters, and \<open>split_once\<close> at a text.\<close>

definition first_piece :: "char set \<Rightarrow> string \<Rightarrow> string" where
  "first_piece cs s = takeWhile (\<lambda>c. c \<notin> cs) s"

definition split_once_str :: "string \<Rightarrow> string \<Rightarrow> (string \<times> string) option" where
  "split_once_str p s = (case find_sub p s of None \<Rightarrow> None | Some i \<Rightarrow> Some (take i s, drop (i + length p) s))"

definition after_at :: "string \<Rightarrow> string" where
  "after_at s = (case split_once (CHR ''@'') s of Some (_, h) \<Rightarrow> h | None \<Rightarrow> s)"

definition github_host :: "string \<Rightarrow> bool" where
  "github_host host = (host = ''github.com'' \<or> ends_with host ''.github.com'')"

definition is_github_url :: "string \<Rightarrow> bool" where
  "is_github_url lower =
     (case split_once_str ''://'' lower of
        Some (_, rest) \<Rightarrow> github_host (after_at (first_piece {CHR ''/'', CHR '':'', CHR ''?''} rest))
      | None \<Rightarrow>
          (case split_once (CHR '':'') lower of Some (user_host, _) \<Rightarrow> github_host (after_at user_host) | None \<Rightarrow> False) \<or>
          github_host (first_piece {CHR ''/'', CHR '':''} lower))"

definition parse_forge_from_url :: "string \<Rightarrow> ForgeType" where
  "parse_forge_from_url url = (if is_github_url (map lower_char (trim url)) then GitHub else Gitea)"

subsection \<open>Mounts and ports\<close>

record MountConfig =
  mc_source :: string
  mc_destination :: string
  mc_readonly :: bool

record PortMapping =
  pm_host_port :: "16 word"
  pm_container_port :: "16 word"

datatype mount_error =
    MountSuffix string | MountFormat string | MountSourceEmpty | MountDestinationEmpty
  | MountSourceTemplate template_error | MountSourceProject | MountDestinationRelative string

datatype port_error = PortFormat string | PortHost string | PortContainer string

datatype script_error = ScriptEmpty | ScriptAbsolute string | ScriptParent string | ScriptProject string

datatype path_error = PathTemplate template_error | PathProject

datatype skill_error = SkillName | SkillPath path_error | SkillMissing string | SkillNotDir string

datatype project_error =
    RootMounts | RemovedField string | RepoAndLocal | RepoMissing | LocalPoolLimit
  | InstructionTemplate template_error | MemoryDir path_error | BrainDir path_error | ImageUnknown string
  | MountEntry nat mount_error | PortEntry nat port_error | HostexecScript script_error | GrantedAndDenied string

datatype config_error =
    ProjectError string project_error | SkillError string string skill_error | SkillInBoth string string
  | UnknownAgent string | WorkspaceBrain path_error | RemovedHostexec "string list" | LegacyBackup "string list"
  | PortOverflow | TomlError string | TomlMissing string | NoHome

text \<open>\<open>str::rfind\<close> of a character: the text before and after its last occurrence.\<close>

definition rsplit_once :: "char \<Rightarrow> string \<Rightarrow> (string \<times> string) option" where
  "rsplit_once c s = (case split_once c (rev s) of None \<Rightarrow> None | Some (a, b) \<Rightarrow> Some (rev b, rev a))"

definition parse_mount_suffix :: "string \<Rightarrow> nat \<Rightarrow> string \<Rightarrow> config_error + string \<times> bool" where
  "parse_mount_suffix project_key index raw =
     (case rsplit_once (CHR '':'') raw of
        None \<Rightarrow> Inr (raw, False)
      | Some (before_last, sfx) \<Rightarrow>
          (case split_once (CHR '':'') raw of
             None \<Rightarrow> Inr (raw, False)
           | Some (before_first, _) \<Rightarrow>
               if length before_first = length before_last then Inr (raw, False)
               else if sfx = ''ro'' then Inr (before_last, True)
               else Inl (ProjectError project_key (MountEntry index (MountSuffix sfx)))))"

definition map_error :: "('e \<Rightarrow> 'f) \<Rightarrow> 'e + 'a \<Rightarrow> 'f + 'a" where
  "map_error f r = (case r of Inl e \<Rightarrow> Inl (f e) | Inr a \<Rightarrow> Inr a)"

definition parse_mount_entry :: "string \<Rightarrow> nat \<Rightarrow> string \<Rightarrow> config_error + MountConfig" where
  "parse_mount_entry project_key index raw =
     and_then (parse_mount_suffix project_key index raw) (\<lambda>(mount_str, readonly).
       let fail = (\<lambda>e. ProjectError project_key (MountEntry index e)) in
       case split_once (CHR '':'') mount_str of
         None \<Rightarrow> Inl (fail (MountFormat raw))
       | Some (source, destination) \<Rightarrow>
           if source = [] then Inl (fail MountSourceEmpty)
           else if destination = [] then Inl (fail MountDestinationEmpty)
           else and_then (map_error (\<lambda>e. fail (MountSourceTemplate e)) (validate_template_str source)) (\<lambda>_.
             if starts_with source ''%PROJECT%'' then Inl (fail MountSourceProject)
             else if \<not> starts_with destination ''/'' then Inl (fail (MountDestinationRelative destination))
             else Inr \<lparr>mc_source = source, mc_destination = destination, mc_readonly = readonly\<rparr>))"

text \<open>\<open>u16::from_str\<close>: digits, after an optional plus sign, of a value that fits.\<close>

definition parse_u16 :: "string \<Rightarrow> 16 word option" where
  "parse_u16 s =
     (case parse_digits (opt_or (strip_prefix s ''+'') s) of
        None \<Rightarrow> None
      | Some n \<Rightarrow> if n < 2 ^ 16 then Some (of_nat n) else None)"

definition parse_port_entry :: "string \<Rightarrow> nat \<Rightarrow> string \<Rightarrow> config_error + PortMapping" where
  "parse_port_entry project_key index raw =
     (case split_once (CHR '':'') raw of
        None \<Rightarrow> Inl (ProjectError project_key (PortEntry index (PortFormat raw)))
      | Some (host_str, container_str) \<Rightarrow>
          (case parse_u16 host_str of
             None \<Rightarrow> Inl (ProjectError project_key (PortEntry index (PortHost host_str)))
           | Some h \<Rightarrow>
               (case parse_u16 container_str of
                  None \<Rightarrow> Inl (ProjectError project_key (PortEntry index (PortContainer container_str)))
                | Some c \<Rightarrow> Inr \<lparr>pm_host_port = h, pm_container_port = c\<rparr>)))"

text \<open>\<open>enumerate().map(..).collect()\<close>: the entries with their positions, up to the first error.\<close>

fun collect_indexed :: "(nat \<Rightarrow> 'a \<Rightarrow> 'e + 'b) \<Rightarrow> nat \<Rightarrow> 'a list \<Rightarrow> 'e + 'b list" where
  "collect_indexed f i [] = Inr []"
| "collect_indexed f i (x # xs) = and_then (f i x) (\<lambda>y. and_then (collect_indexed f (Suc i) xs) (\<lambda>ys. Inr (y # ys)))"

subsection \<open>Sections\<close>

definition DEFAULT_SERVER_PORT :: "16 word" where "DEFAULT_SERVER_PORT = 12321"
definition DEFAULT_PROXY_HOSTNAME :: string where "DEFAULT_PROXY_HOSTNAME = ''ur-squid''"
definition DEFAULT_NETWORK_NAME :: string where "DEFAULT_NETWORK_NAME = ''ur''"
definition DEFAULT_WORKER_NETWORK_NAME :: string where "DEFAULT_WORKER_NETWORK_NAME = ''ur-workers''"
definition DEFAULT_SERVER_HOSTNAME :: string where "DEFAULT_SERVER_HOSTNAME = ''ur-server''"
definition DEFAULT_WORKER_PREFIX :: string where "DEFAULT_WORKER_PREFIX = ''ur-worker-''"
definition DEFAULT_POOL_LIMIT :: nat where "DEFAULT_POOL_LIMIT = 10"
definition DEFAULT_BACKUP_INTERVAL_MINUTES :: nat where "DEFAULT_BACKUP_INTERVAL_MINUTES = 30"
definition DEFAULT_BACKUP_RETAIN_COUNT :: nat where "DEFAULT_BACKUP_RETAIN_COUNT = 3"
definition UR_CONTAINER_ENV :: string where "UR_CONTAINER_ENV = ''UR_CONTAINER''"
definition DEFAULT_CONTAINER_COMMAND :: string where "DEFAULT_CONTAINER_COMMAND = ''docker''"
definition DEFAULT_STALE_WORKER_TTL_DAYS :: nat where "DEFAULT_STALE_WORKER_TTL_DAYS = 7"
definition DEFAULT_MAX_IMPLEMENT_CYCLES :: nat where "DEFAULT_MAX_IMPLEMENT_CYCLES = 6"
definition DEFAULT_POLL_INTERVAL_MS :: nat where "DEFAULT_POLL_INTERVAL_MS = 500"
definition DEFAULT_GITHUB_SCAN_INTERVAL_SECS :: nat where "DEFAULT_GITHUB_SCAN_INTERVAL_SECS = 30"
definition DEFAULT_UI_EVENT_FALLBACK_INTERVAL_MS :: nat where "DEFAULT_UI_EVENT_FALLBACK_INTERVAL_MS = 5000"
definition DEFAULT_BUILDERD_RETRY_COUNT :: nat where "DEFAULT_BUILDERD_RETRY_COUNT = 3"
definition DEFAULT_BUILDERD_RETRY_BACKOFF_MS :: nat where "DEFAULT_BUILDERD_RETRY_BACKOFF_MS = 200"
definition DEFAULT_MAX_FIX_ATTEMPTS :: nat where "DEFAULT_MAX_FIX_ATTEMPTS = 10"
definition DEFAULT_PUSH_AGAIN_EXIT_CODE :: int where "DEFAULT_PUSH_AGAIN_EXIT_CODE = 200"
definition default_protected_branches :: "string list" where "default_protected_branches = [''main'', ''master'']"
definition DEFAULT_DB_HOST :: string where "DEFAULT_DB_HOST = ''ur-postgres''"
definition DEFAULT_DB_PORT :: "16 word" where "DEFAULT_DB_PORT = 5432"
definition DEFAULT_DB_USER :: string where "DEFAULT_DB_USER = ''ur''"
definition DEFAULT_DB_PASSWORD :: string where "DEFAULT_DB_PASSWORD = ''ur''"
definition DEFAULT_DB_NAME :: string where "DEFAULT_DB_NAME = ''ur''"
definition DEFAULT_TICKET_DB_NAME :: string where "DEFAULT_TICKET_DB_NAME = ''ur_tickets''"
definition DEFAULT_WORKFLOW_DB_NAME :: string where "DEFAULT_WORKFLOW_DB_NAME = ''ur_workflow''"
definition UR_TICKET_DB_PASSWORD_ENV :: string where "UR_TICKET_DB_PASSWORD_ENV = ''UR_TICKET_DB_PASSWORD''"
definition UR_WORKFLOW_DB_PASSWORD_ENV :: string where "UR_WORKFLOW_DB_PASSWORD_ENV = ''UR_WORKFLOW_DB_PASSWORD''"
definition DEFAULT_TUI_THEME :: string where "DEFAULT_TUI_THEME = ''system''"
definition DEFAULT_TUI_KEYMAP :: string where "DEFAULT_TUI_KEYMAP = ''default''"
definition DEFAULT_KEY_REPEAT_INTERVAL_MS :: nat where "DEFAULT_KEY_REPEAT_INTERVAL_MS = 200"

text \<open>The domains of all agents; a domain that was seen before is left out.\<close>

fun unseen_only :: "string list \<Rightarrow> string list \<Rightarrow> string list" where
  "unseen_only known [] = []"
| "unseen_only known (d # ds) = (if d \<in> set known then unseen_only known ds else d # unseen_only (d # known) ds)"

definition default_proxy_allowlist :: "string list" where
  "default_proxy_allowlist = unseen_only [] (concat (map proxy_domains AgentType_ALL))"

record RawProxyConfig =
  rx_hostname :: "string option"
  rx_allowlist :: "string list option"

record ProxyConfig =
  px_hostname :: string
  px_allowlist :: "string list"

definition resolve_proxy :: "RawProxyConfig option \<Rightarrow> ProxyConfig" where
  "resolve_proxy raw =
     (case raw of
        Some p \<Rightarrow> \<lparr>px_hostname = opt_or (rx_hostname p) DEFAULT_PROXY_HOSTNAME,
                    px_allowlist = opt_or (rx_allowlist p) default_proxy_allowlist\<rparr>
      | None \<Rightarrow> \<lparr>px_hostname = DEFAULT_PROXY_HOSTNAME, px_allowlist = default_proxy_allowlist\<rparr>)"

record RawNetworkConfig =
  rn_name :: "string option"
  rn_worker_name :: "string option"
  rn_server_hostname :: "string option"
  rn_worker_prefix :: "string option"

record NetworkConfig =
  nw_name :: string
  nw_worker_name :: string
  nw_server_hostname :: string
  nw_worker_prefix :: string

definition resolve_network :: "RawNetworkConfig option \<Rightarrow> NetworkConfig" where
  "resolve_network raw =
     (case raw of
        Some n \<Rightarrow> \<lparr>nw_name = opt_or (rn_name n) DEFAULT_NETWORK_NAME, nw_worker_name = opt_or (rn_worker_name n) DEFAULT_WORKER_NETWORK_NAME,
                    nw_server_hostname = opt_or (rn_server_hostname n) DEFAULT_SERVER_HOSTNAME,
                    nw_worker_prefix = opt_or (rn_worker_prefix n) DEFAULT_WORKER_PREFIX\<rparr>
      | None \<Rightarrow> \<lparr>nw_name = DEFAULT_NETWORK_NAME, nw_worker_name = DEFAULT_WORKER_NETWORK_NAME,
                  nw_server_hostname = DEFAULT_SERVER_HOSTNAME, nw_worker_prefix = DEFAULT_WORKER_PREFIX\<rparr>)"

record RawServerConfig =
  rs_container_command :: "string option"
  rs_stale_worker_ttl_days :: "nat option"
  rs_max_implement_cycles :: "nat option"
  rs_poll_interval_ms :: "nat option"
  rs_github_scan_interval_secs :: "nat option"
  rs_builderd_retry_count :: "nat option"
  rs_builderd_retry_backoff_ms :: "nat option"
  rs_ui_event_fallback_interval_ms :: "nat option"

record ServerConfig =
  se_container_command :: string
  se_stale_worker_ttl_days :: nat
  se_max_implement_cycles :: "nat option"
  se_poll_interval_ms :: nat
  se_github_scan_interval_secs :: nat
  se_builderd_retry_count :: nat
  se_builderd_retry_backoff_ms :: nat
  se_ui_event_fallback_interval_ms :: nat

definition or_else :: "'a option \<Rightarrow> 'a option \<Rightarrow> 'a option" where
  "or_else a b = (case a of Some x \<Rightarrow> Some x | None \<Rightarrow> b)"

definition resolve_server :: "(string \<Rightarrow> string option) \<Rightarrow> RawServerConfig option \<Rightarrow> ServerConfig" where
  "resolve_server env raw =
     (let container_command =
            (case (case raw of Some s \<Rightarrow> rs_container_command s | None \<Rightarrow> None) of
               Some cmd \<Rightarrow> cmd
             | None \<Rightarrow> opt_or (env UR_CONTAINER_ENV) DEFAULT_CONTAINER_COMMAND)
      in case raw of
           Some s \<Rightarrow>
             \<lparr>se_container_command = container_command,
              se_stale_worker_ttl_days = opt_or (rs_stale_worker_ttl_days s) DEFAULT_STALE_WORKER_TTL_DAYS,
              se_max_implement_cycles = or_else (rs_max_implement_cycles s) (Some DEFAULT_MAX_IMPLEMENT_CYCLES),
              se_poll_interval_ms = opt_or (rs_poll_interval_ms s) DEFAULT_POLL_INTERVAL_MS,
              se_github_scan_interval_secs = opt_or (rs_github_scan_interval_secs s) DEFAULT_GITHUB_SCAN_INTERVAL_SECS,
              se_builderd_retry_count = opt_or (rs_builderd_retry_count s) DEFAULT_BUILDERD_RETRY_COUNT,
              se_builderd_retry_backoff_ms = opt_or (rs_builderd_retry_backoff_ms s) DEFAULT_BUILDERD_RETRY_BACKOFF_MS,
              se_ui_event_fallback_interval_ms = opt_or (rs_ui_event_fallback_interval_ms s) DEFAULT_UI_EVENT_FALLBACK_INTERVAL_MS\<rparr>
         | None \<Rightarrow>
             \<lparr>se_container_command = container_command,
              se_stale_worker_ttl_days = DEFAULT_STALE_WORKER_TTL_DAYS,
              se_max_implement_cycles = Some DEFAULT_MAX_IMPLEMENT_CYCLES,
              se_poll_interval_ms = DEFAULT_POLL_INTERVAL_MS,
              se_github_scan_interval_secs = DEFAULT_GITHUB_SCAN_INTERVAL_SECS,
              se_builderd_retry_count = DEFAULT_BUILDERD_RETRY_COUNT,
              se_builderd_retry_backoff_ms = DEFAULT_BUILDERD_RETRY_BACKOFF_MS,
              se_ui_event_fallback_interval_ms = DEFAULT_UI_EVENT_FALLBACK_INTERVAL_MS\<rparr>)"

subsection \<open>Databases\<close>

record RawBackupConfig =
  rb_path :: "string option"
  rb_interval_minutes :: "nat option"
  rb_enabled :: "bool option"
  rb_retain_count :: "nat option"

record BackupConfig =
  bu_path :: "string option"
  bu_interval_minutes :: nat
  bu_enabled :: bool
  bu_retain_count :: nat

definition resolve_backup :: "RawBackupConfig option \<Rightarrow> BackupConfig" where
  "resolve_backup raw =
     (case raw of
        Some b \<Rightarrow> \<lparr>bu_path = rb_path b, bu_interval_minutes = opt_or (rb_interval_minutes b) DEFAULT_BACKUP_INTERVAL_MINUTES,
                    bu_enabled = opt_or (rb_enabled b) True, bu_retain_count = opt_or (rb_retain_count b) DEFAULT_BACKUP_RETAIN_COUNT\<rparr>
      | None \<Rightarrow> \<lparr>bu_path = None, bu_interval_minutes = DEFAULT_BACKUP_INTERVAL_MINUTES, bu_enabled = True,
                  bu_retain_count = DEFAULT_BACKUP_RETAIN_COUNT\<rparr>)"

text \<open>
  The three sections differ in the default name, in the variable that may hold the password and in
  the backup part, which the legacy section does not have.
\<close>

record RawDatabaseConfig =
  rd_host :: "string option"
  rd_port :: "16 word option"
  rd_user :: "string option"
  rd_password :: "string option"
  rd_name :: "string option"
  rd_bind_address :: "string option"

record RawBackedDbConfig = RawDatabaseConfig +
  rd_backup :: "RawBackupConfig option"

record DatabaseConfig =
  dc_host :: string
  dc_port :: "16 word"
  dc_user :: string
  dc_password :: string
  dc_name :: string
  dc_bind_address :: "string option"

record BackedDbConfig = DatabaseConfig +
  dc_backup :: BackupConfig

definition RawDatabaseConfig_default :: RawDatabaseConfig where
  "RawDatabaseConfig_default = \<lparr>rd_host = None, rd_port = None, rd_user = None, rd_password = None, rd_name = None, rd_bind_address = None\<rparr>"

definition RawBackedDbConfig_default :: RawBackedDbConfig where
  "RawBackedDbConfig_default = RawDatabaseConfig.extend RawDatabaseConfig_default (RawBackedDbConfig.fields None)"

definition resolve_database :: "RawDatabaseConfig option \<Rightarrow> DatabaseConfig" where
  "resolve_database raw_db =
     (let raw = opt_or raw_db RawDatabaseConfig_default in
      \<lparr>dc_host = opt_or (rd_host raw) DEFAULT_DB_HOST, dc_port = opt_or (rd_port raw) DEFAULT_DB_PORT,
       dc_user = opt_or (rd_user raw) DEFAULT_DB_USER, dc_password = opt_or (rd_password raw) DEFAULT_DB_PASSWORD,
       dc_name = opt_or (rd_name raw) DEFAULT_DB_NAME, dc_bind_address = rd_bind_address raw\<rparr>)"

definition resolve_ticket_db :: "(string \<Rightarrow> string option) \<Rightarrow> RawBackedDbConfig option \<Rightarrow> BackedDbConfig" where
  "resolve_ticket_db env raw_db =
     (let raw = opt_or raw_db RawBackedDbConfig_default in
      \<lparr>dc_host = opt_or (rd_host raw) DEFAULT_DB_HOST, dc_port = opt_or (rd_port raw) DEFAULT_DB_PORT,
       dc_user = opt_or (rd_user raw) DEFAULT_DB_USER,
       dc_password = opt_or (env UR_TICKET_DB_PASSWORD_ENV) (opt_or (rd_password raw) DEFAULT_DB_PASSWORD),
       dc_name = opt_or (rd_name raw) DEFAULT_TICKET_DB_NAME, dc_bind_address = rd_bind_address raw,
       dc_backup = resolve_backup (rd_backup raw)\<rparr>)"

definition resolve_workflow_db :: "(string \<Rightarrow> string option) \<Rightarrow> RawBackedDbConfig option \<Rightarrow> BackedDbConfig" where
  "resolve_workflow_db env raw_db =
     (let raw = opt_or raw_db RawBackedDbConfig_default in
      \<lparr>dc_host = opt_or (rd_host raw) DEFAULT_DB_HOST, dc_port = opt_or (rd_port raw) DEFAULT_DB_PORT,
       dc_user = opt_or (rd_user raw) DEFAULT_DB_USER,
       dc_password = opt_or (env UR_WORKFLOW_DB_PASSWORD_ENV) (opt_or (rd_password raw) DEFAULT_DB_PASSWORD),
       dc_name = opt_or (rd_name raw) DEFAULT_WORKFLOW_DB_NAME, dc_bind_address = rd_bind_address raw,
       dc_backup = resolve_backup (rd_backup raw)\<rparr>)"

definition database_url :: "'a DatabaseConfig_scheme \<Rightarrow> string" where
  "database_url c =
     ''postgres://'' @ dc_user c @ '':'' @ dc_password c @ ''@'' @ dc_host c @ '':'' @ show_nat (unat (dc_port c)) @ ''/'' @ dc_name c"

end
