(* ===== verification/Config_Projects.thy ===== *)
theory Config_Projects
  imports Config_Model
begin

text \<open>
  The projects, skills and terminal settings of \<open>ur.toml\<close> and the whole configuration
  (\<open>crates/ur_config/src/lib.rs\<close>), and the registry the server keeps of the projects
  (\<open>crates/server/src/project_registry.rs\<close>).
\<close>

subsection \<open>Projects\<close>

record RawContainerConfig =
  rc_image :: string
  rc_mounts :: "string list"
  rc_ports :: "string list"

record ContainerConfig =
  co_image :: string
  co_mounts :: "MountConfig list"
  co_ports :: "PortMapping list"

text \<open>Fields that are only looked at for their presence hold the unit value.\<close>

record RawProjectConfig =
  rp_repo :: "string option"
  rp_local :: bool
  rp_name :: "string option"
  rp_pool_limit :: "nat option"
  rp_hostexec :: "string list"
  rp_hostexec_deny :: "string list"
  rp_skills :: "string list"
  rp_git_hooks_dir :: "unit option"
  rp_skill_hooks_dir :: "unit option"
  rp_instruction_md :: "string option"
  rp_claude_md :: "string option"
  rp_container :: "RawContainerConfig option"
  rp_mounts :: "unit option"
  rp_workflow_hooks_dir :: "unit option"
  rp_max_fix_attempts :: "nat option"
  rp_max_implement_cycles :: "nat option"
  rp_protected_branches :: "string list option"
  rp_tui :: "string option option"
  rp_git :: "bool option"
  rp_ignored_workflow_checks :: "string list"
  rp_hostexec_scripts :: "string list"
  rp_push_again_exit_code :: "int option"
  rp_memory_dir :: "string option"
  rp_brain_dir :: "string option"
  rp_forge :: "ForgeType option"
  rp_runtime :: "WorkerRuntime option"

text \<open>
  A resolved project extends the settings the handlers read; \<open>fp_tui\<close> is the theme of
  \<open>ProjectTuiConfig\<close> and \<open>fp_allow_no_verify\<close> the field of \<open>ProjectGitConfig\<close>.
\<close>

record full_project = project_settings +
  fp_key :: string
  fp_name :: string
  fp_skills :: "string list"
  fp_hostexec :: "string list"
  fp_hostexec_deny :: "string list"
  fp_instruction_md :: "string option"
  fp_container :: ContainerConfig
  fp_max_fix_attempts :: nat
  fp_tui :: "string option option"
  fp_allow_no_verify :: bool
  fp_ignored_workflow_checks :: "string list"
  fp_hostexec_scripts :: "string list"
  fp_memory_dir :: "string option"
  fp_brain_dir :: "string option"
  fp_forge :: "ForgeType option"
  fp_runtime :: "WorkerRuntime option"

definition resolve_project_repo :: "string \<Rightarrow> RawProjectConfig \<Rightarrow> config_error + string option" where
  "resolve_project_repo key raw =
     (case (rp_repo raw, rp_local raw) of
        (Some _, True) \<Rightarrow> Inl (ProjectError key RepoAndLocal)
      | (None, False) \<Rightarrow> Inl (ProjectError key RepoMissing)
      | (None, True) \<Rightarrow> if rp_pool_limit raw \<noteq> None then Inl (ProjectError key LocalPoolLimit) else Inr None
      | (Some repo, False) \<Rightarrow> Inr (Some repo))"

definition validate_removed_config_fields :: "string \<Rightarrow> RawProjectConfig \<Rightarrow> config_error + unit" where
  "validate_removed_config_fields key raw =
     (if rp_git_hooks_dir raw \<noteq> None then Inl (ProjectError key (RemovedField ''git_hooks_dir''))
      else if rp_skill_hooks_dir raw \<noteq> None then Inl (ProjectError key (RemovedField ''skill_hooks_dir''))
      else if rp_workflow_hooks_dir raw \<noteq> None then Inl (ProjectError key (RemovedField ''workflow_hooks_dir''))
      else Inr ())"

definition resolve_instruction_md :: "RawProjectConfig \<Rightarrow> string option" where
  "resolve_instruction_md raw =
     (case (rp_instruction_md raw, rp_claude_md raw) of
        (Some new, _) \<Rightarrow> Some new
      | (None, Some old) \<Rightarrow> Some old
      | (None, None) \<Rightarrow> None)"

text \<open>A path that has to stay the same for a project: a valid template not below \<open>%PROJECT%\<close>.\<close>

definition check_stable_path :: "string option \<Rightarrow> path_error + unit" where
  "check_stable_path tpl =
     (case tpl of
        None \<Rightarrow> Inr ()
      | Some t \<Rightarrow>
          and_then (map_error PathTemplate (validate_template_str t)) (\<lambda>_.
            if starts_with t ''%PROJECT%'' then Inl PathProject else Inr ()))"

definition validate_project_templates :: "string \<Rightarrow> string option \<Rightarrow> RawProjectConfig \<Rightarrow> config_error + unit" where
  "validate_project_templates key instruction_md raw =
     and_then (case instruction_md of
                 None \<Rightarrow> Inr ()
               | Some tpl \<Rightarrow> map_error (\<lambda>e. ProjectError key (InstructionTemplate e)) (validate_template_str tpl)) (\<lambda>_.
     and_then (map_error (\<lambda>e. ProjectError key (MemoryDir e)) (check_stable_path (rp_memory_dir raw))) (\<lambda>_.
     map_error (\<lambda>e. ProjectError key (BrainDir e)) (check_stable_path (rp_brain_dir raw))))"

definition normalize_hostexec_script :: "string \<Rightarrow> string \<Rightarrow> config_error + string" where
  "normalize_hostexec_script key s =
     (let normalized = opt_or (strip_prefix s ''./'') s;
          fail = (\<lambda>e. Inl (ProjectError key (HostexecScript e)))
      in if normalized = [] then fail ScriptEmpty
         else if starts_with normalized ''/'' then fail (ScriptAbsolute normalized)
         else if ''..'' \<in> set (split_on (CHR ''/'') normalized) then fail (ScriptParent normalized)
         else if starts_with normalized ''%PROJECT%'' then fail (ScriptProject normalized)
         else Inr normalized)"

definition normalize_hostexec_scripts :: "string \<Rightarrow> string list \<Rightarrow> config_error + string list" where
  "normalize_hostexec_scripts key scripts = collect_indexed (\<lambda>_. normalize_hostexec_script key) 0 scripts"

fun reject_granted_and_denied :: "string \<Rightarrow> string list \<Rightarrow> string list \<Rightarrow> config_error + unit" where
  "reject_granted_and_denied key [] denied = Inr ()"
| "reject_granted_and_denied key (cmd # cmds) denied =
     (if cmd \<in> set denied then Inl (ProjectError key (GrantedAndDenied cmd)) else reject_granted_and_denied key cmds denied)"

definition resolve_project_git :: "bool option \<Rightarrow> bool" where
  "resolve_project_git raw = opt_or raw False"

definition resolve_container :: "string \<Rightarrow> RawContainerConfig option \<Rightarrow> config_error + ContainerConfig" where
  "resolve_container key raw =
     (let raw_container = opt_or raw \<lparr>rc_image = hd IMAGE_ALIASES, rc_mounts = [], rc_ports = []\<rparr> in
      and_then (map_error (\<lambda>image. ProjectError key (ImageUnknown image)) (validate_image_alias (rc_image raw_container))) (\<lambda>_.
      and_then (collect_indexed (parse_mount_entry key) 0 (rc_mounts raw_container)) (\<lambda>mounts.
      and_then (collect_indexed (parse_port_entry key) 0 (rc_ports raw_container)) (\<lambda>ports.
        Inr \<lparr>co_image = rc_image raw_container, co_mounts = mounts, co_ports = ports\<rparr>))))"

definition resolve_project_config ::
  "string \<Rightarrow> RawProjectConfig \<Rightarrow> nat option \<Rightarrow> config_error + string \<times> full_project" where
  "resolve_project_config key raw server_max_implement_cycles =
     (if rp_mounts raw \<noteq> None then Inl (ProjectError key RootMounts)
      else
        and_then (validate_removed_config_fields key raw) (\<lambda>_.
        and_then (resolve_project_repo key raw) (\<lambda>repo.
        let instruction_md = resolve_instruction_md raw in
        and_then (validate_project_templates key instruction_md raw) (\<lambda>_.
        and_then (resolve_container key (rp_container raw)) (\<lambda>container.
        and_then (normalize_hostexec_scripts key (rp_hostexec_scripts raw)) (\<lambda>scripts.
        and_then (reject_granted_and_denied key (rp_hostexec raw) (rp_hostexec_deny raw)) (\<lambda>_.
          Inr (key,
            \<lparr>pc_repo = repo,
             pc_pool_limit = opt_or (rp_pool_limit raw) DEFAULT_POOL_LIMIT,
             ps_max_implement_cycles =
               or_else (or_else (rp_max_implement_cycles raw) server_max_implement_cycles) (Some DEFAULT_MAX_IMPLEMENT_CYCLES),
             ps_protected_branches = opt_or (rp_protected_branches raw) default_protected_branches,
             ps_push_again_exit_code = opt_or (rp_push_again_exit_code raw) DEFAULT_PUSH_AGAIN_EXIT_CODE,
             fp_key = key,
             fp_name = opt_or (rp_name raw) key,
             fp_skills = rp_skills raw,
             fp_hostexec = rp_hostexec raw,
             fp_hostexec_deny = rp_hostexec_deny raw,
             fp_instruction_md = instruction_md,
             fp_container = container,
             fp_max_fix_attempts = opt_or (rp_max_fix_attempts raw) DEFAULT_MAX_FIX_ATTEMPTS,
             fp_tui = rp_tui raw,
             fp_allow_no_verify = resolve_project_git (rp_git raw),
             fp_ignored_workflow_checks = rp_ignored_workflow_checks raw,
             fp_hostexec_scripts = scripts,
             fp_memory_dir = rp_memory_dir raw,
             fp_brain_dir = rp_brain_dir raw,
             fp_forge = rp_forge raw,
             fp_runtime = rp_runtime raw\<rparr>))))))))"

definition brain_convention_path :: "string \<Rightarrow> string \<Rightarrow> string" where
  "brain_convention_path config_dir project_key = path_join (path_join (path_join config_dir ''projects'') project_key) ''brain''"

definition brain_path :: "full_project \<Rightarrow> string \<Rightarrow> string option" where
  "brain_path project config_dir =
     (case fp_brain_dir project of
        None \<Rightarrow> Some (brain_convention_path config_dir (fp_key project))
      | Some tpl \<Rightarrow>
          (case resolve_template_path tpl config_dir of
             Inr (HostPath path) \<Rightarrow> Some path
           | Inr (ProjectRelative _) \<Rightarrow> None
           | Inl _ \<Rightarrow> None))"

definition is_local :: "full_project \<Rightarrow> bool" where
  "is_local project = (pc_repo project = None)"

definition require_repo :: "full_project \<Rightarrow> string + string" where
  "require_repo project =
     (case pc_repo project of
        Some repo \<Rightarrow> Inr repo
      | None \<Rightarrow> Inl (''project '' @ quoted (fp_key project) @ '' is local (local = true, no repo) '' @ em_dash @
                     '' this operation requires a git remote''))"

definition resolve_forge :: "full_project \<Rightarrow> ForgeType option" where
  "resolve_forge project = or_else (fp_forge project) (map_option parse_forge_from_url (pc_repo project))"

subsection \<open>Skills\<close>

definition is_valid_skill_name :: "string \<Rightarrow> bool" where
  "is_valid_skill_name name =
     (name \<noteq> [] \<and> list_all (\<lambda>c. suffix_ok c \<or> c = CHR ''_'' \<or> c = CHR ''-'') name)"

record file_look =
  fl_exists :: "string \<Rightarrow> bool"
  fl_is_dir :: "string \<Rightarrow> bool"

definition UR_HOST_CONFIG_ENV :: string where "UR_HOST_CONFIG_ENV = ''UR_HOST_CONFIG''"

definition resolve_skill ::
  "(string \<Rightarrow> string option) \<Rightarrow> file_look \<Rightarrow> string \<Rightarrow> string \<Rightarrow> string \<times> string \<Rightarrow> config_error + GlobalSkill" where
  "resolve_skill env fs sec config_dir entry =
     (case entry of (name, tpl) \<Rightarrow>
        let fail = (\<lambda>e. SkillError sec name e) in
        if \<not> is_valid_skill_name name then Inl (fail SkillName)
        else and_then (map_error (\<lambda>e. fail (SkillPath e)) (check_stable_path (Some tpl))) (\<lambda>_.
          case resolve_template_path tpl config_dir of
            Inl e \<Rightarrow> Inl (fail (SkillPath (PathTemplate e)))
          | Inr (ProjectRelative _) \<Rightarrow> Inl (fail (SkillPath PathProject))
          | Inr (HostPath host_path) \<Rightarrow>
              if env UR_HOST_CONFIG_ENV = None \<and> \<not> fl_exists fs host_path then Inl (fail (SkillMissing host_path))
              else if env UR_HOST_CONFIG_ENV = None \<and> \<not> fl_is_dir fs host_path then Inl (fail (SkillNotDir host_path))
              else Inr \<lparr>gs_name = name, gs_host_path = host_path\<rparr>))"

definition resolve_skill_section ::
  "(string \<Rightarrow> string option) \<Rightarrow> file_look \<Rightarrow> string \<Rightarrow> (string \<times> string) list \<Rightarrow> string \<Rightarrow> config_error + GlobalSkill list" where
  "resolve_skill_section env fs sec raw config_dir = collect_indexed (\<lambda>_. resolve_skill env fs sec config_dir) 0 raw"

record RawSkills =
  rk_common :: "(string \<times> string) list"
  rk_code :: "(string \<times> string) list"
  rk_design :: "(string \<times> string) list"

fun reject_repeated_skill :: "GlobalSkill list \<Rightarrow> GlobalSkill list \<Rightarrow> GlobalSkill list \<Rightarrow> config_error + unit" where
  "reject_repeated_skill [] code design = Inr ()"
| "reject_repeated_skill (s # ss) code design =
     (if gs_name s \<in> gs_name ` set code then Inl (SkillInBoth (gs_name s) ''code'')
      else if gs_name s \<in> gs_name ` set design then Inl (SkillInBoth (gs_name s) ''design'')
      else reject_repeated_skill ss code design)"

definition resolve_global_skills ::
  "(string \<Rightarrow> string option) \<Rightarrow> file_look \<Rightarrow> RawSkills option \<Rightarrow> string \<Rightarrow> config_error + GlobalSkillsConfig" where
  "resolve_global_skills env fs raw config_dir =
     (case raw of
        None \<Rightarrow> Inr \<lparr>gc_common = [], gc_code = [], gc_design = []\<rparr>
      | Some r \<Rightarrow>
          and_then (resolve_skill_section env fs ''common'' (rk_common r) config_dir) (\<lambda>common.
          and_then (resolve_skill_section env fs ''code'' (rk_code r) config_dir) (\<lambda>code.
          and_then (resolve_skill_section env fs ''design'' (rk_design r) config_dir) (\<lambda>design.
          and_then (reject_repeated_skill common code design) (\<lambda>_.
            Inr \<lparr>gc_common = common, gc_code = code, gc_design = design\<rparr>)))))"

end
