(* ===== verification/Config_Load.thy ===== *)
theory Config_Load
  imports Config_Projects
begin

text \<open>
  Loading the configuration (\<open>crates/ur_config/src/lib.rs\<close>): the checks of the parsed document, the
  terminal settings, the ports and the record of all sections; which project a command is for; the
  theme that is written back; and the registry of projects that the server keeps and reloads
  (\<open>crates/server/src/project_registry.rs\<close>).
\<close>

subsection \<open>The parsed document\<close>

datatype toml_value = TString string | TTable "(string \<times> toml_value) list" | TOther

fun toml_get :: "toml_value \<Rightarrow> string \<Rightarrow> toml_value option" where
  "toml_get (TTable kvs) k = map_of kvs k"
| "toml_get v k = None"

fun as_table :: "toml_value \<Rightarrow> (string \<times> toml_value) list option" where
  "as_table (TTable kvs) = Some kvs"
| "as_table v = None"

definition reject_removed_hostexec_section :: "toml_value \<Rightarrow> config_error + unit" where
  "reject_removed_hostexec_section document =
     (case toml_get document ''hostexec'' of
        None \<Rightarrow> Inr ()
      | Some hostexec \<Rightarrow>
          (let found = order_by bytewise
                 (case toml_get hostexec ''commands'' of
                    None \<Rightarrow> []
                  | Some c \<Rightarrow> (case as_table c of None \<Rightarrow> [] | Some kvs \<Rightarrow> map (\<lambda>(name, _). ''hostexec.commands.'' @ name) kvs))
           in Inl (RemovedHostexec (if found = [] then [''hostexec''] else found))))"

definition reject_legacy_backup_sections :: "toml_value \<Rightarrow> config_error + unit" where
  "reject_legacy_backup_sections document =
     (let found = (if toml_get document ''backup'' \<noteq> None then [''backup''] else []) @
                  (case toml_get document ''db'' of
                     None \<Rightarrow> []
                   | Some db \<Rightarrow> if toml_get db ''backup'' \<noteq> None then [''db.backup''] else [])
      in if found = [] then Inr () else Inl (LegacyBackup found))"

definition resolve_top_level_agent :: "string option \<Rightarrow> config_error + AgentType" where
  "resolve_top_level_agent raw =
     (case raw of Some name \<Rightarrow> map_error (\<lambda>_. UnknownAgent name) (AgentType_parse name) | None \<Rightarrow> Inr Claude)"

definition validate_workspace_brain_dir :: "string option \<Rightarrow> config_error + string option" where
  "validate_workspace_brain_dir raw =
     and_then (map_error WorkspaceBrain (check_stable_path raw)) (\<lambda>_. Inr raw)"

subsection \<open>Terminal settings\<close>

text \<open>
  The colours of a theme and the keys of a keymap are copied field by field from their raw records,
  so both are kept as values of a type of their own.
\<close>

record TicketFilterConfig =
  tf_statuses :: "string list option"
  tf_projects :: "string list option"

record RawNotificationConfig =
  ro_flow_stalled :: "bool option"
  ro_flow_in_review :: "bool option"

record NotificationConfig =
  nc_flow_stalled :: bool
  nc_flow_in_review :: bool

record ('th, 'km) RawTuiConfig =
  rt_theme :: "string option"
  rt_keymap :: "string option"
  rt_key_repeat_interval_ms :: "nat option"
  rt_themes :: "(string \<times> 'th) list"
  rt_keymaps :: "(string \<times> 'km) list"
  rt_ticket :: "TicketFilterConfig option option"
  rt_notifications :: "RawNotificationConfig option"

record ('th, 'km) TuiConfig =
  ut_theme_name :: string
  ut_keymap_name :: string
  ut_key_repeat_interval_ms :: nat
  ut_custom_themes :: "(string \<times> 'th) list"
  ut_custom_keymaps :: "(string \<times> 'km) list"
  ut_ticket_filter :: TicketFilterConfig
  ut_notifications :: NotificationConfig

definition NotificationConfig_default :: NotificationConfig where
  "NotificationConfig_default = \<lparr>nc_flow_stalled = True, nc_flow_in_review = True\<rparr>"

definition TicketFilterConfig_default :: TicketFilterConfig where
  "TicketFilterConfig_default = \<lparr>tf_statuses = None, tf_projects = None\<rparr>"

definition TuiConfig_default :: "('th, 'km) TuiConfig" where
  "TuiConfig_default =
     \<lparr>ut_theme_name = DEFAULT_TUI_THEME, ut_keymap_name = DEFAULT_TUI_KEYMAP,
      ut_key_repeat_interval_ms = DEFAULT_KEY_REPEAT_INTERVAL_MS, ut_custom_themes = [], ut_custom_keymaps = [],
      ut_ticket_filter = TicketFilterConfig_default, ut_notifications = NotificationConfig_default\<rparr>"

definition resolve_tui :: "('th, 'km) RawTuiConfig option \<Rightarrow> ('th, 'km) TuiConfig" where
  "resolve_tui raw =
     (case raw of
        None \<Rightarrow> TuiConfig_default
      | Some t \<Rightarrow>
          \<lparr>ut_theme_name = opt_or (rt_theme t) DEFAULT_TUI_THEME, ut_keymap_name = opt_or (rt_keymap t) DEFAULT_TUI_KEYMAP,
           ut_key_repeat_interval_ms = opt_or (rt_key_repeat_interval_ms t) DEFAULT_KEY_REPEAT_INTERVAL_MS,
           ut_custom_themes = rt_themes t, ut_custom_keymaps = rt_keymaps t,
           ut_ticket_filter = (case rt_ticket t of Some (Some f) \<Rightarrow> f | _ \<Rightarrow> TicketFilterConfig_default),
           ut_notifications =
             (case rt_notifications t of
                Some n \<Rightarrow> \<lparr>nc_flow_stalled = opt_or (ro_flow_stalled n) True, nc_flow_in_review = opt_or (ro_flow_in_review n) True\<rparr>
              | None \<Rightarrow> NotificationConfig_default)\<rparr>)"

subsection \<open>The configuration\<close>

record ('th, 'km) RawConfig =
  rw_agent :: "string option"
  rw_runtime :: "WorkerRuntime option"
  rw_workspace :: "string option"
  rw_server_port :: "16 word option"
  rw_worker_port :: "16 word option"
  rw_builderd_port :: "16 word option"
  rw_compose_file :: "string option"
  rw_git_branch_prefix :: "string option"
  rw_proxy :: "RawProxyConfig option"
  rw_network :: "RawNetworkConfig option"
  rw_db :: "RawDatabaseConfig option"
  rw_ticket_db :: "RawBackedDbConfig option"
  rw_workflow_db :: "RawBackedDbConfig option"
  rw_server :: "RawServerConfig option"
  rw_logs_dir :: "string option"
  rw_tui :: "('th, 'km) RawTuiConfig option"
  rw_workspace_brain_dir :: "string option"
  rw_projects :: "(string \<times> RawProjectConfig) list"
  rw_skills :: "RawSkills option"

record ('th, 'km) Config =
  cf_agent :: AgentType
  cf_runtime :: WorkerRuntime
  cf_config_dir :: string
  cf_workspace :: string
  cf_server_port :: "16 word"
  cf_worker_port :: "16 word"
  cf_builderd_port :: "16 word"
  cf_compose_file :: string
  cf_proxy :: ProxyConfig
  cf_network :: NetworkConfig
  cf_db :: DatabaseConfig
  cf_ticket_db :: BackedDbConfig
  cf_workflow_db :: BackedDbConfig
  cf_server :: ServerConfig
  cf_tui :: "('th, 'km) TuiConfig"
  cf_logs_dir :: string
  cf_git_branch_prefix :: string
  cf_projects :: "(string \<times> full_project) list"
  cf_global_skills :: GlobalSkillsConfig
  cf_workspace_brain_dir :: "string option"

text \<open>
  What is outside of the configuration: the environment, the file system, the parser (the document
  and the record it reads from a text), and whether the build checks arithmetic for overflow.
\<close>

record ('th, 'km) loader =
  ld_env :: "string \<Rightarrow> string option"
  ld_fs :: file_look
  ld_document :: "string \<Rightarrow> string + toml_value"
  ld_raw :: "string \<Rightarrow> string + ('th, 'km) RawConfig"
  ld_checked :: bool

text \<open>Addition of ports: an overflow stops a checked build and wraps around in any other.\<close>

definition port_add :: "bool \<Rightarrow> 16 word \<Rightarrow> 16 word \<Rightarrow> config_error + 16 word" where
  "port_add checked a b = (if checked \<and> 2 ^ 16 \<le> unat a + unat b then Inl PortOverflow else Inr (a + b))"

definition from_toml_str :: "('th, 'km) loader \<Rightarrow> string \<Rightarrow> string \<Rightarrow> config_error + ('th, 'km) Config" where
  "from_toml_str ld contents config_dir =
     and_then (map_error TomlError (ld_document ld contents)) (\<lambda>document.
     and_then (reject_removed_hostexec_section document) (\<lambda>_.
     and_then (reject_legacy_backup_sections document) (\<lambda>_.
     and_then (map_error TomlError (ld_raw ld contents)) (\<lambda>raw.
     and_then (resolve_top_level_agent (rw_agent raw)) (\<lambda>agent.
     let server_port = opt_or (rw_server_port raw) DEFAULT_SERVER_PORT in
     and_then (port_add (ld_checked ld) server_port 1) (\<lambda>next_port.
     and_then (port_add (ld_checked ld) server_port 2) (\<lambda>third_port.
     let server = resolve_server (ld_env ld) (rw_server raw) in
     and_then (collect_indexed (\<lambda>_ (key, raw_proj). resolve_project_config key raw_proj (se_max_implement_cycles server)) 0
                (rw_projects raw)) (\<lambda>projects.
     and_then (resolve_global_skills (ld_env ld) (ld_fs ld) (rw_skills raw) config_dir) (\<lambda>global_skills.
     and_then (validate_workspace_brain_dir (rw_workspace_brain_dir raw)) (\<lambda>workspace_brain_dir.
       Inr \<lparr>cf_agent = agent,
            cf_runtime = opt_or (rw_runtime raw) Container,
            cf_config_dir = config_dir,
            cf_workspace = opt_or (rw_workspace raw) (path_join config_dir ''workspace''),
            cf_server_port = server_port,
            cf_worker_port = opt_or (rw_worker_port raw) next_port,
            cf_builderd_port = opt_or (rw_builderd_port raw) third_port,
            cf_compose_file = opt_or (rw_compose_file raw) (path_join config_dir ''docker-compose.yml''),
            cf_proxy = resolve_proxy (rw_proxy raw),
            cf_network = resolve_network (rw_network raw),
            cf_db = resolve_database (rw_db raw),
            cf_ticket_db = resolve_ticket_db (ld_env ld) (rw_ticket_db raw),
            cf_workflow_db = resolve_workflow_db (ld_env ld) (rw_workflow_db raw),
            cf_server = server,
            cf_tui = resolve_tui (rw_tui raw),
            cf_logs_dir = (case rw_logs_dir raw of Some p \<Rightarrow> path_join config_dir p | None \<Rightarrow> path_join config_dir ''logs''),
            cf_git_branch_prefix = opt_or (rw_git_branch_prefix raw) [],
            cf_projects = projects,
            cf_global_skills = global_skills,
            cf_workspace_brain_dir = workspace_brain_dir\<rparr>))))))))))"

text \<open>\<open>std::fs::read_to_string\<close> answers with the contents, that there is no file, or with another error.\<close>

datatype read_answer = Contents string | NoFile | ReadError string

definition load_from :: "('th, 'km) loader \<Rightarrow> (string \<Rightarrow> read_answer) \<Rightarrow> string \<Rightarrow> config_error + ('th, 'km) Config" where
  "load_from ld read config_dir =
     (case read (path_join config_dir ''ur.toml'') of
        Contents contents \<Rightarrow> from_toml_str ld contents config_dir
      | NoFile \<Rightarrow> Inl (TomlMissing config_dir)
      | ReadError e \<Rightarrow> Inl (TomlError e))"

definition UR_CONFIG_ENV :: string where "UR_CONFIG_ENV = ''UR_CONFIG''"

definition resolve_config_dir :: "(string \<Rightarrow> string option) \<Rightarrow> string option \<Rightarrow> config_error + string" where
  "resolve_config_dir env home =
     (case env UR_CONFIG_ENV of
        Some val \<Rightarrow> Inr val
      | None \<Rightarrow> (case home of None \<Rightarrow> Inl NoHome | Some h \<Rightarrow> Inr (path_join h ''.ur'')))"

definition config_load :: "('th, 'km) loader \<Rightarrow> (string \<Rightarrow> read_answer) \<Rightarrow> string option \<Rightarrow> config_error + ('th, 'km) Config" where
  "config_load ld read home = and_then (resolve_config_dir (ld_env ld) home) (load_from ld read)"

text \<open>
  The project a command is for. \<open>projects\<close> lists them in the order in which the hash map is visited,
  and \<open>cwd\<close> is the current directory.
\<close>

definition resolve_project ::
  "(string \<Rightarrow> string option) \<Rightarrow> string option \<Rightarrow> string option \<Rightarrow> (string \<times> full_project) list \<Rightarrow> string option" where
  "resolve_project env cwd explicit projects =
     (case explicit of
        Some p \<Rightarrow> Some p
      | None \<Rightarrow>
          if opt_or (env ''UR_PROJECT'') [] \<noteq> [] then env ''UR_PROJECT''
          else case cwd of
            None \<Rightarrow> None
          | Some dir \<Rightarrow>
              (case file_name dir of
                 None \<Rightarrow> None
               | Some dir_name \<Rightarrow>
                   if dir_name = [] then None
                   else if dir_name \<in> fst ` set projects then Some dir_name
                   else map_option fst (List.find (\<lambda>(_, proj). fp_name proj = dir_name) projects)))"

subsection \<open>Writing a theme\<close>

fun table_set :: "string \<Rightarrow> toml_value \<Rightarrow> (string \<times> toml_value) list \<Rightarrow> (string \<times> toml_value) list" where
  "table_set k v [] = [(k, v)]"
| "table_set k v ((k', v') # kvs) = (if k' = k then (k, v) # kvs else (k', v') # table_set k v kvs)"

text \<open>
  The value below some keys is changed; a table on the way that is missing is put in, and anything
  else than a table on the way is an error, reported with the key.
\<close>

fun set_below :: "string list \<Rightarrow> string \<Rightarrow> toml_value \<Rightarrow> string \<Rightarrow> toml_value \<Rightarrow> string + toml_value" where
  "set_below [] k v here doc =
     (case as_table doc of None \<Rightarrow> Inl (here @ '' is not a table'') | Some kvs \<Rightarrow> Inr (TTable (table_set k v kvs)))"
| "set_below (key # keys) k v here doc =
     (case as_table doc of
        None \<Rightarrow> Inl (here @ '' is not a table'')
      | Some kvs \<Rightarrow>
          and_then (set_below keys k v key (opt_or (map_of kvs key) (TTable []))) (\<lambda>sub.
            Inr (TTable (table_set key sub kvs))))"

definition save_theme_name :: "string \<Rightarrow> toml_value \<Rightarrow> string + toml_value" where
  "save_theme_name theme_name doc = set_below [''tui''] ''theme'' (TString theme_name) ''ur.toml root'' doc"

definition save_project_theme_name :: "string \<Rightarrow> string \<Rightarrow> toml_value \<Rightarrow> string + toml_value" where
  "save_project_theme_name project_key theme_name doc =
     set_below [''projects'', project_key, ''tui''] ''theme'' (TString theme_name) ''ur.toml root'' doc"

definition BUILTIN_THEME_NAMES :: "string list" where
  "BUILTIN_THEME_NAMES =
     [''abyss'', ''acid'', ''aqua'', ''autumn'', ''black'', ''bumblebee'', ''business'', ''caramellatte'', ''cmyk'', ''coffee'',
      ''corporate'', ''cupcake'', ''cyberpunk'', ''dark'', ''dim'', ''dracula'', ''emerald'', ''fantasy'', ''forest'', ''garden'',
      ''halloween'', ''lemonade'', ''light'', ''lofi'', ''luxury'', ''night'', ''nord'', ''pastel'', ''retro'', ''silk'', ''sunset'',
      ''synthwave'', ''valentine'', ''winter'', ''wireframe'']"

definition is_builtin_theme :: "string \<Rightarrow> bool" where
  "is_builtin_theme name = (name \<in> set BUILTIN_THEME_NAMES)"

subsection \<open>What loading guarantees\<close>

lemma collect_indexed_InrD:
  "collect_indexed f i xs = Inr ys \<Longrightarrow> length ys = length xs \<and> (\<forall>k < length xs. f (i + k) (xs ! k) = Inr (ys ! k))"
proof (induction xs arbitrary: i ys)
  case (Cons x xs)
  then obtain y ys' where "f i x = Inr y" "collect_indexed f (Suc i) xs = Inr ys'" "ys = y # ys'"
    by (auto elim!: and_then_InrE)
  with Cons.IH [of "Suc i" ys'] show ?case
    by (auto simp: nth_Cons split: nat.splits)
qed simp

lemma collect_indexed_all:
  assumes "collect_indexed f i xs = Inr ys" "\<And>k x y. f k x = Inr y \<Longrightarrow> P y"
  shows "list_all P ys"
  using collect_indexed_InrD [OF assms(1)] assms(2) by (metis list_all_length)

text \<open>A relative path without \<open>..\<close> cannot name anything above the directory it is taken from.\<close>

definition inside_path :: "string \<Rightarrow> bool" where
  "inside_path p = (p \<noteq> [] \<and> \<not> starts_with p ''/'' \<and> ''..'' \<notin> set (split_on (CHR ''/'') p))"

lemma normalized_script_inside: "normalize_hostexec_script key s = Inr p \<Longrightarrow> inside_path p"
  by (auto simp: normalize_hostexec_script_def inside_path_def Let_def split: if_splits)

lemma resolved_scripts_inside:
  assumes "resolve_project_config key raw m = Inr (k, project)"
  shows "k = key \<and> fp_key project = key \<and> list_all inside_path (fp_hostexec_scripts project) \<and>
    set (fp_hostexec project) \<inter> set (fp_hostexec_deny project) = {} \<and> ps_max_implement_cycles project \<noteq> None"
proof -
  have disjoint: "reject_granted_and_denied key cmds denied = Inr () \<Longrightarrow> set cmds \<inter> set denied = {}" for cmds denied
    by (induction cmds) (auto split: if_splits)
  from assms obtain scripts where "k = key" "fp_key project = key" "fp_hostexec_scripts project = scripts"
    "normalize_hostexec_scripts key (rp_hostexec_scripts raw) = Inr scripts"
    "fp_hostexec project = rp_hostexec raw" "fp_hostexec_deny project = rp_hostexec_deny raw"
    "reject_granted_and_denied key (rp_hostexec raw) (rp_hostexec_deny raw) = Inr ()" "ps_max_implement_cycles project \<noteq> None"
    unfolding resolve_project_config_def Let_def by (auto elim!: and_then_InrE simp: or_else_def split: if_splits option.splits)
  then show ?thesis
    using disjoint collect_indexed_all [of "\<lambda>_. normalize_hostexec_script key" 0 "rp_hostexec_scripts raw" scripts inside_path]
      normalized_script_inside by (simp add: normalize_hostexec_scripts_def)
qed

text \<open>
  Every project of a loaded configuration is stored under its own key, has only scripts inside of its
  repository and grants no command that it denies; and unlike what the type allows, the number of
  implement cycles is always limited.
\<close>

lemma loaded_projects:
  fixes ld :: "('th, 'km) loader"
  assumes "from_toml_str ld contents config_dir = Inr config" "map_of (cf_projects config) key = Some project"
  shows "fp_key project = key \<and> list_all inside_path (fp_hostexec_scripts project) \<and>
    set (fp_hostexec project) \<inter> set (fp_hostexec_deny project) = {} \<and> ps_max_implement_cycles project \<noteq> None"
proof -
  obtain raw :: "('th, 'km) RawConfig" and cycles projects where ps: "cf_projects config = projects"
    "collect_indexed (\<lambda>_ (key, raw_proj). resolve_project_config key raw_proj cycles) 0 (rw_projects raw) = Inr projects"
    using assms(1) unfolding from_toml_str_def Let_def by (auto elim!: and_then_InrE)
  have "list_all (\<lambda>(k, p). fp_key p = k \<and> list_all inside_path (fp_hostexec_scripts p) \<and>
      set (fp_hostexec p) \<inter> set (fp_hostexec_deny p) = {} \<and> ps_max_implement_cycles p \<noteq> None) projects"
    by (rule collect_indexed_all [OF ps(2)]) (use resolved_scripts_inside in \<open>fastforce split: prod.splits\<close>)
  moreover have "(key, project) \<in> set projects"
    using assms(2) ps(1) by (simp add: map_of_SomeD)
  ultimately show ?thesis
    by (auto simp: list_all_iff)
qed

end
