(* ===== verification/Host_Exec.thy ===== *)
theory Host_Exec
  imports Config_Load "HOL-Library.AList"
begin

text \<open>
  The gateway through which workers run commands on the host: which commands and scripts a project
  may run (\<open>crates/server/src/hostexec\<close>, \<open>project_registry.rs\<close>) and the service that checks a request,
  maps its directory and forwards it to builderd (\<open>crates/server/src/grpc_hostexec.rs\<close>).

  The Lua interpreter is the argument \<open>lua\<close>: what running a script leaves in the globals and what its
  \<open>transform\<close> function answers. The texts of the built-in scripts are given by the function
  \<open>script\<close>, and the directory of a project's own scripts by its listing.
\<close>

subsection \<open>Transforms in Lua\<close>

record WorkerContext =
  xc_worker_id :: string
  xc_process_id :: string
  xc_project_key :: string
  xc_slot_path :: string
  xc_branch :: string
  xc_allow_no_verify :: bool

text \<open>A table has a sequence and entries named by texts; a number comes with the text Lua writes for it.\<close>

datatype lua_value = LNil | LBool bool | LNumber string | LString string | LFunction
  | LTable "lua_value list" "(string \<times> lua_value) list"

record lua =
  lu_load :: "string \<Rightarrow> string + (string \<Rightarrow> lua_value)"
  lu_call :: "string \<Rightarrow> string \<Rightarrow> string list \<Rightarrow> string \<Rightarrow> WorkerContext option \<Rightarrow> string + lua_value"

record TransformResult =
  tn_command :: string
  tn_args :: "string list"
  tn_working_dir :: string
  tn_env :: "string \<rightharpoonup> string"

record LuaCommandMetadata =
  lm_long_lived :: bool
  lm_bidi :: bool

datatype transform_error =
    LuaLoad string | LuaNoTransform | LuaCall string | LuaNoTable | LuaField string | LuaArg nat | LuaArgsNoTable
  | LuaEnvNoTable | LuaEnvEntry | LuaNotBool string

text \<open>The conversion to a text, which also takes numbers.\<close>

fun lua_string :: "lua_value \<Rightarrow> string option" where
  "lua_string (LString s) = Some s"
| "lua_string (LNumber s) = Some s"
| "lua_string v = None"

definition lua_field :: "(string \<times> lua_value) list \<Rightarrow> string \<Rightarrow> lua_value" where
  "lua_field flds k = opt_or (map_of flds k) LNil"

fun extract_args_from :: "nat \<Rightarrow> lua_value list \<Rightarrow> transform_error + string list" where
  "extract_args_from i [] = Inr []"
| "extract_args_from i (v # vs) =
     (case lua_string v of
        None \<Rightarrow> Inl (LuaArg i)
      | Some s \<Rightarrow> and_then (extract_args_from (Suc i) vs) (\<lambda>out. Inr (s # out)))"

definition extract_args :: "lua_value \<Rightarrow> transform_error + string list" where
  "extract_args v = (case v of LTable seq _ \<Rightarrow> extract_args_from 1 seq | _ \<Rightarrow> Inl LuaArgsNoTable)"

fun extract_pairs :: "(string \<times> lua_value) list \<Rightarrow> (string \<rightharpoonup> string) \<Rightarrow> transform_error + (string \<rightharpoonup> string)" where
  "extract_pairs [] m = Inr m"
| "extract_pairs ((k, v) # kvs) m =
     (case lua_string v of None \<Rightarrow> Inl LuaEnvEntry | Some s \<Rightarrow> extract_pairs kvs (m(k \<mapsto> s)))"

definition extract_env :: "lua_value \<Rightarrow> transform_error + (string \<rightharpoonup> string)" where
  "extract_env v =
     (case v of
        LNil \<Rightarrow> Inr Map.empty
      | LTable seq flds \<Rightarrow> extract_pairs (zip (map (\<lambda>i. show_nat (Suc i)) [0..<length seq]) seq @ flds) Map.empty
      | _ \<Rightarrow> Inl LuaEnvNoTable)"

definition run_transform ::
  "lua \<Rightarrow> string \<Rightarrow> string \<Rightarrow> string list \<Rightarrow> string \<Rightarrow> WorkerContext option \<Rightarrow> transform_error + TransformResult" where
  "run_transform lua lua_source command args working_dir ctx =
     and_then (map_error LuaLoad (lu_load lua lua_source)) (\<lambda>globals.
       if globals ''transform'' \<noteq> LFunction then Inl LuaNoTransform
       else and_then (map_error LuaCall (lu_call lua lua_source command args working_dir ctx)) (\<lambda>result.
         case result of
           LTable _ flds \<Rightarrow>
             (case lua_string (lua_field flds ''command'') of
                None \<Rightarrow> Inl (LuaField ''command'')
              | Some c \<Rightarrow>
                  and_then (extract_args (lua_field flds ''args'')) (\<lambda>a.
                    case lua_string (lua_field flds ''working_dir'') of
                      None \<Rightarrow> Inl (LuaField ''working_dir'')
                    | Some d \<Rightarrow>
                        and_then (extract_env (lua_field flds ''env'')) (\<lambda>e.
                          Inr \<lparr>tn_command = c, tn_args = a, tn_working_dir = d, tn_env = e\<rparr>)))
         | _ \<Rightarrow> Inl LuaNoTable))"

definition read_boolean_global :: "(string \<Rightarrow> lua_value) \<Rightarrow> string \<Rightarrow> transform_error + bool" where
  "read_boolean_global globals key =
     (case globals key of LNil \<Rightarrow> Inr False | LBool b \<Rightarrow> Inr b | _ \<Rightarrow> Inl (LuaNotBool key))"

definition read_metadata :: "lua \<Rightarrow> string \<Rightarrow> transform_error + LuaCommandMetadata" where
  "read_metadata lua lua_source =
     and_then (map_error LuaLoad (lu_load lua lua_source)) (\<lambda>globals.
       if globals ''transform'' \<noteq> LFunction then Inl LuaNoTransform
       else and_then (read_boolean_global globals ''long_lived'') (\<lambda>long_lived.
         and_then (read_boolean_global globals ''bidi'') (\<lambda>bidi.
           Inr \<lparr>lm_long_lived = long_lived, lm_bidi = bidi\<rparr>)))"

subsection \<open>Discovered scripts\<close>

record CommandConfig =
  hc_lua_source :: "string option"
  hc_long_lived :: bool
  hc_bidi :: bool

text \<open>The hash map of commands, with one entry per name.\<close>

type_synonym commands = "(string \<times> CommandConfig) list"

text \<open>The stem and extension of a file's name: the parts around its last dot, unless that is the first character.\<close>

definition stem_extension :: "string \<Rightarrow> string \<times> string option" where
  "stem_extension name =
     (case rsplit_once (CHR ''.'') name of
        None \<Rightarrow> (name, None)
      | Some (stem, ext) \<Rightarrow> if stem = [] then (name, None) else (stem, Some ext))"

definition command_char :: "char \<Rightarrow> bool" where
  "command_char c = (suffix_ok (lower_char c) \<or> c \<in> set ''._-'')"

datatype discover_error =
    DirUnreadable string | BadFileName string | FileUnreadable string string | ScriptInvalid string transform_error
  | DiscoveryNotConfigured

definition command_name :: "string \<Rightarrow> discover_error + string" where
  "command_name name =
     (let stem = fst (stem_extension name) in
      if stem = [] \<or> \<not> list_all command_char stem then Inl (BadFileName name) else Inr stem)"

text \<open>An entry of the directory: its name, whether it is a file, and its contents.\<close>

record dir_entry =
  de_name :: string
  de_is_file :: "string + bool"
  de_contents :: "string + string"

datatype dir_answer = DirEntries "dir_entry list" | DirMissing | DirError string

fun discover_entries :: "lua \<Rightarrow> dir_entry list \<Rightarrow> commands \<Rightarrow> discover_error + commands" where
  "discover_entries lua [] commands = Inr commands"
| "discover_entries lua (e # es) commands =
     (if snd (stem_extension (de_name e)) \<noteq> Some ''lua'' then discover_entries lua es commands
      else and_then (map_error (FileUnreadable (de_name e)) (de_is_file e)) (\<lambda>is_file.
        if \<not> is_file then discover_entries lua es commands
        else and_then (command_name (de_name e)) (\<lambda>name.
          and_then (map_error (FileUnreadable (de_name e)) (de_contents e)) (\<lambda>source.
          and_then (map_error (ScriptInvalid (de_name e)) (read_metadata lua source)) (\<lambda>md.
            discover_entries lua es
              (AList.update name \<lparr>hc_lua_source = Some source, hc_long_lived = lm_long_lived md, hc_bidi = lm_bidi md\<rparr> commands))))))"

definition discover :: "lua \<Rightarrow> dir_answer \<Rightarrow> discover_error + commands" where
  "discover lua answer =
     (case answer of
        DirMissing \<Rightarrow> Inr []
      | DirError e \<Rightarrow> Inl (DirUnreadable e)
      | DirEntries entries \<Rightarrow> discover_entries lua (order_by (on_key bytewise de_name) entries) [])"

subsection \<open>Commands of a project\<close>

record HostExecConfigManager =
  hm_commands :: "commands"
  hm_discovery :: "lua option"

definition DEFAULT_COMMAND_NAMES :: "string list" where
  "DEFAULT_COMMAND_NAMES =
     [''bazel'', ''cargo'', ''docker'', ''gh'', ''git'', ''go'', ''make'', ''npm'', ''pnpm'', ''tsc'', ''ur'']"

definition builtin_command :: "(string \<Rightarrow> string) \<Rightarrow> bool \<Rightarrow> string \<Rightarrow> string \<times> CommandConfig" where
  "builtin_command script bidi name = (name, \<lparr>hc_lua_source = Some (script name), hc_long_lived = False, hc_bidi = bidi\<rparr>)"

definition builtins :: "(string \<Rightarrow> string) \<Rightarrow> commands" where
  "builtins script =
     [builtin_command script False ''git'', builtin_command script True ''gh'', builtin_command script False ''cargo'',
      builtin_command script False ''docker'', builtin_command script False ''ur'', builtin_command script False ''make'',
      builtin_command script False ''go'', builtin_command script False ''bazel'', builtin_command script False ''npm'',
      builtin_command script False ''pnpm'', builtin_command script False ''tsc'', builtin_command script False ''tea'']"

definition load_hostexec :: "(string \<Rightarrow> string) \<Rightarrow> lua \<Rightarrow> dir_answer \<Rightarrow> discover_error + HostExecConfigManager" where
  "load_hostexec script lua answer =
     and_then (discover lua answer) (\<lambda>found.
       Inr \<lparr>hm_commands = fold (\<lambda>(name, cmd). AList.update name cmd) found (builtins script), hm_discovery = Some lua\<rparr>)"

definition reload_hostexec ::
  "(string \<Rightarrow> string) \<Rightarrow> HostExecConfigManager \<Rightarrow> dir_answer \<Rightarrow> discover_error + HostExecConfigManager" where
  "reload_hostexec script m answer =
     (case hm_discovery m of None \<Rightarrow> Inl DiscoveryNotConfigured | Some lua \<Rightarrow> load_hostexec script lua answer)"

definition HostExecConfigManager_empty :: HostExecConfigManager where
  "HostExecConfigManager_empty = \<lparr>hm_commands = [], hm_discovery = None\<rparr>"

definition effective_defaults :: "HostExecConfigManager \<Rightarrow> commands" where
  "effective_defaults m =
     List.map_filter (\<lambda>name. map_option (Pair name) (map_of (hm_commands m) name)) DEFAULT_COMMAND_NAMES"

definition defaults_only :: "HostExecConfigManager \<Rightarrow> HostExecConfigManager" where
  "defaults_only m = \<lparr>hm_commands = effective_defaults m, hm_discovery = hm_discovery m\<rparr>"

definition passthrough :: CommandConfig where
  "passthrough = \<lparr>hc_lua_source = None, hc_long_lived = False, hc_bidi = False\<rparr>"

fun grant_commands ::
  "commands \<Rightarrow> string list \<Rightarrow> commands \<Rightarrow> commands" where
  "grant_commands known [] commands = commands"
| "grant_commands known (name # names) commands =
     grant_commands known names
       (case map_of known name of
          Some cfg \<Rightarrow> AList.update name cfg commands
        | None \<Rightarrow> (case map_of commands name of Some _ \<Rightarrow> commands | None \<Rightarrow> AList.update name passthrough commands))"

fun deny_commands :: "string list \<Rightarrow> commands \<Rightarrow> commands" where
  "deny_commands [] commands = commands"
| "deny_commands (name # names) commands = deny_commands names (AList.delete name commands)"

definition with_project_commands ::
  "HostExecConfigManager \<Rightarrow> string list \<Rightarrow> string list \<Rightarrow> ForgeType option \<Rightarrow> HostExecConfigManager" where
  "with_project_commands m granted denied forge =
     (let defaults = effective_defaults m;
          for_forge = (if forge = Some Gitea
            then AList.delete ''gh'' (AList.update ''tea'' (opt_or (map_of (hm_commands m) ''tea'') passthrough) defaults) else defaults)
      in \<lparr>hm_commands = deny_commands denied (grant_commands (hm_commands m) granted for_forge), hm_discovery = hm_discovery m\<rparr>)"

definition get_command :: "HostExecConfigManager \<Rightarrow> string \<Rightarrow> CommandConfig option" where
  "get_command m command = map_of (hm_commands m) command"

definition is_allowed :: "HostExecConfigManager \<Rightarrow> string \<Rightarrow> bool" where
  "is_allowed m command = (get_command m command \<noteq> None)"

definition command_names :: "HostExecConfigManager \<Rightarrow> string list" where
  "command_names m = order_by bytewise (map fst (hm_commands m))"

definition command_entries :: "HostExecConfigManager \<Rightarrow> (string \<times> bool) list" where
  "command_entries m = order_by (on_key bytewise fst) (map (\<lambda>(name, cfg). (name, hc_bidi cfg)) (hm_commands m))"

subsection \<open>Registries\<close>

definition script_registry :: "(string \<times> full_project) list \<Rightarrow> string \<rightharpoonup> string set" where
  "script_registry projects = map_of (map (\<lambda>(key, cfg). (key, set (fp_hostexec_scripts cfg))) projects)"

definition script_allows :: "(string \<rightharpoonup> string set) \<Rightarrow> string \<Rightarrow> string \<Rightarrow> bool" where
  "script_allows allowed project_key rel_path =
     (let normalized = opt_or (strip_prefix rel_path ''./'') rel_path in
      case allowed project_key of None \<Rightarrow> False | Some scripts \<Rightarrow> normalized \<in> scripts)"

record ProjectRegistry =
  pg_projects :: "(string \<times> full_project) list"
  pg_hostexec :: HostExecConfigManager

definition registry_get :: "ProjectRegistry \<Rightarrow> string \<Rightarrow> full_project option" where
  "registry_get reg key = map_of (pg_projects reg) key"

definition registry_is_local :: "ProjectRegistry \<Rightarrow> string \<Rightarrow> bool" where
  "registry_is_local reg key = (case registry_get reg key of None \<Rightarrow> False | Some p \<Rightarrow> is_local p)"

definition valid_project_keys :: "ProjectRegistry \<Rightarrow> string set" where
  "valid_project_keys reg = fst ` set (pg_projects reg)"

record ReloadReport =
  rr_added :: "string list"
  rr_removed :: "string list"

definition registry_apply ::
  "(string \<Rightarrow> string) \<Rightarrow> (string \<Rightarrow> dir_answer) \<Rightarrow> ('th, 'km) Config \<Rightarrow> ProjectRegistry \<Rightarrow> ProjectRegistry \<times> (discover_error + ReloadReport)" where
  "registry_apply script listing config reg =
     (case reload_hostexec script (pg_hostexec reg) (listing (path_join (cf_config_dir config) ''hostexec'')) of
        Inl e \<Rightarrow> (reg, Inl e)
      | Inr new_hostexec \<Rightarrow>
          (let old_keys = map fst (pg_projects reg); new_keys = map fst (cf_projects config) in
           (\<lparr>pg_projects = cf_projects config, pg_hostexec = new_hostexec\<rparr>,
            Inr \<lparr>rr_added = order_by bytewise (filter (\<lambda>k. k \<notin> set old_keys) (remdups new_keys)),
                 rr_removed = order_by bytewise (filter (\<lambda>k. k \<notin> set new_keys) (remdups old_keys))\<rparr>)))"

datatype reload_error = ReloadConfig config_error | ReloadHostexec discover_error

definition registry_reload_from_str ::
  "('th, 'km) loader \<Rightarrow> (string \<Rightarrow> string) \<Rightarrow> (string \<Rightarrow> dir_answer) \<Rightarrow> string \<Rightarrow> string \<Rightarrow> ProjectRegistry
   \<Rightarrow> ProjectRegistry \<times> (reload_error + ReloadReport)" where
  "registry_reload_from_str ld script listing toml config_dir reg =
     (case from_toml_str ld toml config_dir of
        Inl e \<Rightarrow> (reg, Inl (ReloadConfig e))
      | Inr config \<Rightarrow> (case registry_apply script listing config reg of (reg', r) \<Rightarrow> (reg', map_error ReloadHostexec r)))"

definition registry_reload ::
  "('th, 'km) loader \<Rightarrow> (string \<Rightarrow> read_answer) \<Rightarrow> (string \<Rightarrow> string) \<Rightarrow> (string \<Rightarrow> dir_answer) \<Rightarrow> string \<Rightarrow> ProjectRegistry
   \<Rightarrow> ProjectRegistry \<times> (reload_error + ReloadReport)" where
  "registry_reload ld read script listing config_dir reg =
     (case load_from ld read config_dir of
        Inl e \<Rightarrow> (reg, Inl (ReloadConfig e))
      | Inr config \<Rightarrow> (case registry_apply script listing config reg of (reg', r) \<Rightarrow> (reg', map_error ReloadHostexec r)))"

subsection \<open>Directories\<close>

definition BRAIN_CONTAINER_PATH :: string where "BRAIN_CONTAINER_PATH = ''/brain''"

definition BRAIN_HOSTEXEC_COMMAND :: string where "BRAIN_HOSTEXEC_COMMAND = ''git''"

definition is_brain_dir :: "string \<Rightarrow> bool" where
  "is_brain_dir dir =
     (case strip_prefix dir BRAIN_CONTAINER_PATH of None \<Rightarrow> False | Some rest \<Rightarrow> rest = [] \<or> starts_with rest ''/'')"

definition trim_slashes :: "string \<Rightarrow> string" where
  "trim_slashes s = dropWhile (\<lambda>c. c = CHR ''/'') s"

datatype HostExecError =
    CommandNotAllowed string | TransformRejected transform_error | BuilderdUnavailable | BuilderdExecFailed string
  | InvalidWorkerId string | WorkerNotFound string | InvalidWorkingDir string string | MissingStartFrame
  | ScriptNotAllowed string string

definition map_brain_working_dir_impl :: "string \<Rightarrow> string \<Rightarrow> HostExecError + string" where
  "map_brain_working_dir_impl dir brain_host_path =
     (case strip_prefix dir BRAIN_CONTAINER_PATH of
        None \<Rightarrow> Inl (InvalidWorkingDir dir ''working_dir must start with /brain'')
      | Some rest \<Rightarrow>
          if \<not> (rest = [] \<or> starts_with rest ''/'') then Inl (InvalidWorkingDir dir ''working_dir must start with /brain'')
          else let rel = trim_slashes rest in
            if ''..'' \<in> set (split_on (CHR ''/'') rel) then Inl (InvalidWorkingDir dir (''working_dir must not contain '' @ quoted ''..''))
            else Inr (if rel = [] then brain_host_path else path_join brain_host_path rel))"

definition validate_script_path :: "string \<Rightarrow> string + string" where
  "validate_script_path script_path =
     (case strip_prefix script_path ''/workspace/'' of
        None \<Rightarrow> Inl (''script_path must start with /workspace/: '' @ script_path)
      | Some rel \<Rightarrow>
          if rel = [] then Inl (''script_path must not be /workspace/ alone: '' @ script_path)
          else if list_ex (\<lambda>seg. seg = ''..'' \<or> seg = []) (split_on (CHR ''/'') rel)
          then Inl (''script_path contains invalid segment: '' @ script_path)
          else Inr rel)"

definition map_working_dir_impl :: "string \<Rightarrow> string option \<Rightarrow> string \<Rightarrow> HostExecError + string" where
  "map_working_dir_impl dir slot_path host_workspace =
     (case strip_prefix dir ''/workspace'' of
        None \<Rightarrow> Inl (InvalidWorkingDir dir ''working_dir must start with /workspace'')
      | Some sfx \<Rightarrow>
          if sfx \<noteq> [] \<and> \<not> starts_with sfx ''/'' then Inl (InvalidWorkingDir dir ''invalid working_dir'')
          else
            (case slot_path of
               Some sp \<Rightarrow>
                 (case strip_prefix sp host_workspace of
                    Some rel \<Rightarrow>
                      (let slot_relative = trim_slashes rel in
                       Inr (WORKSPACE_TEMPLATE @ (if slot_relative \<noteq> [] then ''/'' @ slot_relative else []) @ sfx))
                  | None \<Rightarrow> Inr (sp @ sfx))
             | None \<Rightarrow> Inr (WORKSPACE_TEMPLATE @ sfx)))"

definition map_script_path_impl :: "string \<Rightarrow> string option \<Rightarrow> string \<Rightarrow> HostExecError + string" where
  "map_script_path_impl script_path slot_path host_workspace = map_working_dir_impl script_path slot_path host_workspace"

subsection \<open>The service\<close>

record HostExecRequest =
  hq_command :: string
  hq_script_path :: string
  hq_args :: "string list"
  hq_working_dir :: string

datatype HostExecMessage = StartFrame HostExecRequest | StdinFrame string | EmptyFrame

record BuilderExecRequest =
  bx_command :: string
  bx_args :: "string list"
  bx_working_dir :: string
  bx_env :: "string \<rightharpoonup> string"
  bx_long_lived :: bool

datatype BuilderExecMessage = BuilderStart BuilderExecRequest | BuilderStdin string

record HostExecServiceHandler =
  hs_registry :: ProjectRegistry
  hs_scripts :: "string \<rightharpoonup> string set"
  hs_lua :: lua
  hs_host_workspace :: string
  hs_git_branch_prefix :: string
  hs_show_db :: "db_error \<Rightarrow> string"

datatype exec_status = HostExecStatus HostExecError | BadRequest string

text \<open>The context of a worker as the manager reads it from the worker's row.\<close>

record manager_context =
  gx_project_key :: "string option"
  gx_slot_path :: string
  gx_strategy :: string
  gx_brain_path :: "string option"

definition manager_worker_context :: "worker_db \<Rightarrow> string \<Rightarrow> manager_context option" where
  "manager_worker_context db worker_id =
     (case get_worker db worker_id of
        Inr (Some worker) \<Rightarrow>
          map_option (\<lambda>path. \<lparr>gx_project_key = (if wk_project_key worker = [] then None else Some (wk_project_key worker)),
             gx_slot_path = path, gx_strategy = wk_strategy worker, gx_brain_path = wk_brain_path worker\<rparr>) (wk_workspace_path worker)
      | _ \<Rightarrow> None)"

definition resolve_process_id :: "(db_error \<Rightarrow> string) \<Rightarrow> worker_db \<Rightarrow> string \<Rightarrow> string + string" where
  "resolve_process_id show db worker_id =
     (case get_worker db worker_id of
        Inl e \<Rightarrow> Inl (''db error: '' @ show e)
      | Inr None \<Rightarrow> Inl (''unknown worker: '' @ worker_id)
      | Inr (Some w) \<Rightarrow> Inr (wk_process_id w))"

text \<open>The header with the worker's id is absent, not a text, or a text.\<close>

datatype id_header = NoHeader | BadHeader | Header string

definition project_context ::
  "HostExecServiceHandler \<Rightarrow> string \<Rightarrow> string \<Rightarrow> manager_context \<Rightarrow> string \<Rightarrow> WorkerContext \<times> HostExecConfigManager" where
  "project_context h worker_id process_id ctx project_key =
     (let strat = WorkerStrategy_from_name (gx_strategy ctx);
          branch = (if strat = Inr StrategyManual then [] else hs_git_branch_prefix h @ worker_id);
          (extra, denied, allow_no_verify, forge) =
            (case registry_get (hs_registry h) project_key of
               Some p \<Rightarrow> (fp_hostexec p, fp_hostexec_deny p, fp_allow_no_verify p, resolve_forge p)
             | None \<Rightarrow> ([], [], False, None))
      in (\<lparr>xc_worker_id = worker_id, xc_process_id = process_id, xc_project_key = project_key, xc_slot_path = gx_slot_path ctx,
           xc_branch = branch, xc_allow_no_verify = allow_no_verify\<rparr>,
          with_project_commands (pg_hostexec (hs_registry h)) extra denied forge))"

definition resolve_request_context ::
  "HostExecServiceHandler \<Rightarrow> worker_db \<Rightarrow> id_header \<Rightarrow> HostExecError + string \<times> WorkerContext option \<times> HostExecConfigManager" where
  "resolve_request_context h db header =
     (case header of
        NoHeader \<Rightarrow> Inr ([], None, pg_hostexec (hs_registry h))
      | BadHeader \<Rightarrow> Inl (InvalidWorkerId ''invalid ur-worker-id header encoding'')
      | Header s \<Rightarrow>
          and_then (map_error InvalidWorkerId (WorkerId_parse s)) (\<lambda>worker_id.
          and_then (map_error WorkerNotFound (resolve_process_id (hs_show_db h) db worker_id)) (\<lambda>process_id.
            case manager_worker_context db worker_id of
              Some ctx \<Rightarrow>
                (case gx_project_key ctx of
                   Some project_key \<Rightarrow>
                     (case project_context h s process_id ctx project_key of (c, config) \<Rightarrow> Inr (process_id, Some c, config))
                 | None \<Rightarrow>
                     Inr (process_id,
                       Some \<lparr>xc_worker_id = s, xc_process_id = process_id, xc_project_key = [], xc_slot_path = gx_slot_path ctx,
                             xc_branch = [], xc_allow_no_verify = False\<rparr>,
                       defaults_only (pg_hostexec (hs_registry h))))
            | None \<Rightarrow> Inr (process_id, None, defaults_only (pg_hostexec (hs_registry h))))))"

definition brain_host_path :: "worker_db \<Rightarrow> WorkerContext option \<Rightarrow> string option" where
  "brain_host_path db ctx =
     (case ctx of
        None \<Rightarrow> None
      | Some c \<Rightarrow>
          (case WorkerId_parse (xc_worker_id c) of
             Inl _ \<Rightarrow> None
           | Inr worker_id \<Rightarrow>
               (case manager_worker_context db worker_id of None \<Rightarrow> None | Some m \<Rightarrow> gx_brain_path m)))"

text \<open>The stdin frames up to the end or the first error of the stream (\<open>None\<close>).\<close>

fun forward_stdin_to_builder :: "HostExecMessage option list \<Rightarrow> BuilderExecMessage list" where
  "forward_stdin_to_builder [] = []"
| "forward_stdin_to_builder (None # ms) = []"
| "forward_stdin_to_builder (Some (StdinFrame data) # ms) = BuilderStdin data # forward_stdin_to_builder ms"
| "forward_stdin_to_builder (Some _ # ms) = forward_stdin_to_builder ms"

text \<open>The frames sent to builderd: the start frame and, for a bidirectional command, the input.\<close>

definition forward_to_builderd ::
  "TransformResult \<Rightarrow> bool \<Rightarrow> bool \<Rightarrow> HostExecMessage option list \<Rightarrow> BuilderExecMessage list" where
  "forward_to_builderd r long_lived is_bidi inbound =
     BuilderStart \<lparr>bx_command = tn_command r, bx_args = tn_args r, bx_working_dir = tn_working_dir r, bx_env = tn_env r,
                   bx_long_lived = long_lived\<rparr> # (if is_bidi then forward_stdin_to_builder inbound else [])"

definition command_working_dir ::
  "HostExecServiceHandler \<Rightarrow> worker_db \<Rightarrow> HostExecRequest \<Rightarrow> WorkerContext option \<Rightarrow> HostExecError + string" where
  "command_working_dir h db req ctx =
     (if is_brain_dir (hq_working_dir req)
      then if hq_command req \<noteq> BRAIN_HOSTEXEC_COMMAND
           then Inl (InvalidWorkingDir (hq_working_dir req) (''only '' @ BRAIN_HOSTEXEC_COMMAND @ '' may run in /brain''))
           else (case brain_host_path db ctx of
                   None \<Rightarrow> Inl (InvalidWorkingDir (hq_working_dir req) ''worker has no brain mount'')
                 | Some brain \<Rightarrow> map_brain_working_dir_impl (hq_working_dir req) brain)
      else map_working_dir_impl (hq_working_dir req) (map_option xc_slot_path ctx) (hs_host_workspace h))"

definition exec_command ::
  "HostExecServiceHandler \<Rightarrow> worker_db \<Rightarrow> HostExecRequest \<Rightarrow> WorkerContext option \<Rightarrow> HostExecConfigManager \<Rightarrow> HostExecMessage option list
   \<Rightarrow> exec_status + BuilderExecMessage list" where
  "exec_command h db req ctx config inbound =
     map_error HostExecStatus
       (case get_command config (hq_command req) of
          None \<Rightarrow> Inl (CommandNotAllowed (hq_command req))
        | Some cfg \<Rightarrow>
            and_then (command_working_dir h db req ctx) (\<lambda>host_working_dir.
            and_then
              (case hc_lua_source cfg of
                 Some source \<Rightarrow>
                   map_error TransformRejected (run_transform (hs_lua h) source (hq_command req) (hq_args req) host_working_dir ctx)
               | None \<Rightarrow>
                   Inr \<lparr>tn_command = hq_command req, tn_args = hq_args req, tn_working_dir = host_working_dir, tn_env = Map.empty\<rparr>)
              (\<lambda>r. Inr (forward_to_builderd r (hc_long_lived cfg) (hc_bidi cfg) inbound))))"

definition exec_script ::
  "HostExecServiceHandler \<Rightarrow> HostExecRequest \<Rightarrow> WorkerContext option \<Rightarrow> HostExecMessage option list
   \<Rightarrow> exec_status + BuilderExecMessage list" where
  "exec_script h req ctx inbound =
     (let project_key = (case ctx of Some c \<Rightarrow> if xc_project_key c \<noteq> [] then Some (xc_project_key c) else None | None \<Rightarrow> None);
          slot_path = map_option xc_slot_path ctx
      in case project_key of
           None \<Rightarrow> Inl (HostExecStatus (ScriptNotAllowed (hq_script_path req) []))
         | Some key \<Rightarrow>
             and_then (map_error BadRequest (validate_script_path (hq_script_path req))) (\<lambda>rel_path.
               if \<not> script_allows (hs_scripts h) key rel_path
               then Inl (HostExecStatus (ScriptNotAllowed (hq_script_path req) key))
               else map_error HostExecStatus
                 (and_then (map_script_path_impl (hq_script_path req) slot_path (hs_host_workspace h)) (\<lambda>tpl.
                  and_then (map_working_dir_impl (hq_working_dir req) slot_path (hs_host_workspace h)) (\<lambda>dir.
                    Inr (forward_to_builderd \<lparr>tn_command = tpl, tn_args = hq_args req, tn_working_dir = dir, tn_env = Map.empty\<rparr>
                      False False inbound))))))"

definition host_exec ::
  "HostExecServiceHandler \<Rightarrow> worker_db \<Rightarrow> id_header \<Rightarrow> HostExecMessage option list \<Rightarrow> exec_status + BuilderExecMessage list" where
  "host_exec h db header inbound =
     and_then (map_error HostExecStatus (resolve_request_context h db header)) (\<lambda>(process_id, ctx, config).
       case inbound of
         [] \<Rightarrow> Inl (HostExecStatus MissingStartFrame)
       | None # _ \<Rightarrow> Inl (HostExecStatus (BuilderdExecFailed ''stream error reading start frame''))
       | Some (StartFrame req) # rest \<Rightarrow>
           (if (hq_command req \<noteq> []) = (hq_script_path req \<noteq> [])
            then Inl (BadRequest ''exactly one of command or script_path must be set'')
            else if hq_command req \<noteq> [] then exec_command h db req ctx config rest
            else exec_script h req ctx rest)
       | Some _ # _ \<Rightarrow> Inl (HostExecStatus MissingStartFrame))"

definition list_commands ::
  "HostExecServiceHandler \<Rightarrow> worker_db \<Rightarrow> id_header \<Rightarrow> HostExecError + string list \<times> (string \<times> bool) list" where
  "list_commands h db header =
     and_then (resolve_request_context h db header) (\<lambda>(_, _, config). Inr (command_names config, command_entries config))"

subsection \<open>Statuses\<close>

datatype status_code = PermissionDenied | InvalidArgument | Unavailable | Internal | NotFound

fun status_of_host_error :: "HostExecError \<Rightarrow> status_code \<times> string \<times> (string \<times> string) list" where
  "status_of_host_error (CommandNotAllowed command) = (PermissionDenied, ''COMMAND_NOT_ALLOWED'', [(''command'', command)])"
| "status_of_host_error (TransformRejected _) = (InvalidArgument, ''TRANSFORM_REJECTED'', [])"
| "status_of_host_error BuilderdUnavailable = (Unavailable, ''BUILDERD_UNAVAILABLE'', [])"
| "status_of_host_error (BuilderdExecFailed _) = (Internal, ''INTERNAL'', [])"
| "status_of_host_error (InvalidWorkerId _) = (InvalidArgument, ''INVALID_ARGUMENT'', [])"
| "status_of_host_error (WorkerNotFound worker_id) = (NotFound, ''NOT_FOUND'', [(''worker_id'', worker_id)])"
| "status_of_host_error (InvalidWorkingDir path _) = (InvalidArgument, ''INVALID_ARGUMENT'', [(''path'', path)])"
| "status_of_host_error MissingStartFrame = (InvalidArgument, ''INVALID_ARGUMENT'', [])"
| "status_of_host_error (ScriptNotAllowed scr project) =
     (PermissionDenied, ''SCRIPT_NOT_ALLOWED'', [(''script'', scr), (''project'', project)])"

end
