(* ===== verification/Builder_Daemon.thy ===== *)
theory Builder_Daemon
  imports Host_Exec
begin

text \<open>
  The daemon on the host that runs the forwarded commands: the output of a process as a stream of
  frames and its collection (\<open>crates/ur_rpc/src/stream.rs\<close>), the registry of long-lived processes
  (\<open>crates/builderd/src/registry.rs\<close>), and the handler (\<open>crates/builderd/src/handler.rs\<close>).

  A process is given by what its two pipes and its exit deliver; spawning one answers with a process
  or an error. Channels are lists of frames.
\<close>

subsection \<open>Output of a process\<close>

datatype CommandOutput = Stdout string | Stderr string | ExitCode int | AlreadyRunning | NoPayload

text \<open>
  What the \<open>select!\<close> of the reading loop sees next: data or the end of one of the pipes. The loop does
  not look at a pipe again after its end (or an error, which is treated like it). These are the runs
  in which the receiver of the frames stays; when it is gone the task that sends them just ends.
\<close>

datatype pipe_event = OutData string | OutEnd | ErrData string | ErrEnd

fun stream_loop :: "pipe_event list \<Rightarrow> bool \<Rightarrow> bool \<Rightarrow> CommandOutput list" where
  "stream_loop [] stdout_done stderr_done = []"
| "stream_loop (e # es) stdout_done stderr_done =
     (if stdout_done \<and> stderr_done then []
      else case e of
        OutData d \<Rightarrow> if stdout_done then stream_loop es stdout_done stderr_done else Stdout d # stream_loop es stdout_done stderr_done
      | OutEnd \<Rightarrow> stream_loop es True stderr_done
      | ErrData d \<Rightarrow> if stderr_done then stream_loop es stdout_done stderr_done else Stderr d # stream_loop es stdout_done stderr_done
      | ErrEnd \<Rightarrow> stream_loop es stdout_done True)"

text \<open>The frames of a child: \<open>status\<close> is its exit code, \<open>None\<close> when a signal ended it or waiting failed.\<close>

definition child_output_stream :: "pipe_event list \<Rightarrow> int option \<Rightarrow> CommandOutput list" where
  "child_output_stream es status = stream_loop es False False @ [ExitCode (opt_or status (- 1))]"

record CompletedExec =
  ce_stdout :: string
  ce_stderr :: string
  ce_exit_code :: int

fun collect_frames :: "(string + CommandOutput) list \<Rightarrow> string \<Rightarrow> string \<Rightarrow> int option \<Rightarrow> string + CompletedExec" where
  "collect_frames [] out err code =
     (case code of None \<Rightarrow> Inl ''stream ended without an exit code'' | Some c \<Rightarrow> Inr \<lparr>ce_stdout = out, ce_stderr = err, ce_exit_code = c\<rparr>)"
| "collect_frames (Inl e # ms) out err code = Inl e"
| "collect_frames (Inr msg # ms) out err code =
     (case msg of
        Stdout d \<Rightarrow> collect_frames ms (out @ d) err code
      | Stderr d \<Rightarrow> collect_frames ms out (err @ d) code
      | ExitCode c \<Rightarrow> collect_frames ms out err (Some c)
      | _ \<Rightarrow> collect_frames ms out err code)"

definition CompletedExec_collect :: "(string + CommandOutput) list \<Rightarrow> string + CompletedExec" where
  "CompletedExec_collect ms = collect_frames ms [] [] None"

definition trim_end :: "string \<Rightarrow> string" where
  "trim_end s = rev (dropWhile is_whitespace (rev s))"

definition CompletedExec_check :: "CompletedExec \<Rightarrow> string + CompletedExec" where
  "CompletedExec_check c =
     (if ce_exit_code c = 0 then Inr c
      else Inl (if ce_stderr c = [] then ''command exited with code '' @ show_int (ce_exit_code c)
                else ''command exited with code '' @ show_int (ce_exit_code c) @ '': '' @ trim_end (ce_stderr c)))"

subsection \<open>Long-lived processes\<close>

type_synonym ProcessKey = "string \<times> string"

text \<open>
  A registered process: its child, whether it is alive, and the caller that its output goes to.
  Channels to callers are numbered; the child's number also stands for its stdin channel.
\<close>

record RegisteredProcess =
  re_child :: nat
  re_alive :: bool
  re_sink :: "nat option"

type_synonym ProcessRegistry = "ProcessKey \<rightharpoonup> RegisteredProcess"

definition registry_is_running :: "ProcessKey \<Rightarrow> ProcessRegistry \<Rightarrow> ProcessRegistry \<times> bool" where
  "registry_is_running key m =
     (case m key of
        None \<Rightarrow> (m, False)
      | Some entry \<Rightarrow> if re_alive entry then (m, True) else (m(key := None), False))"

definition registry_register :: "ProcessKey \<Rightarrow> RegisteredProcess \<Rightarrow> ProcessRegistry \<Rightarrow> ProcessRegistry" where
  "registry_register key process m = m(key \<mapsto> process)"

definition registry_get_stdin_tx :: "ProcessKey \<Rightarrow> ProcessRegistry \<Rightarrow> ProcessRegistry \<times> nat option" where
  "registry_get_stdin_tx key m =
     (case m key of
        None \<Rightarrow> (m, None)
      | Some entry \<Rightarrow> if re_alive entry then (m, Some (re_child entry)) else (m(key := None), None))"

definition registry_replace_output_sink :: "ProcessKey \<Rightarrow> nat \<Rightarrow> ProcessRegistry \<Rightarrow> ProcessRegistry option" where
  "registry_replace_output_sink key tx m =
     (case m key of
        None \<Rightarrow> None
      | Some entry \<Rightarrow> if re_alive entry then Some (m(key \<mapsto> entry\<lparr>re_sink := Some tx\<rparr>)) else None)"

definition registry_reap :: "ProcessRegistry \<Rightarrow> ProcessRegistry" where
  "registry_reap m = (\<lambda>key. case m key of None \<Rightarrow> None | Some entry \<Rightarrow> if re_alive entry then Some entry else None)"

subsection \<open>The handler\<close>

definition resolve_working_dir :: "string option \<Rightarrow> string \<Rightarrow> string" where
  "resolve_working_dir workspace dir =
     (case workspace of
        Some w \<Rightarrow> if contains dir WORKSPACE_TEMPLATE then resolve_workspace_content dir w else dir
      | None \<Rightarrow> dir)"

definition process_key :: "string option \<Rightarrow> BuilderExecRequest \<Rightarrow> ProcessKey" where
  "process_key workspace req = (bx_command req, resolve_working_dir workspace (bx_working_dir req))"

text \<open>What the operating system is asked to run: program, arguments, directory and variables.\<close>

record os_command =
  os_program :: string
  os_args :: "string list"
  os_dir :: string
  os_env :: "string \<rightharpoonup> string"

text \<open>
  The registry, the next free number, and the long-lived children of the operating system that run,
  with the keys they were spawned for.
\<close>

record builder =
  bd_registry :: ProcessRegistry
  bd_next :: nat
  bd_live :: "(nat \<times> ProcessKey) list"

datatype builder_status = BuilderInternal string | BuilderInvalid string | BuilderPrecondition string

text \<open>What a call of the daemon answers: the child it talks to and the caller's channel.\<close>

datatype exec_reply = Spawned nat nat | Reconnected nat nat

definition short_command :: "string option \<Rightarrow> BuilderExecRequest \<Rightarrow> os_command" where
  "short_command workspace req =
     \<lparr>os_program = resolve_working_dir workspace (bx_command req), os_args = bx_args req,
      os_dir = resolve_working_dir workspace (bx_working_dir req), os_env = bx_env req\<rparr>"

definition long_command :: "string option \<Rightarrow> BuilderExecRequest \<Rightarrow> os_command" where
  "long_command workspace req =
     \<lparr>os_program = bx_command req, os_args = bx_args req,
      os_dir = resolve_working_dir workspace (bx_working_dir req), os_env = bx_env req\<rparr>"

text \<open>
  A request for a long-lived process. The registry's lock is only held in each of its calls, so the
  look at the registry and the spawning with its registration are two steps. Channels and children
  take the next numbers, \<open>spawn\<close> is what the operating system answers, and the acknowledgement on a
  fresh channel always fits.
\<close>

definition reconnect_long_lived ::
  "string option \<Rightarrow> BuilderExecRequest \<Rightarrow> (builder, builder_status, exec_reply option) op" where
  "reconnect_long_lived workspace req b =
     (let key = process_key workspace req; tx = bd_next b in
      case registry_is_running key (bd_registry b) of
        (m, True) \<Rightarrow>
          (case registry_get_stdin_tx key m of
             (m1, None) \<Rightarrow> (b\<lparr>bd_registry := m1\<rparr>, Inl (BuilderInternal ''process was running but stdin_tx disappeared''))
           | (m1, Some child) \<Rightarrow>
               (case registry_replace_output_sink key tx m1 of
                  None \<Rightarrow> (b\<lparr>bd_registry := m1\<rparr>, Inl (BuilderInternal ''process was running but output sink disappeared''))
                | Some m2 \<Rightarrow> (b\<lparr>bd_registry := m2, bd_next := Suc tx\<rparr>, Inr (Some (Reconnected child tx)))))
      | (m, False) \<Rightarrow> (b\<lparr>bd_registry := m\<rparr>, Inr None))"

definition start_long_lived ::
  "(os_command \<Rightarrow> string option) \<Rightarrow> string option \<Rightarrow> BuilderExecRequest \<Rightarrow> (builder, builder_status, exec_reply) op" where
  "start_long_lived spawn workspace req b =
     (let key = process_key workspace req; tx = bd_next b in
      case spawn (long_command workspace req) of
        Some e \<Rightarrow> (b, Inl (BuilderInternal (''failed to spawn '' @ bx_command req @ '': '' @ e)))
      | None \<Rightarrow>
          (b\<lparr>bd_registry := registry_register key \<lparr>re_child = tx, re_alive = True, re_sink = Some (Suc tx)\<rparr> (bd_registry b),
             bd_next := Suc (Suc tx), bd_live := bd_live b @ [(tx, key)]\<rparr>, Inr (Spawned tx (Suc tx))))"

definition spawn_long_lived ::
  "(os_command \<Rightarrow> string option) \<Rightarrow> string option \<Rightarrow> BuilderExecRequest \<Rightarrow> (builder, builder_status, exec_reply) op" where
  "spawn_long_lived spawn workspace req =
     bindS (reconnect_long_lived workspace req) (\<lambda>found.
       case found of Some reply \<Rightarrow> ret reply | None \<Rightarrow> start_long_lived spawn workspace req)"

text \<open>A child exits; the task that forwards its output notices; a caller is found to be gone.\<close>

definition child_exits :: "nat \<Rightarrow> builder \<Rightarrow> builder" where
  "child_exits child b = b\<lparr>bd_live := filter (\<lambda>(c, _). c \<noteq> child) (bd_live b)\<rparr>"

definition mark_dead :: "nat \<Rightarrow> builder \<Rightarrow> builder" where
  "mark_dead child b = b\<lparr>bd_registry := (\<lambda>key. map_option
     (\<lambda>e. if re_child e = child then e\<lparr>re_alive := False\<rparr> else e) (bd_registry b key))\<rparr>"

definition caller_gone :: "nat \<Rightarrow> builder \<Rightarrow> builder" where
  "caller_gone tx b = b\<lparr>bd_registry := (\<lambda>key. map_option
     (\<lambda>e. if re_sink e = Some tx then e\<lparr>re_sink := None\<rparr> else e) (bd_registry b key))\<rparr>"

text \<open>Where the frames of a child go: each to the caller of that moment, or nowhere.\<close>

fun forward_output_via_sink :: "(nat option \<times> CommandOutput) list \<Rightarrow> (nat \<times> CommandOutput) list" where
  "forward_output_via_sink [] = []"
| "forward_output_via_sink ((None, msg) # ms) = forward_output_via_sink ms"
| "forward_output_via_sink ((Some tx, msg) # ms) = (tx, msg) # forward_output_via_sink ms"

definition builder_start :: builder where
  "builder_start = \<lparr>bd_registry = Map.empty, bd_next = 0, bd_live = []\<rparr>"

text \<open>The executions in which no two requests overlap.\<close>

inductive builder_step :: "(os_command \<Rightarrow> string option) \<Rightarrow> string option \<Rightarrow> builder \<Rightarrow> builder \<Rightarrow> bool"
  for spawn :: "os_command \<Rightarrow> string option" and workspace :: "string option"
where
  request: "builder_step spawn workspace b (fst (spawn_long_lived spawn workspace req b))"
| exits: "builder_step spawn workspace b (child_exits child b)"
| noticed: "child \<notin> fst ` set (bd_live b) \<Longrightarrow> builder_step spawn workspace b (mark_dead child b)"
| gone: "builder_step spawn workspace b (caller_gone tx b)"
| reap: "builder_step spawn workspace b (b\<lparr>bd_registry := registry_reap (bd_registry b)\<rparr>)"

subsection \<open>One process per command and directory\<close>

text \<open>Every running child is the one registered for its key, and numbers are not used twice.\<close>

definition registered_live :: "builder \<Rightarrow> bool" where
  "registered_live b =
     (distinct (map fst (bd_live b)) \<and>
      (\<forall>(c, key) \<in> set (bd_live b). c < bd_next b \<and> (\<exists>e. bd_registry b key = Some e \<and> re_child e = c \<and> re_alive e)))"

lemma registered_liveD:
  assumes "registered_live b" "(c, key) \<in> set (bd_live b)"
  shows "c < bd_next b" "\<exists>e. bd_registry b key = Some e \<and> re_child e = c \<and> re_alive e"
  using assms unfolding registered_live_def by blast+

lemma registered_live_start: "registered_live builder_start"
  by (simp add: builder_start_def registered_live_def)

lemma registered_liveI:
  assumes "registered_live b" "set (bd_live b') \<subseteq> set (bd_live b)" "distinct (map fst (bd_live b'))" "bd_next b \<le> bd_next b'"
    and "\<And>c key e. (c, key) \<in> set (bd_live b') \<Longrightarrow> bd_registry b key = Some e \<Longrightarrow> re_child e = c \<Longrightarrow> re_alive e \<Longrightarrow>
      \<exists>e'. bd_registry b' key = Some e' \<and> re_child e' = c \<and> re_alive e'"
  shows "registered_live b'"
  using assms unfolding registered_live_def by fastforce

lemma registered_reconnect:
  assumes "registered_live b" "reconnect_long_lived workspace req b = (b', r)"
  shows "registered_live b' \<and> (r = Inr None \<longrightarrow> process_key workspace req \<notin> snd ` set (bd_live b'))"
proof -
  let ?key = "process_key workspace req"
  have "\<exists>e. bd_registry b ?key = Some e \<and> re_alive e" if "(c, ?key) \<in> set (bd_live b)" for c
    using registered_liveD [OF assms(1) that] by blast
  moreover have "registered_live b'"
    using assms(2)
    by (intro registered_liveI [OF assms(1)])
       (use assms(1) in \<open>auto simp: reconnect_long_lived_def registered_live_def registry_is_running_def registry_get_stdin_tx_def
         registry_replace_output_sink_def Let_def split: option.splits if_splits\<close>)
  ultimately show ?thesis
    using assms(2)
    by (auto simp: reconnect_long_lived_def registry_is_running_def registry_get_stdin_tx_def registry_replace_output_sink_def Let_def
        split: option.splits if_splits)
qed

lemma registered_start:
  assumes "registered_live b" "process_key workspace req \<notin> snd ` set (bd_live b)"
  shows "registered_live (fst (start_long_lived spawn workspace req b))"
proof (cases "spawn (long_command workspace req)")
  case (Some e)
  then show ?thesis using assms(1) by (simp add: start_long_lived_def Let_def)
next
  case None
  let ?key = "process_key workspace req"
  have new: "bd_next b \<notin> fst ` set (bd_live b)"
    using registered_liveD(1) [OF assms(1)] by fastforce
  have old: "c < Suc (Suc (bd_next b)) \<and> key \<noteq> ?key \<and> (\<exists>e. bd_registry b key = Some e \<and> re_child e = c \<and> re_alive e)"
    if "(c, key) \<in> set (bd_live b)" for c key
    using registered_liveD [OF assms(1) that] assms(2) that by force
  have "distinct (map fst (bd_live b))"
    using assms(1) by (simp add: registered_live_def)
  with None new old show ?thesis
    by (auto simp: start_long_lived_def registered_live_def registry_register_def Let_def)
qed

lemma registered_request:
  assumes "registered_live b"
  shows "registered_live (fst (spawn_long_lived spawn workspace req b))"
proof -
  obtain b' r where run: "reconnect_long_lived workspace req b = (b', r)" by fastforce
  note found = registered_reconnect [OF assms run]
  show ?thesis
    using found run registered_start
    by (cases r) (auto simp: spawn_long_lived_def ret_def split: option.splits)
qed

lemma registered_step: "builder_step spawn workspace b b' \<Longrightarrow> registered_live b \<Longrightarrow> registered_live b'"
proof (induction rule: builder_step.induct)
  case (request b req)
  then show ?case by (intro registered_request)
next
  case (exits b child)
  then show ?case
    by (intro registered_liveI [OF exits]) (auto simp: child_exits_def registered_live_def distinct_map_filter)
next
  case (noticed child b)
  then show ?case
    by (intro registered_liveI [OF noticed(2)]) (auto simp: mark_dead_def registered_live_def image_iff)
next
  case (gone b tx)
  then show ?case
    by (intro registered_liveI [OF gone]) (auto simp: caller_gone_def registered_live_def)
next
  case (reap b)
  then show ?case
    by (intro registered_liveI [OF reap]) (auto simp: registry_reap_def registered_live_def)
qed

interpretation daemon: transition_system "\<lambda>b. b = builder_start" "builder_step spawn workspace" registered_live for spawn workspace
  by unfold_locales (auto intro: registered_live_start registered_step)

lemma sequential_one_per_key:
  assumes "reachable_from (\<lambda>b. b = builder_start) (builder_step spawn workspace) b"
  shows "distinct (map snd (bd_live b))"
proof -
  have ok: "registered_live b"
    using assms by (rule daemon.inv_reachable)
  have "c = d" if "(c, key) \<in> set (bd_live b)" "(d, key) \<in> set (bd_live b)" for c d key
    using registered_liveD(2) [OF ok that(1)] registered_liveD(2) [OF ok that(2)] by auto
  then have "inj_on snd (set (bd_live b))"
    by (auto simp: inj_on_def)
  moreover have "distinct (bd_live b)"
    using ok by (simp add: registered_live_def distinct_map)
  ultimately show ?thesis
    by (simp add: distinct_map)
qed

text \<open>
  Two overlapping requests for the same command and directory both find nothing registered and both
  spawn: two processes run, and only the second stays registered.
\<close>

lemma overlapping_requests_spawn_twice:
  fixes req workspace
  defines "b1 \<equiv> fst (reconnect_long_lived workspace req builder_start)"
  defines "b2 \<equiv> fst (reconnect_long_lived workspace req b1)"
  defines "b3 \<equiv> fst (start_long_lived (\<lambda>_. None) workspace req b2)"
  defines "b4 \<equiv> fst (start_long_lived (\<lambda>_. None) workspace req b3)"
  shows "map snd (bd_live b4) = [process_key workspace req, process_key workspace req] \<and>
    map_option re_child (bd_registry b4 (process_key workspace req)) = Some 2"
  by (simp add: b1_def b2_def b3_def b4_def builder_start_def reconnect_long_lived_def start_long_lived_def
      registry_is_running_def registry_register_def Let_def)

subsection \<open>Collected output\<close>

definition out_data :: "pipe_event list \<Rightarrow> string" where
  "out_data es = concat (map (\<lambda>e. case e of OutData d \<Rightarrow> d | _ \<Rightarrow> []) es)"

definition err_data :: "pipe_event list \<Rightarrow> string" where
  "err_data es = concat (map (\<lambda>e. case e of ErrData d \<Rightarrow> d | _ \<Rightarrow> []) es)"

text \<open>
  A run of the two pipes: data only before the end of a pipe, and both ends at last.
\<close>

fun pipe_run :: "bool \<Rightarrow> bool \<Rightarrow> pipe_event list \<Rightarrow> bool" where
  "pipe_run o_done e_done [] = (o_done \<and> e_done)"
| "pipe_run o_done e_done (OutData d # es) = (\<not> o_done \<and> pipe_run o_done e_done es)"
| "pipe_run o_done e_done (OutEnd # es) = (\<not> o_done \<and> pipe_run True e_done es)"
| "pipe_run o_done e_done (ErrData d # es) = (\<not> e_done \<and> pipe_run o_done e_done es)"
| "pipe_run o_done e_done (ErrEnd # es) = (\<not> e_done \<and> pipe_run o_done True es)"

lemma collect_stream_loop:
  "pipe_run o_done e_done es \<Longrightarrow>
   collect_frames (map Inr (stream_loop es o_done e_done @ fs)) out err code =
     collect_frames (map Inr fs) (out @ out_data es) (err @ err_data es) code"
proof (induction o_done e_done es arbitrary: out err rule: pipe_run.induct)
qed (auto simp: out_data_def err_data_def)

text \<open>
  C35: What a caller collects from the frames of a child is what the child wrote: the bytes of its two
  pipes, each in order however they interleave, and its exit code, which is \<open>-1\<close> when a signal
  ended it.
\<close>
theorem collected_output:
  assumes "pipe_run False False es"
  shows "CompletedExec_collect (map Inr (child_output_stream es status)) =
    Inr \<lparr>ce_stdout = out_data es, ce_stderr = err_data es, ce_exit_code = opt_or status (- 1)\<rparr>"
  unfolding CompletedExec_collect_def child_output_stream_def
  by (simp add: collect_stream_loop [OF assms] del: map_append)

end
