(* ===== verification/Branch_Props.thy ===== *)
theory Branch_Props
  imports Branch_Policy
begin

text \<open>
  The protected-branch patterns against the glob notation they imitate, in which a star stands for
  any text without a slash. The matcher takes the first occurrence of every piece and never goes
  back, so it accepts only what the glob accepts, and everything it accepts when the only star is
  at the end; a pattern with a star elsewhere can miss a branch.
\<close>

subsection \<open>Globs\<close>

fun glob :: "string \<Rightarrow> string \<Rightarrow> bool" where
  "glob [] s = (s = [])"
| "glob (p # ps) [] = (p = CHR ''*'' \<and> glob ps [])"
| "glob (p # ps) (c # s) =
     (if p = CHR ''*'' then glob ps (c # s) \<or> (c \<noteq> CHR ''/'' \<and> glob (p # ps) s) else p = c \<and> glob ps s)"

lemma glob_star_skip: "glob ps s \<Longrightarrow> glob (CHR ''*'' # ps) s"
  by (cases s) simp_all

lemma glob_star_take: "CHR ''/'' \<notin> set u \<Longrightarrow> glob ps s \<Longrightarrow> glob (CHR ''*'' # ps) (u @ s)"
  by (induction u) (auto intro: glob_star_skip)

lemma glob_star_end: "glob [CHR ''*''] s \<longleftrightarrow> CHR ''/'' \<notin> set s"
  by (induction s) auto

lemma glob_literal_app: "glob ps s \<Longrightarrow> glob (p @ ps) (p @ s)"
proof (induction p)
  case (Cons c p)
  then show ?case
    using glob_star_skip by simp
qed simp

lemma glob_self: "glob p p"
  using glob_literal_app [of "[]" "[]" p] by simp

lemma glob_literal: "CHR ''*'' \<notin> set p \<Longrightarrow> glob (p @ ps) s \<longleftrightarrow> (\<exists>r. s = p @ r \<and> glob ps r)"
proof (induction p arbitrary: s)
  case (Cons c p)
  then show ?case by (cases s) auto
qed simp

subsection \<open>Searching and splitting\<close>

lemma starts_with_iff: "starts_with s p \<longleftrightarrow> (\<exists>r. s = p @ r)"
  unfolding starts_with_def by (metis append_eq_conv_conj append_take_drop_id)

lemma find_sub_Some: "find_sub p s = Some n \<Longrightarrow> s = take n s @ p @ drop (n + length p) s"
proof (induction s arbitrary: n)
  case (Cons c s)
  then show ?case
    by (auto simp: starts_with_iff split: if_splits)
qed (auto split: if_splits)

lemma find_sub_0: "find_sub p s = Some 0 \<longleftrightarrow> starts_with s p"
  by (cases s) (auto simp: starts_with_def)

lemma find_sub_None_start: "find_sub p s = None \<Longrightarrow> \<not> starts_with s p"
  using find_sub_0 [of p s] by auto

lemma join_split_on: "p # ps = split_on c s \<Longrightarrow> s = p @ concat (map ((#) c) ps)"
proof (induction s arbitrary: p ps)
  case (Cons x s)
  show ?case
  proof (cases "x = c")
    case True
    then show ?thesis
      using Cons by (cases "split_on c s") auto
  next
    case False
    then show ?thesis
      using Cons by (cases "split_on c s") auto
  qed
qed simp

lemma split_on_free: "c \<notin> set s \<Longrightarrow> split_on c s = [s]"
  by (induction s) auto

lemma split_on_last: "c \<notin> set s \<Longrightarrow> split_on c (s @ [c]) = [s, []]"
  by (induction s) auto

lemma split_on_empty: "split_on c s = [[]] \<longleftrightarrow> s = []"
  by (cases s) (auto split: list.splits)

lemma last_split_on: "last (split_on c s) = [] \<longleftrightarrow> s = [] \<or> last s = c"
proof (induction s)
  case (Cons x s)
  then show ?case
    using split_on_empty [of c s] by (cases "split_on c s") (auto split: if_splits)
qed simp

lemma length_split_on: "length (split_on c s) = 1 \<longleftrightarrow> c \<notin> set s"
  by (induction s) (auto split: list.splits)

subsection \<open>What a match means\<close>

text \<open>Behind the first piece, every piece follows a star.\<close>

lemma match_parts_glob:
  assumes "match_parts i parts rest = Some r" and "0 < i"
    and "if parts \<noteq> [] \<and> last parts = [] then CHR ''/'' \<notin> set r else r = []"
  shows "glob (concat (map ((#) (CHR ''*'')) parts)) rest"
  using assms
proof (induction parts arbitrary: i rest)
  case (Cons p ps)
  show ?case
  proof (cases "p = []")
    case True
    show ?thesis
    proof (cases "ps = []")
      case True
      then show ?thesis
        using Cons.prems \<open>p = []\<close> by (simp add: glob_star_end)
    next
      case False
      then have "glob (concat (map ((#) (CHR ''*'')) ps)) rest"
        using Cons.prems True by (intro Cons.IH [of "Suc i"]) simp_all
      then show ?thesis
        using True by (simp add: glob_star_skip)
    qed
  next
    case False
    then obtain n where n: "find_sub p rest = Some n" "CHR ''/'' \<notin> set (take n rest)"
      "match_parts (Suc i) ps (drop (n + length p) rest) = Some r"
      using Cons.prems by (auto split: option.splits if_splits)
    have "if ps \<noteq> [] \<and> last ps = [] then CHR ''/'' \<notin> set r else r = []"
      using Cons.prems(3) False by (auto split: if_splits)
    then have "glob (concat (map ((#) (CHR ''*'')) ps)) (drop (n + length p) rest)"
      using n(3) by (intro Cons.IH [of "Suc i"]) simp_all
    then have "glob (CHR ''*'' # p @ concat (map ((#) (CHR ''*'')) ps)) (take n rest @ p @ drop (n + length p) rest)"
      by (intro glob_star_take n(2) glob_literal_app)
    then show ?thesis
      using find_sub_Some [OF n(1)] by simp
  qed
qed simp

lemma single_star_sound:
  assumes "glob_match_single_star pattern v"
  shows "glob pattern v"
proof -
  obtain p ps where parts: "split_on (CHR ''*'') pattern = p # ps"
    by (cases "split_on (CHR ''*'') pattern") simp_all
  have pat: "pattern = p @ concat (map ((#) (CHR ''*'')) ps)"
    by (rule join_split_on [OF parts [symmetric]])
  show ?thesis
  proof (cases "ps = []")
    case True
    then show ?thesis
      using assms parts glob_self by (simp add: glob_match_single_star_def)
  next
    case False
    then obtain r where r: "match_parts 0 (p # ps) v = Some r"
      "if \<not> ends_with pattern ''*'' then r = [] else CHR ''/'' \<notin> set r"
      using assms parts by (auto simp: glob_match_single_star_def split: option.splits)
    have "pattern \<noteq> []" using pat False by (cases ps) auto
    then have "ends_with pattern ''*'' \<longleftrightarrow> last ps = []"
      using last_split_on [of "CHR ''*''" pattern] parts False
      by (cases pattern rule: rev_cases) (auto simp: ends_with_def)
    then have tail: "if ps \<noteq> [] \<and> last ps = [] then CHR ''/'' \<notin> set r else r = []"
      using r(2) False by auto
    obtain w where "v = p @ w" "match_parts 1 ps w = Some r"
      using r(1) find_sub_Some [of p v 0] by (cases "p = []") (auto split: option.splits if_splits)
    then show ?thesis
      using match_parts_glob [OF _ _ tail, of 1 w] pat glob_literal_app by simp
  qed
qed

lemma single_star_simple:
  assumes "CHR ''*'' \<notin> set (butlast pattern)"
  shows "glob_match_single_star pattern v \<longleftrightarrow> glob pattern v"
proof (cases "CHR ''*'' \<in> set pattern")
  case False
  then show ?thesis
    using glob_literal [of pattern "[]" v] by (auto simp: glob_match_single_star_def split_on_free)
next
  case True
  then obtain a where a: "pattern = a @ [CHR ''*'']" "CHR ''*'' \<notin> set a"
    using assms by (cases pattern rule: rev_cases) auto
  have end_star: "ends_with pattern ''*''"
    by (simp add: a ends_with_def)
  have "match_parts 0 [a, []] v = (if starts_with v a then Some (drop (length a) v) else None)"
    using find_sub_0 [of a v] find_sub_None_start [of a v]
    by (auto simp: starts_with_def split: option.splits)
  then show ?thesis
    using end_star glob_literal [OF a(2), of "''*''" v]
    by (auto simp: glob_match_single_star_def a split_on_last starts_with_iff glob_star_end Let_def)
qed

subsection \<open>Protected branches\<close>

lemma double_star_free:
  assumes "\<not> contains pattern ''**''"
  shows "split_text ''**'' pattern = [pattern]"
  using assms by (simp add: contains_def split_text_def)

lemma find_sub_contains: "find_sub p s = Some n \<Longrightarrow> \<exists>u v. s = u @ p @ v"
  using find_sub_Some by metis

lemma simple_no_double_star:
  assumes "CHR ''*'' \<notin> set (butlast pattern)"
  shows "\<not> contains pattern ''**''"
proof
  assume "contains pattern ''**''"
  then obtain u v where "pattern = u @ ''**'' @ v"
    using find_sub_contains unfolding contains_def by blast
  then have "CHR ''*'' \<in> set (butlast pattern)"
    by (simp add: butlast_append)
  then show False
    using assms by simp
qed

lemma pattern_matches_single:
  "\<not> contains pattern ''**'' \<Longrightarrow> pattern_matches pattern v \<longleftrightarrow> pattern = v \<or> glob_match_single_star pattern v"
  by (auto simp: pattern_matches_def double_star_free)

text \<open>
  C13: the protection of branches agrees with the globs of the configuration: when no pattern has a
  star before its last character, a branch is protected exactly when a pattern's glob matches it;
  and when no pattern has two stars in a row, a branch that is protected is one a glob matches.
\<close>

theorem protection_by_glob:
  "((\<forall>p \<in> set patterns. CHR ''*'' \<notin> set (butlast p)) \<longrightarrow>
      (is_branch_protected branch (Some patterns) \<longleftrightarrow> (\<exists>p \<in> set patterns. glob p branch))) \<and>
   ((\<forall>p \<in> set patterns. \<not> contains p ''**'') \<longrightarrow>
      is_branch_protected branch (Some patterns) \<longrightarrow> (\<exists>p \<in> set patterns. glob p branch))"
proof (intro conjI impI)
  assume simple: "\<forall>p \<in> set patterns. CHR ''*'' \<notin> set (butlast p)"
  then have "pattern_matches p branch \<longleftrightarrow> glob p branch" if "p \<in> set patterns" for p
    using that pattern_matches_single [OF simple_no_double_star] single_star_simple glob_self by metis
  then show "is_branch_protected branch (Some patterns) \<longleftrightarrow> (\<exists>p \<in> set patterns. glob p branch)"
    by (auto simp: is_branch_protected_def)
next
  assume "\<forall>p \<in> set patterns. \<not> contains p ''**''" and "is_branch_protected branch (Some patterns)"
  then show "\<exists>p \<in> set patterns. glob p branch"
    using pattern_matches_single single_star_sound glob_self by (simp add: is_branch_protected_def) metis
qed

theorem protection_by_glob_witness:
  "is_branch_protected ''release/2.0'' (Some [''main'', ''release/*'']) \<and>
   \<not> is_branch_protected ''release/2.0/fix'' (Some [''main'', ''release/*''])"
proof -
  have "\<forall>p \<in> set [''main'', ''release/*'']. CHR ''*'' \<notin> set (butlast p)"
    by simp
  then have "is_branch_protected b (Some [''main'', ''release/*'']) \<longleftrightarrow> (\<exists>p \<in> set [''main'', ''release/*'']. glob p b)" for b
    using protection_by_glob by blast
  then show ?thesis
    by simp
qed

text \<open>A star before the end can miss a branch: the first occurrence of the text behind the star is taken.\<close>

lemma hotfix_branch_missed:
  "glob ''*-hotfix'' ''v1-hotfix-2-hotfix'' \<and> \<not> is_branch_protected ''v1-hotfix-2-hotfix'' (Some [''*-hotfix''])"
proof
  show "glob ''*-hotfix'' ''v1-hotfix-2-hotfix''"
    by simp
  show "\<not> is_branch_protected ''v1-hotfix-2-hotfix'' (Some [''*-hotfix''])"
    by code_simp
qed

end
