(* ===== verification/Host_Exec_Props.thy ===== *)
theory Host_Exec_Props
  imports Builder_Daemon Branch_Props
begin

text \<open>
  Properties of the command gateway: which commands a worker of a project can run, that the scripts it
  can run lie in its own slot, and where commands run.
\<close>

subsection \<open>Commands of a project\<close>

lemma get_deny: "map_of (deny_commands denied cmds) name = (if name \<in> set denied then None else map_of cmds name)"
  by (induction denied arbitrary: cmds) (auto simp: delete_conv')

lemma get_grant:
  "map_of (grant_commands known granted cmds) name =
     (if name \<in> set granted
      then Some (case map_of known name of Some cfg \<Rightarrow> cfg | None \<Rightarrow> opt_or (map_of cmds name) passthrough)
      else map_of cmds name)"
  by (induction granted arbitrary: cmds) (auto simp: update_conv' split: option.splits)

lemma get_map_filter:
  "map_of (List.map_filter (\<lambda>name. map_option (Pair name) (f name)) names) name = (if name \<in> set names then f name else None)"
  by (induction names) (auto simp: List.map_filter_simps split: option.splits)

lemma get_effective_defaults:
  "map_of (effective_defaults m) name = (if name \<in> set DEFAULT_COMMAND_NAMES then map_of (hm_commands m) name else None)"
  by (simp add: effective_defaults_def get_map_filter)

lemma default_names: "''gh'' \<in> set DEFAULT_COMMAND_NAMES" "''tea'' \<notin> set DEFAULT_COMMAND_NAMES"
  by (simp_all add: DEFAULT_COMMAND_NAMES_def)

text \<open>Which command a project's worker gets under a name.\<close>

lemma with_project_commands_get:
  "get_command (with_project_commands m granted denied forge) name =
     (if name \<in> set denied then None
      else if name \<in> set granted then Some (opt_or (map_of (hm_commands m) name) passthrough)
      else if forge = Some Gitea \<and> name = ''tea'' then Some (opt_or (map_of (hm_commands m) name) passthrough)
      else if forge = Some Gitea \<and> name = ''gh'' then None
      else if name \<in> set DEFAULT_COMMAND_NAMES then map_of (hm_commands m) name else None)"
  by (auto simp: get_command_def with_project_commands_def Let_def get_deny get_grant get_effective_defaults delete_conv' update_conv'
      default_names opt_or_def split: option.splits)

subsection \<open>Requests\<close>

lemma map_error_InrE: "map_error f r = Inr x \<Longrightarrow> (r = Inr x \<Longrightarrow> P) \<Longrightarrow> P"
  by (cases r) (simp_all add: map_error_def)

text \<open>The two branches of a request with a start frame.\<close>

lemma host_exec_command:
  assumes "host_exec h db header (Some (StartFrame req) # rest) = Inr frames" "hq_command req \<noteq> []"
  obtains pid ctx config where "resolve_request_context h db header = Inr (pid, ctx, config)"
    "exec_command h db req ctx config rest = Inr frames"
  using assms unfolding host_exec_def by (auto elim!: and_then_InrE map_error_InrE split: if_splits)

lemma host_exec_script:
  assumes "host_exec h db header (Some (StartFrame req) # rest) = Inr frames" "hq_command req = []"
  obtains pid ctx config where "resolve_request_context h db header = Inr (pid, ctx, config)"
    "exec_script h req ctx rest = Inr frames"
  using assms unfolding host_exec_def by (auto elim!: and_then_InrE map_error_InrE split: if_splits)

lemma parsed_id: "WorkerId_parse s = Inr i \<Longrightarrow> i = s"
  by (auto simp: WorkerId_parse_def split: option.splits prod.splits if_splits)

text \<open>The context of a registered worker with a workspace.\<close>

lemma resolve_context_worker:
  assumes "resolve_request_context h db (Header s) = Inr (pid, ctx, config)" "manager_worker_context db s = Some mc"
  shows "\<exists>c. ctx = Some c \<and> xc_slot_path c = gx_slot_path mc \<and> xc_worker_id c = s \<and>
    xc_project_key c = opt_or (gx_project_key mc) [] \<and>
    config = (case gx_project_key mc of
        Some key \<Rightarrow> (case registry_get (hs_registry h) key of
            Some p \<Rightarrow> with_project_commands (pg_hostexec (hs_registry h)) (fp_hostexec p) (fp_hostexec_deny p) (resolve_forge p)
          | None \<Rightarrow> with_project_commands (pg_hostexec (hs_registry h)) [] [] None)
      | None \<Rightarrow> defaults_only (pg_hostexec (hs_registry h)))"
  using assms
  by (auto simp: resolve_request_context_def project_context_def Let_def elim!: and_then_InrE map_error_InrE dest!: parsed_id
      split: option.splits)

lemma exec_command_forwards:
  assumes "exec_command h db req ctx config rest = Inr frames"
  obtains cfg b inp where "get_command config (hq_command req) = Some cfg" "frames = BuilderStart b # map BuilderStdin inp"
    "hc_lua_source cfg = None \<longrightarrow> bx_command b = hq_command req \<and> bx_args b = hq_args req"
proof -
  have "\<exists>inp. forward_stdin_to_builder ms = map BuilderStdin inp" for ms
    by (induction ms rule: forward_stdin_to_builder.induct) (auto intro: exI [of _ "_ # _"] exI [of _ "[]"])
  then have input: "\<exists>inp. (if bidi then forward_stdin_to_builder rest else []) = map BuilderStdin inp" for bidi
    by auto
  obtain cfg r where "get_command config (hq_command req) = Some cfg" "frames = forward_to_builderd r (hc_long_lived cfg) (hc_bidi cfg) rest"
    "hc_lua_source cfg = None \<longrightarrow> tn_command r = hq_command req \<and> tn_args r = hq_args req"
    using assms unfolding exec_command_def
    by (fastforce elim!: and_then_InrE map_error_InrE split: option.splits)
  then show thesis
    using that input [of "hc_bidi cfg"] by (auto simp: forward_to_builderd_def)
qed

text \<open>
  C3: A command that the gateway forwards for a worker of a configured project is not one that the
  project denies, and it is a command the project grants or a default command, where a project on
  Gitea has \<open>tea\<close> instead of \<open>gh\<close> among the defaults. The host is asked to run one program,
  followed by nothing but input; where the command has no script that transforms it, the program and
  its arguments are those of the request.
\<close>
theorem worker_command_permitted:
  assumes "host_exec h db (Header s) (Some (StartFrame req) # rest) = Inr frames" "hq_command req \<noteq> []"
    and "manager_worker_context db s = Some mc" "gx_project_key mc = Some key"
    and "registry_get (hs_registry h) key = Some project"
  shows "hq_command req \<notin> set (fp_hostexec_deny project) \<and>
    (hq_command req \<in> set (fp_hostexec project) \<or>
     (if resolve_forge project = Some Gitea
      then hq_command req = ''tea'' \<or> hq_command req \<in> set DEFAULT_COMMAND_NAMES - {''gh''}
      else hq_command req \<in> set DEFAULT_COMMAND_NAMES)) \<and>
    (\<exists>b inp. frames = BuilderStart b # map BuilderStdin inp \<and>
      (Option.bind (get_command (pg_hostexec (hs_registry h)) (hq_command req)) hc_lua_source = None \<longrightarrow>
       bx_command b = hq_command req \<and> bx_args b = hq_args req))"
proof -
  obtain pid ctx config where run: "resolve_request_context h db (Header s) = Inr (pid, ctx, config)"
    "exec_command h db req ctx config rest = Inr frames"
    using host_exec_command [OF assms(1,2)] .
  obtain cfg b inp where sent: "get_command config (hq_command req) = Some cfg" "frames = BuilderStart b # map BuilderStdin inp"
    "hc_lua_source cfg = None \<longrightarrow> bx_command b = hq_command req \<and> bx_args b = hq_args req"
    using exec_command_forwards [OF run(2)] .
  have config: "config = with_project_commands (pg_hostexec (hs_registry h)) (fp_hostexec project) (fp_hostexec_deny project) (resolve_forge project)"
    using resolve_context_worker [OF run(1) assms(3)] assms(4,5) by auto
  have "Option.bind (get_command (pg_hostexec (hs_registry h)) (hq_command req)) hc_lua_source = None \<Longrightarrow> hc_lua_source cfg = None"
    using sent(1) unfolding config with_project_commands_get
    by (auto simp: get_command_def passthrough_def split: if_splits option.splits bind_splits)
  with sent config show ?thesis
    by (auto simp: with_project_commands_get split: if_splits)
qed

subsection \<open>Directories and scripts\<close>

lemma starts_with_app [simp]: "starts_with (p @ s) p"
  by (simp add: starts_with_def)

lemma strip_prefix_iff: "strip_prefix s p = Some r \<longleftrightarrow> s = p @ r"
  by (auto simp: strip_prefix_def starts_with_def) (metis append_take_drop_id)

lemma find_sub_app: "find_sub p (p @ s) = Some 0"
proof (cases "p @ s")
  case (Cons c cs)
  then have "starts_with (c # cs) p"
    using starts_with_app [of p s] by simp
  with Cons show ?thesis by simp
qed simp

lemma resolve_leading:
  assumes "\<not> contains r WORKSPACE_TEMPLATE"
  shows "resolve_working_dir (Some w) (WORKSPACE_TEMPLATE @ r) = w @ r"
proof -
  have none: "find_sub WORKSPACE_TEMPLATE r = None"
    using assms by (simp add: contains_def)
  have "split_text WORKSPACE_TEMPLATE (WORKSPACE_TEMPLATE @ r) = [[], r]"
    using none by (simp add: split_text_def find_sub_app) (simp add: WORKSPACE_TEMPLATE_def none [unfolded WORKSPACE_TEMPLATE_def])
  then show ?thesis
    by (simp add: resolve_working_dir_def resolve_workspace_content_def contains_def find_sub_app)
qed

lemma resolve_absent: "\<not> contains d WORKSPACE_TEMPLATE \<Longrightarrow> resolve_working_dir w d = d"
  by (simp add: resolve_working_dir_def split: option.split)

text \<open>
  A slot as the server stores it: below the host's workspace, or a directory whose path does not begin
  with the text of the workspace's path; and no path here contains the template variable.
\<close>

definition slot_placed :: "string \<Rightarrow> string \<Rightarrow> bool" where
  "slot_placed ws slot = ((\<exists>rel. slot = ws @ ''/'' @ rel \<and> rel \<noteq> [] \<and> hd rel \<noteq> CHR ''/'') \<or> \<not> starts_with slot ws)"

lemma mapped_dir_resolved:
  assumes "map_working_dir_impl (''/workspace'' @ sfx) (Some slot) ws = Inr t" "slot_placed ws slot"
    and "\<not> contains (slot @ sfx) WORKSPACE_TEMPLATE" "\<And>rel. slot = ws @ rel \<Longrightarrow> \<not> contains (rel @ sfx) WORKSPACE_TEMPLATE"
  shows "resolve_working_dir (Some ws) t = slot @ sfx"
proof (cases "starts_with slot ws")
  case True
  then obtain rel where rel: "slot = ws @ ''/'' @ rel" "rel \<noteq> []" "hd rel \<noteq> CHR ''/''"
    using assms(2) by (auto simp: slot_placed_def)
  then have "trim_slashes (''/'' @ rel) = rel"
    by (cases rel) (simp_all add: trim_slashes_def)
  moreover have "strip_prefix slot ws = Some (''/'' @ rel)"
    using rel(1) by (simp add: strip_prefix_iff)
  moreover have "strip_prefix (''/workspace'' @ sfx) ''/workspace'' = Some sfx"
    by (simp only: strip_prefix_iff)
  ultimately have "t = WORKSPACE_TEMPLATE @ ''/'' @ rel @ sfx"
    using assms(1) rel(2) by (simp add: map_working_dir_impl_def Let_def split: if_splits)
  then show ?thesis
    using resolve_leading [of "''/'' @ rel @ sfx" ws] assms(4) [of "''/'' @ rel"] rel(1) by simp
next
  case False
  have "strip_prefix (''/workspace'' @ sfx) ''/workspace'' = Some sfx"
    by (simp only: strip_prefix_iff)
  moreover have "strip_prefix slot ws = None"
    using False by (simp add: strip_prefix_def)
  ultimately have "t = slot @ sfx"
    using assms(1) by (simp add: map_working_dir_impl_def split: if_splits)
  then show ?thesis
    using assms(3) by (simp add: resolve_absent)
qed

lemma script_path_inside:
  assumes "validate_script_path path = Inr rel"
  shows "path = ''/workspace'' @ ''/'' @ rel \<and> inside_path rel"
proof -
  have "path = ''/workspace/'' @ rel" "rel \<noteq> []" "list_all (\<lambda>seg. seg \<noteq> ''..'' \<and> seg \<noteq> []) (split_on (CHR ''/'') rel)"
    using assms by (auto simp: validate_script_path_def strip_prefix_iff list_ex_iff list_all_iff split: option.splits if_splits)
  moreover have "\<not> starts_with rel ''/''"
  proof
    assume "starts_with rel ''/''"
    then obtain r where "rel = CHR ''/'' # r"
      by (cases rel) (auto simp: starts_with_def)
    then show False
      using calculation(3) by simp
  qed
  ultimately show ?thesis
    by (auto simp: inside_path_def list_all_iff)
qed

lemma allowed_script:
  assumes "script_allows (script_registry projects) key rel"
  shows "\<exists>project. map_of projects key = Some project \<and> opt_or (strip_prefix rel ''./'') rel \<in> set (fp_hostexec_scripts project)"
proof -
  have "map_of (map (\<lambda>(key, cfg). (key, f cfg)) projects) key = map_option f (map_of projects key)" for f :: "full_project \<Rightarrow> string set"
    by (induction projects) auto
  then show ?thesis
    using assms by (auto simp: script_allows_def script_registry_def Let_def split: option.splits)
qed

lemma exec_script_forwards:
  assumes "exec_script h req (Some c) rest = Inr frames"
  obtains rel t d where "xc_project_key c \<noteq> []" "validate_script_path (hq_script_path req) = Inr rel"
    "script_allows (hs_scripts h) (xc_project_key c) rel"
    "map_working_dir_impl (hq_script_path req) (Some (xc_slot_path c)) (hs_host_workspace h) = Inr t"
    "frames = [BuilderStart \<lparr>bx_command = t, bx_args = hq_args req, bx_working_dir = d, bx_env = Map.empty, bx_long_lived = False\<rparr>]"
  using assms unfolding exec_script_def map_script_path_impl_def forward_to_builderd_def Let_def
  by (auto elim!: and_then_InrE map_error_InrE split: if_splits)


text \<open>The directory of a command below \<open>/brain\<close> stays inside the brain, and only \<open>git\<close> runs there.\<close>

lemma brain_dir_inside:
  assumes "command_working_dir h db req ctx = Inr d" "is_brain_dir (hq_working_dir req)"
  shows "hq_command req = ''git'' \<and> (\<exists>brain rel. brain_host_path db ctx = Some brain \<and>
    (d = brain \<or> d = path_join brain rel \<and> inside_path rel))"
proof -
  have no_slash: "trim_slashes r \<noteq> [] \<Longrightarrow> \<not> starts_with (trim_slashes r) ''/''" for r
    using hd_dropWhile [of "\<lambda>c. c = CHR ''/''" r] by (cases "trim_slashes r") (auto simp: trim_slashes_def starts_with_def)
  then show ?thesis
    using assms
    by (auto simp: command_working_dir_def map_brain_working_dir_impl_def BRAIN_HOSTEXEC_COMMAND_def Let_def inside_path_def
        split: option.splits if_splits)
qed

text \<open>
  Every other directory is the one asked for, taken from the slot as a text: nothing in the request
  is checked, so a directory with parent segments leaves the slot.
\<close>

lemma working_dir_not_confined:
  assumes "sfx = [] \<or> starts_with sfx ''/''" "slot_placed ws slot"
    and "\<not> contains (slot @ sfx) WORKSPACE_TEMPLATE" "\<And>rel. slot = ws @ rel \<Longrightarrow> \<not> contains (rel @ sfx) WORKSPACE_TEMPLATE"
  shows "\<exists>t. map_working_dir_impl (''/workspace'' @ sfx) (Some slot) ws = Inr t \<and> resolve_working_dir (Some ws) t = slot @ sfx"
proof -
  have "strip_prefix (''/workspace'' @ sfx) ''/workspace'' = Some sfx"
    by (simp only: strip_prefix_iff)
  then have "\<exists>t. map_working_dir_impl (''/workspace'' @ sfx) (Some slot) ws = Inr t"
    using assms(1) by (auto simp: map_working_dir_impl_def Let_def split: option.split)
  then show ?thesis
    using mapped_dir_resolved assms by metis
qed

text \<open>
  The workspace is compared as a text: a directory mounted from beside it, whose name continues the
  workspace's name, is taken for a slot inside of it, and the command runs in another directory.
\<close>

lemma sibling_mount_misplaced:
  "map_working_dir_impl ''/workspace'' (Some ''/ws2/p'') ''/ws'' = Inr ''%WORKSPACE%/2/p''"
  "resolve_working_dir (Some ''/ws'') ''%WORKSPACE%/2/p'' = ''/ws/2/p''"
  by code_simp+

end
