(* ===== verification/Host_Examples.thy ===== *)
theory Host_Examples
  imports Host_Exec_Props
begin

text \<open>
  A project with one granted command, one denied command and one script, and a worker in a slot of the
  pool, on which the theorems about the gateway are applied; and the output of a process.
\<close>

definition gx_raw :: RawProjectConfig where
  "gx_raw = \<lparr>rp_repo = Some ''git@github.com:o/r.git'', rp_local = False, rp_name = None, rp_pool_limit = None,
     rp_hostexec = [''just''], rp_hostexec_deny = [''docker''], rp_skills = [], rp_git_hooks_dir = None, rp_skill_hooks_dir = None,
     rp_instruction_md = None, rp_claude_md = None, rp_container = None, rp_mounts = None, rp_workflow_hooks_dir = None,
     rp_max_fix_attempts = None, rp_max_implement_cycles = None, rp_protected_branches = None, rp_tui = None, rp_git = None,
     rp_ignored_workflow_checks = [], rp_hostexec_scripts = [''./run.sh''], rp_push_again_exit_code = None, rp_memory_dir = None,
     rp_brain_dir = None, rp_forge = None, rp_runtime = None\<rparr>"

definition gx_project :: full_project where
  "gx_project = snd (projr (resolve_project_config ''ur'' gx_raw None))"

lemma gx_project_fields:
  "fp_hostexec gx_project = [''just'']" "fp_hostexec_deny gx_project = [''docker'']" "fp_hostexec_scripts gx_project = [''run.sh'']"
  "resolve_forge gx_project = Some GitHub"
  by code_simp+

definition gx_worker :: worker_row where
  "gx_worker = \<lparr>ww_worker_id = ''w-ab12'', ww_process_id = ''w'', ww_project_key = ''ur'', ww_container_id = ''c'',
     ww_worker_secret = [], ww_strategy = ''code'', ww_agent_type = ''claude'', ww_container_status = ''running'',
     ww_agent_status = ''idle'', ww_workspace_path = Some ''/ws/pool/ur/0'', ww_created_at = ''2026'', ww_updated_at = ''2026'',
     ww_idle_redispatch_count = 0, ww_brain_path = None, ww_runtime = ''container''\<rparr>"

definition gx_db :: worker_db where
  "gx_db = \<lparr>k_slot = [], k_worker = [gx_worker], k_link = []\<rparr>"

definition gx_commands :: HostExecConfigManager where
  "gx_commands = \<lparr>hm_commands = [(''git'', passthrough), (''docker'', passthrough)], hm_discovery = None\<rparr>"

definition gx_handler :: HostExecServiceHandler where
  "gx_handler = \<lparr>hs_registry = \<lparr>pg_projects = [(''ur'', gx_project)], pg_hostexec = gx_commands\<rparr>,
     hs_scripts = script_registry [(''ur'', gx_project)], hs_lua = \<lparr>lu_load = (\<lambda>_. Inl []), lu_call = (\<lambda>_ _ _ _ _. Inl [])\<rparr>,
     hs_host_workspace = ''/ws'', hs_git_branch_prefix = [], hs_show_db = (\<lambda>_. [])\<rparr>"

definition gx_request :: "string \<Rightarrow> string \<Rightarrow> HostExecRequest" where
  "gx_request command path = \<lparr>hq_command = command, hq_script_path = path, hq_args = [''-v''], hq_working_dir = ''/workspace''\<rparr>"

definition gx_context :: manager_context where
  "gx_context = \<lparr>gx_project_key = Some ''ur'', gx_slot_path = ''/ws/pool/ur/0'', gx_strategy = ''code'', gx_brain_path = None\<rparr>"

lemma gx_worker_context: "manager_worker_context gx_db ''w-ab12'' = Some gx_context"
  by code_simp

definition gx_sent :: "string \<Rightarrow> BuilderExecRequest" where
  "gx_sent command = \<lparr>bx_command = command, bx_args = [''-v''], bx_working_dir = ''%WORKSPACE%/pool/ur/0'', bx_env = Map.empty, bx_long_lived = False\<rparr>"

lemma gx_ids: "WorkerId_parse ''w-ab12'' = Inr ''w-ab12''" "resolve_process_id (\<lambda>_. []) gx_db ''w-ab12'' = Inr ''w''"
  by code_simp+

lemma gx_resolved:
  "resolve_request_context gx_handler gx_db (Header ''w-ab12'') =
     Inr (''w'', Some (fst (project_context gx_handler ''w-ab12'' ''w'' gx_context ''ur'')),
       snd (project_context gx_handler ''w-ab12'' ''w'' gx_context ''ur''))"
  by (simp add: resolve_request_context_def gx_ids gx_worker_context gx_handler_def gx_context_def map_error_def and_then_def
      split: prod.splits)

lemma gx_registered: "registry_get (hs_registry gx_handler) ''ur'' = Some gx_project"
  by (simp add: registry_get_def gx_handler_def)

lemma gx_project_context:
  "xc_slot_path (fst (project_context gx_handler ''w-ab12'' ''w'' gx_context ''ur'')) = ''/ws/pool/ur/0''"
  "xc_project_key (fst (project_context gx_handler ''w-ab12'' ''w'' gx_context ''ur'')) = ''ur''"
  "get_command (snd (project_context gx_handler ''w-ab12'' ''w'' gx_context ''ur'')) ''just'' = Some passthrough"
  by (simp_all add: project_context_def Let_def gx_registered gx_project_fields with_project_commands_get gx_context_def)
    (simp add: gx_handler_def gx_commands_def)

lemma gx_directory:
  "map_working_dir_impl ''/workspace'' (Some ''/ws/pool/ur/0'') ''/ws'' = Inr ''%WORKSPACE%/pool/ur/0''"
  "map_working_dir_impl ''/workspace/run.sh'' (Some ''/ws/pool/ur/0'') ''/ws'' = Inr ''%WORKSPACE%/pool/ur/0/run.sh''"
  "validate_script_path ''/workspace/run.sh'' = Inr ''run.sh''" "is_brain_dir ''/workspace'' = False"
  by code_simp+

lemma gx_command_sent:
  "host_exec gx_handler gx_db (Header ''w-ab12'') [Some (StartFrame (gx_request ''just'' []))] = Inr [BuilderStart (gx_sent ''just'')]"
  by (simp add: host_exec_def gx_resolved exec_command_def gx_request_def gx_project_context command_working_dir_def gx_directory
      gx_sent_def forward_to_builderd_def passthrough_def map_error_def and_then_def)
    (simp add: gx_handler_def gx_directory)

lemma gx_script_allowed: "script_allows (hs_scripts gx_handler) ''ur'' ''run.sh''"
  by (simp add: gx_handler_def script_allows_def script_registry_def gx_project_fields strip_prefix_def starts_with_def)

lemma gx_script_sent:
  "host_exec gx_handler gx_db (Header ''w-ab12'') [Some (StartFrame (gx_request [] ''/workspace/run.sh''))] =
     Inr [BuilderStart (gx_sent ''%WORKSPACE%/pool/ur/0/run.sh'')]"
  by (simp add: host_exec_def gx_resolved exec_script_def gx_request_def gx_project_context gx_directory gx_script_allowed
      gx_sent_def forward_to_builderd_def map_error_def and_then_def map_script_path_impl_def)
    (simp add: gx_handler_def gx_directory)

theorem worker_command_permitted_witness:
  "''just'' \<notin> set (fp_hostexec_deny gx_project) \<and>
    (''just'' \<in> set (fp_hostexec gx_project) \<or>
     (if resolve_forge gx_project = Some Gitea
      then ''just'' = ''tea'' \<or> ''just'' \<in> set DEFAULT_COMMAND_NAMES - {''gh''}
      else ''just'' \<in> set DEFAULT_COMMAND_NAMES)) \<and>
    (\<exists>b inp. [BuilderStart (gx_sent ''just'')] = BuilderStart b # map BuilderStdin inp \<and>
      (Option.bind (get_command gx_commands ''just'') hc_lua_source = None \<longrightarrow> bx_command b = ''just'' \<and> bx_args b = [''-v'']))"
proof -
  have "hs_registry gx_handler = \<lparr>pg_projects = [(''ur'', gx_project)], pg_hostexec = gx_commands\<rparr>"
    "hq_command (gx_request ''just'' []) = ''just''" "hq_args (gx_request ''just'' []) = [''-v'']" "gx_project_key gx_context = Some ''ur''"
    by (simp_all add: gx_handler_def gx_request_def gx_context_def)
  then show ?thesis
    using worker_command_permitted [OF gx_command_sent _ gx_worker_context _ gx_registered] by (simp add: gx_project_fields)
qed


theorem collected_output_witness:
  "CompletedExec_collect (map Inr (child_output_stream [OutData ''a'', ErrData ''x'', ErrEnd, OutData ''b'', OutEnd] None)) =
    Inr \<lparr>ce_stdout = ''ab'', ce_stderr = ''x'', ce_exit_code = - 1\<rparr>"
  using collected_output [of "[OutData ''a'', ErrData ''x'', ErrEnd, OutData ''b'', OutEnd]" None]
  by (simp add: out_data_def err_data_def)

end
