(* ===== verification/Local_Overlay.thy ===== *)
theory Local_Overlay
  imports Builder_Daemon
begin

text \<open>
  The overlay files of pool slots, \<open>crates/builderd/src/overlay.rs\<close>: files of the host that are placed in
  a slot for the worker and hidden while git runs there, and how the daemon brackets a command with
  them (\<open>crates/builderd/src/handler.rs\<close>).

  A slot is what stands at the paths below it, written with their components and relative to it; the
  copy of the overlays in the slot's git directory, as the files in the order in which directories
  are read; and git's index. Paths whose directories are symbolic links are outside of the model, and
  the reading of a directory with all below it is one operation. A file operation that the operating
  system refuses has no effect. Git itself is a parameter.
\<close>

subsection \<open>Slots\<close>

datatype node = Regular string | Link string | Directory

record slot_dir =
  sd_tree :: "string \<rightharpoonup> node"
  sd_copy :: "(string \<times> string) list option"
  sd_pinned :: "string option"
  sd_repo :: bool
  sd_index :: "string \<rightharpoonup> node"
  sd_clock :: nat

datatype fs_op = ReadDir | CopyFile string | StoreFile string | RemoveFile string | ReadPinned | WritePinned | RemoveState | CreateState

text \<open>
  What the outside answers: whether a file operation at a time fails, and what a git command does to
  the slot and prints. The project's overlay directory on the host is also outside.
\<close>

record overlay_env =
  oe_io :: "nat \<Rightarrow> fs_op \<Rightarrow> string option"
  oe_git :: "string list \<Rightarrow> slot_dir \<Rightarrow> slot_dir \<times> (string + string)"
  oe_local :: "string \<Rightarrow> (string \<times> string) list option"

datatype overlay_error =
    FsFailed fs_op string | NotADirectory string | IsADirectory string | GitFailed string
  | ConcealAndReveal overlay_error overlay_error

definition fs_call :: "overlay_env \<Rightarrow> fs_op \<Rightarrow> (slot_dir \<Rightarrow> slot_dir) \<Rightarrow> (slot_dir, overlay_error, unit) op" where
  "fs_call env x f s =
     (let s' = s\<lparr>sd_clock := Suc (sd_clock s)\<rparr> in
      case oe_io env (sd_clock s) x of Some e \<Rightarrow> (s', Inl (FsFailed x e)) | None \<Rightarrow> (f s', Inr ()))"

definition git :: "overlay_env \<Rightarrow> string list \<Rightarrow> (slot_dir, overlay_error, string) op" where
  "git env args s = (case oe_git env args s of (s', Inl e) \<Rightarrow> (s', Inl (GitFailed e)) | (s', Inr out) \<Rightarrow> (s', Inr out))"

subsection \<open>Files\<close>

text \<open>The directories above a path, the outermost first.\<close>

fun dirs_above :: "string list \<Rightarrow> string list \<Rightarrow> string list" where
  "dirs_above done [] = []"
| "dirs_above done [c] = []"
| "dirs_above done (c # cs) = join ''/'' (done @ [c]) # dirs_above (done @ [c]) cs"

definition parents :: "string \<Rightarrow> string list" where
  "parents p = dirs_above [] (split_on (CHR ''/'') p)"

definition create_dir_all :: "string list \<Rightarrow> (string \<rightharpoonup> node) \<Rightarrow> (string \<rightharpoonup> node)" where
  "create_dir_all ds tree = (\<lambda>p. if tree p = None \<and> p \<in> set ds then Some Directory else tree p)"

text \<open>\<open>copy_file\<close> from the copy into the slot.\<close>

definition copy_file :: "overlay_env \<Rightarrow> string \<Rightarrow> string \<Rightarrow> (slot_dir, overlay_error, unit) op" where
  "copy_file env rel content s =
     (if \<exists>d \<in> set (parents rel). \<exists>c. sd_tree s d = Some (Regular c) then (s, Inl (NotADirectory rel))
      else if sd_tree s rel = Some Directory then (s, Inl (IsADirectory rel))
      else fs_call env (CopyFile rel) (\<lambda>s. s\<lparr>sd_tree := (create_dir_all (parents rel) (sd_tree s))(rel \<mapsto> Regular content)\<rparr>) s)"

definition path_components :: "string \<Rightarrow> string list" where
  "path_components p =
     (let cs = split_on (CHR ''/'') p in
      (if starts_with p ''/'' then [''/''] else if hd cs = ''.'' then [''.''] else []) @ filter (\<lambda>c. c \<noteq> [] \<and> c \<noteq> ''.'') cs)"

text \<open>\<open>Path::strip_prefix\<close> on components.\<close>

fun strip_components :: "string list \<Rightarrow> string list \<Rightarrow> string list option" where
  "strip_components cs [] = Some cs"
| "strip_components [] (p # ps) = None"
| "strip_components (c # cs) (p # ps) = (if c = p then strip_components cs ps else None)"

definition parent_dir :: "string \<Rightarrow> string" where
  "parent_dir rel = join ''/'' (butlast (split_on (CHR ''/'') rel))"

definition link_target :: "string \<Rightarrow> string \<Rightarrow> string \<Rightarrow> string list" where
  "link_target slot rel target =
     (let dir = (if parent_dir rel = [] then slot else path_join slot (parent_dir rel)) in
      case strip_components (path_components (path_join dir target)) (path_components slot) of
        Some cs \<Rightarrow> [join ''/'' cs]
      | None \<Rightarrow> [])"

definition replace_symlink_collecting ::
  "overlay_env \<Rightarrow> string \<Rightarrow> string \<Rightarrow> string list \<Rightarrow> (slot_dir, overlay_error, string list) op" where
  "replace_symlink_collecting env slot rel collected s =
     (case sd_tree s rel of
        Some (Link target) \<Rightarrow>
          bindS (fs_call env (RemoveFile rel) (\<lambda>s. s\<lparr>sd_tree := (sd_tree s)(rel := None)\<rparr>))
            (\<lambda>_. ret (collected @ link_target slot rel target)) s
      | _ \<Rightarrow> (s, Inr collected))"

fun copy_dir_recursive_collecting ::
  "overlay_env \<Rightarrow> string \<Rightarrow> (string \<times> string) list \<Rightarrow> string list \<Rightarrow> (slot_dir, overlay_error, string list) op" where
  "copy_dir_recursive_collecting env slot [] collected = ret collected"
| "copy_dir_recursive_collecting env slot ((rel, content) # files) collected =
     bindS (replace_symlink_collecting env slot rel collected) (\<lambda>collected'.
     bindS (copy_file env rel content) (\<lambda>_.
       copy_dir_recursive_collecting env slot files (collected' @ [rel])))"

definition nul :: char where
  "nul = CHR 0x00"

definition nul_pieces :: "string \<Rightarrow> string list" where
  "nul_pieces out = filter (\<lambda>p. p \<noteq> []) (split_on nul out)"

definition read_pinned :: "overlay_env \<Rightarrow> (slot_dir, overlay_error, string list) op" where
  "read_pinned env s =
     (case sd_pinned s of
        None \<Rightarrow> (s, Inr [])
      | Some content \<Rightarrow> bindS (fs_call env ReadPinned (\<lambda>s. s)) (\<lambda>_. ret (nul_pieces content)) s)"

definition write_pinned :: "overlay_env \<Rightarrow> string list \<Rightarrow> (slot_dir, overlay_error, unit) op" where
  "write_pinned env pinned = fs_call env WritePinned (\<lambda>s. s\<lparr>sd_pinned := Some (join [nul] pinned)\<rparr>)"

text \<open>The tracked paths are a set in the code, which is iterated in some order.\<close>

definition tracked_subset :: "overlay_env \<Rightarrow> string list \<Rightarrow> (slot_dir, overlay_error, string list) op" where
  "tracked_subset env rel_paths s =
     (if rel_paths = [] \<or> \<not> sd_repo s then (s, Inr [])
      else bindS (git env ([''--literal-pathspecs'', ''ls-files'', ''-z'', ''--''] @ rel_paths))
             (\<lambda>out. ret (remdups (nul_pieces out))) s)"

subsection \<open>Concealing and revealing\<close>

text \<open>The order of Rust's \<open>sort\<close> on strings is bytewise.\<close>

definition reveal :: "overlay_env \<Rightarrow> string \<Rightarrow> (slot_dir, overlay_error, unit) op" where
  "reveal env slot s =
     (case sd_copy s of
        None \<Rightarrow> (s, Inl (FsFailed ReadDir ''not found''))
      | Some files \<Rightarrow>
          bindS (fs_call env ReadDir (\<lambda>s. s)) (\<lambda>_.
          bindS (copy_dir_recursive_collecting env slot files []) (\<lambda>placed.
          bindS (tracked_subset env placed) (\<lambda>tracked.
            let pinned = remdups (order_by bytewise (filter (\<lambda>rel. rel \<in> set tracked) placed)) in
            bindS (if pinned = [] then ret [] else git env ([''update-index'', ''--skip-worktree'', ''--''] @ pinned)) (\<lambda>_.
              write_pinned env pinned)))) s)"

fun capture :: "overlay_env \<Rightarrow> string list \<Rightarrow> (slot_dir, overlay_error, unit) op" where
  "capture env [] = ret ()"
| "capture env (rel # rels) =
     bindS (\<lambda>s. case sd_tree s rel of
              Some (Regular content) \<Rightarrow>
                fs_call env (StoreFile rel) (\<lambda>s. s\<lparr>sd_copy := map_option (AList.update rel content) (sd_copy s)\<rparr>) s
            | _ \<Rightarrow> (s, Inr ()))
       (\<lambda>_. capture env rels)"

fun remove_untracked :: "overlay_env \<Rightarrow> string list \<Rightarrow> string list \<Rightarrow> (slot_dir, overlay_error, unit) op" where
  "remove_untracked env tracked [] = ret ()"
| "remove_untracked env tracked (rel # rels) =
     bindS (\<lambda>s. if rel \<in> set tracked \<or> sd_tree s rel = None then (s, Inr ())
              else if sd_tree s rel = Some Directory then (s, Inl (IsADirectory rel))
              else fs_call env (RemoveFile rel) (\<lambda>s. s\<lparr>sd_tree := (sd_tree s)(rel := None)\<rparr>) s)
       (\<lambda>_. remove_untracked env tracked rels)"

definition conceal :: "overlay_env \<Rightarrow> (slot_dir, overlay_error, unit) op" where
  "conceal env s =
     (case sd_copy s of
        None \<Rightarrow> (s, Inl (FsFailed ReadDir ''not found''))
      | Some files \<Rightarrow>
          let rel_paths = map fst files in
          bindS (fs_call env ReadDir (\<lambda>s. s)) (\<lambda>_.
          bindS (capture env rel_paths) (\<lambda>_.
          bindS (read_pinned env) (\<lambda>pinned.
          bindS (if pinned = [] then ret [] else git env ([''update-index'', ''--no-skip-worktree'', ''--''] @ pinned)) (\<lambda>_.
          bindS (tracked_subset env rel_paths) (\<lambda>tracked.
          bindS (remove_untracked env tracked rel_paths) (\<lambda>_.
            if tracked = [] then ret () else bindS (git env ([''checkout'', ''--''] @ tracked)) (\<lambda>_. ret ()))))))) s)"

definition discard :: "overlay_env \<Rightarrow> (slot_dir, overlay_error, unit) op" where
  "discard env s =
     (if sd_copy s = None \<and> sd_pinned s = None then (s, Inr ())
      else fs_call env RemoveState (\<lambda>s. s\<lparr>sd_copy := None, sd_pinned := None\<rparr>) s)"

text \<open>The files of the host are first copied to the slot's git directory, where nothing is in the way.\<close>

definition overlay_apply :: "overlay_env \<Rightarrow> string \<Rightarrow> string \<Rightarrow> (slot_dir, overlay_error, unit) op" where
  "overlay_apply env project_key slot =
     bindS (discard env) (\<lambda>_.
       case oe_local env project_key of
         None \<Rightarrow> ret ()
       | Some files \<Rightarrow>
           bindS (fs_call env CreateState (\<lambda>s. s\<lparr>sd_copy := Some files\<rparr>)) (\<lambda>_. reveal env slot))"

subsection \<open>Leases\<close>

record overlays =
  ov_workspace :: string
  ov_slot :: "string \<Rightarrow> slot_dir"
  ov_active :: "string \<Rightarrow> nat"

abbreviation on_slot :: "string \<Rightarrow> (slot_dir, overlay_error, 'a) op \<Rightarrow> (overlays, overlay_error, 'a) op" where
  "on_slot slot \<equiv> on_part (\<lambda>m. ov_slot m slot) (\<lambda>d m. m\<lparr>ov_slot := (ov_slot m)(slot := d)\<rparr>) (\<lambda>e. e)"

definition overlaid_slot_for :: "string \<Rightarrow> overlays \<Rightarrow> string option" where
  "overlaid_slot_for dir m =
     (let pool = path_join (ov_workspace m) ''pool'' in
      case strip_components (path_components dir) (path_components pool) of
        Some (project # slot_name # _) \<Rightarrow>
          (let slot = path_join (path_join pool project) slot_name in
           if sd_copy (ov_slot m slot) \<noteq> None then Some slot else None)
      | _ \<Rightarrow> None)"

text \<open>The lock of a slot's counter is held throughout, so these are single steps for the slot.\<close>

definition conceal_for :: "overlay_env \<Rightarrow> string \<Rightarrow> (overlays, overlay_error, string option) op" where
  "conceal_for env dir m =
     (case overlaid_slot_for dir m of
        None \<Rightarrow> (m, Inr None)
      | Some slot \<Rightarrow>
          (case if ov_active m slot = 0 then on_slot slot (conceal env) m else (m, Inr ()) of
             (m1, Inl conceal_err) \<Rightarrow>
               (case on_slot slot (reveal env slot) m1 of
                  (m2, Inr _) \<Rightarrow> (m2, Inl conceal_err)
                | (m2, Inl reveal_err) \<Rightarrow> (m2, Inl (ConcealAndReveal conceal_err reveal_err)))
           | (m1, Inr _) \<Rightarrow> (m1\<lparr>ov_active := (ov_active m1)(slot := Suc (ov_active m1 slot))\<rparr>, Inr (Some slot))))"

definition reveal_after :: "overlay_env \<Rightarrow> string \<Rightarrow> (overlays, overlay_error, unit) op" where
  "reveal_after env slot m =
     (let m1 = m\<lparr>ov_active := (ov_active m)(slot := ov_active m slot - 1)\<rparr> in
      if ov_active m1 slot = 0 then on_slot slot (reveal env slot) m1 else (m1, Inr ()))"

subsection \<open>Commands of the daemon\<close>

definition OVERLAY_BRACKETED_COMMANDS :: "string list" where
  "OVERLAY_BRACKETED_COMMANDS = [''git'', ''gh'']"

definition conceal_overlays :: "overlay_env \<Rightarrow> BuilderExecRequest \<Rightarrow> string \<Rightarrow> (overlays, overlay_error, string option) op" where
  "conceal_overlays env req resolved_dir =
     (if bx_command req \<notin> set OVERLAY_BRACKETED_COMMANDS then ret None else conceal_for env resolved_dir)"

datatype spawn_failure = ConcealFailed overlay_error | SpawnFailed string "overlay_error option"

text \<open>Starting a short-lived command: the overlays are hidden before, and restored when it does not start.\<close>

definition spawn_bracketed ::
  "overlay_env \<Rightarrow> (os_command \<Rightarrow> string option) \<Rightarrow> string option \<Rightarrow> BuilderExecRequest \<Rightarrow> (overlays, spawn_failure, string option) op" where
  "spawn_bracketed env spawn workspace req m =
     (case conceal_overlays env req (resolve_working_dir workspace (bx_working_dir req)) m of
        (m1, Inl e) \<Rightarrow> (m1, Inl (ConcealFailed e))
      | (m1, Inr lease) \<Rightarrow>
          (case spawn (short_command workspace req) of
             None \<Rightarrow> (m1, Inr lease)
           | Some e \<Rightarrow>
               (case lease of
                  None \<Rightarrow> (m1, Inl (SpawnFailed e None))
                | Some slot \<Rightarrow>
                    (case reveal_after env slot m1 of
                       (m2, Inr _) \<Rightarrow> (m2, Inl (SpawnFailed e None))
                     | (m2, Inl reveal_err) \<Rightarrow> (m2, Inl (SpawnFailed e (Some reveal_err)))))))"

text \<open>The frames of a bracketed child up to its exit code, and the frame that follows the reveal.\<close>

definition is_exit :: "CommandOutput \<Rightarrow> bool" where
  "is_exit f = (case f of ExitCode _ \<Rightarrow> True | _ \<Rightarrow> False)"

definition forward_then_reveal ::
  "overlay_env \<Rightarrow> CommandOutput list \<Rightarrow> string \<Rightarrow> overlays \<Rightarrow> overlays \<times> (overlay_error + CommandOutput) list" where
  "forward_then_reveal env child_frames lease m =
     (let sent = map Inr (takeWhile (\<lambda>f. \<not> is_exit f) child_frames);
          exit_frame = List.find is_exit child_frames
      in case reveal_after env lease m of
           (m', Inr _) \<Rightarrow> (m', sent @ (case exit_frame of Some f \<Rightarrow> [Inr f] | None \<Rightarrow> []))
         | (m', Inl e) \<Rightarrow> (m', sent @ [Inl e]))"

text \<open>
  The daemon with the leases that are held: requests, ends of commands (also of those whose caller is
  gone), and everything else that happens in a slot, by a worker or by a running command, which does
  not touch the copy of the overlays.
\<close>

definition sees_hidden :: "slot_dir \<Rightarrow> bool" where
  "sees_hidden s =
     (\<forall>rel \<in> fst ` set (opt_or (sd_copy s) []).
        case if sd_repo s then sd_index s rel else None of
          Some n \<Rightarrow> sd_tree s rel = Some n
        | None \<Rightarrow> sd_tree s rel = None \<or> sd_tree s rel = Some Directory)"

inductive overlay_step ::
  "overlay_env \<Rightarrow> (os_command \<Rightarrow> string option) \<Rightarrow> string option \<Rightarrow> overlays \<times> string list \<Rightarrow> overlays \<times> string list \<Rightarrow> bool"
  for env :: overlay_env and spawn :: "os_command \<Rightarrow> string option" and workspace :: "string option"
where
  started: "spawn_bracketed env spawn workspace req m = (m', Inr (Some slot)) \<Longrightarrow>
    overlay_step env spawn workspace (m, leases) (m', slot # leases)"
| unbracketed: "spawn_bracketed env spawn workspace req m = (m', Inr None) \<Longrightarrow>
    overlay_step env spawn workspace (m, leases) (m', leases)"
| refused: "spawn_bracketed env spawn workspace req m = (m', Inl e) \<Longrightarrow>
    overlay_step env spawn workspace (m, leases) (m', leases)"
| ended: "slot \<in> set leases \<Longrightarrow> forward_then_reveal env frames slot m = (m', sent) \<Longrightarrow>
    overlay_step env spawn workspace (m, leases) (m', remove1 slot leases)"
| other: "sd_copy d = sd_copy (ov_slot m slot) \<Longrightarrow> (sees_hidden (ov_slot m slot) \<Longrightarrow> sees_hidden d) \<Longrightarrow>
    overlay_step env spawn workspace (m, leases) (m\<lparr>ov_slot := (ov_slot m)(slot := d)\<rparr>, leases)"

end
