(* ===== verification/Overlay_Props.thy ===== *)
theory Overlay_Props
  imports Local_Overlay
begin

text \<open>
  Properties of the overlays: git never sees them while a lease is held, a bracketed command gives the
  worker's edits back, and how an edit or an overlay can be lost.
\<close>

subsection \<open>Git\<close>

text \<open>
  What git documents of the three commands when they succeed: \<open>ls-files\<close> prints the entries of the
  index at or below the given paths; \<open>update-index\<close> with a skip-worktree option changes neither files
  nor entries; \<open>checkout\<close> of paths writes the entries of the index to these paths, and no other path
  gets anything but its entry of the index, its former content, or a directory. No command, failing or
  not, touches the directory of the overlays, which is not git's.
\<close>

definition at_or_below :: "string \<Rightarrow> string \<Rightarrow> bool" where
  "at_or_below q p = (p = q \<or> starts_with p (q @ ''/''))"

definition git_documented :: "overlay_env \<Rightarrow> bool" where
  "git_documented env =
     ((\<forall>args s. sd_copy (fst (oe_git env args s)) = sd_copy s) \<and>
      (\<forall>s ps s' out. oe_git env ([''--literal-pathspecs'', ''ls-files'', ''-z'', ''--''] @ ps) s = (s', Inr out) \<longrightarrow>
         s' = s \<and> set (nul_pieces out) = {p. sd_index s p \<noteq> None \<and> (\<exists>q \<in> set ps. at_or_below q p)}) \<and>
      (\<forall>s ps s' out. \<forall>flag \<in> {''--skip-worktree'', ''--no-skip-worktree''}.
         oe_git env ([''update-index'', flag, ''--''] @ ps) s = (s', Inr out) \<longrightarrow> s' = s) \<and>
      (\<forall>s ps s' out. oe_git env ([''checkout'', ''--''] @ ps) s = (s', Inr out) \<longrightarrow>
         (\<exists>t. s' = s\<lparr>sd_tree := t\<rparr> \<and> (\<forall>p \<in> set ps. sd_index s p \<noteq> None \<longrightarrow> t p = sd_index s p) \<and>
           (\<forall>p. t p = sd_index s p \<or> t p = sd_tree s p \<or> t p = Some Directory))))"

lemma git_Inr: "git env args s = (s', Inr out) \<longleftrightarrow> oe_git env args s = (s', Inr out)"
  by (auto simp: git_def split: prod.splits sum.splits)

lemma git_ls_files:
  assumes "git_documented env" "tracked_subset env rels s = (s', Inr tracked)"
  shows "s' = s \<and> set tracked = {p. sd_repo s \<and> sd_index s p \<noteq> None \<and> (\<exists>q \<in> set rels. at_or_below q p)}"
proof (cases "rels = [] \<or> \<not> sd_repo s")
  case True
  then show ?thesis using assms(2) by (auto simp: tracked_subset_def)
next
  case False
  then obtain out where out: "oe_git env ([''--literal-pathspecs'', ''ls-files'', ''-z'', ''--''] @ rels) s = (s', Inr out)"
    "tracked = remdups (nul_pieces out)"
    using assms(2) by (auto simp: tracked_subset_def git_Inr elim!: bindS_InrE)
  have "\<forall>s ps s' out. oe_git env ([''--literal-pathspecs'', ''ls-files'', ''-z'', ''--''] @ ps) s = (s', Inr out) \<longrightarrow>
      s' = s \<and> set (nul_pieces out) = {p. sd_index s p \<noteq> None \<and> (\<exists>q \<in> set ps. at_or_below q p)}"
    using assms(1) unfolding git_documented_def by (elim conjE)
  then have "s' = s \<and> set (nul_pieces out) = {p. sd_index s p \<noteq> None \<and> (\<exists>q \<in> set rels. at_or_below q p)}"
    using out(1) by (elim allE impE)
  then show ?thesis using out(2) False by simp
qed

lemma git_update_index:
  assumes "git_documented env" "flag \<in> {''--skip-worktree'', ''--no-skip-worktree''}"
    and "(if ps = [] then ret [] else git env ([''update-index'', flag, ''--''] @ ps)) s = (s', Inr out)"
  shows "s' = s"
proof (cases "ps = []")
  case False
  then have "oe_git env ([''update-index'', flag, ''--''] @ ps) s = (s', Inr out)"
    using assms(3) by (simp add: git_Inr)
  then show ?thesis
    using assms(1,2) unfolding git_documented_def by blast
qed (use assms(3) in simp)

lemma git_checkout:
  assumes "git_documented env" "oe_git env ([''checkout'', ''--''] @ ps) s = (s', Inr out)"
  shows "\<exists>t. s' = s\<lparr>sd_tree := t\<rparr> \<and> (\<forall>p \<in> set ps. sd_index s p \<noteq> None \<longrightarrow> t p = sd_index s p) \<and>
    (\<forall>p. t p = sd_index s p \<or> t p = sd_tree s p \<or> t p = Some Directory)"
proof -
  have "\<forall>s ps s' out. oe_git env ([''checkout'', ''--''] @ ps) s = (s', Inr out) \<longrightarrow>
    (\<exists>t. s' = s\<lparr>sd_tree := t\<rparr> \<and> (\<forall>p \<in> set ps. sd_index s p \<noteq> None \<longrightarrow> t p = sd_index s p) \<and>
      (\<forall>p. t p = sd_index s p \<or> t p = sd_tree s p \<or> t p = Some Directory))"
    using assms(1) unfolding git_documented_def by (elim conjE)
  with assms(2) show ?thesis by blast
qed

subsection \<open>Files\<close>

lemma fs_call_Inr:
  "fs_call env x f s = (s', Inr u) \<longleftrightarrow> oe_io env (sd_clock s) x = None \<and> s' = f (s\<lparr>sd_clock := Suc (sd_clock s)\<rparr>)"
  by (auto simp: fs_call_def Let_def split: option.splits)

text \<open>The parts of a slot that git and the copying of overlays into it leave alone.\<close>

definition same_record :: "slot_dir \<Rightarrow> slot_dir \<Rightarrow> bool" where
  "same_record s s' = (sd_copy s' = sd_copy s \<and> sd_repo s' = sd_repo s \<and> sd_index s' = sd_index s)"

lemma copied_files:
  assumes "copy_dir_recursive_collecting env slot files collected s = (s', Inr placed)" "distinct (map fst files)"
  shows "same_record s s' \<and> (\<forall>(rel, c) \<in> set files. sd_tree s' rel = Some (Regular c)) \<and>
    (\<forall>p n. p \<notin> fst ` set files \<longrightarrow> sd_tree s p = Some n \<longrightarrow> sd_tree s' p = Some n)"
  using assms
proof (induction files arbitrary: collected s)
  case (Cons f files)
  obtain rel c where f: "f = (rel, c)" by fastforce
  obtain s1 col1 s2 where run: "replace_symlink_collecting env slot rel collected s = (s1, Inr col1)"
    "copy_file env rel c s1 = (s2, Inr ())" "copy_dir_recursive_collecting env slot files (col1 @ [rel]) s2 = (s', Inr placed)"
    using Cons.prems(1) f by (auto elim!: bindS_InrE)
  have s1: "same_record s s1 \<and> (\<forall>p. p \<noteq> rel \<longrightarrow> sd_tree s1 p = sd_tree s p)"
    using run(1) by (auto simp: replace_symlink_collecting_def same_record_def fs_call_Inr elim!: bindS_InrE split: option.splits node.splits)
  have s2: "same_record s1 s2 \<and> sd_tree s2 rel = Some (Regular c) \<and> (\<forall>p n. p \<noteq> rel \<longrightarrow> sd_tree s1 p = Some n \<longrightarrow> sd_tree s2 p = Some n)"
    using run(2) by (auto simp: copy_file_def same_record_def fs_call_Inr create_dir_all_def split: if_splits)
  have "distinct (map fst files)" "rel \<notin> fst ` set files"
    using Cons.prems(2) f by auto
  then show ?case
    using Cons.IH [OF run(3)] s1 s2 f by (auto simp: same_record_def)
qed (simp add: same_record_def)

lemma reveal_places:
  assumes "git_documented env" "reveal env slot s = (s', Inr ())" "sd_copy s = Some files" "distinct (map fst files)"
  shows "sd_copy s' = Some files \<and> (\<forall>(rel, c) \<in> set files. sd_tree s' rel = Some (Regular c))"
proof -
  obtain s1 placed s2 tracked s3 out where run:
    "copy_dir_recursive_collecting env slot files [] (s\<lparr>sd_clock := Suc (sd_clock s)\<rparr>) = (s1, Inr placed)"
    "tracked_subset env placed s1 = (s2, Inr tracked)"
    "(let ps = remdups (order_by bytewise (filter (\<lambda>rel. rel \<in> set tracked) placed))
      in if ps = [] then ret [] else git env ([''update-index'', ''--skip-worktree'', ''--''] @ ps)) s2 = (s3, Inr out)"
    "write_pinned env (remdups (order_by bytewise (filter (\<lambda>rel. rel \<in> set tracked) placed))) s3 = (s', Inr ())"
    using assms(2,3) by (auto simp: reveal_def Let_def fs_call_Inr elim!: bindS_InrE)
  have "s2 = s1" using git_ls_files [OF assms(1) run(2)] ..
  moreover have "s3 = s2" using git_update_index [OF assms(1), of "''--skip-worktree''"] run(3) unfolding Let_def by blast
  moreover have "sd_copy s' = sd_copy s3 \<and> sd_tree s' = sd_tree s3" using run(4) by (simp add: write_pinned_def fs_call_Inr)
  ultimately show ?thesis
    using copied_files [OF run(1) assms(4)] assms(3) by (simp add: same_record_def)
qed

subsection \<open>Concealing\<close>

text \<open>The content of the copy after the worker's files have been captured.\<close>

definition captured :: "(string \<rightharpoonup> node) \<Rightarrow> string \<times> string \<Rightarrow> string \<times> string" where
  "captured tree = (\<lambda>(rel, c). (rel, case tree rel of Some (Regular c') \<Rightarrow> c' | _ \<Rightarrow> c))"

lemma map_fst_captured [simp]: "map fst (map (captured tree) files) = map fst files"
  by (simp add: captured_def case_prod_beta comp_def)

lemma fst_captured [simp]: "fst (captured tree f) = fst f"
  by (simp add: captured_def case_prod_beta)

lemma comp_captured [simp]: "fst \<circ> captured tree = fst"
  by (simp add: fun_eq_iff)

lemma update_present:
  "distinct (map fst files) \<Longrightarrow> rel \<in> fst ` set files \<Longrightarrow>
   AList.update rel v files = map (\<lambda>(r, c). (r, if r = rel then v else c)) files"
proof (induction files)
  case (Cons f files)
  have "map (\<lambda>(r, c). (r, if r = fst f then v else c)) files = files" if "fst f \<notin> fst ` set files"
    using that by (induction files) auto
  with Cons show ?case by (cases f) auto
qed simp

lemma capture_regular:
  assumes "capture env (rel # rels) s = (s', Inr ())" "sd_tree s rel = Some (Regular c)"
  shows "capture env rels (s\<lparr>sd_clock := Suc (sd_clock s), sd_copy := map_option (AList.update rel c) (sd_copy s)\<rparr>) = (s', Inr ())"
proof -
  obtain s1 where "fs_call env (StoreFile rel) (\<lambda>s. s\<lparr>sd_copy := map_option (AList.update rel c) (sd_copy s)\<rparr>) s = (s1, Inr ())"
    "capture env rels s1 = (s', Inr ())"
    using assms unfolding capture.simps by (elim bindS_InrE) simp
  then show ?thesis by (simp add: fs_call_Inr)
qed

lemma capture_other:
  assumes "capture env (rel # rels) s = (s', Inr ())" "\<nexists>c. sd_tree s rel = Some (Regular c)"
  shows "capture env rels s = (s', Inr ())"
proof -
  have "(case sd_tree s rel of Some (Regular c) \<Rightarrow> f c | _ \<Rightarrow> x) = x" for f :: "string \<Rightarrow> slot_dir \<times> (overlay_error + unit)" and x
    using assms(2) by (auto split: option.split node.split)
  then show ?thesis
    using assms(1) unfolding capture.simps by (elim bindS_InrE) simp
qed

lemma capture_ok:
  assumes "capture env rels s = (s', Inr ())" "sd_copy s = Some files" "distinct (map fst files)" "set rels \<subseteq> fst ` set files"
  shows "sd_tree s' = sd_tree s \<and> sd_repo s' = sd_repo s \<and> sd_index s' = sd_index s \<and> sd_pinned s' = sd_pinned s \<and>
    sd_copy s' = Some (map (\<lambda>f. if fst f \<in> set rels then captured (sd_tree s) f else f) files)"
  using assms
proof (induction rels arbitrary: s files)
  case (Cons rel rels)
  show ?case
  proof (cases "\<exists>c. sd_tree s rel = Some (Regular c)")
    case True
    then obtain c where c: "sd_tree s rel = Some (Regular c)" ..
    let ?files = "map (\<lambda>(r, x). (r, if r = rel then c else x)) files"
    have "AList.update rel c files = ?files"
      using Cons.prems(3,4) by (intro update_present) auto
    then obtain s1 where s1: "capture env rels s1 = (s', Inr ())" "s1 = s\<lparr>sd_clock := Suc (sd_clock s), sd_copy := Some ?files\<rparr>"
      using capture_regular [OF Cons.prems(1) c] Cons.prems(2) by simp
    have keys: "map fst ?files = map fst files"
      by (simp add: case_prod_beta comp_def)
    then have "fst ` set ?files = fst ` set files"
      by (metis list.set_map)
    then have "set rels \<subseteq> fst ` set ?files" "distinct (map fst ?files)" "sd_copy s1 = Some ?files"
      unfolding keys using Cons.prems(3,4) s1(2) by simp_all
    from Cons.IH [OF s1(1) this(3,2,1)]
    have "sd_tree s' = sd_tree s1 \<and> sd_repo s' = sd_repo s1 \<and> sd_index s' = sd_index s1 \<and> sd_pinned s' = sd_pinned s1 \<and>
      sd_copy s' = Some (map (\<lambda>f. if fst f \<in> set rels then captured (sd_tree s1) f else f) ?files)" .
    moreover have "map (\<lambda>f. if fst f \<in> set rels then captured (sd_tree s) f else f) ?files =
        map (\<lambda>f. if fst f \<in> set (rel # rels) then captured (sd_tree s) f else f) files"
      unfolding map_map by (rule map_cong [OF refl]) (use c in \<open>simp add: captured_def split: prod.split\<close>)
    moreover have tree: "sd_tree s1 = sd_tree s"
      using s1(2) by simp
    ultimately show ?thesis
      using s1(2) unfolding tree by (simp del: map_map)
  next
    case False
    then have "capture env rels s = (s', Inr ())"
      by (rule capture_other [OF Cons.prems(1)])
    moreover have "captured (sd_tree s) (rel, x) = (rel, x)" for x
      using False by (auto simp: captured_def split: option.splits node.splits)
    ultimately show ?thesis
      using Cons.IH [of s files] Cons.prems(2-4) by auto
  qed
qed simp

lemma removed_untracked:
  assumes "remove_untracked env tracked rels s = (s', Inr ())"
  shows "same_record s s' \<and> (\<forall>p. sd_tree s' p = (if p \<in> set rels \<and> p \<notin> set tracked then None else sd_tree s p))"
  using assms
proof (induction rels arbitrary: s)
  case (Cons rel rels)
  have "\<exists>s1. remove_untracked env tracked rels s1 = (s', Inr ()) \<and> same_record s s1 \<and>
    (\<forall>p. sd_tree s1 p = (if p = rel \<and> p \<notin> set tracked then None else sd_tree s p))"
  proof (cases "rel \<in> set tracked \<or> sd_tree s rel = None")
    case True
    then show ?thesis using Cons.prems by (intro exI [of _ s]) (auto simp: same_record_def elim!: bindS_InrE)
  next
    case False
    then show ?thesis using Cons.prems by (auto simp: fs_call_Inr same_record_def elim!: bindS_InrE split: if_splits)
  qed
  then show ?case
    using Cons.IH by (auto simp: same_record_def)
qed (simp add: same_record_def)

lemma at_or_below_refl [simp]: "at_or_below p p"
  by (simp add: at_or_below_def)

lemma conceal_result:
  assumes "git_documented env" "conceal env s = (s', Inr ())" "sd_copy s = Some files" "distinct (map fst files)"
  shows "sees_hidden s' \<and> sd_copy s' = Some (map (captured (sd_tree s)) files)"
proof -
  let ?rels = "map fst files"
  obtain s0 s1 s2 pinned s3 out s4 tracked s5 where run: "s0 = s\<lparr>sd_clock := Suc (sd_clock s)\<rparr>"
    "capture env ?rels s0 = (s1, Inr ())" "read_pinned env s1 = (s2, Inr pinned)"
    "(if pinned = [] then ret [] else git env ([''update-index'', ''--no-skip-worktree'', ''--''] @ pinned)) s2 = (s3, Inr out)"
    "tracked_subset env ?rels s3 = (s4, Inr tracked)" "remove_untracked env tracked ?rels s4 = (s5, Inr ())"
    "(if tracked = [] then ret () else bindS (git env ([''checkout'', ''--''] @ tracked)) (\<lambda>_. ret ())) s5 = (s', Inr ())"
    using assms(2,3) by (auto simp: conceal_def Let_def fs_call_Inr elim!: bindS_InrE)
  have s1: "sd_tree s1 = sd_tree s \<and> sd_repo s1 = sd_repo s \<and> sd_index s1 = sd_index s \<and>
      sd_copy s1 = Some (map (captured (sd_tree s)) files)"
    using capture_ok [OF run(2), of files] assms(3,4) run(1) by (simp cong: map_cong)
  have s2: "same_record s1 s2"
    using run(3) by (auto simp: read_pinned_def same_record_def fs_call_Inr elim!: bindS_InrE split: option.splits)
  have s3: "s3 = s2" using git_update_index [OF assms(1), of "''--no-skip-worktree''"] run(4) by blast
  note ls = git_ls_files [OF assms(1) run(5)] and removed = removed_untracked [OF run(6)]
  have out: "same_record s5 s' \<and> (tracked = [] \<longrightarrow> s' = s5) \<and>
      (\<forall>p. (p \<in> set tracked \<and> sd_index s5 p \<noteq> None \<longrightarrow> sd_tree s' p = sd_index s5 p) \<and>
        (sd_tree s' p = sd_index s5 p \<or> sd_tree s' p = sd_tree s5 p \<or> sd_tree s' p = Some Directory))"
  proof (cases "tracked = []")
    case False
    then obtain o' where "oe_git env ([''checkout'', ''--''] @ tracked) s5 = (s', Inr o')"
      using run(7) by (auto simp: git_Inr elim!: bindS_InrE)
    then show ?thesis using git_checkout [OF assms(1)] False by (fastforce simp: same_record_def)
  qed (use run(7) in \<open>auto simp: same_record_def\<close>)
  have kept: "sd_copy s' = Some (map (captured (sd_tree s)) files)" "sd_repo s' = sd_repo s" "sd_index s' = sd_index s"
    "sd_index s5 = sd_index s"
    and tracked: "set tracked = {p. sd_repo s \<and> sd_index s p \<noteq> None \<and> (\<exists>q \<in> set ?rels. at_or_below q p)}"
    using s1 s2 s3 ls removed out unfolding same_record_def by simp_all
  have hidden: "case if sd_repo s then sd_index s rel else None of Some n \<Rightarrow> sd_tree s' rel = Some n
      | None \<Rightarrow> sd_tree s' rel = None \<or> sd_tree s' rel = Some Directory" if rel: "rel \<in> set ?rels" for rel
  proof (cases "rel \<in> set tracked")
    case True
    then have "sd_repo s \<and> sd_index s rel \<noteq> None" using tracked by simp
    moreover from this have "sd_tree s' rel = sd_index s rel" using out True kept(4) by metis
    ultimately show ?thesis by auto
  next
    case False
    then have "sd_tree s5 rel = None" using removed rel by simp
    moreover have "\<not> sd_repo s \<Longrightarrow> s' = s5" "sd_repo s \<Longrightarrow> sd_index s rel = None"
      using out tracked False rel at_or_below_refl by auto
    ultimately show ?thesis using out kept(4) by (cases "sd_repo s") (auto, metis)
  qed
  have keys: "fst ` set (opt_or (sd_copy s') []) = set ?rels"
    using kept(1) by (simp add: image_image)
  show ?thesis
    unfolding sees_hidden_def keys kept(2,3) using hidden kept(1) by blast
qed


text \<open>A second concealing takes what the first one left in the slot for the worker's edit.\<close>

lemma conceal_again_loses_overlay:
  assumes "git_documented env" "sd_copy s = Some files" "distinct (map fst files)" "rel \<in> fst ` set files"
    and "sd_repo s1" "sd_index s1 rel = Some (Regular v)"
    and "conceal env s = (s1, Inr ())" "conceal env s1 = (s2, Inr ())"
  shows "(rel, v) \<in> set (opt_or (sd_copy s2) [])"
proof -
  have s1: "sees_hidden s1" "sd_copy s1 = Some (map (captured (sd_tree s)) files)"
    using conceal_result [OF assms(1,7,2,3)] by blast+
  moreover have "rel \<in> fst ` set (map (captured (sd_tree s)) files)"
    using assms(4) by (simp add: image_image)
  ultimately have "sd_tree s1 rel = Some (Regular v)"
    using assms(5,6) by (auto simp: sees_hidden_def)
  moreover have "sd_copy s2 = Some (map (captured (sd_tree s1)) (map (captured (sd_tree s)) files))"
    using conceal_result [OF assms(1,8) s1(2)] assms(3) by simp
  ultimately show ?thesis
    using assms(4) by (force simp: captured_def)
qed

text \<open>
  C36: A bracketed git command gives the worker its overlays back: whatever happens in the slot between
  a concealing and the next revealing, as long as the copy in the git directory is not touched, every
  overlay that stood in the slot as a file has its content from before the command again, and any
  other overlay has the content of the copy.
\<close>
theorem bracket_keeps_edits:
  assumes "git_documented env" "sd_copy s = Some files" "distinct (map fst files)"
    and "conceal env s = (s1, Inr ())" "sd_copy s2 = sd_copy s1" "reveal env slot s2 = (s3, Inr ())"
  shows "\<forall>(rel, content) \<in> set files.
    sd_tree s3 rel = Some (Regular (case sd_tree s rel of Some (Regular edited) \<Rightarrow> edited | _ \<Rightarrow> content))"
proof -
  have "sd_copy s2 = Some (map (captured (sd_tree s)) files)"
    using conceal_result [OF assms(1,4,2,3)] assms(5) by simp
  then have "\<forall>f \<in> set files. sd_tree s3 (fst (captured (sd_tree s) f)) = Some (Regular (snd (captured (sd_tree s) f)))"
    using reveal_places [OF assms(1,6)] assms(3) by (simp add: case_prod_beta)
  then show ?thesis
    by (auto simp: captured_def)
qed

subsection \<open>Leases\<close>

definition copy_ok :: "slot_dir \<Rightarrow> bool" where
  "copy_ok s = (\<forall>files. sd_copy s = Some files \<longrightarrow> distinct (map fst files))"

lemma git_keeps_copy: "git_documented env \<Longrightarrow> sd_copy (fst (git env args s)) = sd_copy s"
proof -
  assume "git_documented env"
  then have "\<forall>args s. sd_copy (fst (oe_git env args s)) = sd_copy s"
    unfolding git_documented_def by (elim conjE)
  then have "sd_copy (fst (oe_git env args s)) = sd_copy s" by (elim allE)
  then show ?thesis
    by (auto simp: git_def split: prod.split sum.split)
qed

lemma copy_ok_same: "sd_copy s' = sd_copy s \<Longrightarrow> copy_ok s' = copy_ok s"
  by (simp add: copy_ok_def)

lemma git_copy_ok [intro]: "git_documented env \<Longrightarrow> preserves copy_ok (git env args)"
  using git_keeps_copy copy_ok_same by (metis preserves_def)

lemma fs_call_copy_ok [intro]: "(\<And>s. copy_ok s \<Longrightarrow> copy_ok (f s)) \<Longrightarrow> preserves copy_ok (fs_call env x f)"
proof
  fix s assume f: "\<And>s. copy_ok s \<Longrightarrow> copy_ok (f s)" and s: "copy_ok s"
  then have "copy_ok (s\<lparr>sd_clock := Suc (sd_clock s)\<rparr>)" by (simp add: copy_ok_def)
  then show "copy_ok (fst (fs_call env x f s))"
    using f by (simp add: fs_call_def Let_def split: option.split)
qed

lemma copy_file_copy_ok: "preserves copy_ok (copy_file env rel c)"
proof
  fix s assume s: "copy_ok s"
  have "preserves copy_ok (fs_call env (CopyFile rel) (\<lambda>s. s\<lparr>sd_tree := (create_dir_all (parents rel) (sd_tree s))(rel \<mapsto> Regular c)\<rparr>))"
    by (intro fs_call_copy_ok) (simp add: copy_ok_def)
  from preservesD [OF this s] show "copy_ok (fst (copy_file env rel c s))"
    using s by (simp add: copy_file_def)
qed

lemma replace_symlink_copy_ok: "preserves copy_ok (replace_symlink_collecting env slot rel collected)"
proof
  fix s assume s: "copy_ok s"
  have "preserves copy_ok (bindS (fs_call env (RemoveFile rel) (\<lambda>s. s\<lparr>sd_tree := (sd_tree s)(rel := None)\<rparr>)) (\<lambda>_. ret x))" for x :: "string list"
    by (intro preserves_bindS fs_call_copy_ok preserves_ret) (simp add: copy_ok_def)
  from preservesD [OF this s] show "copy_ok (fst (replace_symlink_collecting env slot rel collected s))"
    using s by (simp add: replace_symlink_collecting_def split: option.split node.split)
qed

lemma copy_dir_copy_ok: "preserves copy_ok (copy_dir_recursive_collecting env slot files collected)"
proof (induction files arbitrary: collected)
  case (Cons f files)
  then show ?case
    by (cases f) (auto intro!: preserves_bindS replace_symlink_copy_ok copy_file_copy_ok)
qed simp

lemma tracked_subset_copy_ok: "git_documented env \<Longrightarrow> preserves copy_ok (tracked_subset env rels)"
proof
  fix s assume git: "git_documented env" and s: "copy_ok s"
  have "preserves copy_ok (bindS (git env args) (\<lambda>out. ret (remdups (nul_pieces out))))" for args
    using git by (intro preserves_bindS git_copy_ok preserves_ret)
  from preservesD [OF this s] show "copy_ok (fst (tracked_subset env rels s))"
    using s by (simp add: tracked_subset_def)
qed

lemma reveal_copy_ok: "git_documented env \<Longrightarrow> preserves copy_ok (reveal env slot)"
proof
  fix s assume git: "git_documented env" and s: "copy_ok s"
  have "preserves copy_ok
     (bindS (fs_call env ReadDir (\<lambda>s. s)) (\<lambda>_.
      bindS (copy_dir_recursive_collecting env slot files []) (\<lambda>placed.
      bindS (tracked_subset env placed) (\<lambda>tracked.
        let pinned = remdups (order_by bytewise (filter (\<lambda>rel. rel \<in> set tracked) placed)) in
        bindS (if pinned = [] then ret [] else git env ([''update-index'', ''--skip-worktree'', ''--''] @ pinned)) (\<lambda>_.
          write_pinned env pinned)))))" for files
    unfolding Let_def write_pinned_def
    by (intro preserves_bindS fs_call_copy_ok copy_dir_copy_ok tracked_subset_copy_ok [OF git])
       (auto simp: copy_ok_def git intro!: git_copy_ok)
  from preservesD [OF this s] show "copy_ok (fst (reveal env slot s))"
    using s by (simp add: reveal_def split: option.split)
qed

lemma capture_copy_ok: "preserves copy_ok (capture env rels)"
proof (induction rels)
  case (Cons rel rels)
  have "preserves copy_ok (fs_call env (StoreFile rel) (\<lambda>s. s\<lparr>sd_copy := map_option (AList.update rel c) (sd_copy s)\<rparr>))" for c
    by (intro fs_call_copy_ok) (auto simp: copy_ok_def distinct_update)
  then have "preserves copy_ok (\<lambda>s. case sd_tree s rel of
      Some (Regular content) \<Rightarrow> fs_call env (StoreFile rel) (\<lambda>s. s\<lparr>sd_copy := map_option (AList.update rel content) (sd_copy s)\<rparr>) s
    | _ \<Rightarrow> (s, Inr ()))"
    unfolding preserves_def by (auto split: option.split node.split)
  with Cons show ?case unfolding capture.simps by (intro preserves_bindS)
qed (simp del: ret_simp)

lemma remove_untracked_copy_ok: "preserves copy_ok (remove_untracked env tracked rels)"
proof (induction rels)
  case (Cons rel rels)
  have "preserves copy_ok (fs_call env (RemoveFile rel) (\<lambda>s. s\<lparr>sd_tree := (sd_tree s)(rel := None)\<rparr>))"
    by (intro fs_call_copy_ok) (simp add: copy_ok_def)
  then have "preserves copy_ok (\<lambda>s. if rel \<in> set tracked \<or> sd_tree s rel = None then (s, Inr ())
      else if sd_tree s rel = Some Directory then (s, Inl (IsADirectory rel))
      else fs_call env (RemoveFile rel) (\<lambda>s. s\<lparr>sd_tree := (sd_tree s)(rel := None)\<rparr>) s)"
    unfolding preserves_def by auto
  with Cons show ?case unfolding remove_untracked.simps by (intro preserves_bindS)
qed (simp del: ret_simp)

lemma read_pinned_copy_ok: "preserves copy_ok (read_pinned env)"
proof
  fix s assume s: "copy_ok s"
  have "preserves copy_ok (bindS (fs_call env ReadPinned (\<lambda>s. s)) (\<lambda>_. ret x))" for x :: "string list"
    by (intro preserves_bindS fs_call_copy_ok preserves_ret)
  from preservesD [OF this s] show "copy_ok (fst (read_pinned env s))"
    using s by (simp add: read_pinned_def split: option.split)
qed

lemma conceal_copy_ok: "git_documented env \<Longrightarrow> preserves copy_ok (conceal env)"
proof
  fix s assume git: "git_documented env" and s: "copy_ok s"
  have "preserves copy_ok
     (bindS (fs_call env ReadDir (\<lambda>s. s)) (\<lambda>_.
      bindS (capture env rels) (\<lambda>_.
      bindS (read_pinned env) (\<lambda>pinned.
      bindS (if pinned = [] then ret [] else git env ([''update-index'', ''--no-skip-worktree'', ''--''] @ pinned)) (\<lambda>_.
      bindS (tracked_subset env rels) (\<lambda>tracked.
      bindS (remove_untracked env tracked rels) (\<lambda>_.
        if tracked = [] then ret () else bindS (git env ([''checkout'', ''--''] @ tracked)) (\<lambda>_. ret ()))))))))" for rels
    by (intro preserves_bindS fs_call_copy_ok capture_copy_ok read_pinned_copy_ok tracked_subset_copy_ok [OF git] remove_untracked_copy_ok)
       (auto simp: git intro!: git_copy_ok)
  from preservesD [OF this s] show "copy_ok (fst (conceal env s))"
    using s by (simp add: conceal_def Let_def split: option.split)
qed

text \<open>Every lease is counted, and the overlays of a slot with a lease are hidden.\<close>

definition leases_ok :: "overlays \<times> string list \<Rightarrow> bool" where
  "leases_ok = (\<lambda>(m, leases). (\<forall>slot. copy_ok (ov_slot m slot)) \<and> (\<forall>slot. ov_active m slot = count_list leases slot) \<and>
     (\<forall>slot \<in> set leases. sees_hidden (ov_slot m slot)))"

lemma count_list_remove1: "count_list (remove1 x xs) y = (if x = y then count_list xs y - 1 else count_list xs y)"
  by (induction xs) (auto simp: count_list_0_iff)

text \<open>An operation of one slot that has no lease.\<close>

lemma leases_ok_on_slot:
  assumes "leases_ok (m, leases)" "slot \<notin> set leases" "on_slot slot f m = (m', r)" "preserves copy_ok f"
  shows "leases_ok (m', leases) \<and> ov_active m' = ov_active m"
proof -
  obtain d r' where d: "f (ov_slot m slot) = (d, r')" by fastforce
  then have "m' = m\<lparr>ov_slot := (ov_slot m)(slot := d)\<rparr>"
    using assms(3) by (auto simp: on_part_def split: sum.splits)
  moreover have "copy_ok d"
    using preservesD [OF assms(4), of "ov_slot m slot"] assms(1) d by (simp add: leases_ok_def)
  ultimately show ?thesis
    using assms(1,2) by (auto simp: leases_ok_def)
qed

lemma no_lease: "leases_ok (m, leases) \<Longrightarrow> ov_active m slot = 0 \<Longrightarrow> slot \<notin> set leases"
  by (simp add: leases_ok_def count_list_0_iff)

lemma leases_ok_conceal_for:
  assumes "git_documented env" "leases_ok (m, leases)" "conceal_for env dir m = (m', r)"
  shows "leases_ok (m', case r of Inr (Some slot) \<Rightarrow> slot # leases | _ \<Rightarrow> leases)"
proof (cases "overlaid_slot_for dir m")
  case None
  then show ?thesis using assms(2,3) by (auto simp: conceal_for_def)
next
  case (Some slot)
  show ?thesis
  proof (cases "ov_active m slot = 0")
    case True
    note free = no_lease [OF assms(2) True]
    obtain m1 r1 where m1: "on_slot slot (conceal env) m = (m1, r1)" by fastforce
    note ok1 = leases_ok_on_slot [OF assms(2) free m1 conceal_copy_ok [OF assms(1)]]
    show ?thesis
    proof (cases r1)
      case (Inl e)
      obtain m2 r2 where m2: "on_slot slot (reveal env slot) m1 = (m2, r2)" by fastforce
      from leases_ok_on_slot [OF _ free m2 reveal_copy_ok [OF assms(1)]] ok1 show ?thesis
        using assms(3) Some True m1 m2 Inl by (auto simp: conceal_for_def split: sum.splits)
    next
      case (Inr u)
      obtain files where files: "sd_copy (ov_slot m slot) = Some files"
        using Some by (auto simp: overlaid_slot_for_def Let_def split: option.splits list.splits if_splits)
      have "conceal env (ov_slot m slot) = (ov_slot m1 slot, Inr ())"
        using m1 Inr by (auto simp: on_part_def split: prod.splits sum.splits)
      then have "sees_hidden (ov_slot m1 slot)"
        using conceal_result [OF assms(1) _ files] assms(2) files by (auto simp: leases_ok_def copy_ok_def)
      then show ?thesis
        using assms(3) Some True m1 Inr ok1 by (auto simp: conceal_for_def leases_ok_def)
    qed
  next
    case False
    then have "count_list leases slot \<noteq> 0" using assms(2) by (simp add: leases_ok_def)
    then have "slot \<in> set leases" using count_list_0_iff [of leases slot] by simp
    then show ?thesis
      using assms(2,3) Some False by (auto simp: conceal_for_def leases_ok_def)
  qed
qed

lemma leases_ok_reveal_after:
  assumes "git_documented env" "leases_ok (m, leases)" "slot \<in> set leases" "reveal_after env slot m = (m', r)"
  shows "leases_ok (m', remove1 slot leases)"
proof -
  let ?m = "m\<lparr>ov_active := (ov_active m)(slot := ov_active m slot - 1)\<rparr>"
  have ok: "leases_ok (?m, remove1 slot leases)"
    using assms(2) by (auto simp: leases_ok_def count_list_remove1 dest: notin_set_remove1 set_remove1_subset [THEN subsetD])
  show ?thesis
  proof (cases "ov_active ?m slot = 0")
    case True
    then have "on_slot slot (reveal env slot) ?m = (m', r)"
      using assms(4) by (simp add: reveal_after_def Let_def)
    from leases_ok_on_slot [OF ok no_lease [OF ok True] this reveal_copy_ok [OF assms(1)]] show ?thesis ..
  next
    case False
    then show ?thesis using assms(4) ok by (simp add: reveal_after_def Let_def)
  qed
qed

lemma leases_ok_spawn:
  assumes "git_documented env" "leases_ok (m, leases)" "spawn_bracketed env spawn workspace req m = (m', r)"
  shows "leases_ok (m', case r of Inr (Some slot) \<Rightarrow> slot # leases | _ \<Rightarrow> leases)"
proof -
  obtain m1 r1 where run: "conceal_overlays env req (resolve_working_dir workspace (bx_working_dir req)) m = (m1, r1)" by fastforce
  have ok: "leases_ok (m1, case r1 of Inr (Some slot) \<Rightarrow> slot # leases | _ \<Rightarrow> leases)"
    using run leases_ok_conceal_for [OF assms(1,2)] assms(2) by (auto simp: conceal_overlays_def split: if_splits)
  show ?thesis
  proof (cases "\<exists>slot e. r1 = Inr (Some slot) \<and> spawn (short_command workspace req) = Some e")
    case True
    then obtain slot e where r1: "r1 = Inr (Some slot)" "spawn (short_command workspace req) = Some e" by blast
    obtain m2 r2 where "reveal_after env slot m1 = (m2, r2)" by fastforce
    moreover from this ok r1(1) have "leases_ok (m2, leases)"
      using leases_ok_reveal_after [OF assms(1), of m1 "slot # leases" slot m2 r2] by simp
    ultimately show ?thesis
      using assms(3) run r1 by (auto simp: spawn_bracketed_def split: sum.splits)
  next
    case False
    then show ?thesis
      using assms(3) run ok by (auto simp: spawn_bracketed_def split: sum.splits option.splits)
  qed
qed

definition overlays_start :: "overlays \<times> string list \<Rightarrow> bool" where
  "overlays_start = (\<lambda>(m, leases). leases = [] \<and> (\<forall>slot. ov_active m slot = 0 \<and> copy_ok (ov_slot m slot)))"

lemma leases_ok_start: "overlays_start c \<Longrightarrow> leases_ok c"
  by (auto simp: overlays_start_def leases_ok_def)

lemma leases_ok_step: "overlay_step env spawn workspace c c' \<Longrightarrow> git_documented env \<Longrightarrow> leases_ok c \<Longrightarrow> leases_ok c'"
proof (induction rule: overlay_step.induct)
  case (ended slot leases frames m m' sent)
  obtain m1 r where run: "reveal_after env slot m = (m1, r)" by fastforce
  then have "m' = m1" using ended.hyps(2) by (auto simp: forward_then_reveal_def Let_def split: sum.splits)
  with leases_ok_reveal_after [OF ended.prems ended.hyps(1) run] show ?case by simp
next
  case (other d m slot leases)
  then show ?case by (auto simp: leases_ok_def copy_ok_def)
qed (use leases_ok_spawn in fastforce)+

interpretation overlay_leases: transition_system overlays_start "overlay_step env spawn workspace" "\<lambda>c. git_documented env \<longrightarrow> leases_ok c"
  for env spawn workspace
  by unfold_locales (use leases_ok_start leases_ok_step in blast)+


end
