(* ===== verification/Overlay_Examples.thy ===== *)
theory Overlay_Examples
  imports Overlay_Props
begin

text \<open>
  A slot with a tracked and an untracked overlay and a git that knows its index, on which the theorems
  about overlays are applied; and how a failing copy loses an edit.
\<close>

definition ox_index :: "string \<rightharpoonup> node" where
  "ox_index = [''a'' \<mapsto> Regular ''v1'']"

definition ox_git :: "string list \<Rightarrow> slot_dir \<Rightarrow> slot_dir \<times> (string + string)" where
  "ox_git args s =
     (if take 4 args = [''--literal-pathspecs'', ''ls-files'', ''-z'', ''--'']
      then if sd_index s = ox_index then (s, Inr (if \<exists>q \<in> set (drop 4 args). at_or_below q ''a'' then ''a'' else []))
           else (s, Inl ''unknown index'')
      else if take 1 args = [''update-index''] then (s, Inr [])
      else if take 2 args = [''checkout'', ''--'']
      then (s\<lparr>sd_tree := (\<lambda>p. if p \<in> set (drop 2 args) \<and> sd_index s p \<noteq> None then sd_index s p else sd_tree s p)\<rparr>, Inr [])
      else (s, Inl ''unknown command''))"

definition ox_env :: overlay_env where
  "ox_env = \<lparr>oe_io = (\<lambda>_ _. None), oe_git = ox_git, oe_local = (\<lambda>_. None)\<rparr>"

definition ox_slot :: slot_dir where
  "ox_slot = \<lparr>sd_tree = [''a'' \<mapsto> Regular ''edit'', ''b'' \<mapsto> Regular ''y''], sd_copy = Some [(''a'', ''x''), (''b'', ''y'')],
     sd_pinned = None, sd_repo = True, sd_index = ox_index, sd_clock = 0\<rparr>"

lemma ox_pieces [simp]: "nul_pieces ''a'' = [''a'']" "nul_pieces [] = []"
  by code_simp+

lemma ox_git_documented: "git_documented ox_env"
  unfolding git_documented_def
proof (intro conjI)
  show "\<forall>args s. sd_copy (fst (oe_git ox_env args s)) = sd_copy s"
    by (simp add: ox_env_def ox_git_def)
  show "\<forall>s ps s' out. oe_git ox_env ([''--literal-pathspecs'', ''ls-files'', ''-z'', ''--''] @ ps) s = (s', Inr out) \<longrightarrow>
      s' = s \<and> set (nul_pieces out) = {p. sd_index s p \<noteq> None \<and> (\<exists>q \<in> set ps. at_or_below q p)}"
    by (auto simp: ox_env_def ox_git_def ox_index_def split: if_splits)
  show "\<forall>s ps s' out. \<forall>flag \<in> {''--skip-worktree'', ''--no-skip-worktree''}.
      oe_git ox_env ([''update-index'', flag, ''--''] @ ps) s = (s', Inr out) \<longrightarrow> s' = s"
    by (simp add: ox_env_def ox_git_def)
  show "\<forall>s ps s' out. oe_git ox_env ([''checkout'', ''--''] @ ps) s = (s', Inr out) \<longrightarrow>
      (\<exists>t. s' = s\<lparr>sd_tree := t\<rparr> \<and> (\<forall>p \<in> set ps. sd_index s p \<noteq> None \<longrightarrow> t p = sd_index s p) \<and>
        (\<forall>p. t p = sd_index s p \<or> t p = sd_tree s p \<or> t p = Some Directory))"
    unfolding ox_env_def ox_git_def by simp (intro allI exI conjI, rule refl, auto)
qed

lemma ox_paths [simp]: "at_or_below ''a'' ''a''" "at_or_below ''b'' ''a'' = False" "parents ''a'' = []" "parents ''b'' = []"
  "order_by bytewise [''a''] = [''a'']"
  by code_simp+

definition ox_concealed :: slot_dir where
  "ox_concealed = ox_slot\<lparr>sd_tree := [''a'' \<mapsto> Regular ''v1''], sd_copy := Some [(''a'', ''edit''), (''b'', ''y'')], sd_clock := 4\<rparr>"

lemmas ox_run = fs_call_def git_def ox_env_def ox_git_def bindS_def tracked_subset_def read_pinned_def Let_def

lemma ox_conceal: "conceal ox_env ox_slot = (ox_concealed, Inr ())"
  by (simp add: conceal_def ox_slot_def ox_concealed_def ox_run ox_index_def fun_eq_iff)

lemma ox_reveal: "snd (reveal ox_env slot ox_concealed) = Inr ()"
  by (simp add: reveal_def ox_slot_def ox_concealed_def ox_run replace_symlink_collecting_def copy_file_def create_dir_all_def write_pinned_def)

theorem bracket_keeps_edits_witness:
  "sd_tree (fst (reveal ox_env ''/ws/pool/ur/0'' ox_concealed)) ''a'' = Some (Regular ''edit'') \<and>
   sd_tree (fst (reveal ox_env ''/ws/pool/ur/0'' ox_concealed)) ''b'' = Some (Regular ''y'')"
proof -
  have "reveal ox_env ''/ws/pool/ur/0'' ox_concealed = (fst (reveal ox_env ''/ws/pool/ur/0'' ox_concealed), Inr ())"
    using ox_reveal by (metis prod.collapse)
  from bracket_keeps_edits [OF ox_git_documented _ _ ox_conceal refl this, of "[(''a'', ''x''), (''b'', ''y'')]"]
  show ?thesis by (simp add: ox_slot_def)
qed

definition ox_overlays :: overlays where
  "ox_overlays = \<lparr>ov_workspace = ''/ws'', ov_slot = (\<lambda>_. ox_slot), ov_active = (\<lambda>_. 0)\<rparr>"

definition ox_request :: BuilderExecRequest where
  "ox_request = \<lparr>bx_command = ''git'', bx_args = [''status''], bx_working_dir = ''/ws/pool/ur/0/src'', bx_env = Map.empty, bx_long_lived = False\<rparr>"

definition ox_running :: overlays where
  "ox_running = ox_overlays\<lparr>ov_slot := (ov_slot ox_overlays)(''/ws/pool/ur/0'' := ox_concealed), ov_active := (\<lambda>_. 0)(''/ws/pool/ur/0'' := 1)\<rparr>"

lemma ox_directory:
  "strip_components (path_components ''/ws/pool/ur/0/src'') (path_components (path_join ''/ws'' ''pool'')) = Some [''ur'', ''0'', ''src'']"
  "path_join (path_join (path_join ''/ws'' ''pool'') ''ur'') ''0'' = ''/ws/pool/ur/0''"
  "resolve_working_dir None ''/ws/pool/ur/0/src'' = ''/ws/pool/ur/0/src''"
  by code_simp+

lemma ox_started: "spawn_bracketed ox_env (\<lambda>_. None) None ox_request ox_overlays = (ox_running, Inr (Some ''/ws/pool/ur/0''))"
proof -
  have "overlaid_slot_for ''/ws/pool/ur/0/src'' ox_overlays = Some ''/ws/pool/ur/0''"
    by (simp add: overlaid_slot_for_def ox_overlays_def ox_directory ox_slot_def)
  then have "conceal_for ox_env ''/ws/pool/ur/0/src'' ox_overlays = (ox_running, Inr (Some ''/ws/pool/ur/0''))"
    by (simp add: conceal_for_def on_part_def ox_overlays_def ox_running_def ox_conceal)
  then show ?thesis
    by (simp add: spawn_bracketed_def conceal_overlays_def ox_request_def ox_directory OVERLAY_BRACKETED_COMMANDS_def)
qed


text \<open>
  When an edit cannot be stored, the concealing fails before anything is hidden; the restoring that
  follows then writes the old copy over the edit.
\<close>

lemma failed_conceal_loses_edit:
  "let (m, r) = conceal_for (ox_env\<lparr>oe_io := (\<lambda>_ x. if x = StoreFile ''a'' then Some ''no space'' else None)\<rparr>) ''/ws/pool/ur/0/src'' ox_overlays
   in r = Inl (FsFailed (StoreFile ''a'') ''no space'') \<and> sd_tree (ov_slot m ''/ws/pool/ur/0'') ''a'' = Some (Regular ''x'')"
proof -
  let ?env = "ox_env\<lparr>oe_io := (\<lambda>_ x. if x = StoreFile ''a'' then Some ''no space'' else None)\<rparr>"
  have slot: "overlaid_slot_for ''/ws/pool/ur/0/src'' ox_overlays = Some ''/ws/pool/ur/0''"
    by (simp add: overlaid_slot_for_def ox_overlays_def ox_directory ox_slot_def)
  have "conceal ?env ox_slot = (ox_slot\<lparr>sd_clock := 2\<rparr>, Inl (FsFailed (StoreFile ''a'') ''no space''))"
    by (simp add: conceal_def ox_slot_def ox_run)
  moreover have "reveal ?env ''/ws/pool/ur/0'' (ox_slot\<lparr>sd_clock := 2\<rparr>) =
      (ox_slot\<lparr>sd_tree := [''a'' \<mapsto> Regular ''x'', ''b'' \<mapsto> Regular ''y''], sd_pinned := Some ''a'', sd_clock := 6\<rparr>, Inr ())"
    by (simp add: reveal_def ox_slot_def ox_run replace_symlink_collecting_def copy_file_def create_dir_all_def write_pinned_def fun_eq_iff)
  ultimately show ?thesis
    using slot by (simp add: conceal_for_def on_part_def ox_overlays_def)
qed

end
