(* ===== verification/Spec2Isabelle.thy ===== *)
theory Spec2Isabelle
  imports Ticket_Examples Transfer_Examples Workflow_Examples Workflow_Types Worker_Examples Server_Examples Poller_Examples Host_Examples Overlay_Examples Service_Props Branch_Props
begin

text \<open>
  A verification of \<open>ur\<close>, a coordination server for coding agents. All paths below are relative to
  \<open>src/crates\<close>.

  \<^bold>\<open>The program.\<close> Tickets are kept in a Postgres database together with the graph of their
  dependencies. A ticket is worked on by a workflow, a row with a lifecycle status; a status is entered
  by a transition, whose intent is stored before a coordinator spawns a handler for it. Handlers ask
  workers (containers with an agent, each in a slot of a pool of repository clones) to implement,
  verify and address feedback, push branches, open pull requests and merge them; a poller watches the
  pull requests of tickets in review. Workers reach the host only through a gateway that checks their
  commands and hands them to a daemon on the host. Clients talk to the server by gRPC.

  \<^bold>\<open>How it is modelled.\<close> A database is a record with one list of rows for each table; a statement
  is a function on it that fails where a constraint of the migrations is violated, and an operation is
  a state-passing function with result \<open>error + value\<close> (\<open>op\<close> in \<open>Prelude\<close>). The server's stores,
  channels and clock are one record (\<open>server\<close> in \<open>Server_State\<close>). Concurrency is interleaving: the
  coordinator with its tasks, the launches of workers and the host daemon are step relations. What is
  outside of the repository is a parameter: git and GitHub answer as functions of the number of the
  query, and so do workers, hooks and containers; petgraph's searches, the JSON and TOML codecs, the
  Lua interpreter, the collation of the database, random numbers, hashes, environment variables and
  file contents are functions. Texts are lists of characters, which stand for bytes where the code
  counts bytes. Times are texts that the caller supplies.

  \<^bold>\<open>Theories, the code they model and what they show.\<close>

  \<^item> \<open>Prelude\<close>: results and operations, tables, text functions, orders, decimal texts, and the interfaces
    shared by the components: \<open>constrained_store\<close> (statements that keep a schema invariant, so that all
    operations built from them do), \<open>state_part\<close> (an operation on a part of a larger state),
    \<open>total_preorder\<close> and \<open>collation\<close> (sorting for \<open>ORDER BY\<close>), \<open>string_enum\<close> and \<open>canonical_enum\<close>
    (enumerations stored as text) and \<open>transition_system\<close> (invariants of reachable states).

  \<^item> \<open>Tickets_Model\<close> (\<open>ticket_db/src/model.rs\<close>, \<open>ur_rpc/src/lifecycle.rs\<close>): enumerations and records of
    tickets. \<open>Ticket_Graph\<close> (\<open>ticket_db/src/graph.rs\<close>): the graph of blocking edges; blockers, blocked
    tickets and the cycle test are exact with respect to reachability, for every search that meets
    petgraph's contract (\<open>petgraph_dfs\<close>, \<open>petgraph_path\<close>).

  \<^item> \<open>Ticket_Repo\<close> (\<open>ticket_db/src/ticket_repo.rs\<close>): every statement of the ticket store with the triggers
    and foreign keys of the migrations. \<open>Ticket_Repo_Props\<close>: all operations keep the schema; the effect
    of creating, updating and moving a ticket. \<open>Ticket_Query_Props\<close>: pages, trees and dispatchable
    tickets. \<open>Ticket_Examples\<close>: a store on which the theorems are applied.

  \<^item> \<open>Ticket_Transfer\<close> (\<open>server/src/ticket_export/mod.rs\<close>, \<open>server/src/ticket_import/mod.rs\<close>), \<open>Transfer_Props\<close> and
    \<open>Transfer_Examples\<close>: an import of an export is a copy exactly when parents sort before children.

  \<^item> \<open>Workflow_Repo\<close> (\<open>workflow_db/src/workflow_repo.rs\<close>, \<open>workflow_db/src/model.rs\<close>), \<open>Workflow_Repo_Props\<close>,
    \<open>Workflow_Types\<close> and \<open>Workflow_Examples\<close>: workflows, queued events, intents and review comments;
    finished workflows are immutable, comments lead to feedback once, the cycle counter is a 32-bit
    column, stored enumerations always parse.

  \<^item> \<open>Worker_Repo\<close> (\<open>workflow_db/src/worker_repo.rs\<close>) and \<open>Worker_Repo_Props\<close>: workers, slots and links; what the
    reconciliation at start leaves. \<open>Slot_Pool\<close> (\<open>server/src/pool.rs\<close>): acquiring and releasing slots
    with the claims in memory. \<open>Worker_Launch\<close> (\<open>server/src/worker.rs\<close>, \<open>server/src/strategy.rs\<close>): ids,
    launching and stopping, and concurrent launches as a step relation; a failed launch leaves no
    trace, a claim is held by one launch, a stop gives the slot back. \<open>Worker_Examples\<close> also has the
    execution in which a slot is handed out twice.

  \<^item> \<open>Server_State\<close> (\<open>server/src/workflow/mod.rs\<close>) and \<open>Coordinator\<close> (\<open>server/src/workflow/coordinator.rs\<close>,
    \<open>engine.rs\<close>, \<open>step_router.rs\<close>): the select loop, handler tasks, transitions and the event engine.
    \<open>Coordinator_Props\<close>: one handler per ticket, the latest request wins, how transitions end, and the
    executions that break the intention (late aborts, panics, repeated intents). \<open>Coordinator_Refine\<close>:
    the coordinator refines a machine with three phases per ticket (locale \<open>refinement\<close>).

  \<^item> \<open>Ticket_Service\<close> (\<open>server/src/grpc_ticket.rs\<close>) and \<open>Service_Props\<close>: the ticket calls; a ticket has at most
    one active workflow.

  \<^item> \<open>Branch_Policy\<close> and \<open>Branch_Props\<close> (the pattern matcher of \<open>handlers/push.rs\<close>): equivalent to globs when
    the only star is the last character. \<open>Workflow_Handlers\<close> and \<open>Push_Merge\<close>
    (\<open>server/src/workflow/handlers\<close>, \<open>ticket_client.rs\<close>, the signals of workers in \<open>server/src/grpc.rs\<close>) with
    \<open>Handler_Props\<close>: protected branches are not forced, cycles are bounded, the engine empties its queue,
    and a failed merge closes the ticket. \<open>Server_Examples\<close>: a server on which these are applied.

  \<^item> \<open>Github_Poller\<close> (\<open>server/src/workflow/github_poller.rs\<close>), \<open>Poller_Props\<close> and \<open>Poller_Examples\<close>: conditions of
    pull requests, transitions and replies; a merge is asked for only when the gate of the merge
    handler passes.

  \<^item> \<open>Agent_Types\<close> (\<open>ur_config/src/agent.rs\<close>), \<open>Config_Model\<close> (\<open>template_path.rs\<close>, \<open>forge.rs\<close> and the sections of
    \<open>lib.rs\<close>), \<open>Config_Projects\<close> and \<open>Config_Load\<close> (projects, skills and the loading of \<open>lib.rs\<close>): the
    configuration from its parsed document to resolved records; what a loaded project satisfies.

  \<^item> \<open>Host_Exec\<close> (\<open>server/src/hostexec\<close>, \<open>server/src/project_registry.rs\<close>, \<open>server/src/grpc_hostexec.rs\<close>),
    \<open>Builder_Daemon\<close> (\<open>builderd/src/handler.rs\<close>, \<open>builderd/src/registry.rs\<close>, \<open>ur_rpc/src/stream.rs\<close>),
    \<open>Host_Exec_Props\<close> and \<open>Host_Examples\<close>: from a worker's request to the process on the host; only
    permitted commands are forwarded, scripts stay in the slot, output arrives as it was written, one
    long-lived process runs per command and directory as long as requests do not overlap.

  \<^item> \<open>Local_Overlay\<close> (\<open>builderd/src/overlay.rs\<close> and its use in \<open>builderd/src/handler.rs\<close>), \<open>Overlay_Props\<close> and
    \<open>Overlay_Examples\<close>: files placed in slots for workers and hidden from git; git never sees one, edits
    survive a bracketed command, and how a failure or a restart can lose them.

  \<^bold>\<open>Recursion and fuel.\<close> The recursive queries of the ticket store run in rounds (\<open>cte_rounds\<close>) with as
  many rounds as there are tickets, plus one; \<open>list_ticket_tree_correct\<close> shows that this is enough on
  every store that satisfies the schema. The triggers of the ticket tables walk up the parents without a
  cycle check; a walk that visits more tickets than there are does not end, and the statement is given
  the error \<open>Diverges\<close>. The loop that generates ticket ids makes the six attempts of the code.
  Everything else is structural recursion or a \<open>fold\<close>; the loops without end (coordinator, engine,
  pollers) are modelled turn by turn.

  \<^bold>\<open>Not modelled.\<close> The terminal interface (\<open>urui\<close>) and the command line client (\<open>ur\<close>), which render and
  call the server; the files and container options written for a worker
  (\<open>server/src/run_opts_builder.rs\<close>, \<open>launch_runtime.rs\<close>); the git and docker calls of
  \<open>local_repo\<close>, \<open>remote_repo\<close>, \<open>container\<close> and \<open>builderd/src/pool_handler.rs\<close>, whose answers are
  parameters; the worker daemon; backups, log files, proxy and network files; change notifications;
  and the retries of \<open>ur_rpc\<close>. They move data between processes and files that the model does not
  have, or repeat calls whose outcomes are parameters here.
\<close>

end
